(* ===== verification/Prelude.thy ===== *)
theory Prelude
  imports Main "HOL-Library.Word" "HOL-Library.Monad_Syntax"
begin

text \<open>
  Shared vocabulary of the development: the machine types of the Go code, the byte encodings of
  256-bit words, Go's slice and copy expressions with their panics, the result type of the
  interpreter, and the generic lemmas the component theories rest on.

  \<^item> A Go panic (index or slice bounds out of range, nil dereference, explicit \<open>panic\<close>) is
    the value \<open>None\<close> of an \<open>option\<close>, and \<open>Panic\<close> where the result can also run
    out of fuel.
  \<^item> \<open>uint64\<close> is \<open>64 word\<close>, \<open>uint256.Int\<close>, \<open>common.Hash\<close> are
    \<open>256 word\<close>, \<open>common.Address\<close> is \<open>160 word\<close>, \<open>big.Int\<close> is \<open>int\<close>,
    \<open>len(x)\<close> is the \<open>nat\<close> length of a list.
\<close>

section \<open>Types\<close>

type_synonym byte = "8 word"
type_synonym u16 = "16 word"
type_synonym u64 = "64 word"
type_synonym u256 = "256 word"
type_synonym bytes = "byte list"
type_synonym address = "160 word"
type_synonym hash = "256 word"

named_theorems list_simps \<open>length and lookup facts for slices and copies\<close>
named_theorems word_nat \<open>transfer of word facts to natural numbers\<close>

section \<open>Results that can panic or run out of fuel\<close>

datatype 'a res = Ok 'a | Panic | OutOfFuel

definition lift :: "'a option \<Rightarrow> 'a res" where
  "lift x = (case x of None \<Rightarrow> Panic | Some a \<Rightarrow> Ok a)"

definition bind_res :: "'a res \<Rightarrow> ('a \<Rightarrow> 'b res) \<Rightarrow> 'b res" where
  "bind_res m f = (case m of Ok a \<Rightarrow> f a | Panic \<Rightarrow> Panic | OutOfFuel \<Rightarrow> OutOfFuel)"

lemma lift_simps [simp]:
  "lift None = Panic" "lift (Some a) = Ok a"
  by (simp_all add: lift_def)

lemma lift_eq_Ok [simp]: "lift x = Ok a \<longleftrightarrow> x = Some a"
  by (cases x) simp_all

lemma lift_not_OutOfFuel [simp]: "lift x \<noteq> OutOfFuel" "OutOfFuel \<noteq> lift x"
  by (cases x; simp)+

lemma bind_res_simps [simp]:
  "bind_res (Ok a) f = f a" "bind_res Panic f = Panic" "bind_res OutOfFuel f = OutOfFuel"
  by (simp_all add: bind_res_def)

lemma bind_res_eq_Ok: "bind_res m f = Ok b \<longleftrightarrow> (\<exists>a. m = Ok a \<and> f a = Ok b)"
  by (cases m) simp_all

lemma bind_res_eq_OutOfFuel:
  "bind_res m f = OutOfFuel \<longleftrightarrow> m = OutOfFuel \<or> (\<exists>a. m = Ok a \<and> f a = OutOfFuel)"
  by (cases m) simp_all

lemma bind_eq_Some: "Option.bind m f = Some b \<longleftrightarrow> (\<exists>a. m = Some a \<and> f a = Some b)"
  by (cases m) simp_all

section \<open>Machine integers\<close>

lemma unat_lt_u64: "unat (x :: u64) < 18446744073709551616"
  using unsigned_less [of x] by simp

lemma unat_lt_u256: "unat (x :: u256) < 2 ^ 256"
  using unsigned_less [of x] by simp

lemma unat_add_u64 [word_nat]:
  "unat (x + y :: u64) = (unat x + unat y) mod 18446744073709551616"
  by (simp add: unat_word_ariths)

lemma unat_mult_u64 [word_nat]:
  "unat (x * y :: u64) = (unat x * unat y) mod 18446744073709551616"
  by (simp add: unat_word_ariths)

lemma unat_add_nowrap:
  fixes x y :: u64
  assumes "unat x + unat y < 18446744073709551616"
  shows "unat (x + y) = unat x + unat y"
  using assms by (simp add: word_nat)

lemma unat_mult_nowrap:
  fixes x y :: u64
  assumes "unat x * unat y < 18446744073709551616"
  shows "unat (x * y) = unat x * unat y"
  using assms by (simp add: word_nat)

lemma unat_sub_u64:
  fixes x y :: u64
  assumes "y \<le> x"
  shows "unat (x - y) = unat x - unat y"
  using assms by (simp add: unat_sub)

lemma word_less_unat: "(x :: 'a :: len word) < y \<longleftrightarrow> unat x < unat y"
  by (rule word_less_nat_alt)

lemma word_le_unat: "(x :: 'a :: len word) \<le> y \<longleftrightarrow> unat x \<le> unat y"
  by (rule word_le_nat_alt)

lemmas word_order = word_less_unat word_le_unat

text \<open>
  The part of \<open>uint256.Int\<close> that is a change of representation: the low 64 bits with and
  without the overflow flag, the address in the low 160 bits, and \<open>big.Int\<close> values.
\<close>

definition Uint64 :: "u256 \<Rightarrow> u64" where
  "Uint64 x = ucast x"

definition IsUint64 :: "u256 \<Rightarrow> bool" where
  "IsUint64 x \<longleftrightarrow> unat x < 2 ^ 64"

definition Uint64WithOverflow :: "u256 \<Rightarrow> u64 \<times> bool" where
  "Uint64WithOverflow x = (Uint64 x, \<not> IsUint64 x)"

definition SetUint64 :: "u64 \<Rightarrow> u256" where
  "SetUint64 x = ucast x"

definition Bytes20 :: "u256 \<Rightarrow> address" where
  "Bytes20 x = ucast x"

definition addr_word :: "address \<Rightarrow> u256" where
  "addr_word a = ucast a"

definition FromBig :: "int \<Rightarrow> u256" where
  "FromBig i = word_of_int i"

definition MustFromBig :: "int \<Rightarrow> u256 option" where
  "MustFromBig i = (if \<bar>i\<bar> < 2 ^ 256 then Some (word_of_int i) else None)"

lemma unat_Uint64: "unat (Uint64 x) = unat x mod 18446744073709551616"
  by (simp add: Uint64_def unsigned_ucast_eq take_bit_eq_mod)

lemma unat_Uint64_small [simp]: "IsUint64 x \<Longrightarrow> unat (Uint64 x) = unat x"
  by (simp add: unat_Uint64 IsUint64_def)

lemma unat_SetUint64 [simp]: "unat (SetUint64 x) = unat x"
proof -
  have "unat x < 2 ^ 256" using unat_lt_u64 [of x] by (rule order.strict_trans) simp
  then show ?thesis by (simp add: SetUint64_def unsigned_ucast_eq take_bit_eq_mod)
qed

lemma Uint64_SetUint64 [simp]: "Uint64 (SetUint64 x) = x"
  by (rule bit_word_eqI) (simp add: Uint64_def SetUint64_def bit_ucast_iff)

lemma IsUint64_SetUint64 [simp]: "IsUint64 (SetUint64 x)"
  using unat_lt_u64 [of x] by (simp add: IsUint64_def)

section \<open>Big-endian byte encodings\<close>

definition be_nat :: "bytes \<Rightarrow> nat" where
  "be_nat bs = foldl (\<lambda>a b. a * 256 + unat b) 0 bs"

primrec nat_be :: "nat \<Rightarrow> nat \<Rightarrow> bytes" where
  "nat_be 0 n = []"
| "nat_be (Suc k) n = nat_be k (n div 256) @ [of_nat n]"

definition SetBytes :: "bytes \<Rightarrow> u256" where
  "SetBytes bs = of_nat (be_nat bs)"

definition Bytes32 :: "u256 \<Rightarrow> bytes" where
  "Bytes32 w = nat_be 32 (unat w)"

text \<open>\<open>uint256.Int.Bytes\<close> drops the leading zero bytes.\<close>

definition Bytes :: "u256 \<Rightarrow> bytes" where
  "Bytes w = dropWhile (\<lambda>b. b = 0) (Bytes32 w)"

lemma length_nat_be [simp, list_simps]: "length (nat_be k n) = k"
  by (induction k arbitrary: n) simp_all

lemma be_nat_append: "be_nat (xs @ ys) = be_nat xs * 256 ^ length ys + be_nat ys"
proof (induction ys rule: rev_induct)
  case Nil
  then show ?case by (simp add: be_nat_def)
next
  case (snoc y ys)
  then have "be_nat (xs @ ys) = be_nat xs * 256 ^ length ys + be_nat ys" .
  then show ?case
    by (simp add: be_nat_def foldl_append add_mult_distrib del: foldl_append)
      (simp add: foldl_append add_mult_distrib mult.assoc)
qed

lemma be_nat_simps [simp]: "be_nat [] = 0" "be_nat [b] = unat b"
  by (simp_all add: be_nat_def)

lemma be_nat_nat_be: "be_nat (nat_be k n) = n mod 256 ^ k"
proof (induction k arbitrary: n)
  case 0
  then show ?case by simp
next
  case (Suc k)
  have "be_nat (nat_be (Suc k) n) = (n div 256) mod 256 ^ k * 256 + n mod 256"
    by (simp add: be_nat_append Suc unat_of_nat)
  also have "\<dots> = n mod 256 ^ Suc k"
    by (simp add: mod_mult2_eq [of n 256] mult.commute)
  finally show ?case .
qed

lemma be_nat_bound: "be_nat bs < 256 ^ length bs"
proof (induction bs rule: rev_induct)
  case Nil
  then show ?case by simp
next
  case (snoc b bs)
  have b: "unat b < 256" using unsigned_less [of b] by simp
  have "be_nat bs * 256 + unat b < (be_nat bs + 1) * 256"
    using b by simp
  also have "\<dots> \<le> 256 ^ length bs * 256"
    using snoc by (intro mult_right_mono) simp_all
  finally show ?case by (simp add: be_nat_append mult.commute)
qed

lemma nat_be_be_nat: "nat_be (length bs) (be_nat bs) = bs"
proof (induction bs rule: rev_induct)
  case Nil
  then show ?case by simp
next
  case (snoc b bs)
  have b: "unat b < 256" using unsigned_less [of b] by simp
  have "(be_nat bs * 256 + unat b) div 256 = be_nat bs"
    using b by (simp add: div_mult_self3)
  moreover have "(of_nat (be_nat bs * 256 + unat b) :: byte) = b"
  proof -
    have "(of_nat (be_nat bs * 256) :: byte) = 0"
      by (simp only: word_of_nat_eq_0_iff) simp
    then show ?thesis by (simp only: of_nat_add) simp
  qed
  ultimately show ?case using snoc by (simp add: be_nat_append)
qed

lemma length_Bytes32 [simp, list_simps]: "length (Bytes32 w) = 32"
  by (simp add: Bytes32_def)

lemma SetBytes_Bytes32 [simp]: "SetBytes (Bytes32 w) = w"
proof -
  have "unat w mod 256 ^ 32 = unat w"
    using unat_lt_u256 [of w] by simp
  then show ?thesis by (simp add: SetBytes_def Bytes32_def be_nat_nat_be)
qed

lemma Bytes32_SetBytes:
  assumes "length bs = 32"
  shows "Bytes32 (SetBytes bs) = bs"
proof -
  have "be_nat bs < 256 ^ 32" using be_nat_bound [of bs] assms by simp
  then have "unat (of_nat (be_nat bs) :: u256) = be_nat bs"
    by (simp add: unat_of_nat)
  then show ?thesis
    using nat_be_be_nat [of bs] assms by (simp add: Bytes32_def SetBytes_def)
qed

lemma SetBytes_replicate_zero [simp]: "SetBytes (replicate n 0) = 0"
proof -
  have "be_nat (replicate n 0) = 0"
  proof (induction n)
    case (Suc n)
    have "replicate (Suc n) (0::byte) = replicate n 0 @ [0]"
      by (simp add: replicate_append_same)
    then show ?case using Suc by (simp only: be_nat_append) simp
  qed simp
  then show ?thesis by (simp add: SetBytes_def)
qed

section \<open>Slices and copies\<close>

text \<open>
  \<open>go_slice xs c a b\<close> is the Go expression \<open>x[a:b]\<close> on a byte slice with contents
  \<open>xs\<close> and capacity \<open>c\<close>: the bounds are checked against the capacity, and bytes
  between the length and the capacity are the zeros of the backing array.
\<close>

definition go_slice :: "bytes \<Rightarrow> nat \<Rightarrow> int \<Rightarrow> int \<Rightarrow> bytes option" where
  "go_slice xs c a b =
     (if 0 \<le> a \<and> a \<le> b \<and> b \<le> int c
      then Some (take (nat (b - a)) (drop (nat a) (xs @ replicate (c - length xs) 0)))
      else None)"

text \<open>A slice expression on an array or on a slice that is not extended past its length.\<close>

definition slice :: "'a list \<Rightarrow> nat \<Rightarrow> nat \<Rightarrow> 'a list option" where
  "slice xs a b = (if a \<le> b \<and> b \<le> length xs then Some (take (b - a) (drop a xs)) else None)"

definition index :: "'a list \<Rightarrow> nat \<Rightarrow> 'a option" where
  "index xs i = (if i < length xs then Some (xs ! i) else None)"

definition set_index :: "'a list \<Rightarrow> nat \<Rightarrow> 'a \<Rightarrow> 'a list option" where
  "set_index xs i v = (if i < length xs then Some (xs[i := v]) else None)"

text \<open>\<open>copy(dst[a:], src)\<close>: as many bytes as fit, as if the source were copied first.\<close>

definition copy_at :: "'a list \<Rightarrow> nat \<Rightarrow> 'a list \<Rightarrow> 'a list" where
  "copy_at dst a src =
     (let n = min (length src) (length dst - a) in take a dst @ take n src @ drop (a + n) dst)"

lemma length_copy_at [simp, list_simps]: "a \<le> length dst \<Longrightarrow> length (copy_at dst a src) = length dst"
  by (simp add: copy_at_def Let_def)

lemma nth_copy_at:
  assumes "a \<le> length dst" "i < length dst"
  shows "copy_at dst a src ! i =
    (if a \<le> i \<and> i < a + length src then src ! (i - a) else dst ! i)"
  using assms by (auto simp: copy_at_def Let_def nth_append min_def)

lemma slice_full: "a \<le> b \<Longrightarrow> b \<le> length xs \<Longrightarrow> slice xs a b = Some (take (b - a) (drop a xs))"
  by (simp add: slice_def)

lemma slice_eq_SomeD: "slice xs a b = Some ys \<Longrightarrow> length ys = b - a \<and> a \<le> b \<and> b \<le> length xs"
  by (auto simp: slice_def split: if_splits)

lemma index_eq_Some: "index xs i = Some v \<longleftrightarrow> i < length xs \<and> v = xs ! i"
  by (auto simp: index_def)

lemma set_index_eq_Some: "set_index xs i v = Some ys \<longleftrightarrow> i < length xs \<and> ys = xs[i := v]"
  by (auto simp: set_index_def)

lemma go_slice_within:
  assumes "0 \<le> a" "a \<le> b" "b \<le> int (length xs)" "length xs \<le> c"
  shows "go_slice xs c a b = Some (take (nat (b - a)) (drop (nat a) xs))"
  using assms by (simp add: go_slice_def)

end
