(* ===== verification/Externals.thy ===== *)
theory Externals
  imports Prelude
begin

text \<open>
  Code the repository only calls, as parameters of the model: the constants of go-ethereum's
  \<open>params\<close>, the multi-step arithmetic of \<open>uint256.Int\<close>, the helpers of
  \<open>common\<close> and \<open>common/math\<close>, the hash and address functions of \<open>crypto\<close>, and
  the growth policy of Go's \<open>append\<close>. A definition that uses one of them takes the record
  \<open>ext\<close> as an argument. The locales state the documented behaviour the code relies on, and
  \<open>eth_ext\<close> is an instance with the published constants and the documented functions; its
  hash and address functions are simple total functions, since no law about them is assumed.
\<close>

section \<open>Protocol constants (go-ethereum params)\<close>

record params =
  StackLimit :: nat
  CallCreateDepth :: nat
  MaxCodeSize :: nat
  MaxInitCodeSize :: u64
  MemoryGas :: u64
  QuadCoeffDiv :: u64
  CopyGas :: u64
  LogGas :: u64
  LogTopicGas :: u64
  LogDataGas :: u64
  Keccak256Gas :: u64
  Keccak256WordGas :: u64
  InitCodeWordGas :: u64
  ExpGas :: u64
  ExpByteFrontier :: u64
  ExpByteEIP158 :: u64
  JumpdestGas :: u64
  CreateGas :: u64
  Create2Gas :: u64
  CreateDataGas :: u64
  CallStipend :: u64
  CallValueTransferGas :: u64
  CallNewAccountGas :: u64
  CallGasFrontier :: u64
  CallGasEIP150 :: u64
  BalanceGasFrontier :: u64
  BalanceGasEIP150 :: u64
  BalanceGasEIP1884 :: u64
  ExtcodeSizeGasFrontier :: u64
  ExtcodeSizeGasEIP150 :: u64
  ExtcodeCopyBaseFrontier :: u64
  ExtcodeCopyBaseEIP150 :: u64
  ExtcodeHashGasConstantinople :: u64
  ExtcodeHashGasEIP1884 :: u64
  SloadGasFrontier :: u64
  SloadGasEIP150 :: u64
  SloadGasEIP1884 :: u64
  SloadGasEIP2200 :: u64
  SstoreSetGas :: u64
  SstoreResetGas :: u64
  SstoreClearGas :: u64
  SstoreRefundGas :: u64
  NetSstoreNoopGas :: u64
  NetSstoreInitGas :: u64
  NetSstoreCleanGas :: u64
  NetSstoreDirtyGas :: u64
  NetSstoreClearRefund :: u64
  NetSstoreResetRefund :: u64
  NetSstoreResetClearRefund :: u64
  SstoreSentryGasEIP2200 :: u64
  SstoreSetGasEIP2200 :: u64
  SstoreResetGasEIP2200 :: u64
  SstoreClearsScheduleRefundEIP2200 :: u64
  SstoreClearsScheduleRefundEIP3529 :: u64
  ColdSloadCostEIP2929 :: u64
  ColdAccountAccessCostEIP2929 :: u64
  WarmStorageReadCostEIP2929 :: u64
  SelfdestructGasEIP150 :: u64
  SelfdestructRefundGas :: u64
  CreateBySelfdestructGas :: u64
  EcrecoverGas :: u64
  Sha256BaseGas :: u64
  Sha256PerWordGas :: u64
  Ripemd160BaseGas :: u64
  Ripemd160PerWordGas :: u64
  IdentityBaseGas :: u64
  IdentityPerWordGas :: u64
  Bn256AddGasByzantium :: u64
  Bn256AddGasIstanbul :: u64
  Bn256ScalarMulGasByzantium :: u64
  Bn256ScalarMulGasIstanbul :: u64
  Bn256PairingBaseGasByzantium :: u64
  Bn256PairingBaseGasIstanbul :: u64
  Bn256PairingPerPointGasByzantium :: u64
  Bn256PairingPerPointGasIstanbul :: u64
  Bls12381G1AddGas :: u64
  Bls12381G1MulGas :: u64
  Bls12381G2AddGas :: u64
  Bls12381G2MulGas :: u64
  Bls12381PairingBaseGas :: u64
  Bls12381PairingPerPairGas :: u64
  Bls12381MapG1Gas :: u64
  Bls12381MapG2Gas :: u64
  Bls12381MultiExpDiscountTable :: "u64 list"

definition eth_params :: params where
  "eth_params =
    \<lparr>StackLimit = 1024,
     CallCreateDepth = 1024,
     MaxCodeSize = 24576,
     MaxInitCodeSize = 49152,
     MemoryGas = 3,
     QuadCoeffDiv = 512,
     CopyGas = 3,
     LogGas = 375,
     LogTopicGas = 375,
     LogDataGas = 8,
     Keccak256Gas = 30,
     Keccak256WordGas = 6,
     InitCodeWordGas = 2,
     ExpGas = 10,
     ExpByteFrontier = 10,
     ExpByteEIP158 = 50,
     JumpdestGas = 1,
     CreateGas = 32000,
     Create2Gas = 32000,
     CreateDataGas = 200,
     CallStipend = 2300,
     CallValueTransferGas = 9000,
     CallNewAccountGas = 25000,
     CallGasFrontier = 40,
     CallGasEIP150 = 700,
     BalanceGasFrontier = 20,
     BalanceGasEIP150 = 400,
     BalanceGasEIP1884 = 700,
     ExtcodeSizeGasFrontier = 20,
     ExtcodeSizeGasEIP150 = 700,
     ExtcodeCopyBaseFrontier = 20,
     ExtcodeCopyBaseEIP150 = 700,
     ExtcodeHashGasConstantinople = 400,
     ExtcodeHashGasEIP1884 = 700,
     SloadGasFrontier = 50,
     SloadGasEIP150 = 200,
     SloadGasEIP1884 = 800,
     SloadGasEIP2200 = 800,
     SstoreSetGas = 20000,
     SstoreResetGas = 5000,
     SstoreClearGas = 5000,
     SstoreRefundGas = 15000,
     NetSstoreNoopGas = 200,
     NetSstoreInitGas = 20000,
     NetSstoreCleanGas = 5000,
     NetSstoreDirtyGas = 200,
     NetSstoreClearRefund = 15000,
     NetSstoreResetRefund = 4800,
     NetSstoreResetClearRefund = 19800,
     SstoreSentryGasEIP2200 = 2300,
     SstoreSetGasEIP2200 = 20000,
     SstoreResetGasEIP2200 = 5000,
     SstoreClearsScheduleRefundEIP2200 = 15000,
     SstoreClearsScheduleRefundEIP3529 = 4800,
     ColdSloadCostEIP2929 = 2100,
     ColdAccountAccessCostEIP2929 = 2600,
     WarmStorageReadCostEIP2929 = 100,
     SelfdestructGasEIP150 = 5000,
     SelfdestructRefundGas = 24000,
     CreateBySelfdestructGas = 25000,
     EcrecoverGas = 3000,
     Sha256BaseGas = 60,
     Sha256PerWordGas = 12,
     Ripemd160BaseGas = 600,
     Ripemd160PerWordGas = 120,
     IdentityBaseGas = 15,
     IdentityPerWordGas = 3,
     Bn256AddGasByzantium = 500,
     Bn256AddGasIstanbul = 150,
     Bn256ScalarMulGasByzantium = 40000,
     Bn256ScalarMulGasIstanbul = 6000,
     Bn256PairingBaseGasByzantium = 100000,
     Bn256PairingBaseGasIstanbul = 45000,
     Bn256PairingPerPointGasByzantium = 80000,
     Bn256PairingPerPointGasIstanbul = 34000,
     Bls12381G1AddGas = 600,
     Bls12381G1MulGas = 12000,
     Bls12381G2AddGas = 4500,
     Bls12381G2MulGas = 55000,
     Bls12381PairingBaseGas = 115000,
     Bls12381PairingPerPairGas = 23000,
     Bls12381MapG1Gas = 5500,
     Bls12381MapG2Gas = 110000,
     Bls12381MultiExpDiscountTable =
       [1200, 888, 764, 641, 594, 547, 500, 453, 438, 423, 408, 394, 379, 364, 349, 334,
        330, 326, 322, 318, 314, 310, 306, 302, 298, 294, 289, 285, 281, 277, 273, 269,
        268, 266, 265, 263, 262, 260, 259, 257, 256, 254, 253, 251, 250, 248, 247, 245,
        244, 242, 241, 239, 238, 236, 235, 233, 232, 231, 229, 228, 226, 225, 223, 222,
        221, 220, 219, 219, 218, 217, 216, 216, 215, 214, 213, 213, 212, 211, 211, 210,
        209, 208, 208, 207, 206, 205, 205, 204, 203, 202, 202, 201, 200, 199, 199, 198,
        197, 196, 196, 195, 194, 193, 193, 192, 191, 191, 190, 189, 188, 188, 187, 186,
        185, 185, 184, 183, 182, 182, 181, 180, 179, 179, 178, 177, 176, 176, 175, 174]\<rparr>"

text \<open>The rules of a block: the active forks and the chain identifier.\<close>

record Rules =
  ChainID :: int
  IsHomestead :: bool
  IsEIP150 :: bool
  IsEIP158 :: bool
  IsByzantium :: bool
  IsConstantinople :: bool
  IsPetersburg :: bool
  IsIstanbul :: bool
  IsBerlin :: bool
  IsLondon :: bool
  IsMerge :: bool
  IsShanghai :: bool
  IsCancun :: bool
  IsPrague :: bool

section \<open>256-bit arithmetic (holiman/uint256)\<close>

record uint256_lib =
  Div256 :: "u256 \<Rightarrow> u256 \<Rightarrow> u256"
  SDiv256 :: "u256 \<Rightarrow> u256 \<Rightarrow> u256"
  Mod256 :: "u256 \<Rightarrow> u256 \<Rightarrow> u256"
  SMod256 :: "u256 \<Rightarrow> u256 \<Rightarrow> u256"
  Exp256 :: "u256 \<Rightarrow> u256 \<Rightarrow> u256"
  ExtendSign256 :: "u256 \<Rightarrow> u256 \<Rightarrow> u256"
  Byte256 :: "u256 \<Rightarrow> u256 \<Rightarrow> u256"
  AddMod256 :: "u256 \<Rightarrow> u256 \<Rightarrow> u256 \<Rightarrow> u256"
  MulMod256 :: "u256 \<Rightarrow> u256 \<Rightarrow> u256 \<Rightarrow> u256"
  SRsh256 :: "u256 \<Rightarrow> nat \<Rightarrow> u256"
  BitLen256 :: "u256 \<Rightarrow> nat"

section \<open>The external functions\<close>

record ext =
  Params :: params
  Lib256 :: uint256_lib
  SafeAdd :: "u64 \<Rightarrow> u64 \<Rightarrow> u64 \<times> bool"
  SafeMul :: "u64 \<Rightarrow> u64 \<Rightarrow> u64 \<times> bool"
  RightPadBytes :: "bytes \<Rightarrow> int \<Rightarrow> bytes"
  LeftPadBytes :: "bytes \<Rightarrow> int \<Rightarrow> bytes"
  Keccak256Hash :: "bytes \<Rightarrow> hash"
  CreateAddress :: "address \<Rightarrow> u64 \<Rightarrow> address"
  CreateAddress2 :: "address \<Rightarrow> hash \<Rightarrow> hash \<Rightarrow> address"
  growslice :: "nat \<Rightarrow> nat \<Rightarrow> nat"

text \<open>
  The documented behaviour of the helpers: checked addition and multiplication on \<open>uint64\<close>
  return the wrapped result and whether it overflowed, \<open>RightPadBytes\<close> and
  \<open>LeftPadBytes\<close> extend a slice with zeros to a length, \<open>append\<close> allocates at least
  the capacity it needs, \<open>BitLen\<close> of a 256-bit value is at most 256.
\<close>

locale externals =
  fixes X :: ext
  assumes SafeAdd: "SafeAdd X a b = (a + b, 18446744073709551616 \<le> unat a + unat b)"
    and SafeMul: "SafeMul X a b = (a * b, 18446744073709551616 \<le> unat a * unat b)"
    and RightPad: "RightPadBytes X bs l = bs @ replicate (nat l - length bs) 0"
    and LeftPad: "LeftPadBytes X bs l = replicate (nat l - length bs) 0 @ bs"
    and growslice: "need \<le> growslice X old need"
    and BitLen: "BitLen256 (Lib256 X) w \<le> 256"

text \<open>The published constants a lemma may rest on.\<close>

locale protocol = externals +
  assumes params: "Params X = eth_params"

section \<open>An instance with the documented behaviour\<close>

definition eth_lib256 :: uint256_lib where
  "eth_lib256 =
    \<lparr>Div256 = (\<lambda>x y. x div y),
     SDiv256 = (\<lambda>x y. word_of_int (sgn (sint x) * sgn (sint y) * (\<bar>sint x\<bar> div \<bar>sint y\<bar>))),
     Mod256 = (\<lambda>x y. if y = 0 then 0 else x mod y),
     SMod256 = (\<lambda>x y. if y = 0 then 0 else word_of_int (sgn (sint x) * (\<bar>sint x\<bar> mod \<bar>sint y\<bar>))),
     Exp256 = (\<lambda>x y. x ^ unat y),
     ExtendSign256 = (\<lambda>x b. if 31 \<le> unat b then x else signed_take_bit (8 * unat b + 7) x),
     Byte256 = (\<lambda>x n. if 32 \<le> unat n then 0 else take_bit 8 (drop_bit (8 * (31 - unat n)) x)),
     AddMod256 = (\<lambda>x y m. if m = 0 then 0 else of_nat ((unat x + unat y) mod unat m)),
     MulMod256 = (\<lambda>x y m. if m = 0 then 0 else of_nat ((unat x * unat y) mod unat m)),
     SRsh256 = (\<lambda>x n. signed_drop_bit n x),
     BitLen256 = (\<lambda>x. length (dropWhile Not (rev (map (bit x) [0..<256]))))\<rparr>"

definition eth_ext :: ext where
  "eth_ext =
    \<lparr>Params = eth_params,
     Lib256 = eth_lib256,
     SafeAdd = (\<lambda>a b. (a + b, 18446744073709551616 \<le> unat a + unat b)),
     SafeMul = (\<lambda>a b. (a * b, 18446744073709551616 \<le> unat a * unat b)),
     RightPadBytes = (\<lambda>bs l. bs @ replicate (nat l - length bs) 0),
     LeftPadBytes = (\<lambda>bs l. replicate (nat l - length bs) 0 @ bs),
     Keccak256Hash = (\<lambda>bs. SetBytes bs + 1),
     CreateAddress = (\<lambda>a n. a + ucast n + 1),
     CreateAddress2 = (\<lambda>a s c. a + ucast s + ucast c + 1),
     growslice = (\<lambda>old need. max old need)\<rparr>"

interpretation eth: protocol eth_ext
proof unfold_locales
  fix w :: u256
  have "length (dropWhile Not (rev (map (bit w) [0..<256]))) \<le> 256"
    by (rule order.trans [OF length_dropWhile_le]) simp
  then show "BitLen256 (Lib256 eth_ext) w \<le> 256"
    by (simp add: eth_ext_def eth_lib256_def)
qed (simp_all add: eth_ext_def)

end
