(* ===== verification/Stack.thy ===== *)
theory Stack
  imports Externals
begin

text \<open>
  The operand stack (\<open>src/vm/stack.go\<close>) and the stack bounds of the jump table
  (\<open>src/vm/stack_table.go\<close>). The struct is a record over the slice \<open>data\<close>, whose last
  element is the top. Reading or writing through the pointer \<open>peek\<close> returns is
  \<open>peek\<close> and \<open>poke\<close>. Every out-of-range index is a panic, \<open>None\<close>.
  The locale \<open>stack_laws\<close> is the contract the instructions use: the operations on a stack
  given top first.
\<close>

section \<open>Operations\<close>

record Stack =
  st_data :: "u256 list"

definition newstack :: Stack where
  "newstack = \<lparr>st_data = []\<rparr>"

definition returnStack :: "Stack \<Rightarrow> Stack" where
  "returnStack s = s\<lparr>st_data := []\<rparr>"

definition push :: "Stack \<Rightarrow> u256 \<Rightarrow> Stack" where
  "push st d = st\<lparr>st_data := st_data st @ [d]\<rparr>"

definition stack_len :: "Stack \<Rightarrow> nat" where
  "stack_len st = length (st_data st)"

definition pop :: "Stack \<Rightarrow> (u256 \<times> Stack) option" where
  "pop st =
     (if stack_len st = 0 then None
      else Some (st_data st ! (stack_len st - 1),
                 st\<lparr>st_data := take (stack_len st - 1) (st_data st)\<rparr>))"

definition swap :: "Stack \<Rightarrow> nat \<Rightarrow> Stack option" where
  "swap st n =
     (if 0 < n \<and> n \<le> stack_len st
      then let a = st_data st ! (stack_len st - n); b = st_data st ! (stack_len st - 1)
           in Some (st\<lparr>st_data := (st_data st)[stack_len st - n := b, stack_len st - 1 := a]\<rparr>)
      else None)"

definition dup :: "Stack \<Rightarrow> nat \<Rightarrow> Stack option" where
  "dup st n =
     (if 0 < n \<and> n \<le> stack_len st then Some (push st (st_data st ! (stack_len st - n))) else None)"

definition peek :: "Stack \<Rightarrow> u256 option" where
  "peek st = (if stack_len st = 0 then None else Some (st_data st ! (stack_len st - 1)))"

definition poke :: "Stack \<Rightarrow> u256 \<Rightarrow> Stack" where
  "poke st v = st\<lparr>st_data := (st_data st)[stack_len st - 1 := v]\<rparr>"

definition Back :: "Stack \<Rightarrow> nat \<Rightarrow> u256 option" where
  "Back st n =
     (if n < stack_len st then Some (st_data st ! (stack_len st - n - 1)) else None)"

section \<open>Stack bounds\<close>

definition maxStack :: "ext \<Rightarrow> nat \<Rightarrow> nat \<Rightarrow> nat" where
  "maxStack X pops pushes = StackLimit (Params X) + pops - pushes"

definition minStack :: "nat \<Rightarrow> nat \<Rightarrow> nat" where
  "minStack pops pushes = pops"

definition minSwapStack :: "nat \<Rightarrow> nat" where
  "minSwapStack n = minStack n n"

definition maxSwapStack :: "ext \<Rightarrow> nat \<Rightarrow> nat" where
  "maxSwapStack X n = maxStack X n n"

definition minDupStack :: "nat \<Rightarrow> nat" where
  "minDupStack n = minStack n (n + 1)"

definition maxDupStack :: "ext \<Rightarrow> nat \<Rightarrow> nat" where
  "maxDupStack X n = maxStack X n (n + 1)"

section \<open>The contract: a list, top first\<close>

definition top_first :: "u256 list \<Rightarrow> Stack" where
  "top_first xs = \<lparr>st_data = rev xs\<rparr>"

locale stack_laws =
  fixes mk :: "u256 list \<Rightarrow> 's"
    and push' :: "'s \<Rightarrow> u256 \<Rightarrow> 's"
    and pop' :: "'s \<Rightarrow> (u256 \<times> 's) option"
    and peek' :: "'s \<Rightarrow> u256 option"
    and poke' :: "'s \<Rightarrow> u256 \<Rightarrow> 's"
    and swap' :: "'s \<Rightarrow> nat \<Rightarrow> 's option"
    and dup' :: "'s \<Rightarrow> nat \<Rightarrow> 's option"
    and back' :: "'s \<Rightarrow> nat \<Rightarrow> u256 option"
    and len' :: "'s \<Rightarrow> nat"
  assumes mk_cases: "\<exists>xs. s = mk xs"
    and push_law: "push' (mk xs) d = mk (d # xs)"
    and pop_law: "pop' (mk (x # xs)) = Some (x, mk xs)"
    and pop_empty: "pop' (mk []) = None"
    and peek_law: "peek' (mk (x # xs)) = Some x"
    and peek_empty: "peek' (mk []) = None"
    and poke_law: "poke' (mk (x # xs)) v = mk (v # xs)"
    and swap_law: "0 < n \<Longrightarrow> n \<le> length xs \<Longrightarrow>
           swap' (mk xs) n = Some (mk (xs[n - 1 := xs ! 0, 0 := xs ! (n - 1)]))"
    and dup_law: "0 < n \<Longrightarrow> n \<le> length xs \<Longrightarrow> dup' (mk xs) n = Some (mk (xs ! (n - 1) # xs))"
    and back_law: "back' (mk xs) n = (if n < length xs then Some (xs ! n) else None)"
    and len_law: "len' (mk xs) = length xs"
begin

text \<open>A stack of sufficient height pops, in order, the values its contents give.\<close>

lemma at_least:
  assumes "n \<le> len' s"
  obtains xs ys where "s = mk (xs @ ys)" "length xs = n"
proof -
  obtain zs where s: "s = mk zs" using mk_cases by blast
  then have "n \<le> length zs" using assms by (simp add: len_law)
  then show ?thesis using that [of "take n zs" "drop n zs"] s by simp
qed

lemma at_least_1:
  assumes "1 \<le> len' s"
  obtains a r where "s = mk (a # r)"
  using at_least [OF assms] by (metis append_Cons length_Suc_conv One_nat_def append_Nil)

lemma at_least_2:
  assumes "2 \<le> len' s"
  obtains a b r where "s = mk (a # b # r)"
proof -
  obtain xs ys where "s = mk (xs @ ys)" "length xs = 2" by (rule at_least [OF assms])
  then show ?thesis using that by (auto simp: numeral_2_eq_2 length_Suc_conv)
qed

lemma at_least_3:
  assumes "3 \<le> len' s"
  obtains a b c r where "s = mk (a # b # c # r)"
proof -
  obtain xs ys where "s = mk (xs @ ys)" "length xs = 3" by (rule at_least [OF assms])
  then show ?thesis using that by (auto simp: numeral_3_eq_3 length_Suc_conv)
qed

lemma pop_SomeD: "pop' s = Some (x, s') \<Longrightarrow> \<exists>xs. s = mk (x # xs) \<and> s' = mk xs"
proof -
  assume p: "pop' s = Some (x, s')"
  obtain zs where s: "s = mk zs" using mk_cases by blast
  then show ?thesis using p by (cases zs) (auto simp: pop_law pop_empty)
qed

lemma pop_len: "pop' s = Some (x, s') \<Longrightarrow> len' s = Suc (len' s')"
  by (drule pop_SomeD) (auto simp: len_law)

lemma push_len: "len' (push' s x) = Suc (len' s)"
  using mk_cases [of s] by (auto simp: push_law len_law)

lemma pop_push: "pop' (push' s x) = Some (x, s)"
  using mk_cases [of s] by (auto simp: push_law pop_law)

lemma swap_swap:
  assumes "0 < n" "n \<le> len' s"
  shows "Option.bind (swap' s n) (\<lambda>s'. swap' s' n) = Some s"
proof -
  obtain xs where s: "s = mk xs" using mk_cases by blast
  then have n: "n \<le> length xs" using assms by (simp add: len_law)
  define ys where "ys = xs[n - 1 := xs ! 0, 0 := xs ! (n - 1)]"
  have "ys[n - 1 := ys ! 0, 0 := ys ! (n - 1)] = xs"
  proof (cases "n = 1")
    case True
    then show ?thesis by (simp add: ys_def)
  next
    case False
    then have ne: "n - 1 \<noteq> 0" "n - 1 < length xs" "0 < length xs" using n assms(1) by linarith+
    have "ys ! k = (if k = 0 then xs ! (n - 1) else if k = n - 1 then xs ! 0 else xs ! k)"
      if "k < length xs" for k
      using ne that by (simp add: ys_def nth_list_update)
    then show ?thesis
      using ne by (intro nth_equalityI) (simp_all add: nth_list_update ys_def)
  qed
  then show ?thesis using s n assms(1) by (simp add: swap_law ys_def)
qed

end

lemma top_first_rev: "st = top_first (rev (st_data st))"
  by (simp add: top_first_def)

lemma top_first_swap:
  assumes "0 < n" "n \<le> length xs"
  shows "swap (top_first xs) n = Some (top_first (xs[n - 1 := xs ! 0, 0 := xs ! (n - 1)]))"
proof -
  have "rev xs ! (length xs - n) = xs ! (n - 1)" "rev xs ! (length xs - 1) = xs ! 0"
    using assms by (simp_all add: rev_nth)
  moreover have "(rev xs)[length xs - n := v, length xs - 1 := w] = rev (xs[n - 1 := v, 0 := w])" for v w
  proof -
    have "n - 1 < length xs" "0 < length (xs[n - 1 := v])" using assms by auto
    with assms show ?thesis
      by (simp only: rev_update length_list_update) simp
  qed
  ultimately show ?thesis
    using assms by (simp add: swap_def top_first_def stack_len_def Let_def)
qed

lemma top_first_poke: "poke (top_first (x # xs)) v = top_first (v # xs)"
  using rev_update [of 0 "x # xs" v] by (simp add: poke_def top_first_def stack_len_def)

interpretation stk: stack_laws top_first push pop peek poke swap dup Back stack_len
proof unfold_locales
  fix s show "\<exists>xs. s = top_first xs" using top_first_rev by blast
next
  fix xs n assume "0 < n" "n \<le> length (xs :: u256 list)"
  then show "swap (top_first xs) n = Some (top_first (xs[n - 1 := xs ! 0, 0 := xs ! (n - 1)]))"
    by (rule top_first_swap)
next
  fix x v xs show "poke (top_first (x # xs)) v = top_first (v # xs)" by (rule top_first_poke)
next
  fix xs :: "u256 list" and n assume "0 < n" "n \<le> length xs"
  then show "dup (top_first xs) n = Some (top_first (xs ! (n - 1) # xs))"
    by (simp add: dup_def push_def top_first_def stack_len_def rev_nth)
next
  fix xs n show "Back (top_first xs) n = (if n < length xs then Some (xs ! n) else None)"
    by (simp add: Back_def top_first_def stack_len_def rev_nth)
qed (simp_all add: top_first_def push_def pop_def peek_def stack_len_def nth_append)

lemmas stack_simps [simp] =
  stk.push_law stk.pop_law stk.pop_empty stk.peek_law stk.peek_empty stk.poke_law stk.len_law
  stk.back_law

lemma top_first_inject [simp]: "top_first xs = top_first ys \<longleftrightarrow> xs = ys"
  by (simp add: top_first_def)

end
