(* ===== verification/Memory.thy ===== *)
theory Memory
  imports Stack
begin

text \<open>
  The byte memory of a frame (\<open>src/vm/memory.go\<close>), the size and padding helpers
  (\<open>src/vm/common.go\<close>) and the memory sizes of the instructions
  (\<open>src/vm/memory_table.go\<close>). The struct keeps, beside the slice, its capacity, because
  Go checks the bounds of a slice expression against the capacity; \<open>growslice\<close> is the
  runtime's choice of a new capacity.
\<close>

section \<open>Sizes (common.go)\<close>

definition calcMemSize64WithUint :: "u256 \<Rightarrow> u64 \<Rightarrow> u64 \<times> bool" where
  "calcMemSize64WithUint off length64 =
     (if length64 = 0 then (0, False)
      else let (offset64, overflow) = Uint64WithOverflow off in
        if overflow then (0, True)
        else let val = offset64 + length64 in (val, val < offset64))"

definition calcMemSize64 :: "u256 \<Rightarrow> u256 \<Rightarrow> u64 \<times> bool" where
  "calcMemSize64 off l =
     (if \<not> IsUint64 l then (0, True) else calcMemSize64WithUint off (Uint64 l))"

definition getData :: "ext \<Rightarrow> bytes \<Rightarrow> u64 \<Rightarrow> u64 \<Rightarrow> bytes option" where
  "getData X data start sz =
     (let len = length data;
          start' = min (unat start) len;
          end' = unat (of_nat start' + sz :: u64);
          end'' = min end' len
      in do {
        s \<leftarrow> slice data start' end'';
        Some (RightPadBytes X s (sint sz))
      })"

definition toWordSize :: "u64 \<Rightarrow> u64" where
  "toWordSize sz =
     (if sz > 18446744073709551615 - 31 then 18446744073709551615 div 32 + 1
      else (sz + 31) div 32)"

fun allZero :: "bytes \<Rightarrow> bool" where
  "allZero [] = True"
| "allZero (b # bs) = (if b \<noteq> 0 then False else allZero bs)"

section \<open>Memory (memory.go)\<close>

record Memory =
  store :: bytes
  store_cap :: nat
  lastGasCost :: u64

definition NewMemory :: Memory where
  "NewMemory = \<lparr>store = [], store_cap = 0, lastGasCost = 0\<rparr>"

definition Mem_Len :: "Memory \<Rightarrow> nat" where
  "Mem_Len m = length (store m)"

definition Mem_Set :: "Memory \<Rightarrow> u64 \<Rightarrow> u64 \<Rightarrow> bytes \<Rightarrow> Memory option" where
  "Mem_Set m offset sz value =
     (if 0 < sz then
        if unat (offset + sz) > Mem_Len m then None
        else if unat offset \<le> unat (offset + sz)
        then Some (m\<lparr>store := copy_at (store m) (unat offset) (take (unat sz) value)\<rparr>)
        else None
      else Some m)"

definition Set32 :: "Memory \<Rightarrow> u64 \<Rightarrow> u256 \<Rightarrow> Memory option" where
  "Set32 m offset val =
     (if unat (offset + 32) > Mem_Len m then None
      else if unat offset \<le> Mem_Len m
      then Some (m\<lparr>store := copy_at (store m) (unat offset) (Bytes32 val)\<rparr>)
      else None)"

definition Resize :: "ext \<Rightarrow> Memory \<Rightarrow> u64 \<Rightarrow> Memory" where
  "Resize X m sz =
     (if Mem_Len m < unat sz
      then m\<lparr>store := store m @ replicate (unat sz - Mem_Len m) 0,
             store_cap := (if unat sz \<le> store_cap m then store_cap m
                           else growslice X (store_cap m) (unat sz))\<rparr>
      else m)"

definition GetCopy :: "Memory \<Rightarrow> u64 \<Rightarrow> u64 \<Rightarrow> bytes option" where
  "GetCopy m offset sz =
     (if sz = 0 then Some []
      else if int (Mem_Len m) > sint offset
      then go_slice (store m) (store_cap m) (sint offset) (sint (offset + sz))
      else Some [])"

definition GetPtr :: "Memory \<Rightarrow> u64 \<Rightarrow> u64 \<Rightarrow> bytes option" where
  "GetPtr m offset sz =
     (if sz = 0 then Some []
      else if int (Mem_Len m) > sint offset
      then go_slice (store m) (store_cap m) (sint offset) (sint (offset + sz))
      else Some [])"

definition Mem_Copy :: "Memory \<Rightarrow> u64 \<Rightarrow> u64 \<Rightarrow> u64 \<Rightarrow> Memory option" where
  "Mem_Copy m dst src len =
     (if len = 0 then Some m
      else if unat dst \<le> Mem_Len m
      then do {
        s \<leftarrow> go_slice (store m) (store_cap m) (int (unat src)) (int (unat (src + len)));
        Some (m\<lparr>store := copy_at (store m) (unat dst) s\<rparr>)
      }
      else None)"

section \<open>Memory sizes of the instructions (memory_table.go)\<close>

text \<open>A memory size function reads the stack; a missing operand is a panic.\<close>

type_synonym memorySizeFunc = "Stack \<Rightarrow> (u64 \<times> bool) option"

definition mem_range :: "nat \<Rightarrow> nat \<Rightarrow> memorySizeFunc" where
  "mem_range i j st = do { off \<leftarrow> Back st i; l \<leftarrow> Back st j; Some (calcMemSize64 off l) }"

definition memoryKeccak256 :: memorySizeFunc where
  "memoryKeccak256 = mem_range 0 1"

definition memoryCallDataCopy :: memorySizeFunc where
  "memoryCallDataCopy = mem_range 0 2"

definition memoryReturnDataCopy :: memorySizeFunc where
  "memoryReturnDataCopy = mem_range 0 2"

definition memoryCodeCopy :: memorySizeFunc where
  "memoryCodeCopy = mem_range 0 2"

definition memoryExtCodeCopy :: memorySizeFunc where
  "memoryExtCodeCopy = mem_range 1 3"

definition memoryMLoad :: memorySizeFunc where
  "memoryMLoad st = do { off \<leftarrow> Back st 0; Some (calcMemSize64WithUint off 32) }"

definition memoryMStore8 :: memorySizeFunc where
  "memoryMStore8 st = do { off \<leftarrow> Back st 0; Some (calcMemSize64WithUint off 1) }"

definition memoryMStore :: memorySizeFunc where
  "memoryMStore st = do { off \<leftarrow> Back st 0; Some (calcMemSize64WithUint off 32) }"

definition memoryMcopy :: memorySizeFunc where
  "memoryMcopy st = do {
     mStart \<leftarrow> Back st 0;
     src \<leftarrow> Back st 1;
     l \<leftarrow> Back st 2;
     Some (calcMemSize64 (if src > mStart then src else mStart) l) }"

definition memoryCreate :: memorySizeFunc where
  "memoryCreate = mem_range 1 2"

definition memoryCreate2 :: memorySizeFunc where
  "memoryCreate2 = mem_range 1 2"

text \<open>The two ranges of a call: the return area first, then the input, the larger end wins.\<close>

definition mem_two_ranges :: "nat \<Rightarrow> nat \<Rightarrow> nat \<Rightarrow> nat \<Rightarrow> memorySizeFunc" where
  "mem_two_ranges i j k l st = do {
     (x, overflow) \<leftarrow> mem_range i j st;
     if overflow then Some (0, True)
     else do {
       (y, overflow) \<leftarrow> mem_range k l st;
       if overflow then Some (0, True)
       else if x > y then Some (x, False) else Some (y, False) } }"

definition memoryCall :: memorySizeFunc where
  "memoryCall = mem_two_ranges 5 6 3 4"

definition memoryDelegateCall :: memorySizeFunc where
  "memoryDelegateCall = mem_two_ranges 4 5 2 3"

definition memoryStaticCall :: memorySizeFunc where
  "memoryStaticCall = mem_two_ranges 4 5 2 3"

definition memoryReturn :: memorySizeFunc where
  "memoryReturn = mem_range 0 1"

definition memoryRevert :: memorySizeFunc where
  "memoryRevert = mem_range 0 1"

definition memoryLog :: memorySizeFunc where
  "memoryLog = mem_range 0 1"

section \<open>Sizes: exactness and bounds\<close>

lemma calcMemSize64WithUint_exact:
  "snd (calcMemSize64WithUint off l) \<longleftrightarrow> l \<noteq> 0 \<and> 18446744073709551616 \<le> unat off + unat l"
  (is "?overflow")
  "\<not> snd (calcMemSize64WithUint off l) \<Longrightarrow>
     unat (fst (calcMemSize64WithUint off l)) = (if l = 0 then 0 else unat off + unat l)"
proof -
  have "?overflow \<and> (\<not> snd (calcMemSize64WithUint off l) \<longrightarrow>
     unat (fst (calcMemSize64WithUint off l)) = (if l = 0 then 0 else unat off + unat l))"
  proof (cases "l = 0 \<or> \<not> IsUint64 off")
    case True
    then show ?thesis
      by (auto simp: calcMemSize64WithUint_def Uint64WithOverflow_def IsUint64_def)
  next
    case False
    then have u: "unat (Uint64 off) = unat off" and l: "0 < unat l" and off: "IsUint64 off" "l \<noteq> 0"
      by (simp_all add: unat_gt_0)
    have sum: "unat (Uint64 off + l) = (unat off + unat l) mod 18446744073709551616"
      using u by (simp add: word_nat)
    have "Uint64 off + l < Uint64 off \<longleftrightarrow> 18446744073709551616 \<le> unat off + unat l"
    proof (cases "unat off + unat l < 18446744073709551616")
      case True
      then show ?thesis using u sum by (simp add: word_order)
    next
      case False
      then have "unat (Uint64 off + l) = unat off + unat l - 18446744073709551616"
        using sum u unat_lt_u64 [of "Uint64 off"] unat_lt_u64 [of l] by (simp add: le_mod_geq)
      then show ?thesis
        using False u unat_lt_u64 [of l] by (simp add: word_order)
    qed
    then show ?thesis
      using off sum by (simp add: calcMemSize64WithUint_def Uint64WithOverflow_def)
  qed
  then show "?overflow"
    and "\<not> snd (calcMemSize64WithUint off l) \<Longrightarrow>
     unat (fst (calcMemSize64WithUint off l)) = (if l = 0 then 0 else unat off + unat l)"
    by blast+
qed

text \<open>A size that does not overflow covers the requested range.\<close>

lemma calcMemSize64WithUint_covers:
  assumes "calcMemSize64WithUint off l = (sz, False)"
  shows "l = 0 \<and> unat sz = 0 \<or>
         l \<noteq> 0 \<and> unat off + unat l < 18446744073709551616 \<and> unat sz = unat off + unat l"
  using calcMemSize64WithUint_exact [of off l] assms by auto

lemma calcMemSize64_covers:
  assumes "calcMemSize64 off l = (sz, False)"
  shows "IsUint64 l"
    and "unat l = 0 \<and> unat sz = 0 \<or>
         unat off + unat l < 18446744073709551616 \<and> unat sz = unat off + unat l"
proof -
  show l: "IsUint64 l" using assms by (auto simp: calcMemSize64_def split: if_splits)
  have "calcMemSize64WithUint off (Uint64 l) = (sz, False)"
    using assms l by (simp add: calcMemSize64_def)
  from calcMemSize64WithUint_covers [OF this]
  show "unat l = 0 \<and> unat sz = 0 \<or>
        unat off + unat l < 18446744073709551616 \<and> unat sz = unat off + unat l"
    using l by (metis unat_0 unat_Uint64_small)
qed

lemma unat_toWordSize: "unat (toWordSize sz) = (unat sz + 31) div 32"
proof (cases "sz > 18446744073709551615 - 31")
  case True
  then have "18446744073709551584 < unat sz" by (simp add: word_order)
  then have "(unat sz + 31) div 32 = 576460752303423488"
    using unat_lt_u64 [of sz] by linarith
  then show ?thesis using True by (simp add: toWordSize_def)
next
  case False
  then have "unat sz \<le> 18446744073709551584" by (simp add: word_order)
  then have "unat (sz + 31) = unat sz + 31" by (subst unat_add_nowrap) simp_all
  then show ?thesis using False by (simp add: toWordSize_def unat_div)
qed

lemma allZero_iff: "allZero bs \<longleftrightarrow> (\<forall>b \<in> set bs. b = 0)"
  by (induction bs) auto

section \<open>Padding: getData\<close>

lemma sint_small:
  fixes x :: u64
  assumes "unat x < 9223372036854775808"
  shows "sint x = int (unat x)"
proof -
  from assms have "int (unat x) < int 9223372036854775808"
    by (simp only: of_nat_less_iff)
  then have "uint x < 9223372036854775808" by simp
  then have "sint x = uint x"
    by (simp add: sint_uint signed_take_bit_int_eq_self_iff) (rule order.trans [of _ 0], simp_all)
  then show ?thesis by simp
qed

text \<open>
  On a slice of Go length and a size below \<open>2^63\<close>, \<open>getData\<close> returns exactly
  \<open>sz\<close> bytes: the data from \<open>start\<close> on, then zeros.
\<close>

context externals
begin

lemma getData_spec:
  assumes "length data < 9223372036854775808" "unat sz < 9223372036854775808"
  shows "getData X data start sz =
    Some (map (\<lambda>i. if unat start + i < length data then data ! (unat start + i) else 0) [0..<unat sz])"
proof -
  define s where "s = min (unat start) (length data)"
  define e where "e = min (s + unat sz) (length data)"
  have s: "s \<le> length data" "s \<le> unat start" "s = unat start \<or> s = length data"
    by (auto simp: s_def)
  have "unat (of_nat s + sz :: u64) = s + unat sz"
    using s assms by (simp add: word_nat unat_of_nat)
  then have "getData X data start sz = Some (RightPadBytes X (take (e - s) (drop s data)) (sint sz))"
    using s by (simp add: getData_def slice_def e_def Let_def flip: s_def)
  also have "\<dots> = Some (take (e - s) (drop s data) @ replicate (unat sz - (e - s)) 0)"
  proof -
    have "length (take (e - s) (drop s data)) = e - s" using s by (simp add: e_def)
    then show ?thesis using assms(2) by (simp add: RightPad sint_small)
  qed
  also have "take (e - s) (drop s data) @ replicate (unat sz - (e - s)) 0 =
    map (\<lambda>i. if unat start + i < length data then data ! (unat start + i) else 0) [0..<unat sz]"
    (is "?l = ?r")
  proof (rule nth_equalityI)
    have es: "e - s = min (unat sz) (length data - s)" by (simp add: e_def)
    show "length ?l = length ?r" using s by (simp add: es)
    fix i assume "i < length ?l"
    then have i: "i < unat sz" using s by (simp add: es split: if_splits)
    show "?l ! i = ?r ! i"
    proof (cases "i < e - s")
      case True
      then have lt: "i < length data - s" by (simp add: es)
      then have "s = unat start" "unat start + i < length data" using s by linarith+
      then show ?thesis using True i lt by (simp add: nth_append)
    next
      case False
      then have ge: "length data - s \<le> i" using i by (simp add: es)
      then have "\<not> unat start + i < length data" using s by linarith
      then show ?thesis using False i s ge by (simp add: nth_append es)
    qed
  qed
  finally show ?thesis .
qed

end

section \<open>Memory: the operations\<close>

lemma go_slice_nat:
  assumes "a \<le> b" "b \<le> length xs" "length xs \<le> c"
  shows "go_slice xs c (int a) (int b) = Some (take (b - a) (drop a xs))"
  using assms by (simp add: go_slice_within nat_diff_distrib)

definition wf_memory :: "Memory \<Rightarrow> bool" where
  "wf_memory m \<longleftrightarrow> Mem_Len m \<le> store_cap m"

lemma Mem_Set_in_range:
  assumes "unat off + unat sz \<le> Mem_Len m" "Mem_Len m < 9223372036854775808"
  shows "Mem_Set m off sz v =
    Some (if sz = 0 then m else m\<lparr>store := copy_at (store m) (unat off) (take (unat sz) v)\<rparr>)"
proof -
  have "unat (off + sz) = unat off + unat sz"
    using assms by (subst unat_add_nowrap) simp_all
  then show ?thesis using assms by (cases "sz = 0") (simp_all add: Mem_Set_def word_gt_0)
qed

lemma GetCopy_in_range:
  assumes "unat off + unat sz \<le> Mem_Len m" "Mem_Len m < 9223372036854775808" "wf_memory m"
  shows "GetCopy m off sz = Some (take (unat sz) (drop (unat off) (store m)))"
proof (cases "sz = 0")
  case False
  then have sz: "0 < unat sz" by (simp add: unat_gt_0)
  have sum: "unat (off + sz) = unat off + unat sz"
    using assms by (subst unat_add_nowrap) simp_all
  define a b where "a = unat off" and "b = unat off + unat sz"
  have "sint off = int a" "sint (off + sz) = int b" "a < b" "b \<le> Mem_Len m" "unat sz = b - a"
    "unat off = a"
    using assms sz sum by (simp_all add: sint_small a_def b_def del: of_nat_unat)
  then show ?thesis
    using False assms(3)
    by (simp add: GetCopy_def go_slice_nat Mem_Len_def wf_memory_def)
qed (simp add: GetCopy_def)

lemma GetPtr_GetCopy: "GetPtr m off sz = GetCopy m off sz"
  by (simp add: GetPtr_def GetCopy_def)

lemma Mem_Len_Set: "Mem_Set m off sz v = Some m' \<Longrightarrow> Mem_Len m' = Mem_Len m"
  by (auto simp: Mem_Set_def Mem_Len_def split: if_splits)

lemma Mem_Len_Set32: "Set32 m off v = Some m' \<Longrightarrow> Mem_Len m' = Mem_Len m"
  by (auto simp: Set32_def Mem_Len_def split: if_splits)

lemma Mem_Len_Copy: "Mem_Copy m d s l = Some m' \<Longrightarrow> Mem_Len m' = Mem_Len m"
  by (auto simp: Mem_Copy_def Mem_Len_def bind_eq_Some split: if_splits)

lemma Mem_Len_Resize: "Mem_Len (Resize X m sz) = max (Mem_Len m) (unat sz)"
  by (simp add: Resize_def Mem_Len_def)

context externals
begin

lemma wf_Resize: "wf_memory m \<Longrightarrow> wf_memory (Resize X m sz)"
  by (simp add: wf_memory_def Resize_def Mem_Len_def growslice)

end


section \<open>Properties\<close>

text \<open>
  C11: writing a value into an expanded memory region and reading the region back returns the
  value, changes no byte outside the region and keeps the length of the memory.
\<close>

theorem memory_set_get:
  assumes "unat off + unat sz \<le> Mem_Len m" "Mem_Len m < 9223372036854775808" "wf_memory m"
    and "length v = unat sz"
  shows "\<exists>m'. Mem_Set m off sz v = Some m' \<and> GetCopy m' off sz = Some v \<and> Mem_Len m' = Mem_Len m \<and>
    (\<forall>i. i < unat off \<or> unat off + unat sz \<le> i \<and> i < Mem_Len m \<longrightarrow> store m' ! i = store m ! i)"
proof (cases "sz = 0")
  case True
  then show ?thesis using assms(4) by (simp add: Mem_Set_def GetCopy_def)
next
  case False
  define m' where "m' = m\<lparr>store := copy_at (store m) (unat off) (take (unat sz) v)\<rparr>"
  have off: "unat off \<le> length (store m)" using assms(1) by (simp add: Mem_Len_def)
  have len: "Mem_Len m' = Mem_Len m" using off by (simp add: m'_def Mem_Len_def)
  have set: "Mem_Set m off sz v = Some m'"
    using False Mem_Set_in_range [OF assms(1,2)] by (simp add: m'_def)
  have "wf_memory m'" using assms(3) len by (simp add: wf_memory_def m'_def)
  then have "GetCopy m' off sz = Some (take (unat sz) (drop (unat off) (store m')))"
    using assms(1,2) len by (intro GetCopy_in_range) simp_all
  also have "take (unat sz) (drop (unat off) (store m')) = v"
    using assms(1,4) off
    by (intro nth_equalityI) (simp_all add: m'_def nth_copy_at Mem_Len_def)
  finally have get: "GetCopy m' off sz = Some v" .
  have "store m' ! i = store m ! i"
    if "i < unat off \<or> unat off + unat sz \<le> i \<and> i < Mem_Len m" for i
    using that assms(1,4) off by (auto simp: m'_def nth_copy_at Mem_Len_def)
  then show ?thesis using set get len by blast
qed

theorem memory_set_get_witness:
  "\<exists>m'. Mem_Set \<lparr>store = [1, 2, 3, 4], store_cap = 4, lastGasCost = 0\<rparr> 1 2 [8, 9] = Some m' \<and>
    GetCopy m' 1 2 = Some [8, 9] \<and> store m' ! 3 = 4"
proof -
  let ?m = "\<lparr>store = [1, 2, 3, 4], store_cap = 4, lastGasCost = 0\<rparr>"
  obtain m' where "Mem_Set ?m 1 2 [8, 9] = Some m'" "GetCopy m' 1 2 = Some [8, 9]"
    and "3 < unat (1 :: u64) \<or> unat (1 :: u64) + unat (2 :: u64) \<le> 3 \<and> 3 < Mem_Len ?m \<longrightarrow>
      store m' ! 3 = store ?m ! 3"
    using memory_set_get [of 1 2 ?m "[8, 9]"] by (auto simp: Mem_Len_def wf_memory_def)
  then show ?thesis by (simp add: Mem_Len_def)
qed

text \<open>
  C0: \<open>Memory.Copy\<close> on expanded memory behaves as \<open>memmove\<close>: the destination holds
  the bytes the source held before the copy, also when the two regions overlap, and every other
  byte is unchanged.
\<close>

theorem memory_copy_memmove:
  assumes "unat dst + unat len \<le> Mem_Len m" "unat src + unat len \<le> Mem_Len m"
    and "Mem_Len m < 9223372036854775808" "wf_memory m"
  shows "\<exists>m'. Mem_Copy m dst src len = Some m' \<and> Mem_Len m' = Mem_Len m \<and>
    (\<forall>i < Mem_Len m. store m' ! i =
       (if unat dst \<le> i \<and> i < unat dst + unat len then store m ! (unat src + (i - unat dst))
        else store m ! i))"
proof (cases "len = 0")
  case True
  then show ?thesis by (auto simp: Mem_Copy_def)
next
  case False
  define s where "s = take (unat len) (drop (unat src) (store m))"
  have sum: "unat (src + len) = unat src + unat len"
    using assms(2,3) by (subst unat_add_nowrap) simp_all
  have "go_slice (store m) (store_cap m) (int (unat src)) (int (unat src + unat len)) = Some s"
    using assms(2,4) unfolding s_def Mem_Len_def wf_memory_def
    by (subst go_slice_nat) simp_all
  moreover have "unat dst \<le> Mem_Len m" using assms(1) by linarith
  ultimately have "Mem_Copy m dst src len = Some (m\<lparr>store := copy_at (store m) (unat dst) s\<rparr>)"
    using False sum by (simp add: Mem_Copy_def del: of_nat_unat)
  moreover have "length s = unat len" using assms(2) by (simp add: s_def Mem_Len_def)
  ultimately show ?thesis
    using assms(1,2) by (auto simp: Mem_Len_def nth_copy_at s_def)
qed

theorem memory_copy_memmove_witness:
  "\<exists>m'. Mem_Copy \<lparr>store = [1, 2, 3, 4], store_cap = 4, lastGasCost = 0\<rparr> 1 0 3 = Some m' \<and>
    store m' ! 3 = 3 \<and> store m' ! 2 = 2"
  using memory_copy_memmove
    [of 1 3 "\<lparr>store = [1, 2, 3, 4], store_cap = 4, lastGasCost = 0\<rparr>" 0]
  by (auto simp: Mem_Len_def wf_memory_def)

text \<open>
  C0: the memory size of an access is exact: \<open>calcMemSize64\<close> reports an overflow exactly
  when the length does not fit 64 bits or the end of a non-empty range does not, and otherwise
  returns the end of the range, or zero for an empty one.
\<close>

theorem calcMemSize64_exact:
  "(snd (calcMemSize64 off l) \<longleftrightarrow>
      18446744073709551616 \<le> unat l \<or> unat l \<noteq> 0 \<and> 18446744073709551616 \<le> unat off + unat l) \<and>
   (\<not> snd (calcMemSize64 off l) \<longrightarrow>
      unat (fst (calcMemSize64 off l)) = (if unat l = 0 then 0 else unat off + unat l))"
proof -
  have z: "Uint64 l = 0 \<longleftrightarrow> unat l = 0" if "IsUint64 l"
    using that by (metis unat_0 unat_Uint64_small unat_eq_0)
  show ?thesis
    using calcMemSize64WithUint_exact [of off "Uint64 l"] z
    by (auto simp: calcMemSize64_def IsUint64_def)
qed

theorem calcMemSize64_exact_witness:
  "calcMemSize64 64 32 = (96, False) \<and> unat (fst (calcMemSize64 64 32)) = 96"
proof -
  have eq: "calcMemSize64 64 32 = (96, False)"
    by (simp add: calcMemSize64_def calcMemSize64WithUint_def Uint64WithOverflow_def IsUint64_def
        Uint64_def)
  show ?thesis using calcMemSize64_exact [of 64 32] eq by simp
qed

end
