(* ===== verification/Opcodes.thy ===== *)
theory Opcodes
  imports Prelude
begin

text \<open>
  The opcodes (\<open>src/vm/opcodes.go\<close>): the constant blocks, the two name tables and the
  conversions \<open>String\<close> and \<open>StringToOp\<close>. An opcode constant \<open>X\<close> of the source is the
  abbreviation \<open>OP_X\<close>; the tables are association lists in the order of the source. A Go map
  lookup of a missing key gives the zero value, which for an opcode is STOP.
\<close>

section \<open>Constants\<close>

type_synonym OpCode = byte

abbreviation OP_STOP :: OpCode where "OP_STOP \<equiv> 0x0"
abbreviation OP_ADD :: OpCode where "OP_ADD \<equiv> 0x1"
abbreviation OP_MUL :: OpCode where "OP_MUL \<equiv> 0x2"
abbreviation OP_SUB :: OpCode where "OP_SUB \<equiv> 0x3"
abbreviation OP_DIV :: OpCode where "OP_DIV \<equiv> 0x4"
abbreviation OP_SDIV :: OpCode where "OP_SDIV \<equiv> 0x5"
abbreviation OP_MOD :: OpCode where "OP_MOD \<equiv> 0x6"
abbreviation OP_SMOD :: OpCode where "OP_SMOD \<equiv> 0x7"
abbreviation OP_ADDMOD :: OpCode where "OP_ADDMOD \<equiv> 0x8"
abbreviation OP_MULMOD :: OpCode where "OP_MULMOD \<equiv> 0x9"
abbreviation OP_EXP :: OpCode where "OP_EXP \<equiv> 0xA"
abbreviation OP_SIGNEXTEND :: OpCode where "OP_SIGNEXTEND \<equiv> 0xB"
abbreviation OP_LT :: OpCode where "OP_LT \<equiv> 0x10"
abbreviation OP_GT :: OpCode where "OP_GT \<equiv> 0x11"
abbreviation OP_SLT :: OpCode where "OP_SLT \<equiv> 0x12"
abbreviation OP_SGT :: OpCode where "OP_SGT \<equiv> 0x13"
abbreviation OP_EQ :: OpCode where "OP_EQ \<equiv> 0x14"
abbreviation OP_ISZERO :: OpCode where "OP_ISZERO \<equiv> 0x15"
abbreviation OP_AND :: OpCode where "OP_AND \<equiv> 0x16"
abbreviation OP_OR :: OpCode where "OP_OR \<equiv> 0x17"
abbreviation OP_XOR :: OpCode where "OP_XOR \<equiv> 0x18"
abbreviation OP_NOT :: OpCode where "OP_NOT \<equiv> 0x19"
abbreviation OP_BYTE :: OpCode where "OP_BYTE \<equiv> 0x1A"
abbreviation OP_SHL :: OpCode where "OP_SHL \<equiv> 0x1B"
abbreviation OP_SHR :: OpCode where "OP_SHR \<equiv> 0x1C"
abbreviation OP_SAR :: OpCode where "OP_SAR \<equiv> 0x1D"
abbreviation OP_KECCAK256 :: OpCode where "OP_KECCAK256 \<equiv> 0x20"
abbreviation OP_ADDRESS :: OpCode where "OP_ADDRESS \<equiv> 0x30"
abbreviation OP_BALANCE :: OpCode where "OP_BALANCE \<equiv> 0x31"
abbreviation OP_ORIGIN :: OpCode where "OP_ORIGIN \<equiv> 0x32"
abbreviation OP_CALLER :: OpCode where "OP_CALLER \<equiv> 0x33"
abbreviation OP_CALLVALUE :: OpCode where "OP_CALLVALUE \<equiv> 0x34"
abbreviation OP_CALLDATALOAD :: OpCode where "OP_CALLDATALOAD \<equiv> 0x35"
abbreviation OP_CALLDATASIZE :: OpCode where "OP_CALLDATASIZE \<equiv> 0x36"
abbreviation OP_CALLDATACOPY :: OpCode where "OP_CALLDATACOPY \<equiv> 0x37"
abbreviation OP_CODESIZE :: OpCode where "OP_CODESIZE \<equiv> 0x38"
abbreviation OP_CODECOPY :: OpCode where "OP_CODECOPY \<equiv> 0x39"
abbreviation OP_GASPRICE :: OpCode where "OP_GASPRICE \<equiv> 0x3A"
abbreviation OP_EXTCODESIZE :: OpCode where "OP_EXTCODESIZE \<equiv> 0x3B"
abbreviation OP_EXTCODECOPY :: OpCode where "OP_EXTCODECOPY \<equiv> 0x3C"
abbreviation OP_RETURNDATASIZE :: OpCode where "OP_RETURNDATASIZE \<equiv> 0x3D"
abbreviation OP_RETURNDATACOPY :: OpCode where "OP_RETURNDATACOPY \<equiv> 0x3E"
abbreviation OP_EXTCODEHASH :: OpCode where "OP_EXTCODEHASH \<equiv> 0x3F"
abbreviation OP_BLOCKHASH :: OpCode where "OP_BLOCKHASH \<equiv> 0x40"
abbreviation OP_COINBASE :: OpCode where "OP_COINBASE \<equiv> 0x41"
abbreviation OP_TIMESTAMP :: OpCode where "OP_TIMESTAMP \<equiv> 0x42"
abbreviation OP_NUMBER :: OpCode where "OP_NUMBER \<equiv> 0x43"
abbreviation OP_DIFFICULTY :: OpCode where "OP_DIFFICULTY \<equiv> 0x44"
abbreviation OP_RANDOM :: OpCode where "OP_RANDOM \<equiv> 0x44"
abbreviation OP_PREVRANDAO :: OpCode where "OP_PREVRANDAO \<equiv> 0x44"
abbreviation OP_GASLIMIT :: OpCode where "OP_GASLIMIT \<equiv> 0x45"
abbreviation OP_CHAINID :: OpCode where "OP_CHAINID \<equiv> 0x46"
abbreviation OP_SELFBALANCE :: OpCode where "OP_SELFBALANCE \<equiv> 0x47"
abbreviation OP_BASEFEE :: OpCode where "OP_BASEFEE \<equiv> 0x48"
abbreviation OP_POP :: OpCode where "OP_POP \<equiv> 0x50"
abbreviation OP_MLOAD :: OpCode where "OP_MLOAD \<equiv> 0x51"
abbreviation OP_MSTORE :: OpCode where "OP_MSTORE \<equiv> 0x52"
abbreviation OP_MSTORE8 :: OpCode where "OP_MSTORE8 \<equiv> 0x53"
abbreviation OP_SLOAD :: OpCode where "OP_SLOAD \<equiv> 0x54"
abbreviation OP_SSTORE :: OpCode where "OP_SSTORE \<equiv> 0x55"
abbreviation OP_JUMP :: OpCode where "OP_JUMP \<equiv> 0x56"
abbreviation OP_JUMPI :: OpCode where "OP_JUMPI \<equiv> 0x57"
abbreviation OP_PC :: OpCode where "OP_PC \<equiv> 0x58"
abbreviation OP_MSIZE :: OpCode where "OP_MSIZE \<equiv> 0x59"
abbreviation OP_GAS :: OpCode where "OP_GAS \<equiv> 0x5A"
abbreviation OP_JUMPDEST :: OpCode where "OP_JUMPDEST \<equiv> 0x5B"
abbreviation OP_TLOAD :: OpCode where "OP_TLOAD \<equiv> 0x5C"
abbreviation OP_TSTORE :: OpCode where "OP_TSTORE \<equiv> 0x5D"
abbreviation OP_MCOPY :: OpCode where "OP_MCOPY \<equiv> 0x5E"
abbreviation OP_PUSH0 :: OpCode where "OP_PUSH0 \<equiv> 0x5F"
abbreviation OP_PUSH1 :: OpCode where "OP_PUSH1 \<equiv> 0x60"
abbreviation OP_PUSH2 :: OpCode where "OP_PUSH2 \<equiv> 0x61"
abbreviation OP_PUSH3 :: OpCode where "OP_PUSH3 \<equiv> 0x62"
abbreviation OP_PUSH4 :: OpCode where "OP_PUSH4 \<equiv> 0x63"
abbreviation OP_PUSH5 :: OpCode where "OP_PUSH5 \<equiv> 0x64"
abbreviation OP_PUSH6 :: OpCode where "OP_PUSH6 \<equiv> 0x65"
abbreviation OP_PUSH7 :: OpCode where "OP_PUSH7 \<equiv> 0x66"
abbreviation OP_PUSH8 :: OpCode where "OP_PUSH8 \<equiv> 0x67"
abbreviation OP_PUSH9 :: OpCode where "OP_PUSH9 \<equiv> 0x68"
abbreviation OP_PUSH10 :: OpCode where "OP_PUSH10 \<equiv> 0x69"
abbreviation OP_PUSH11 :: OpCode where "OP_PUSH11 \<equiv> 0x6A"
abbreviation OP_PUSH12 :: OpCode where "OP_PUSH12 \<equiv> 0x6B"
abbreviation OP_PUSH13 :: OpCode where "OP_PUSH13 \<equiv> 0x6C"
abbreviation OP_PUSH14 :: OpCode where "OP_PUSH14 \<equiv> 0x6D"
abbreviation OP_PUSH15 :: OpCode where "OP_PUSH15 \<equiv> 0x6E"
abbreviation OP_PUSH16 :: OpCode where "OP_PUSH16 \<equiv> 0x6F"
abbreviation OP_PUSH17 :: OpCode where "OP_PUSH17 \<equiv> 0x70"
abbreviation OP_PUSH18 :: OpCode where "OP_PUSH18 \<equiv> 0x71"
abbreviation OP_PUSH19 :: OpCode where "OP_PUSH19 \<equiv> 0x72"
abbreviation OP_PUSH20 :: OpCode where "OP_PUSH20 \<equiv> 0x73"
abbreviation OP_PUSH21 :: OpCode where "OP_PUSH21 \<equiv> 0x74"
abbreviation OP_PUSH22 :: OpCode where "OP_PUSH22 \<equiv> 0x75"
abbreviation OP_PUSH23 :: OpCode where "OP_PUSH23 \<equiv> 0x76"
abbreviation OP_PUSH24 :: OpCode where "OP_PUSH24 \<equiv> 0x77"
abbreviation OP_PUSH25 :: OpCode where "OP_PUSH25 \<equiv> 0x78"
abbreviation OP_PUSH26 :: OpCode where "OP_PUSH26 \<equiv> 0x79"
abbreviation OP_PUSH27 :: OpCode where "OP_PUSH27 \<equiv> 0x7A"
abbreviation OP_PUSH28 :: OpCode where "OP_PUSH28 \<equiv> 0x7B"
abbreviation OP_PUSH29 :: OpCode where "OP_PUSH29 \<equiv> 0x7C"
abbreviation OP_PUSH30 :: OpCode where "OP_PUSH30 \<equiv> 0x7D"
abbreviation OP_PUSH31 :: OpCode where "OP_PUSH31 \<equiv> 0x7E"
abbreviation OP_PUSH32 :: OpCode where "OP_PUSH32 \<equiv> 0x7F"
abbreviation OP_DUP1 :: OpCode where "OP_DUP1 \<equiv> 0x80"
abbreviation OP_DUP2 :: OpCode where "OP_DUP2 \<equiv> 0x81"
abbreviation OP_DUP3 :: OpCode where "OP_DUP3 \<equiv> 0x82"
abbreviation OP_DUP4 :: OpCode where "OP_DUP4 \<equiv> 0x83"
abbreviation OP_DUP5 :: OpCode where "OP_DUP5 \<equiv> 0x84"
abbreviation OP_DUP6 :: OpCode where "OP_DUP6 \<equiv> 0x85"
abbreviation OP_DUP7 :: OpCode where "OP_DUP7 \<equiv> 0x86"
abbreviation OP_DUP8 :: OpCode where "OP_DUP8 \<equiv> 0x87"
abbreviation OP_DUP9 :: OpCode where "OP_DUP9 \<equiv> 0x88"
abbreviation OP_DUP10 :: OpCode where "OP_DUP10 \<equiv> 0x89"
abbreviation OP_DUP11 :: OpCode where "OP_DUP11 \<equiv> 0x8A"
abbreviation OP_DUP12 :: OpCode where "OP_DUP12 \<equiv> 0x8B"
abbreviation OP_DUP13 :: OpCode where "OP_DUP13 \<equiv> 0x8C"
abbreviation OP_DUP14 :: OpCode where "OP_DUP14 \<equiv> 0x8D"
abbreviation OP_DUP15 :: OpCode where "OP_DUP15 \<equiv> 0x8E"
abbreviation OP_DUP16 :: OpCode where "OP_DUP16 \<equiv> 0x8F"
abbreviation OP_SWAP1 :: OpCode where "OP_SWAP1 \<equiv> 0x90"
abbreviation OP_SWAP2 :: OpCode where "OP_SWAP2 \<equiv> 0x91"
abbreviation OP_SWAP3 :: OpCode where "OP_SWAP3 \<equiv> 0x92"
abbreviation OP_SWAP4 :: OpCode where "OP_SWAP4 \<equiv> 0x93"
abbreviation OP_SWAP5 :: OpCode where "OP_SWAP5 \<equiv> 0x94"
abbreviation OP_SWAP6 :: OpCode where "OP_SWAP6 \<equiv> 0x95"
abbreviation OP_SWAP7 :: OpCode where "OP_SWAP7 \<equiv> 0x96"
abbreviation OP_SWAP8 :: OpCode where "OP_SWAP8 \<equiv> 0x97"
abbreviation OP_SWAP9 :: OpCode where "OP_SWAP9 \<equiv> 0x98"
abbreviation OP_SWAP10 :: OpCode where "OP_SWAP10 \<equiv> 0x99"
abbreviation OP_SWAP11 :: OpCode where "OP_SWAP11 \<equiv> 0x9A"
abbreviation OP_SWAP12 :: OpCode where "OP_SWAP12 \<equiv> 0x9B"
abbreviation OP_SWAP13 :: OpCode where "OP_SWAP13 \<equiv> 0x9C"
abbreviation OP_SWAP14 :: OpCode where "OP_SWAP14 \<equiv> 0x9D"
abbreviation OP_SWAP15 :: OpCode where "OP_SWAP15 \<equiv> 0x9E"
abbreviation OP_SWAP16 :: OpCode where "OP_SWAP16 \<equiv> 0x9F"
abbreviation OP_LOG0 :: OpCode where "OP_LOG0 \<equiv> 0xA0"
abbreviation OP_LOG1 :: OpCode where "OP_LOG1 \<equiv> 0xA1"
abbreviation OP_LOG2 :: OpCode where "OP_LOG2 \<equiv> 0xA2"
abbreviation OP_LOG3 :: OpCode where "OP_LOG3 \<equiv> 0xA3"
abbreviation OP_LOG4 :: OpCode where "OP_LOG4 \<equiv> 0xA4"
abbreviation OP_RSVJNAL :: OpCode where "OP_RSVJNAL \<equiv> 0xE0"
abbreviation OP_VSVJNAL :: OpCode where "OP_VSVJNAL \<equiv> 0xE1"
abbreviation OP_IRVVJNAL :: OpCode where "OP_IRVVJNAL \<equiv> 0xE2"
abbreviation OP_IRVRJNAL :: OpCode where "OP_IRVRJNAL \<equiv> 0xE3"
abbreviation OP_IVVVJNAL :: OpCode where "OP_IVVVJNAL \<equiv> 0xE4"
abbreviation OP_IVVRJNAL :: OpCode where "OP_IVVRJNAL \<equiv> 0xE5"
abbreviation OP_VVJNAL :: OpCode where "OP_VVJNAL \<equiv> 0xE6"
abbreviation OP_VRJNAL :: OpCode where "OP_VRJNAL \<equiv> 0xE7"
abbreviation OP_CREATE :: OpCode where "OP_CREATE \<equiv> 0xF0"
abbreviation OP_CALL :: OpCode where "OP_CALL \<equiv> 0xF1"
abbreviation OP_CALLCODE :: OpCode where "OP_CALLCODE \<equiv> 0xF2"
abbreviation OP_RETURN :: OpCode where "OP_RETURN \<equiv> 0xF3"
abbreviation OP_DELEGATECALL :: OpCode where "OP_DELEGATECALL \<equiv> 0xF4"
abbreviation OP_CREATE2 :: OpCode where "OP_CREATE2 \<equiv> 0xF5"
abbreviation OP_STATICCALL :: OpCode where "OP_STATICCALL \<equiv> 0xFA"
abbreviation OP_REVERT :: OpCode where "OP_REVERT \<equiv> 0xFD"
abbreviation OP_INVALID :: OpCode where "OP_INVALID \<equiv> 0xFE"
abbreviation OP_SELFDESTRUCT :: OpCode where "OP_SELFDESTRUCT \<equiv> 0xFF"

definition consts_0x00 :: "(string \<times> OpCode) list" where
  "consts_0x00 =
    [(''STOP'', OP_STOP), (''ADD'', OP_ADD), (''MUL'', OP_MUL), (''SUB'', OP_SUB),
     (''DIV'', OP_DIV), (''SDIV'', OP_SDIV), (''MOD'', OP_MOD), (''SMOD'', OP_SMOD),
     (''ADDMOD'', OP_ADDMOD), (''MULMOD'', OP_MULMOD), (''EXP'', OP_EXP),
     (''SIGNEXTEND'', OP_SIGNEXTEND)]"

definition consts_0x10 :: "(string \<times> OpCode) list" where
  "consts_0x10 =
    [(''LT'', OP_LT), (''GT'', OP_GT), (''SLT'', OP_SLT), (''SGT'', OP_SGT), (''EQ'', OP_EQ),
     (''ISZERO'', OP_ISZERO), (''AND'', OP_AND), (''OR'', OP_OR), (''XOR'', OP_XOR),
     (''NOT'', OP_NOT), (''BYTE'', OP_BYTE), (''SHL'', OP_SHL), (''SHR'', OP_SHR),
     (''SAR'', OP_SAR)]"

definition consts_0x20 :: "(string \<times> OpCode) list" where
  "consts_0x20 =
    [(''KECCAK256'', OP_KECCAK256)]"

definition consts_0x30 :: "(string \<times> OpCode) list" where
  "consts_0x30 =
    [(''ADDRESS'', OP_ADDRESS), (''BALANCE'', OP_BALANCE), (''ORIGIN'', OP_ORIGIN),
     (''CALLER'', OP_CALLER), (''CALLVALUE'', OP_CALLVALUE),
     (''CALLDATALOAD'', OP_CALLDATALOAD), (''CALLDATASIZE'', OP_CALLDATASIZE),
     (''CALLDATACOPY'', OP_CALLDATACOPY), (''CODESIZE'', OP_CODESIZE),
     (''CODECOPY'', OP_CODECOPY), (''GASPRICE'', OP_GASPRICE),
     (''EXTCODESIZE'', OP_EXTCODESIZE), (''EXTCODECOPY'', OP_EXTCODECOPY),
     (''RETURNDATASIZE'', OP_RETURNDATASIZE), (''RETURNDATACOPY'', OP_RETURNDATACOPY),
     (''EXTCODEHASH'', OP_EXTCODEHASH)]"

definition consts_0x40 :: "(string \<times> OpCode) list" where
  "consts_0x40 =
    [(''BLOCKHASH'', OP_BLOCKHASH), (''COINBASE'', OP_COINBASE), (''TIMESTAMP'', OP_TIMESTAMP),
     (''NUMBER'', OP_NUMBER), (''DIFFICULTY'', OP_DIFFICULTY), (''RANDOM'', OP_RANDOM),
     (''PREVRANDAO'', OP_PREVRANDAO), (''GASLIMIT'', OP_GASLIMIT), (''CHAINID'', OP_CHAINID),
     (''SELFBALANCE'', OP_SELFBALANCE), (''BASEFEE'', OP_BASEFEE)]"

definition consts_0x50 :: "(string \<times> OpCode) list" where
  "consts_0x50 =
    [(''POP'', OP_POP), (''MLOAD'', OP_MLOAD), (''MSTORE'', OP_MSTORE),
     (''MSTORE8'', OP_MSTORE8), (''SLOAD'', OP_SLOAD), (''SSTORE'', OP_SSTORE),
     (''JUMP'', OP_JUMP), (''JUMPI'', OP_JUMPI), (''PC'', OP_PC), (''MSIZE'', OP_MSIZE),
     (''GAS'', OP_GAS), (''JUMPDEST'', OP_JUMPDEST), (''TLOAD'', OP_TLOAD),
     (''TSTORE'', OP_TSTORE), (''MCOPY'', OP_MCOPY), (''PUSH0'', OP_PUSH0)]"

definition consts_0x60 :: "(string \<times> OpCode) list" where
  "consts_0x60 =
    [(''PUSH1'', OP_PUSH1), (''PUSH2'', OP_PUSH2), (''PUSH3'', OP_PUSH3), (''PUSH4'', OP_PUSH4),
     (''PUSH5'', OP_PUSH5), (''PUSH6'', OP_PUSH6), (''PUSH7'', OP_PUSH7), (''PUSH8'', OP_PUSH8),
     (''PUSH9'', OP_PUSH9), (''PUSH10'', OP_PUSH10), (''PUSH11'', OP_PUSH11),
     (''PUSH12'', OP_PUSH12), (''PUSH13'', OP_PUSH13), (''PUSH14'', OP_PUSH14),
     (''PUSH15'', OP_PUSH15), (''PUSH16'', OP_PUSH16), (''PUSH17'', OP_PUSH17),
     (''PUSH18'', OP_PUSH18), (''PUSH19'', OP_PUSH19), (''PUSH20'', OP_PUSH20),
     (''PUSH21'', OP_PUSH21), (''PUSH22'', OP_PUSH22), (''PUSH23'', OP_PUSH23),
     (''PUSH24'', OP_PUSH24), (''PUSH25'', OP_PUSH25), (''PUSH26'', OP_PUSH26),
     (''PUSH27'', OP_PUSH27), (''PUSH28'', OP_PUSH28), (''PUSH29'', OP_PUSH29),
     (''PUSH30'', OP_PUSH30), (''PUSH31'', OP_PUSH31), (''PUSH32'', OP_PUSH32)]"

definition consts_0x80 :: "(string \<times> OpCode) list" where
  "consts_0x80 =
    [(''DUP1'', OP_DUP1), (''DUP2'', OP_DUP2), (''DUP3'', OP_DUP3), (''DUP4'', OP_DUP4),
     (''DUP5'', OP_DUP5), (''DUP6'', OP_DUP6), (''DUP7'', OP_DUP7), (''DUP8'', OP_DUP8),
     (''DUP9'', OP_DUP9), (''DUP10'', OP_DUP10), (''DUP11'', OP_DUP11), (''DUP12'', OP_DUP12),
     (''DUP13'', OP_DUP13), (''DUP14'', OP_DUP14), (''DUP15'', OP_DUP15), (''DUP16'', OP_DUP16)]"

definition consts_0x90 :: "(string \<times> OpCode) list" where
  "consts_0x90 =
    [(''SWAP1'', OP_SWAP1), (''SWAP2'', OP_SWAP2), (''SWAP3'', OP_SWAP3), (''SWAP4'', OP_SWAP4),
     (''SWAP5'', OP_SWAP5), (''SWAP6'', OP_SWAP6), (''SWAP7'', OP_SWAP7), (''SWAP8'', OP_SWAP8),
     (''SWAP9'', OP_SWAP9), (''SWAP10'', OP_SWAP10), (''SWAP11'', OP_SWAP11),
     (''SWAP12'', OP_SWAP12), (''SWAP13'', OP_SWAP13), (''SWAP14'', OP_SWAP14),
     (''SWAP15'', OP_SWAP15), (''SWAP16'', OP_SWAP16)]"

definition consts_0xa0 :: "(string \<times> OpCode) list" where
  "consts_0xa0 =
    [(''LOG0'', OP_LOG0), (''LOG1'', OP_LOG1), (''LOG2'', OP_LOG2), (''LOG3'', OP_LOG3),
     (''LOG4'', OP_LOG4)]"

definition consts_0xe0 :: "(string \<times> OpCode) list" where
  "consts_0xe0 =
    [(''RSVJNAL'', OP_RSVJNAL), (''VSVJNAL'', OP_VSVJNAL), (''IRVVJNAL'', OP_IRVVJNAL),
     (''IRVRJNAL'', OP_IRVRJNAL), (''IVVVJNAL'', OP_IVVVJNAL), (''IVVRJNAL'', OP_IVVRJNAL),
     (''VVJNAL'', OP_VVJNAL), (''VRJNAL'', OP_VRJNAL)]"

definition consts_0xf0 :: "(string \<times> OpCode) list" where
  "consts_0xf0 =
    [(''CREATE'', OP_CREATE), (''CALL'', OP_CALL), (''CALLCODE'', OP_CALLCODE),
     (''RETURN'', OP_RETURN), (''DELEGATECALL'', OP_DELEGATECALL), (''CREATE2'', OP_CREATE2),
     (''STATICCALL'', OP_STATICCALL), (''REVERT'', OP_REVERT), (''INVALID'', OP_INVALID),
     (''SELFDESTRUCT'', OP_SELFDESTRUCT)]"

definition opcode_consts :: "(string \<times> OpCode) list" where
  "opcode_consts =
     consts_0x00 @ consts_0x10 @ consts_0x20 @ consts_0x30 @ consts_0x40 @ consts_0x50 @
     consts_0x60 @ consts_0x80 @ consts_0x90 @ consts_0xa0 @ consts_0xe0 @ consts_0xf0"

definition IsPush :: "OpCode \<Rightarrow> bool" where
  "IsPush op \<longleftrightarrow> OP_PUSH1 \<le> op \<and> op \<le> OP_PUSH32"

section \<open>The name tables\<close>

definition names_0x0 :: "(OpCode \<times> string) list" where
  "names_0x0 =
    [(OP_STOP, ''STOP''), (OP_ADD, ''ADD''), (OP_MUL, ''MUL''), (OP_SUB, ''SUB''),
     (OP_DIV, ''DIV''), (OP_SDIV, ''SDIV''), (OP_MOD, ''MOD''), (OP_SMOD, ''SMOD''),
     (OP_EXP, ''EXP''), (OP_NOT, ''NOT''), (OP_LT, ''LT''), (OP_GT, ''GT''), (OP_SLT, ''SLT''),
     (OP_SGT, ''SGT''), (OP_EQ, ''EQ''), (OP_ISZERO, ''ISZERO''), (OP_SIGNEXTEND, ''SIGNEXTEND'')]"

definition names_0x10 :: "(OpCode \<times> string) list" where
  "names_0x10 =
    [(OP_AND, ''AND''), (OP_OR, ''OR''), (OP_XOR, ''XOR''), (OP_BYTE, ''BYTE''),
     (OP_SHL, ''SHL''), (OP_SHR, ''SHR''), (OP_SAR, ''SAR''), (OP_ADDMOD, ''ADDMOD''),
     (OP_MULMOD, ''MULMOD'')]"

definition names_0x20 :: "(OpCode \<times> string) list" where
  "names_0x20 =
    [(OP_KECCAK256, ''KECCAK256'')]"

definition names_0x30 :: "(OpCode \<times> string) list" where
  "names_0x30 =
    [(OP_ADDRESS, ''ADDRESS''), (OP_BALANCE, ''BALANCE''), (OP_ORIGIN, ''ORIGIN''),
     (OP_CALLER, ''CALLER''), (OP_CALLVALUE, ''CALLVALUE''),
     (OP_CALLDATALOAD, ''CALLDATALOAD''), (OP_CALLDATASIZE, ''CALLDATASIZE''),
     (OP_CALLDATACOPY, ''CALLDATACOPY''), (OP_CODESIZE, ''CODESIZE''),
     (OP_CODECOPY, ''CODECOPY''), (OP_GASPRICE, ''GASPRICE''),
     (OP_EXTCODESIZE, ''EXTCODESIZE''), (OP_EXTCODECOPY, ''EXTCODECOPY''),
     (OP_RETURNDATASIZE, ''RETURNDATASIZE''), (OP_RETURNDATACOPY, ''RETURNDATACOPY''),
     (OP_EXTCODEHASH, ''EXTCODEHASH'')]"

definition names_0x40 :: "(OpCode \<times> string) list" where
  "names_0x40 =
    [(OP_BLOCKHASH, ''BLOCKHASH''), (OP_COINBASE, ''COINBASE''), (OP_TIMESTAMP, ''TIMESTAMP''),
     (OP_NUMBER, ''NUMBER''), (OP_DIFFICULTY, ''DIFFICULTY''), (OP_GASLIMIT, ''GASLIMIT''),
     (OP_CHAINID, ''CHAINID''), (OP_SELFBALANCE, ''SELFBALANCE''), (OP_BASEFEE, ''BASEFEE'')]"

definition names_0x50 :: "(OpCode \<times> string) list" where
  "names_0x50 =
    [(OP_POP, ''POP''), (OP_MLOAD, ''MLOAD''), (OP_MSTORE, ''MSTORE''),
     (OP_MSTORE8, ''MSTORE8''), (OP_SLOAD, ''SLOAD''), (OP_SSTORE, ''SSTORE''),
     (OP_JUMP, ''JUMP''), (OP_JUMPI, ''JUMPI''), (OP_PC, ''PC''), (OP_MSIZE, ''MSIZE''),
     (OP_GAS, ''GAS''), (OP_JUMPDEST, ''JUMPDEST''), (OP_TLOAD, ''TLOAD''),
     (OP_TSTORE, ''TSTORE''), (OP_MCOPY, ''MCOPY''), (OP_PUSH0, ''PUSH0'')]"

definition names_0x60 :: "(OpCode \<times> string) list" where
  "names_0x60 =
    [(OP_PUSH1, ''PUSH1''), (OP_PUSH2, ''PUSH2''), (OP_PUSH3, ''PUSH3''), (OP_PUSH4, ''PUSH4''),
     (OP_PUSH5, ''PUSH5''), (OP_PUSH6, ''PUSH6''), (OP_PUSH7, ''PUSH7''), (OP_PUSH8, ''PUSH8''),
     (OP_PUSH9, ''PUSH9''), (OP_PUSH10, ''PUSH10''), (OP_PUSH11, ''PUSH11''),
     (OP_PUSH12, ''PUSH12''), (OP_PUSH13, ''PUSH13''), (OP_PUSH14, ''PUSH14''),
     (OP_PUSH15, ''PUSH15''), (OP_PUSH16, ''PUSH16''), (OP_PUSH17, ''PUSH17''),
     (OP_PUSH18, ''PUSH18''), (OP_PUSH19, ''PUSH19''), (OP_PUSH20, ''PUSH20''),
     (OP_PUSH21, ''PUSH21''), (OP_PUSH22, ''PUSH22''), (OP_PUSH23, ''PUSH23''),
     (OP_PUSH24, ''PUSH24''), (OP_PUSH25, ''PUSH25''), (OP_PUSH26, ''PUSH26''),
     (OP_PUSH27, ''PUSH27''), (OP_PUSH28, ''PUSH28''), (OP_PUSH29, ''PUSH29''),
     (OP_PUSH30, ''PUSH30''), (OP_PUSH31, ''PUSH31''), (OP_PUSH32, ''PUSH32''),
     (OP_DUP1, ''DUP1''), (OP_DUP2, ''DUP2''), (OP_DUP3, ''DUP3''), (OP_DUP4, ''DUP4''),
     (OP_DUP5, ''DUP5''), (OP_DUP6, ''DUP6''), (OP_DUP7, ''DUP7''), (OP_DUP8, ''DUP8''),
     (OP_DUP9, ''DUP9''), (OP_DUP10, ''DUP10''), (OP_DUP11, ''DUP11''), (OP_DUP12, ''DUP12''),
     (OP_DUP13, ''DUP13''), (OP_DUP14, ''DUP14''), (OP_DUP15, ''DUP15''), (OP_DUP16, ''DUP16''),
     (OP_SWAP1, ''SWAP1''), (OP_SWAP2, ''SWAP2''), (OP_SWAP3, ''SWAP3''), (OP_SWAP4, ''SWAP4''),
     (OP_SWAP5, ''SWAP5''), (OP_SWAP6, ''SWAP6''), (OP_SWAP7, ''SWAP7''), (OP_SWAP8, ''SWAP8''),
     (OP_SWAP9, ''SWAP9''), (OP_SWAP10, ''SWAP10''), (OP_SWAP11, ''SWAP11''),
     (OP_SWAP12, ''SWAP12''), (OP_SWAP13, ''SWAP13''), (OP_SWAP14, ''SWAP14''),
     (OP_SWAP15, ''SWAP15''), (OP_SWAP16, ''SWAP16'')]"

definition names_0xa0 :: "(OpCode \<times> string) list" where
  "names_0xa0 =
    [(OP_LOG0, ''LOG0''), (OP_LOG1, ''LOG1''), (OP_LOG2, ''LOG2''), (OP_LOG3, ''LOG3''),
     (OP_LOG4, ''LOG4'')]"

definition names_0xe0 :: "(OpCode \<times> string) list" where
  "names_0xe0 =
    [(OP_RSVJNAL, ''RSVJNAL''), (OP_VSVJNAL, ''VSVJNAL''), (OP_IRVVJNAL, ''IRVVJNAL''),
     (OP_IRVRJNAL, ''IRVRJNAL''), (OP_IVVVJNAL, ''IVVVJNAL''), (OP_IVVRJNAL, ''IVVRJNAL''),
     (OP_VVJNAL, ''VVJNAL''), (OP_VRJNAL, ''VRJNAL'')]"

definition names_0xf0 :: "(OpCode \<times> string) list" where
  "names_0xf0 =
    [(OP_CREATE, ''CREATE''), (OP_CALL, ''CALL''), (OP_RETURN, ''RETURN''),
     (OP_CALLCODE, ''CALLCODE''), (OP_DELEGATECALL, ''DELEGATECALL''),
     (OP_CREATE2, ''CREATE2''), (OP_STATICCALL, ''STATICCALL''), (OP_REVERT, ''REVERT''),
     (OP_INVALID, ''INVALID''), (OP_SELFDESTRUCT, ''SELFDESTRUCT'')]"

definition opCodeToString :: "(OpCode \<times> string) list" where
  "opCodeToString =
     names_0x0 @ names_0x10 @ names_0x20 @ names_0x30 @ names_0x40 @
     names_0x50 @ names_0x60 @ names_0xa0 @ names_0xe0 @ names_0xf0"

definition stringToOp_1 :: "(string \<times> OpCode) list" where
  "stringToOp_1 =
    [(''STOP'', OP_STOP), (''ADD'', OP_ADD), (''MUL'', OP_MUL), (''SUB'', OP_SUB),
     (''DIV'', OP_DIV), (''SDIV'', OP_SDIV), (''MOD'', OP_MOD), (''SMOD'', OP_SMOD),
     (''EXP'', OP_EXP), (''NOT'', OP_NOT), (''LT'', OP_LT), (''GT'', OP_GT), (''SLT'', OP_SLT),
     (''SGT'', OP_SGT), (''EQ'', OP_EQ), (''ISZERO'', OP_ISZERO),
     (''SIGNEXTEND'', OP_SIGNEXTEND), (''AND'', OP_AND), (''OR'', OP_OR), (''XOR'', OP_XOR),
     (''BYTE'', OP_BYTE), (''SHL'', OP_SHL), (''SHR'', OP_SHR), (''SAR'', OP_SAR),
     (''ADDMOD'', OP_ADDMOD), (''MULMOD'', OP_MULMOD), (''KECCAK256'', OP_KECCAK256),
     (''ADDRESS'', OP_ADDRESS), (''BALANCE'', OP_BALANCE), (''ORIGIN'', OP_ORIGIN),
     (''CALLER'', OP_CALLER), (''CALLVALUE'', OP_CALLVALUE),
     (''CALLDATALOAD'', OP_CALLDATALOAD), (''CALLDATASIZE'', OP_CALLDATASIZE),
     (''CALLDATACOPY'', OP_CALLDATACOPY), (''CHAINID'', OP_CHAINID), (''BASEFEE'', OP_BASEFEE),
     (''DELEGATECALL'', OP_DELEGATECALL), (''STATICCALL'', OP_STATICCALL),
     (''CODESIZE'', OP_CODESIZE), (''CODECOPY'', OP_CODECOPY), (''GASPRICE'', OP_GASPRICE),
     (''EXTCODESIZE'', OP_EXTCODESIZE), (''EXTCODECOPY'', OP_EXTCODECOPY),
     (''RETURNDATASIZE'', OP_RETURNDATASIZE), (''RETURNDATACOPY'', OP_RETURNDATACOPY),
     (''EXTCODEHASH'', OP_EXTCODEHASH), (''BLOCKHASH'', OP_BLOCKHASH),
     (''COINBASE'', OP_COINBASE), (''TIMESTAMP'', OP_TIMESTAMP), (''NUMBER'', OP_NUMBER),
     (''DIFFICULTY'', OP_DIFFICULTY), (''GASLIMIT'', OP_GASLIMIT),
     (''SELFBALANCE'', OP_SELFBALANCE), (''POP'', OP_POP), (''MLOAD'', OP_MLOAD),
     (''MSTORE'', OP_MSTORE), (''MSTORE8'', OP_MSTORE8), (''SLOAD'', OP_SLOAD),
     (''SSTORE'', OP_SSTORE), (''JUMP'', OP_JUMP), (''JUMPI'', OP_JUMPI), (''PC'', OP_PC),
     (''MSIZE'', OP_MSIZE), (''GAS'', OP_GAS), (''JUMPDEST'', OP_JUMPDEST),
     (''TLOAD'', OP_TLOAD), (''TSTORE'', OP_TSTORE), (''MCOPY'', OP_MCOPY),
     (''PUSH0'', OP_PUSH0), (''PUSH1'', OP_PUSH1), (''PUSH2'', OP_PUSH2), (''PUSH3'', OP_PUSH3),
     (''PUSH4'', OP_PUSH4), (''PUSH5'', OP_PUSH5), (''PUSH6'', OP_PUSH6), (''PUSH7'', OP_PUSH7)]"

definition stringToOp_2 :: "(string \<times> OpCode) list" where
  "stringToOp_2 =
    [(''PUSH8'', OP_PUSH8), (''PUSH9'', OP_PUSH9), (''PUSH10'', OP_PUSH10),
     (''PUSH11'', OP_PUSH11), (''PUSH12'', OP_PUSH12), (''PUSH13'', OP_PUSH13),
     (''PUSH14'', OP_PUSH14), (''PUSH15'', OP_PUSH15), (''PUSH16'', OP_PUSH16),
     (''PUSH17'', OP_PUSH17), (''PUSH18'', OP_PUSH18), (''PUSH19'', OP_PUSH19),
     (''PUSH20'', OP_PUSH20), (''PUSH21'', OP_PUSH21), (''PUSH22'', OP_PUSH22),
     (''PUSH23'', OP_PUSH23), (''PUSH24'', OP_PUSH24), (''PUSH25'', OP_PUSH25),
     (''PUSH26'', OP_PUSH26), (''PUSH27'', OP_PUSH27), (''PUSH28'', OP_PUSH28),
     (''PUSH29'', OP_PUSH29), (''PUSH30'', OP_PUSH30), (''PUSH31'', OP_PUSH31),
     (''PUSH32'', OP_PUSH32), (''DUP1'', OP_DUP1), (''DUP2'', OP_DUP2), (''DUP3'', OP_DUP3),
     (''DUP4'', OP_DUP4), (''DUP5'', OP_DUP5), (''DUP6'', OP_DUP6), (''DUP7'', OP_DUP7),
     (''DUP8'', OP_DUP8), (''DUP9'', OP_DUP9), (''DUP10'', OP_DUP10), (''DUP11'', OP_DUP11),
     (''DUP12'', OP_DUP12), (''DUP13'', OP_DUP13), (''DUP14'', OP_DUP14), (''DUP15'', OP_DUP15),
     (''DUP16'', OP_DUP16), (''SWAP1'', OP_SWAP1), (''SWAP2'', OP_SWAP2), (''SWAP3'', OP_SWAP3),
     (''SWAP4'', OP_SWAP4), (''SWAP5'', OP_SWAP5), (''SWAP6'', OP_SWAP6), (''SWAP7'', OP_SWAP7),
     (''SWAP8'', OP_SWAP8), (''SWAP9'', OP_SWAP9), (''SWAP10'', OP_SWAP10),
     (''SWAP11'', OP_SWAP11), (''SWAP12'', OP_SWAP12), (''SWAP13'', OP_SWAP13),
     (''SWAP14'', OP_SWAP14), (''SWAP15'', OP_SWAP15), (''SWAP16'', OP_SWAP16),
     (''LOG0'', OP_LOG0), (''LOG1'', OP_LOG1), (''LOG2'', OP_LOG2), (''LOG3'', OP_LOG3),
     (''LOG4'', OP_LOG4), (''RSVJNAL'', OP_RSVJNAL), (''VSVJNAL'', OP_VSVJNAL),
     (''IRVVJNAL'', OP_IRVVJNAL), (''IRVRJNAL'', OP_IRVRJNAL), (''IVVVJNAL'', OP_IVVVJNAL),
     (''IVVRJNAL'', OP_IVVRJNAL), (''VVJNAL'', OP_VVJNAL), (''VRJNAL'', OP_VRJNAL),
     (''CREATE'', OP_CREATE), (''CREATE2'', OP_CREATE2), (''CALL'', OP_CALL),
     (''RETURN'', OP_RETURN), (''CALLCODE'', OP_CALLCODE), (''REVERT'', OP_REVERT),
     (''INVALID'', OP_INVALID), (''SELFDESTRUCT'', OP_SELFDESTRUCT)]"

definition stringToOp :: "(string \<times> OpCode) list" where
  "stringToOp = stringToOp_1 @ stringToOp_2"

section \<open>The conversions\<close>

definition hex_digit :: "nat \<Rightarrow> char" where
  "hex_digit n = ''0123456789abcdef'' ! (n mod 16)"

fun hex :: "nat \<Rightarrow> string" where
  "hex n = (if n < 16 then [hex_digit n] else hex (n div 16) @ [hex_digit n])"

declare hex.simps [simp del]

definition OpCode_String :: "OpCode \<Rightarrow> string" where
  "OpCode_String op =
     (case map_of opCodeToString op of
        Some str \<Rightarrow> str
      | None \<Rightarrow> ''opcode 0x'' @ hex (unat op) @ '' not defined'')"

definition StringToOp :: "string \<Rightarrow> OpCode" where
  "StringToOp str = (case map_of stringToOp str of Some op \<Rightarrow> op | None \<Rightarrow> OP_STOP)"

section \<open>Properties\<close>

text \<open>Every entry of a part of the name table is found again by its name.\<close>

definition named_back :: "(OpCode \<times> string) list \<Rightarrow> bool" where
  "named_back tab \<longleftrightarrow> list_all (\<lambda>(op, str). map_of stringToOp str = Some op) tab"


lemma back_names_0x0: "named_back names_0x0"
  by code_simp

lemma back_names_0x10: "named_back names_0x10"
  by code_simp

lemma back_names_0x20: "named_back names_0x20"
  by code_simp

lemma back_names_0x30: "named_back names_0x30"
  by code_simp

lemma back_names_0x40: "named_back names_0x40"
  by code_simp

lemma back_names_0x50: "named_back names_0x50"
  by code_simp

lemma back_names_0xa0: "named_back names_0xa0"
  by code_simp

lemma back_names_0xe0: "named_back names_0xe0"
  by code_simp

lemma back_names_0xf0: "named_back names_0xf0"
  by code_simp

lemma back_names_0x60_low: "named_back (take 32 names_0x60)"
  by code_simp

lemma back_names_0x60_high: "named_back (drop 32 names_0x60)"
  by code_simp

lemma tables_inverse: "named_back opCodeToString"
  using back_names_0x60_low back_names_0x60_high back_names_0x0 back_names_0x10 back_names_0x20 back_names_0x30 back_names_0x40 back_names_0x50 back_names_0xa0 back_names_0xe0 back_names_0xf0
  unfolding named_back_def opCodeToString_def
  by (metis append_take_drop_id list_all_append)

lemma table_names_upper: "list_all (\<lambda>(str, op). hd str \<noteq> CHR ''o'') stringToOp"
  by code_simp

lemma StringToOp_name:
  assumes "map_of opCodeToString op = Some str"
  shows "StringToOp str = op"
proof -
  have "map_of stringToOp str = Some op"
    using tables_inverse map_of_SomeD[OF assms] by (fastforce simp: named_back_def list_all_iff)
  then show ?thesis by (simp add: StringToOp_def)
qed

lemma StringToOp_unnamed: "StringToOp (CHR ''o'' # str) = OP_STOP"
proof -
  have "map_of stringToOp (CHR ''o'' # str) = None"
    using table_names_upper by (force simp: list_all_iff map_of_eq_None_iff)
  then show ?thesis by (simp add: StringToOp_def)
qed

text \<open>
  C14: The two name tables are inverse to each other: converting the name of an opcode back gives
  the opcode for every opcode that has a name, and STOP (the zero value of the map lookup) for
  every byte that has none.
\<close>

theorem StringToOp_String:
  "StringToOp (OpCode_String op) =
     (if op \<in> fst ` set opCodeToString then op else OP_STOP)"
proof (cases "map_of opCodeToString op")
  case None
  then have "op \<notin> fst ` set opCodeToString" by (simp add: map_of_eq_None_iff)
  moreover have "OpCode_String op = CHR ''o'' # ''pcode 0x'' @ hex (unat op) @ '' not defined''"
    by (simp add: OpCode_String_def None)
  ultimately show ?thesis by (simp add: StringToOp_unnamed)
next
  case (Some str)
  then show ?thesis
    using StringToOp_name[OF Some] map_of_SomeD[OF Some]
    by (force simp: OpCode_String_def)
qed

end
