(* ===== verification/Errors.thy ===== *)
theory Errors
  imports Opcodes
begin

text \<open>
  The execution errors (\<open>src/vm/errors.go\<close>). The sentinel variables and the three error types
  are constructors; \<open>ErrMsg\<close> is an error created with \<open>errors.New\<close> elsewhere in the sources
  or handed in from outside. \<open>error_text\<close> is the method \<open>Error\<close>.
\<close>

datatype error =
    ErrOutOfGas
  | ErrCodeStoreOutOfGas
  | ErrDepth
  | ErrInsufficientBalance
  | ErrContractAddressCollision
  | ErrExecutionReverted
  | ErrMaxInitCodeSizeExceeded
  | ErrMaxCodeSizeExceeded
  | ErrInvalidJump
  | ErrWriteProtection
  | ErrReturnDataOutOfBounds
  | ErrGasUintOverflow
  | ErrInvalidCode
  | ErrNonceUintOverflow
  | errStopToken
  | ErrStackUnderflow (uf_stackLen: nat) (uf_required: nat)
  | ErrStackOverflow (of_stackLen: nat) (of_limit: nat)
  | ErrInvalidOpCode OpCode
  | ErrMsg string

fun decimal :: "nat \<Rightarrow> string" where
  "decimal n = (if n < 10 then [''0123456789'' ! n]
                else decimal (n div 10) @ [''0123456789'' ! (n mod 10)])"

declare decimal.simps [simp del]

definition ErrStackUnderflow_Error :: "nat \<Rightarrow> nat \<Rightarrow> string" where
  "ErrStackUnderflow_Error stackLen required =
     ''stack underflow ('' @ decimal stackLen @ '' <=> '' @ decimal required @ '')''"

definition ErrStackOverflow_Error :: "nat \<Rightarrow> nat \<Rightarrow> string" where
  "ErrStackOverflow_Error stackLen limit =
     ''stack limit reached '' @ decimal stackLen @ '' ('' @ decimal limit @ '')''"

definition ErrInvalidOpCode_Error :: "OpCode \<Rightarrow> string" where
  "ErrInvalidOpCode_Error opcode = ''invalid opcode: '' @ OpCode_String opcode"

primrec error_text :: "error \<Rightarrow> string" where
  "error_text ErrOutOfGas = ''out of gas''"
| "error_text ErrCodeStoreOutOfGas = ''contract creation code storage out of gas''"
| "error_text ErrDepth = ''max call depth exceeded''"
| "error_text ErrInsufficientBalance = ''insufficient balance for transfer''"
| "error_text ErrContractAddressCollision = ''contract address collision''"
| "error_text ErrExecutionReverted = ''execution reverted''"
| "error_text ErrMaxInitCodeSizeExceeded = ''max initcode size exceeded''"
| "error_text ErrMaxCodeSizeExceeded = ''max code size exceeded''"
| "error_text ErrInvalidJump = ''invalid jump destination''"
| "error_text ErrWriteProtection = ''write protection''"
| "error_text ErrReturnDataOutOfBounds = ''return data out of bounds''"
| "error_text ErrGasUintOverflow = ''gas uint64 overflow''"
| "error_text ErrInvalidCode = ''invalid code: must not begin with 0xef''"
| "error_text ErrNonceUintOverflow = ''nonce uint64 overflow''"
| "error_text errStopToken = ''stop token''"
| "error_text (ErrStackUnderflow stackLen required) = ErrStackUnderflow_Error stackLen required"
| "error_text (ErrStackOverflow stackLen limit) = ErrStackOverflow_Error stackLen limit"
| "error_text (ErrInvalidOpCode opcode) = ErrInvalidOpCode_Error opcode"
| "error_text (ErrMsg msg) = msg"

end
