(* ===== verification/Sha256.thy ===== *)
theory Sha256
  imports Prelude
begin

unbundle bit_operations_syntax

text \<open>
  The function \<open>Sum256\<close> of Go's package \<open>crypto/sha256\<close> (FIPS 180-4), which the precompile at
  address 2 returns: padding, message schedule and compression on 32-bit words.
\<close>

type_synonym u32 = "32 word"

text \<open>
  The constants are the first 32 bits of the fractional parts of the square and cube roots of the
  first primes. \<open>root_bits r n k a\<close> searches the largest \<open>x\<close> with \<open>x ^ r \<le> n\<close> bit by bit.
\<close>

definition first_primes :: "nat list" where
  "first_primes =
     [2, 3, 5, 7, 11, 13, 17, 19, 23, 29, 31, 37, 41, 43, 47, 53,
      59, 61, 67, 71, 73, 79, 83, 89, 97, 101, 103, 107, 109, 113, 127, 131,
      137, 139, 149, 151, 157, 163, 167, 173, 179, 181, 191, 193, 197, 199, 211, 223,
      227, 229, 233, 239, 241, 251, 257, 263, 269, 271, 277, 281, 283, 293, 307, 311]"

primrec root_bits :: "nat \<Rightarrow> nat \<Rightarrow> nat \<Rightarrow> nat \<Rightarrow> nat" where
  "root_bits r n 0 a = a"
| "root_bits r n (Suc k) a = root_bits r n k (if (a + 2 ^ k) ^ r \<le> n then a + 2 ^ k else a)"

definition frac_root :: "nat \<Rightarrow> nat \<Rightarrow> u32" where
  "frac_root r p = of_nat (root_bits r (p * 2 ^ (32 * r)) 36 0)"

definition sha256_K :: "u32 list" where
  "sha256_K = map (frac_root 3) first_primes"

definition sha256_init :: "u32 list" where
  "sha256_init = map (frac_root 2) (take 8 first_primes)"

definition sha256_pad :: "bytes \<Rightarrow> bytes" where
  "sha256_pad bs =
     bs @ [0x80] @ replicate ((119 - length bs mod 64) mod 64) 0 @ nat_be 8 (8 * length bs)"

definition be_word32 :: "bytes \<Rightarrow> u32" where
  "be_word32 bs = foldl (\<lambda>a b. push_bit 8 a OR ucast b) 0 bs"

definition word32_be :: "u32 \<Rightarrow> bytes" where
  "word32_be w = map (\<lambda>n. ucast (drop_bit n w)) [24, 16, 8, 0]"

fun chunks :: "nat \<Rightarrow> 'a list \<Rightarrow> 'a list list" where
  "chunks n xs = (if n = 0 \<or> xs = [] then [] else take n xs # chunks n (drop n xs))"

declare chunks.simps [simp del]

text \<open>The schedule is kept newest word first.\<close>

definition sha256_next :: "u32 list \<Rightarrow> u32" where
  "sha256_next ws =
     (let x = ws ! 14; y = ws ! 1;
          s0 = word_rotr 7 x XOR word_rotr 18 x XOR drop_bit 3 x;
          s1 = word_rotr 17 y XOR word_rotr 19 y XOR drop_bit 10 y
      in ws ! 15 + s0 + ws ! 6 + s1)"

definition sha256_schedule :: "bytes \<Rightarrow> u32 list" where
  "sha256_schedule block =
     rev (((\<lambda>ws. sha256_next ws # ws) ^^ 48) (rev (map be_word32 (chunks 4 block))))"

fun sha256_round :: "u32 list \<Rightarrow> u32 \<times> u32 \<Rightarrow> u32 list" where
  "sha256_round [a, b, c, d, e, f, g, h] (k, w) =
     (let S1 = word_rotr 6 e XOR word_rotr 11 e XOR word_rotr 25 e;
          ch = (e AND f) XOR (NOT e AND g);
          t1 = h + S1 + ch + k + w;
          S0 = word_rotr 2 a XOR word_rotr 13 a XOR word_rotr 22 a;
          maj = (a AND b) XOR (a AND c) XOR (b AND c)
      in [t1 + S0 + maj, a, b, c, d + t1, e, f, g])"
| "sha256_round st kw = st"

definition sha256_block :: "u32 list \<Rightarrow> bytes \<Rightarrow> u32 list" where
  "sha256_block st block =
     map2 (+) st (foldl sha256_round st (zip sha256_K (sha256_schedule block)))"

definition Sum256 :: "bytes \<Rightarrow> bytes" where
  "Sum256 bs =
     concat (map word32_be (foldl sha256_block sha256_init (chunks 64 (sha256_pad bs))))"

lemma length_sha256_round: "length st = 8 \<Longrightarrow> length (sha256_round st kw) = 8"
  by (cases "(st, kw)" rule: sha256_round.cases) (simp_all add: Let_def)

lemma length_foldl_rounds: "length st = 8 \<Longrightarrow> length (foldl sha256_round st kws) = 8"
  by (induction kws arbitrary: st) (simp_all add: length_sha256_round)

lemma length_sha256_block: "length st = 8 \<Longrightarrow> length (sha256_block st block) = 8"
  by (simp add: sha256_block_def length_foldl_rounds)

lemma length_foldl_blocks: "length st = 8 \<Longrightarrow> length (foldl sha256_block st blocks) = 8"
  by (induction blocks arbitrary: st) (simp_all add: length_sha256_block)

lemma length_Sum256 [simp]: "length (Sum256 bs) = 32"
proof -
  have "length (concat (map word32_be ws)) = 4 * length ws" for ws
    by (induction ws) (simp_all add: word32_be_def)
  moreover have "length sha256_init = 8" by (simp add: sha256_init_def first_primes_def)
  ultimately show ?thesis by (simp add: Sum256_def length_foldl_blocks)
qed

end
