(* ===== verification/Precompiles.thy ===== *)
theory Precompiles
  imports Memory Errors Sha256
begin

text \<open>
  The precompiled contracts (\<open>src/vm/contracts.go\<close>). The interface \<open>PrecompiledContract\<close> is a
  datatype with one constructor per Go type, and its two methods dispatch on it. The elliptic
  curves, RIPEMD-160, the BLAKE2 compression function and signature recovery are libraries
  outside the repository (record \<open>crypto\<close>), and so is the aspect context the contracts 100 to
  102 read and write (record \<open>aspect_runtime\<close>): what a read returns depends on the history of
  writes. A Go panic is \<open>None\<close>.
\<close>

section \<open>Libraries\<close>

type_synonym curve_point = "int list"

record crypto =
  ValidateSignatureValues :: "byte \<Rightarrow> int \<Rightarrow> int \<Rightarrow> bool \<Rightarrow> bool"
  Ecrecover :: "bytes \<Rightarrow> bytes \<Rightarrow> error + bytes"
  Ripemd160 :: "bytes \<Rightarrow> bytes"
  bn_Unmarshal1 :: "bytes \<Rightarrow> error + curve_point"
  bn_Unmarshal2 :: "bytes \<Rightarrow> error + curve_point"
  bn_Marshal1 :: "curve_point \<Rightarrow> bytes"
  bn_Add :: "curve_point \<Rightarrow> curve_point \<Rightarrow> curve_point"
  bn_ScalarMult :: "curve_point \<Rightarrow> int \<Rightarrow> curve_point"
  bn_PairingCheck :: "curve_point list \<Rightarrow> curve_point list \<Rightarrow> bool"
  blake2b_F :: "u64 list \<Rightarrow> u64 list \<Rightarrow> u64 \<times> u64 \<Rightarrow> bool \<Rightarrow> u32 \<Rightarrow> u64 list"
  g1_DecodePoint :: "bytes \<Rightarrow> error + curve_point"
  g1_EncodePoint :: "curve_point \<Rightarrow> bytes"
  g1_Add :: "curve_point \<Rightarrow> curve_point \<Rightarrow> curve_point"
  g1_MulScalar :: "curve_point \<Rightarrow> int \<Rightarrow> curve_point"
  g1_MultiExp :: "curve_point list \<Rightarrow> int list \<Rightarrow> curve_point \<times> error option"
  g1_MapToCurve :: "bytes \<Rightarrow> error + curve_point"
  g1_InCorrectSubgroup :: "curve_point \<Rightarrow> bool"
  g2_DecodePoint :: "bytes \<Rightarrow> error + curve_point"
  g2_EncodePoint :: "curve_point \<Rightarrow> bytes"
  g2_Add :: "curve_point \<Rightarrow> curve_point \<Rightarrow> curve_point"
  g2_MulScalar :: "curve_point \<Rightarrow> int \<Rightarrow> curve_point"
  g2_MultiExp :: "curve_point list \<Rightarrow> int list \<Rightarrow> curve_point \<times> error option"
  g2_MapToCurve :: "bytes \<Rightarrow> error + curve_point"
  g2_InCorrectSubgroup :: "curve_point \<Rightarrow> bool"
  bls_Check :: "(curve_point \<times> curve_point) list \<Rightarrow> bool"

type_synonym actx = "(address \<times> bytes \<times> bytes) list"

record aspect_runtime =
  GetAspectContext :: "actx \<Rightarrow> address \<Rightarrow> bytes \<Rightarrow> error + bytes"
  SetAspectContext :: "actx \<Rightarrow> address \<Rightarrow> bytes \<Rightarrow> bytes \<Rightarrow> error option"
  JITSenderAspectByContext :: "actx \<Rightarrow> hash \<Rightarrow> error + address"

record ExecutionContext =
  ec_from :: address
  ec_to :: address
  ec_gas :: u64
  ec_value :: int

datatype PrecompiledContract =
    ecrecover | sha256hash | ripemd160hash | dataCopy
  | bigModExp bool
  | bn256AddIstanbul | bn256AddByzantium
  | bn256ScalarMulIstanbul | bn256ScalarMulByzantium
  | bn256PairingIstanbul | bn256PairingByzantium
  | blake2F
  | bls12381G1Add | bls12381G1Mul | bls12381G1MultiExp
  | bls12381G2Add | bls12381G2Mul | bls12381G2MultiExp
  | bls12381Pairing | bls12381MapG1 | bls12381MapG2
  | aspcontext | userOpSender | contextWriter "ExecutionContext option"

type_synonym run_result = "(bytes \<times> error option) option"

text \<open>\<open>if err != nil { return nil, err }\<close>, and the value of a byte string as a \<open>big.Int\<close>.\<close>

definition if_ok :: "error + 'a \<Rightarrow> ('a \<Rightarrow> run_result) \<Rightarrow> run_result" where
  "if_ok r k = (case r of Inl err \<Rightarrow> Some ([], Some err) | Inr a \<Rightarrow> k a)"

definition returns :: "bytes \<Rightarrow> run_result" where
  "returns bs = Some (bs, None)"

definition fails :: "error \<Rightarrow> run_result" where
  "fails err = Some ([], Some err)"

definition big_SetBytes :: "bytes \<Rightarrow> int" where
  "big_SetBytes bs = int (be_nat bs)"

fun nat_bytes :: "nat \<Rightarrow> bytes" where
  "nat_bytes n = (if n = 0 then [] else nat_bytes (n div 256) @ [of_nat (n mod 256)])"

declare nat_bytes.simps [simp del]

definition big_Bytes :: "int \<Rightarrow> bytes" where
  "big_Bytes i = nat_bytes (nat \<bar>i\<bar>)"

fun nat_BitLen :: "nat \<Rightarrow> nat" where
  "nat_BitLen n = (if n = 0 then 0 else Suc (nat_BitLen (n div 2)))"

declare nat_BitLen.simps [simp del]

definition BitLen :: "int \<Rightarrow> nat" where
  "BitLen i = nat_BitLen (nat \<bar>i\<bar>)"

section \<open>Hashes and identity\<close>

definition ecrecover_RequiredGas :: "ext \<Rightarrow> bytes \<Rightarrow> u64" where
  "ecrecover_RequiredGas X input = EcrecoverGas (Params X)"

definition ecrecover_Run :: "ext \<Rightarrow> crypto \<Rightarrow> bytes \<Rightarrow> run_result" where
  "ecrecover_Run X C input = do {
     let input = RightPadBytes X input 128;
     rb \<leftarrow> slice input 64 96;
     sb \<leftarrow> slice input 96 128;
     vb \<leftarrow> index input 63;
     let r = big_SetBytes rb;
     let s = big_SetBytes sb;
     let v = vb - 27;
     top \<leftarrow> slice input 32 63;
     if \<not> allZero top \<or> \<not> ValidateSignatureValues C v r s False then returns []
     else do {
       rs \<leftarrow> slice input 64 128;
       h \<leftarrow> slice input 0 32;
       let sig = rs @ [v];
       case Ecrecover C h sig of
         Inl err \<Rightarrow> returns []
       | Inr pubKey \<Rightarrow> do {
           key \<leftarrow> slice pubKey 1 (length pubKey);
           returns (LeftPadBytes X (drop 12 (Bytes32 (Keccak256Hash X key))) 32) } } }"

text \<open>Gas per word of input plus a base, with the wrap-around of the source.\<close>

definition per_word :: "u64 \<Rightarrow> u64 \<Rightarrow> bytes \<Rightarrow> u64" where
  "per_word per base input = of_nat (length input + 31) div 32 * per + base"

definition sha256hash_RequiredGas :: "ext \<Rightarrow> bytes \<Rightarrow> u64" where
  "sha256hash_RequiredGas X = per_word (Sha256PerWordGas (Params X)) (Sha256BaseGas (Params X))"

definition sha256hash_Run :: "bytes \<Rightarrow> run_result" where
  "sha256hash_Run input = returns (Sum256 input)"

definition ripemd160hash_RequiredGas :: "ext \<Rightarrow> bytes \<Rightarrow> u64" where
  "ripemd160hash_RequiredGas X = per_word (Ripemd160PerWordGas (Params X)) (Ripemd160BaseGas (Params X))"

definition ripemd160hash_Run :: "ext \<Rightarrow> crypto \<Rightarrow> bytes \<Rightarrow> run_result" where
  "ripemd160hash_Run X C input = returns (LeftPadBytes X (Ripemd160 C input) 32)"

definition dataCopy_RequiredGas :: "ext \<Rightarrow> bytes \<Rightarrow> u64" where
  "dataCopy_RequiredGas X = per_word (IdentityPerWordGas (Params X)) (IdentityBaseGas (Params X))"

definition dataCopy_Run :: "bytes \<Rightarrow> run_result" where
  "dataCopy_Run input = returns input"

section \<open>Modular exponentiation\<close>

definition modexpMultComplexity :: "int \<Rightarrow> int" where
  "modexpMultComplexity x =
     (if x \<le> 64 then x * x
      else if x \<le> 1024 then x * x div 4 + (96 * x - 3072)
      else x * x div 16 + (480 * x - 199680))"

definition drop_header :: "bytes \<Rightarrow> bytes" where
  "drop_header input = (if 96 < length input then drop 96 input else [])"

definition expHead_of :: "ext \<Rightarrow> bytes \<Rightarrow> int \<Rightarrow> int \<Rightarrow> int option" where
  "expHead_of X input baseLen expLen =
     (if int (length input) \<le> baseLen then Some 0
      else if 32 < expLen
      then map_option big_SetBytes (getData X input (word_of_int baseLen) 32)
      else map_option big_SetBytes (getData X input (word_of_int baseLen) (word_of_int expLen)))"

definition big_uint64_sat :: "int \<Rightarrow> u64" where
  "big_uint64_sat g = (if 64 < BitLen g then 0xffffffffffffffff else word_of_int g)"

definition bigModExp_RequiredGas :: "ext \<Rightarrow> bool \<Rightarrow> bytes \<Rightarrow> u64 option" where
  "bigModExp_RequiredGas X eip2565 input = do {
     b \<leftarrow> getData X input 0 32;
     e \<leftarrow> getData X input 32 32;
     m \<leftarrow> getData X input 64 32;
     let baseLen = big_SetBytes b;
     let expLen = big_SetBytes e;
     let modLen = big_SetBytes m;
     expHead \<leftarrow> expHead_of X (drop_header input) baseLen expLen;
     let msb = (if 0 < BitLen expHead then int (BitLen expHead) - 1 else 0);
     let adjExpLen = (if 32 < expLen then 8 * (expLen - 32) else 0) + msb;
     let gas = max modLen baseLen;
     if eip2565 then
       let gas = (gas + 7) div 8;
           gas = gas * gas;
           gas = gas * max adjExpLen 1;
           gas = gas div 3
       in Some (if 64 < BitLen gas then 0xffffffffffffffff
                else if (word_of_int gas :: u64) < 200 then 200
                else word_of_int gas)
     else
       let gas = modexpMultComplexity gas;
           gas = gas * max adjExpLen 1;
           gas = gas div 20
       in Some (big_uint64_sat gas) }"

text \<open>\<open>big.Int.Exp\<close> with a positive modulus, by squaring.\<close>

fun exp_mod :: "nat \<Rightarrow> nat \<Rightarrow> nat \<Rightarrow> nat" where
  "exp_mod b e m =
     (if e = 0 then 1 mod m
      else let r = exp_mod (b * b mod m) (e div 2) m
           in if odd e then b * r mod m else r)"

declare exp_mod.simps [simp del]

definition big_Exp :: "int \<Rightarrow> int \<Rightarrow> int \<Rightarrow> int" where
  "big_Exp x y m = int (exp_mod (nat x) (nat y) (nat m))"

definition bigModExp_Run :: "ext \<Rightarrow> bytes \<Rightarrow> run_result" where
  "bigModExp_Run X input = do {
     b \<leftarrow> getData X input 0 32;
     e \<leftarrow> getData X input 32 32;
     m \<leftarrow> getData X input 64 32;
     let baseLen = (word_of_int (big_SetBytes b) :: u64);
     let expLen = (word_of_int (big_SetBytes e) :: u64);
     let modLen = (word_of_int (big_SetBytes m) :: u64);
     let input = drop_header input;
     if baseLen = 0 \<and> modLen = 0 then returns []
     else do {
       bb \<leftarrow> getData X input 0 baseLen;
       eb \<leftarrow> getData X input baseLen expLen;
       mb \<leftarrow> getData X input (baseLen + expLen) modLen;
       let base = big_SetBytes bb;
       let ex = big_SetBytes eb;
       let md = big_SetBytes mb;
       if BitLen md = 0 then returns (LeftPadBytes X [] (sint modLen))
       else if BitLen base = 1 then returns (LeftPadBytes X (big_Bytes (base mod md)) (sint modLen))
       else returns (LeftPadBytes X (big_Bytes (big_Exp base ex md)) (sint modLen)) } }"

section \<open>The bn256 curve\<close>

definition newCurvePoint :: "crypto \<Rightarrow> bytes \<Rightarrow> error + curve_point" where
  "newCurvePoint C blob = (case bn_Unmarshal1 C blob of Inl err \<Rightarrow> Inl err | Inr p \<Rightarrow> Inr p)"

definition newTwistPoint :: "crypto \<Rightarrow> bytes \<Rightarrow> error + curve_point" where
  "newTwistPoint C blob = (case bn_Unmarshal2 C blob of Inl err \<Rightarrow> Inl err | Inr p \<Rightarrow> Inr p)"

definition runBn256Add :: "ext \<Rightarrow> crypto \<Rightarrow> bytes \<Rightarrow> run_result" where
  "runBn256Add X C input = do {
     xb \<leftarrow> getData X input 0 64;
     if_ok (newCurvePoint C xb) (\<lambda>x. do {
       yb \<leftarrow> getData X input 64 64;
       if_ok (newCurvePoint C yb) (\<lambda>y. returns (bn_Marshal1 C (bn_Add C x y))) }) }"

definition bn256AddIstanbul_RequiredGas :: "ext \<Rightarrow> bytes \<Rightarrow> u64" where
  "bn256AddIstanbul_RequiredGas X input = Bn256AddGasIstanbul (Params X)"

definition bn256AddByzantium_RequiredGas :: "ext \<Rightarrow> bytes \<Rightarrow> u64" where
  "bn256AddByzantium_RequiredGas X input = Bn256AddGasByzantium (Params X)"

definition runBn256ScalarMul :: "ext \<Rightarrow> crypto \<Rightarrow> bytes \<Rightarrow> run_result" where
  "runBn256ScalarMul X C input = do {
     pb \<leftarrow> getData X input 0 64;
     if_ok (newCurvePoint C pb) (\<lambda>p. do {
       sb \<leftarrow> getData X input 64 32;
       returns (bn_Marshal1 C (bn_ScalarMult C p (big_SetBytes sb))) }) }"

definition bn256ScalarMulIstanbul_RequiredGas :: "ext \<Rightarrow> bytes \<Rightarrow> u64" where
  "bn256ScalarMulIstanbul_RequiredGas X input = Bn256ScalarMulGasIstanbul (Params X)"

definition bn256ScalarMulByzantium_RequiredGas :: "ext \<Rightarrow> bytes \<Rightarrow> u64" where
  "bn256ScalarMulByzantium_RequiredGas X input = Bn256ScalarMulGasByzantium (Params X)"

definition true32Byte :: bytes where "true32Byte = replicate 31 0 @ [1]"
definition false32Byte :: bytes where "false32Byte = replicate 32 0"

text \<open>The loop over the pairs, on the blocks of 192 bytes; the first bad point ends it.\<close>

primrec bn_pairs ::
  "crypto \<Rightarrow> bytes list \<Rightarrow> curve_point list \<Rightarrow> curve_point list \<Rightarrow> error + curve_point list \<times> curve_point list" where
  "bn_pairs C [] cs ts = Inr (cs, ts)"
| "bn_pairs C (block # blocks) cs ts =
     (case newCurvePoint C (take 64 block) of
        Inl err \<Rightarrow> Inl err
      | Inr c \<Rightarrow>
          (case newTwistPoint C (drop 64 block) of
             Inl err \<Rightarrow> Inl err
           | Inr t \<Rightarrow> bn_pairs C blocks (cs @ [c]) (ts @ [t])))"

definition runBn256Pairing :: "crypto \<Rightarrow> bytes \<Rightarrow> run_result" where
  "runBn256Pairing C input =
     (if 0 < length input mod 192 then fails (ErrMsg ''bad elliptic curve pairing size'')
      else if_ok (bn_pairs C (chunks 192 input) [] []) (\<lambda>(cs, ts).
             returns (if bn_PairingCheck C cs ts then true32Byte else false32Byte)))"

definition bn256PairingIstanbul_RequiredGas :: "ext \<Rightarrow> bytes \<Rightarrow> u64" where
  "bn256PairingIstanbul_RequiredGas X input =
     Bn256PairingBaseGasIstanbul (Params X)
       + of_nat (length input div 192) * Bn256PairingPerPointGasIstanbul (Params X)"

definition bn256PairingByzantium_RequiredGas :: "ext \<Rightarrow> bytes \<Rightarrow> u64" where
  "bn256PairingByzantium_RequiredGas X input =
     Bn256PairingBaseGasByzantium (Params X)
       + of_nat (length input div 192) * Bn256PairingPerPointGasByzantium (Params X)"

section \<open>BLAKE2\<close>

definition le_u64 :: "bytes \<Rightarrow> u64" where
  "le_u64 bs = foldr (\<lambda>b a. a * 256 + ucast b) bs 0"

primrec put_le_n :: "nat \<Rightarrow> u64 \<Rightarrow> bytes" where
  "put_le_n 0 w = []"
| "put_le_n (Suc n) w = ucast w # put_le_n n (w div 256)"

definition blake2F_RequiredGas :: "bytes \<Rightarrow> u64" where
  "blake2F_RequiredGas input =
     (if length input \<noteq> 213 then 0 else ucast (be_word32 (take 4 input)))"

definition blake2F_Run :: "crypto \<Rightarrow> bytes \<Rightarrow> run_result" where
  "blake2F_Run C input =
     (if length input \<noteq> 213 then fails (ErrMsg ''invalid input length'')
      else if input ! 212 \<noteq> 0 \<and> input ! 212 \<noteq> 1 then fails (ErrMsg ''invalid final flag'')
      else
        let rounds = be_word32 (take 4 input);
            final = (input ! 212 = 1);
            h = map (\<lambda>i. le_u64 (take 8 (drop (4 + i * 8) input))) [0..<8];
            m = map (\<lambda>i. le_u64 (take 8 (drop (68 + i * 8) input))) [0..<16];
            t = (le_u64 (take 8 (drop 196 input)), le_u64 (take 8 (drop 204 input)));
            h = blake2b_F C h m t final rounds
        in returns (concat (map (put_le_n 8) h)))"

section \<open>The BLS12-381 curve\<close>

definition bls_length_err :: error where
  "bls_length_err = ErrMsg ''invalid input length''"

definition bls12381G1Add_RequiredGas :: "ext \<Rightarrow> bytes \<Rightarrow> u64" where
  "bls12381G1Add_RequiredGas X input = Bls12381G1AddGas (Params X)"

definition bls12381G1Add_Run :: "crypto \<Rightarrow> bytes \<Rightarrow> run_result" where
  "bls12381G1Add_Run C input =
     (if length input \<noteq> 256 then fails bls_length_err
      else if_ok (g1_DecodePoint C (take 128 input)) (\<lambda>p0.
           if_ok (g1_DecodePoint C (drop 128 input)) (\<lambda>p1.
             returns (g1_EncodePoint C (g1_Add C p0 p1)))))"

definition bls12381G1Mul_RequiredGas :: "ext \<Rightarrow> bytes \<Rightarrow> u64" where
  "bls12381G1Mul_RequiredGas X input = Bls12381G1MulGas (Params X)"

definition bls12381G1Mul_Run :: "crypto \<Rightarrow> bytes \<Rightarrow> run_result" where
  "bls12381G1Mul_Run C input =
     (if length input \<noteq> 160 then fails bls_length_err
      else if_ok (g1_DecodePoint C (take 128 input)) (\<lambda>p0.
             returns (g1_EncodePoint C (g1_MulScalar C p0 (big_SetBytes (drop 128 input))))))"

text \<open>The discount of a multi-exponentiation of \<open>k\<close> pairs, shared by both groups.\<close>

definition multiexp_gas :: "ext \<Rightarrow> u64 \<Rightarrow> nat \<Rightarrow> u64 option" where
  "multiexp_gas X mulGas k =
     (if k = 0 then Some 0
      else do {
        let tab = Bls12381MultiExpDiscountTable (Params X);
        discount \<leftarrow> (if k < length tab then index tab (k - 1)
                     else if tab = [] then None else index tab (length tab - 1));
        Some (of_nat k * mulGas * discount div 1000) })"

definition bls12381G1MultiExp_RequiredGas :: "ext \<Rightarrow> bytes \<Rightarrow> u64 option" where
  "bls12381G1MultiExp_RequiredGas X input =
     multiexp_gas X (Bls12381G1MulGas (Params X)) (length input div 160)"

primrec decode_pairs ::
  "(bytes \<Rightarrow> error + curve_point) \<Rightarrow> nat \<Rightarrow> bytes list \<Rightarrow> error + (curve_point \<times> int) list" where
  "decode_pairs decode n [] = Inr []"
| "decode_pairs decode n (block # blocks) =
     (case decode (take n block) of
        Inl err \<Rightarrow> Inl err
      | Inr p \<Rightarrow>
          (case decode_pairs decode n blocks of
             Inl err \<Rightarrow> Inl err
           | Inr ps \<Rightarrow> Inr ((p, big_SetBytes (drop n block)) # ps)))"

definition bls12381G1MultiExp_Run :: "crypto \<Rightarrow> bytes \<Rightarrow> run_result" where
  "bls12381G1MultiExp_Run C input =
     (if length input = 0 \<or> length input mod 160 \<noteq> 0 then fails bls_length_err
      else if_ok (decode_pairs (g1_DecodePoint C) 128 (chunks 160 input)) (\<lambda>ps.
             returns (g1_EncodePoint C (fst (g1_MultiExp C (map fst ps) (map snd ps))))))"

definition bls12381G2Add_RequiredGas :: "ext \<Rightarrow> bytes \<Rightarrow> u64" where
  "bls12381G2Add_RequiredGas X input = Bls12381G2AddGas (Params X)"

definition bls12381G2Add_Run :: "crypto \<Rightarrow> bytes \<Rightarrow> run_result" where
  "bls12381G2Add_Run C input =
     (if length input \<noteq> 512 then fails bls_length_err
      else if_ok (g2_DecodePoint C (take 256 input)) (\<lambda>p0.
           if_ok (g2_DecodePoint C (drop 256 input)) (\<lambda>p1.
             returns (g2_EncodePoint C (g2_Add C p0 p1)))))"

definition bls12381G2Mul_RequiredGas :: "ext \<Rightarrow> bytes \<Rightarrow> u64" where
  "bls12381G2Mul_RequiredGas X input = Bls12381G2MulGas (Params X)"

definition bls12381G2Mul_Run :: "crypto \<Rightarrow> bytes \<Rightarrow> run_result" where
  "bls12381G2Mul_Run C input =
     (if length input \<noteq> 288 then fails bls_length_err
      else if_ok (g2_DecodePoint C (take 256 input)) (\<lambda>p0.
             returns (g2_EncodePoint C (g2_MulScalar C p0 (big_SetBytes (drop 256 input))))))"

definition bls12381G2MultiExp_RequiredGas :: "ext \<Rightarrow> bytes \<Rightarrow> u64 option" where
  "bls12381G2MultiExp_RequiredGas X input =
     multiexp_gas X (Bls12381G2MulGas (Params X)) (length input div 288)"

definition bls12381G2MultiExp_Run :: "crypto \<Rightarrow> bytes \<Rightarrow> run_result" where
  "bls12381G2MultiExp_Run C input =
     (if length input = 0 \<or> length input mod 288 \<noteq> 0 then fails bls_length_err
      else if_ok (decode_pairs (g2_DecodePoint C) 256 (chunks 288 input)) (\<lambda>ps.
             case g2_MultiExp C (map fst ps) (map snd ps) of
               (r, Some expErr) \<Rightarrow> fails expErr
             | (r, None) \<Rightarrow> returns (g2_EncodePoint C r)))"

definition bls12381Pairing_RequiredGas :: "ext \<Rightarrow> bytes \<Rightarrow> u64" where
  "bls12381Pairing_RequiredGas X input =
     Bls12381PairingBaseGas (Params X)
       + of_nat (length input div 384) * Bls12381PairingPerPairGas (Params X)"

primrec bls_pairs ::
  "crypto \<Rightarrow> bytes list \<Rightarrow> (curve_point \<times> curve_point) list \<Rightarrow> error + (curve_point \<times> curve_point) list" where
  "bls_pairs C [] acc = Inr acc"
| "bls_pairs C (block # blocks) acc =
     (case g1_DecodePoint C (take 128 block) of
        Inl err \<Rightarrow> Inl err
      | Inr p1 \<Rightarrow>
          (case g2_DecodePoint C (drop 128 block) of
             Inl err \<Rightarrow> Inl err
           | Inr p2 \<Rightarrow>
               if \<not> g1_InCorrectSubgroup C p1
               then Inl (ErrMsg ''g1 point is not on correct subgroup'')
               else if \<not> g2_InCorrectSubgroup C p2
               then Inl (ErrMsg ''g2 point is not on correct subgroup'')
               else bls_pairs C blocks (acc @ [(p1, p2)])))"

definition bls12381Pairing_Run :: "crypto \<Rightarrow> bytes \<Rightarrow> run_result" where
  "bls12381Pairing_Run C input =
     (if length input = 0 \<or> length input mod 384 \<noteq> 0 then fails bls_length_err
      else if_ok (bls_pairs C (chunks 384 input) []) (\<lambda>ps.
             returns (if bls_Check C ps then (replicate 32 0)[31 := 1] else replicate 32 0)))"

definition decodeBLS12381FieldElement :: "bytes \<Rightarrow> error + bytes" where
  "decodeBLS12381FieldElement inp =
     (if length inp \<noteq> 64 then Inl (ErrMsg ''invalid field element length'')
      else if \<not> list_all (\<lambda>b. b = 0) (take 16 inp)
      then Inl (ErrMsg ''invalid field element top bytes'')
      else Inr (drop 16 inp))"

definition bls12381MapG1_RequiredGas :: "ext \<Rightarrow> bytes \<Rightarrow> u64" where
  "bls12381MapG1_RequiredGas X input = Bls12381MapG1Gas (Params X)"

definition bls12381MapG1_Run :: "crypto \<Rightarrow> bytes \<Rightarrow> run_result" where
  "bls12381MapG1_Run C input =
     (if length input \<noteq> 64 then fails bls_length_err
      else if_ok (decodeBLS12381FieldElement input) (\<lambda>fe.
           if_ok (g1_MapToCurve C fe) (\<lambda>r. returns (g1_EncodePoint C r))))"

definition bls12381MapG2_RequiredGas :: "ext \<Rightarrow> bytes \<Rightarrow> u64" where
  "bls12381MapG2_RequiredGas X input = Bls12381MapG2Gas (Params X)"

definition bls12381MapG2_Run :: "crypto \<Rightarrow> bytes \<Rightarrow> run_result" where
  "bls12381MapG2_Run C input =
     (if length input \<noteq> 128 then fails bls_length_err
      else if_ok (decodeBLS12381FieldElement (take 64 input)) (\<lambda>c0.
           if_ok (decodeBLS12381FieldElement (drop 64 input)) (\<lambda>c1.
             let fe = copy_at (copy_at (replicate 96 0) 48 c0) 0 (take 48 c1)
             in if_ok (g2_MapToCurve C fe) (\<lambda>r. returns (g2_EncodePoint C r)))))"

section \<open>The aspect contracts\<close>

definition aspcontext_RequiredGas :: "bytes \<Rightarrow> u64" where
  "aspcontext_RequiredGas input = 5000"

definition aspcontext_Run :: "aspect_runtime \<Rightarrow> actx \<Rightarrow> bytes \<Rightarrow> run_result" where
  "aspcontext_Run A h input =
     (if length input < 20 then returns []
      else let addr = of_nat (be_nat (take 20 input)); key = drop 20 input
           in if_ok (GetAspectContext A h addr key) returns)"

definition userOpSender_RequiredGas :: "bytes \<Rightarrow> u64" where
  "userOpSender_RequiredGas input = 5000"

definition userOpSender_Run :: "aspect_runtime \<Rightarrow> actx \<Rightarrow> bytes \<Rightarrow> run_result" where
  "userOpSender_Run A h input =
     (if length input = 0 then returns []
      else let userOpHash = SetBytes (drop (length input - 32) input)
           in if_ok (JITSenderAspectByContext A h userOpHash) (\<lambda>aspectId.
                returns (Bytes32 (addr_word aspectId))))"

definition contextWriter_RequiredGas :: "bytes \<Rightarrow> u64" where
  "contextWriter_RequiredGas input = 5000"

definition loadParamBytes :: "bytes \<Rightarrow> nat \<Rightarrow> (error + bytes) option" where
  "loadParamBytes input idx =
     (let offsetLowerBound = idx * 32;
          offsetUpperbound = offsetLowerBound + 32
      in if length input < offsetUpperbound then Some (Inl (ErrMsg ''invalid input data length''))
         else do {
           ob \<leftarrow> slice input offsetLowerBound offsetUpperbound;
           let (dataOffset, overflow) = Uint64WithOverflow (SetBytes ob);
           if overflow then Some (Inl (ErrMsg ''invalid offset''))
           else
             let start = dataOffset + 32 in
             if of_nat (length input) < start then Some (Inl (ErrMsg ''invalid param length''))
             else do {
               lb \<leftarrow> slice input (unat dataOffset) (unat start);
               let (dataLen, overflow) = Uint64WithOverflow (SetBytes lb);
               if overflow then Some (Inl (ErrMsg ''invalid length''))
               else
                 let end' = start + dataLen in
                 if of_nat (length input) < end' then Some (Inl (ErrMsg ''invalid param length''))
                 else do {
                   data \<leftarrow> slice input (unat start) (unat end');
                   Some (Inr data) } } })"

definition contextWriter_Run ::
  "aspect_runtime \<Rightarrow> ExecutionContext option \<Rightarrow> actx \<Rightarrow> bytes \<Rightarrow> ((bytes \<times> error option) \<times> actx) option" where
  "contextWriter_Run A ctx h input =
     (if length input < 128 then Some (([], None), h)
      else do {
        key \<leftarrow> loadParamBytes input 0;
        case key of
          Inl err \<Rightarrow> Some (([], Some err), h)
        | Inr key \<Rightarrow> do {
            val \<leftarrow> loadParamBytes input 1;
            case val of
              Inl err \<Rightarrow> Some (([], Some err), h)
            | Inr val \<Rightarrow> do {
                c \<leftarrow> ctx;
                Some (([], SetAspectContext A h (ec_from c) key val), h @ [(ec_from c, key, val)]) } } })"

section \<open>The interface\<close>

fun CloneWithCtx :: "PrecompiledContract \<Rightarrow> ExecutionContext \<Rightarrow> PrecompiledContract" where
  "CloneWithCtx (contextWriter c) ctx = contextWriter (Some ctx)"
| "CloneWithCtx p ctx = p"

fun RequiredGas :: "ext \<Rightarrow> PrecompiledContract \<Rightarrow> bytes \<Rightarrow> u64 option" where
  "RequiredGas X ecrecover input = Some (ecrecover_RequiredGas X input)"
| "RequiredGas X sha256hash input = Some (sha256hash_RequiredGas X input)"
| "RequiredGas X ripemd160hash input = Some (ripemd160hash_RequiredGas X input)"
| "RequiredGas X dataCopy input = Some (dataCopy_RequiredGas X input)"
| "RequiredGas X (bigModExp eip2565) input = bigModExp_RequiredGas X eip2565 input"
| "RequiredGas X bn256AddIstanbul input = Some (bn256AddIstanbul_RequiredGas X input)"
| "RequiredGas X bn256AddByzantium input = Some (bn256AddByzantium_RequiredGas X input)"
| "RequiredGas X bn256ScalarMulIstanbul input = Some (bn256ScalarMulIstanbul_RequiredGas X input)"
| "RequiredGas X bn256ScalarMulByzantium input = Some (bn256ScalarMulByzantium_RequiredGas X input)"
| "RequiredGas X bn256PairingIstanbul input = Some (bn256PairingIstanbul_RequiredGas X input)"
| "RequiredGas X bn256PairingByzantium input = Some (bn256PairingByzantium_RequiredGas X input)"
| "RequiredGas X blake2F input = Some (blake2F_RequiredGas input)"
| "RequiredGas X bls12381G1Add input = Some (bls12381G1Add_RequiredGas X input)"
| "RequiredGas X bls12381G1Mul input = Some (bls12381G1Mul_RequiredGas X input)"
| "RequiredGas X bls12381G1MultiExp input = bls12381G1MultiExp_RequiredGas X input"
| "RequiredGas X bls12381G2Add input = Some (bls12381G2Add_RequiredGas X input)"
| "RequiredGas X bls12381G2Mul input = Some (bls12381G2Mul_RequiredGas X input)"
| "RequiredGas X bls12381G2MultiExp input = bls12381G2MultiExp_RequiredGas X input"
| "RequiredGas X bls12381Pairing input = Some (bls12381Pairing_RequiredGas X input)"
| "RequiredGas X bls12381MapG1 input = Some (bls12381MapG1_RequiredGas X input)"
| "RequiredGas X bls12381MapG2 input = Some (bls12381MapG2_RequiredGas X input)"
| "RequiredGas X aspcontext input = Some (aspcontext_RequiredGas input)"
| "RequiredGas X userOpSender input = Some (userOpSender_RequiredGas input)"
| "RequiredGas X (contextWriter c) input = Some (contextWriter_RequiredGas input)"

fun pure_Run :: "ext \<Rightarrow> crypto \<Rightarrow> aspect_runtime \<Rightarrow> actx \<Rightarrow> PrecompiledContract \<Rightarrow> bytes \<Rightarrow> run_result" where
  "pure_Run X C A h ecrecover input = ecrecover_Run X C input"
| "pure_Run X C A h sha256hash input = sha256hash_Run input"
| "pure_Run X C A h ripemd160hash input = ripemd160hash_Run X C input"
| "pure_Run X C A h dataCopy input = dataCopy_Run input"
| "pure_Run X C A h (bigModExp eip2565) input = bigModExp_Run X input"
| "pure_Run X C A h bn256AddIstanbul input = runBn256Add X C input"
| "pure_Run X C A h bn256AddByzantium input = runBn256Add X C input"
| "pure_Run X C A h bn256ScalarMulIstanbul input = runBn256ScalarMul X C input"
| "pure_Run X C A h bn256ScalarMulByzantium input = runBn256ScalarMul X C input"
| "pure_Run X C A h bn256PairingIstanbul input = runBn256Pairing C input"
| "pure_Run X C A h bn256PairingByzantium input = runBn256Pairing C input"
| "pure_Run X C A h blake2F input = blake2F_Run C input"
| "pure_Run X C A h bls12381G1Add input = bls12381G1Add_Run C input"
| "pure_Run X C A h bls12381G1Mul input = bls12381G1Mul_Run C input"
| "pure_Run X C A h bls12381G1MultiExp input = bls12381G1MultiExp_Run C input"
| "pure_Run X C A h bls12381G2Add input = bls12381G2Add_Run C input"
| "pure_Run X C A h bls12381G2Mul input = bls12381G2Mul_Run C input"
| "pure_Run X C A h bls12381G2MultiExp input = bls12381G2MultiExp_Run C input"
| "pure_Run X C A h bls12381Pairing input = bls12381Pairing_Run C input"
| "pure_Run X C A h bls12381MapG1 input = bls12381MapG1_Run C input"
| "pure_Run X C A h bls12381MapG2 input = bls12381MapG2_Run C input"
| "pure_Run X C A h aspcontext input = aspcontext_Run A h input"
| "pure_Run X C A h userOpSender input = userOpSender_Run A h input"
| "pure_Run X C A h (contextWriter c) input = map_option fst (contextWriter_Run A c h input)"

definition Precompiled_Run ::
  "ext \<Rightarrow> crypto \<Rightarrow> aspect_runtime \<Rightarrow> PrecompiledContract \<Rightarrow> actx \<Rightarrow> bytes
     \<Rightarrow> ((bytes \<times> error option) \<times> actx) option" where
  "Precompiled_Run X C A p h input =
     (case p of
        contextWriter ctx \<Rightarrow> contextWriter_Run A ctx h input
      | _ \<Rightarrow> map_option (\<lambda>r. (r, h)) (pure_Run X C A h p input))"

definition RunPrecompiledContract ::
  "ext \<Rightarrow> crypto \<Rightarrow> aspect_runtime \<Rightarrow> PrecompiledContract \<Rightarrow> bytes \<Rightarrow> u64 \<Rightarrow> actx
     \<Rightarrow> ((bytes \<times> u64 \<times> error option) \<times> actx) option" where
  "RunPrecompiledContract X C A p input suppliedGas h = do {
     gasCost \<leftarrow> RequiredGas X p input;
     if suppliedGas < gasCost then Some (([], 0, Some ErrOutOfGas), h)
     else do {
       ((output, err), h) \<leftarrow> Precompiled_Run X C A p h input;
       Some ((output, suppliedGas - gasCost, err), h) } }"

section \<open>The sets of a fork\<close>

definition PrecompiledContractsHomestead :: "(address \<times> PrecompiledContract) list" where
  "PrecompiledContractsHomestead =
     [(1, ecrecover), (2, sha256hash), (3, ripemd160hash), (4, dataCopy)]"

definition PrecompiledContractsByzantium :: "(address \<times> PrecompiledContract) list" where
  "PrecompiledContractsByzantium =
     [(1, ecrecover), (2, sha256hash), (3, ripemd160hash), (4, dataCopy),
      (5, bigModExp False), (6, bn256AddByzantium), (7, bn256ScalarMulByzantium),
      (8, bn256PairingByzantium)]"

definition PrecompiledContractsIstanbul :: "(address \<times> PrecompiledContract) list" where
  "PrecompiledContractsIstanbul =
     [(1, ecrecover), (2, sha256hash), (3, ripemd160hash), (4, dataCopy),
      (5, bigModExp False), (6, bn256AddIstanbul), (7, bn256ScalarMulIstanbul),
      (8, bn256PairingIstanbul), (9, blake2F)]"

definition PrecompiledContractsBerlin :: "(address \<times> PrecompiledContract) list" where
  "PrecompiledContractsBerlin =
     [(1, ecrecover), (2, sha256hash), (3, ripemd160hash), (4, dataCopy),
      (5, bigModExp True), (6, bn256AddIstanbul), (7, bn256ScalarMulIstanbul),
      (8, bn256PairingIstanbul), (9, blake2F),
      (100, aspcontext), (101, userOpSender), (102, contextWriter None)]"

definition PrecompiledContractsBLS :: "(address \<times> PrecompiledContract) list" where
  "PrecompiledContractsBLS =
     [(10, bls12381G1Add), (11, bls12381G1Mul), (12, bls12381G1MultiExp),
      (13, bls12381G2Add), (14, bls12381G2Mul), (15, bls12381G2MultiExp),
      (16, bls12381Pairing), (17, bls12381MapG1), (18, bls12381MapG2)]"

definition ActivePrecompiles :: "Rules \<Rightarrow> address list" where
  "ActivePrecompiles rules =
     (if IsBerlin rules then map fst PrecompiledContractsBerlin
      else if IsIstanbul rules then map fst PrecompiledContractsIstanbul
      else if IsByzantium rules then map fst PrecompiledContractsByzantium
      else map fst PrecompiledContractsHomestead)"

end
