(* ===== verification/Analysis.thy ===== *)
theory Analysis
  imports Prelude
begin

unbundle bit_operations_syntax

text \<open>
  The jump destination analysis (\<open>src/vm/analysis.go\<close>): a bit vector with one bit per code
  byte, set where the byte is the argument of a PUSH. The model keeps the code's byte writes,
  including the plain stores into the next byte, and its bounds checks (\<open>None\<close> is an index
  panic). \<open>data_map\<close> is the reference: the same classification computed instruction by
  instruction. The main result is that the bit vector and the reference agree on every code
  position and that no write is out of range.
\<close>

section \<open>The bit vector\<close>

type_synonym bitvec = bytes

definition or_index :: "bitvec \<Rightarrow> nat \<Rightarrow> byte \<Rightarrow> bitvec option" where
  "or_index bits k b = do { old \<leftarrow> index bits k; set_index bits k (old OR b) }"

definition set1 :: "bitvec \<Rightarrow> nat \<Rightarrow> bitvec option" where
  "set1 bits pos = or_index bits (pos div 8) (push_bit (pos mod 8) 1)"

definition setN :: "bitvec \<Rightarrow> u16 \<Rightarrow> nat \<Rightarrow> bitvec option" where
  "setN bits flag pos =
     (let a = push_bit (pos mod 8) flag in do {
        bits \<leftarrow> or_index bits (pos div 8) (ucast a);
        let b = (ucast (drop_bit 8 a) :: byte);
        if b \<noteq> 0 then set_index bits (pos div 8 + 1) b else Some bits })"

definition set8 :: "bitvec \<Rightarrow> nat \<Rightarrow> bitvec option" where
  "set8 bits pos =
     (let a = push_bit (pos mod 8) (0xFF :: byte) in do {
        bits \<leftarrow> or_index bits (pos div 8) a;
        set_index bits (pos div 8 + 1) (NOT a) })"

definition set16 :: "bitvec \<Rightarrow> nat \<Rightarrow> bitvec option" where
  "set16 bits pos =
     (let a = push_bit (pos mod 8) (0xFF :: byte) in do {
        bits \<leftarrow> or_index bits (pos div 8) a;
        bits \<leftarrow> set_index bits (pos div 8 + 1) 0xFF;
        set_index bits (pos div 8 + 2) (NOT a) })"

definition codeSegment :: "bitvec \<Rightarrow> nat \<Rightarrow> bool option" where
  "codeSegment bits pos = do {
     b \<leftarrow> index bits (pos div 8);
     Some (drop_bit (pos mod 8) b AND 1 = 0) }"

section \<open>The analysis\<close>

fun mark16 :: "bitvec \<Rightarrow> nat \<Rightarrow> nat \<Rightarrow> (bitvec \<times> nat \<times> nat) option" where
  "mark16 bits pc numbits =
     (if 16 \<le> numbits
      then do { bits \<leftarrow> set16 bits pc; mark16 bits (pc + 16) (numbits - 16) }
      else Some (bits, pc, numbits))"

fun mark8 :: "bitvec \<Rightarrow> nat \<Rightarrow> nat \<Rightarrow> (bitvec \<times> nat \<times> nat) option" where
  "mark8 bits pc numbits =
     (if 8 \<le> numbits
      then do { bits \<leftarrow> set8 bits pc; mark8 bits (pc + 8) (numbits - 8) }
      else Some (bits, pc, numbits))"

definition mark_rest :: "bitvec \<Rightarrow> nat \<Rightarrow> nat \<Rightarrow> (bitvec \<times> nat) option" where
  "mark_rest bits pc numbits =
     (if numbits = 1 then map_option (\<lambda>b. (b, pc + 1)) (set1 bits pc)
      else if numbits = 2 then map_option (\<lambda>b. (b, pc + 2)) (setN bits 3 pc)
      else if numbits = 3 then map_option (\<lambda>b. (b, pc + 3)) (setN bits 7 pc)
      else if numbits = 4 then map_option (\<lambda>b. (b, pc + 4)) (setN bits 15 pc)
      else if numbits = 5 then map_option (\<lambda>b. (b, pc + 5)) (setN bits 31 pc)
      else if numbits = 6 then map_option (\<lambda>b. (b, pc + 6)) (setN bits 63 pc)
      else if numbits = 7 then map_option (\<lambda>b. (b, pc + 7)) (setN bits 127 pc)
      else Some (bits, pc))"

text \<open>The argument of one PUSH: blocks of sixteen, blocks of eight, then the rest.\<close>

definition mark_push :: "bitvec \<Rightarrow> nat \<Rightarrow> nat \<Rightarrow> (bitvec \<times> nat) option" where
  "mark_push bits pc numbits = do {
     (bits, pc, numbits) \<leftarrow>
       (if 8 \<le> numbits
        then do { (bits, pc, numbits) \<leftarrow> mark16 bits pc numbits; mark8 bits pc numbits }
        else Some (bits, pc, numbits));
     mark_rest bits pc numbits }"

declare mark16.simps [simp del] mark8.simps [simp del]

lemma mark16_pc: "mark16 bits pc n = Some (b, pc', n') \<Longrightarrow> pc \<le> pc'"
proof (induction bits pc n rule: mark16.induct)
  case (1 bits pc n)
  then show ?case
    by (subst (asm) (2) mark16.simps) (fastforce simp: bind_eq_Some split: if_splits)
qed

lemma mark8_pc: "mark8 bits pc n = Some (b, pc', n') \<Longrightarrow> pc \<le> pc'"
proof (induction bits pc n rule: mark8.induct)
  case (1 bits pc n)
  then show ?case
    by (subst (asm) (2) mark8.simps) (fastforce simp: bind_eq_Some split: if_splits)
qed

lemma mark_rest_pc: "mark_rest bits pc n = Some (b, pc') \<Longrightarrow> pc \<le> pc'"
  by (auto simp: mark_rest_def split: if_splits)

lemma mark_push_pc: "mark_push bits pc n = Some (b, pc') \<Longrightarrow> pc \<le> pc'"
  by (auto simp: mark_push_def bind_eq_Some split: if_splits
      dest!: mark16_pc mark8_pc mark_rest_pc)

function codeBitmapInternal :: "bytes \<Rightarrow> nat \<Rightarrow> bitvec \<Rightarrow> bitvec option" where
  "codeBitmapInternal code pc bits =
     (if pc < length code
      then if sint (code ! pc) < sint (0x60 :: byte)
           then codeBitmapInternal code (pc + 1) bits
           else do {
             (bits, pc) \<leftarrow> mark_push bits (pc + 1) (unat (code ! pc - 0x60 + 1));
             codeBitmapInternal code pc bits }
      else Some bits)"
  by pat_completeness auto
termination
  by (relation "measure (\<lambda>(code, pc, bits). length code - pc)") (auto dest: mark_push_pc)

definition codeBitmap :: "bytes \<Rightarrow> bitvec option" where
  "codeBitmap code = codeBitmapInternal code 0 (replicate (length code div 8 + 1 + 4) 0)"

declare codeBitmapInternal.simps [simp del]

section \<open>The reference classification\<close>

definition push_width :: "byte \<Rightarrow> nat" where
  "push_width op = (if 0x60 \<le> op \<and> op \<le> 0x7F then unat op - 0x5F else 0)"

function data_map :: "bytes \<Rightarrow> bool list" where
  "data_map [] = []"
| "data_map (op # rest) =
     False # replicate (min (push_width op) (length rest)) True @ data_map (drop (push_width op) rest)"
  by pat_completeness auto
termination
  by (relation "measure length") auto

lemma length_data_map [simp]: "length (data_map code) = length code"
  by (induction code rule: data_map.induct) auto

section \<open>One bit at a time\<close>

definition bitat :: "bitvec \<Rightarrow> nat \<Rightarrow> bool" where
  "bitat bits i \<longleftrightarrow> i div 8 < length bits \<and> bit (bits ! (i div 8)) (i mod 8)"

lemma codeSegment_bitat:
  "i div 8 < length bits \<Longrightarrow> codeSegment bits i = Some (\<not> bitat bits i)"
  by (simp add: codeSegment_def index_def bitat_def bit_iff_and_drop_bit_eq_1 and_one_eq)


text \<open>\<open>marks bits bits' p n\<close>: the vector \<open>bits'\<close> is \<open>bits\<close> with the positions
  \<open>p ..< p + n\<close> added.\<close>

definition marks :: "bitvec \<Rightarrow> bitvec \<Rightarrow> nat \<Rightarrow> nat \<Rightarrow> bool" where
  "marks bits bits' p n \<longleftrightarrow> length bits' = length bits \<and>
     (\<forall>i. bitat bits' i \<longleftrightarrow> bitat bits i \<or> p \<le> i \<and> i < p + n)"

definition clear_from :: "bitvec \<Rightarrow> nat \<Rightarrow> bool" where
  "clear_from bits p \<longleftrightarrow> (\<forall>i\<ge>p. \<not> bitat bits i)"

lemma marks_trans:
  assumes "marks a b p n" "marks b c (p + n) m"
  shows "marks a c p (n + m)"
proof -
  have "bitat c i \<longleftrightarrow> bitat a i \<or> p \<le> i \<and> i < p + (n + m)" for i
    using assms by (cases "i < p"; cases "i < p + n") (simp_all add: marks_def add.assoc)
  then show ?thesis using assms by (simp add: marks_def)
qed

lemma marks_clear: "marks a b p n \<Longrightarrow> clear_from a p \<Longrightarrow> clear_from b (p + n)"
  by (simp add: marks_def clear_from_def)

lemma marks_refl [simp]: "marks a a p 0"
  by (auto simp: marks_def)

lemma marks_length: "marks a b p n \<Longrightarrow> length b = length a"
  by (simp add: marks_def)

lemma or_index_ok:
  "k < length bits \<Longrightarrow> or_index bits k b = Some (bits[k := (bits ! k) OR b])"
  by (simp add: or_index_def index_def set_index_def)

lemma set_index_ok: "k < length bits \<Longrightarrow> set_index bits k b = Some (bits[k := b])"
  by (simp add: set_index_def)

lemma bitat_update:
  "k < length bits \<Longrightarrow>
     bitat (bits[k := b]) i \<longleftrightarrow> (if i div 8 = k then bit b (i mod 8) else bitat bits i)"
  by (auto simp: bitat_def nth_list_update)

lemma bitat_byte: "i div 8 < length bits \<Longrightarrow> bit (bits ! (i div 8)) (i mod 8) = bitat bits i"
  by (simp add: bitat_def)

lemma bit_FF: "bit (255 :: byte) j \<longleftrightarrow> j < 8"
proof -
  have "(255 :: byte) = mask 8" by (simp add: mask_eq_exp_minus_1)
  then show ?thesis by (simp only: bit_mask_iff) auto
qed

lemma bit_shifted_FF: "j < 8 \<Longrightarrow> bit (push_bit r (255 :: byte)) j \<longleftrightarrow> r \<le> j"
  unfolding bit_push_bit_iff bit_FF by auto

lemma bit_not_byte: "j < 8 \<Longrightarrow> bit (NOT (b :: byte)) j \<longleftrightarrow> \<not> bit b j"
  by (simp add: bit_not_iff)

text \<open>Positions in terms of byte and bit offset.\<close>

lemma pos_split: "i = 8 * (i div 8) + i mod 8" "i mod 8 < (8 :: nat)"
  by simp_all

lemma set1_marks:
  assumes "p div 8 < length bits"
  shows "\<exists>bits'. set1 bits p = Some bits' \<and> marks bits bits' p 1"
proof -
  define bits' where "bits' = bits[p div 8 := bits ! (p div 8) OR push_bit (p mod 8) 1]"
  have "set1 bits p = Some bits'"
    using assms by (simp add: set1_def or_index_ok bits'_def)
  moreover have "bitat bits' i \<longleftrightarrow> bitat bits i \<or> p \<le> i \<and> i < p + 1" for i
  proof (cases "i div 8 = p div 8")
    case True
    then have "bitat bits' i \<longleftrightarrow> bitat bits i \<or> i mod 8 = p mod 8"
      using assms bitat_byte[of i bits]
      unfolding bits'_def bitat_update[OF assms] bit_or_iff bit_push_bit_iff bit_1_iff by auto
    also have "i mod 8 = p mod 8 \<longleftrightarrow> i = p"
      using True pos_split(1)[of i] pos_split(1)[of p] by metis
    finally show ?thesis by auto
  next
    case False
    then show ?thesis using assms by (auto simp: bits'_def bitat_update)
  qed
  ultimately show ?thesis by (auto simp: marks_def bits'_def)
qed

lemma set8_marks:
  assumes "p div 8 + 1 < length bits" "clear_from bits p"
  shows "\<exists>bits'. set8 bits p = Some bits' \<and> marks bits bits' p 8"
proof -
  define k r where "k = p div 8" and "r = p mod 8"
  have p: "p = 8 * k + r" "r < 8" by (simp_all add: k_def r_def)
  define a where "a = push_bit r (255 :: byte)"
  define bits' where "bits' = bits[k := bits ! k OR a, k + 1 := NOT a]"
  have "set8 bits p = Some bits'"
    using assms by (simp add: set8_def Let_def or_index_ok set_index_ok bits'_def a_def k_def r_def)
  moreover have "bitat bits' i \<longleftrightarrow> bitat bits i \<or> p \<le> i \<and> i < p + 8" for i
  proof -
    define q j where "q = i div 8" and "j = i mod 8"
    have i: "i = 8 * q + j" "j < 8" by (simp_all add: q_def j_def)
    have "bitat bits' i \<longleftrightarrow> (if q = k + 1 then j < r
           else if q = k then bitat bits i \<or> r \<le> j else bitat bits i)"
      using assms i(2) bitat_byte[of i bits]
      by (auto simp: bits'_def bitat_update bit_or_iff bit_not_byte a_def bit_shifted_FF
          simp flip: q_def j_def k_def)
    then show ?thesis using assms(2) p i by (auto simp: clear_from_def)
  qed
  ultimately show ?thesis by (auto simp: marks_def bits'_def)
qed

lemma set16_marks:
  assumes "p div 8 + 2 < length bits" "clear_from bits p"
  shows "\<exists>bits'. set16 bits p = Some bits' \<and> marks bits bits' p 16"
proof -
  define k r where "k = p div 8" and "r = p mod 8"
  have p: "p = 8 * k + r" "r < 8" by (simp_all add: k_def r_def)
  define a where "a = push_bit r (255 :: byte)"
  define bits' where "bits' = bits[k := bits ! k OR a, k + 1 := 255, k + 2 := NOT a]"
  have "set16 bits p = Some bits'"
    using assms
    by (simp add: set16_def Let_def or_index_ok set_index_ok bits'_def a_def k_def r_def)
  moreover have "bitat bits' i \<longleftrightarrow> bitat bits i \<or> p \<le> i \<and> i < p + 16" for i
  proof -
    define q j where "q = i div 8" and "j = i mod 8"
    have i: "i = 8 * q + j" "j < 8" by (simp_all add: q_def j_def)
    have "bitat bits' i \<longleftrightarrow> (if q = k + 2 then j < r else if q = k + 1 then True
           else if q = k then bitat bits i \<or> r \<le> j else bitat bits i)"
      using assms i(2) bitat_byte[of i bits] bit_FF[of j]
      by (auto simp: bits'_def bitat_update bit_or_iff bit_not_byte a_def bit_shifted_FF
          simp flip: q_def j_def k_def)
    then show ?thesis using assms(2) p i by (auto simp: clear_from_def)
  qed
  ultimately show ?thesis by (auto simp: marks_def bits'_def)
qed

text \<open>The masks of the short writes.\<close>

lemma setN_marks:
  assumes "(p + n) div 8 < length bits" "clear_from bits p" "n \<le> 8"
  shows "\<exists>bits'. setN bits (mask n) p = Some bits' \<and> marks bits bits' p n"
proof -
  define k r where "k = p div 8" and "r = p mod 8"
  have p: "p = 8 * k + r" "r < 8" by (simp_all add: k_def r_def)
  define a where "a = push_bit r (mask n :: u16)"
  have bit_a: "bit a j \<longleftrightarrow> r \<le> j \<and> j < r + n" for j
    using assms(3) p(2) unfolding a_def bit_push_bit_iff bit_mask_iff by auto
  define lo hi where "lo = (ucast a :: byte)" and "hi = (ucast (drop_bit 8 a) :: byte)"
  have lo: "bit lo j \<longleftrightarrow> r \<le> j \<and> j < r + n" and hi: "bit hi j \<longleftrightarrow> 8 + j < r + n" if "j < 8" for j
    using that p(2) by (auto simp: lo_def hi_def bit_ucast_iff bit_drop_bit_eq bit_a)
  define bits' where
    "bits' = (let b = bits[k := bits ! k OR lo] in if hi \<noteq> 0 then b[k + 1 := hi] else b)"
  have k0: "k < length bits"
    using assms(1) div_le_mono[of p "p + n" 8] by (simp add: k_def)
  have k1: "k + 1 < length bits" if "hi \<noteq> 0"
  proof -
    have "\<exists>j<8. bit hi j"
    proof (rule ccontr)
      assume "\<not> ?thesis"
      then have "hi = 0" by (intro bit_word_eqI) simp
      then show False using that by simp
    qed
    then obtain j where "j < 8" "bit hi j" by blast
    then have "8 * (k + 1) \<le> p + n" using hi p(1) by simp
    then show ?thesis using assms(1) div_le_mono[of "8 * (k + 1)" "p + n" 8] by simp
  qed
  have "setN bits (mask n) p = Some bits'"
    using k0 k1
    by (simp add: setN_def Let_def or_index_ok set_index_ok bits'_def lo_def hi_def a_def k_def r_def)
  moreover have "bitat bits' i \<longleftrightarrow> bitat bits i \<or> p \<le> i \<and> i < p + n" for i
  proof -
    define q j where "q = i div 8" and "j = i mod 8"
    have i: "i = 8 * q + j" "j < 8" by (simp_all add: q_def j_def)
    have "bitat bits' i \<longleftrightarrow> (if q = k + 1 then (if hi \<noteq> 0 then bit hi j else bitat bits i)
           else if q = k then bitat bits i \<or> bit lo j else bitat bits i)"
      using k0 k1 i(2) bitat_byte[of i bits]
      by (auto simp: bits'_def Let_def bitat_update bit_or_iff simp flip: q_def j_def k_def)
    then show ?thesis using assms(2,3) p i lo[OF i(2)] hi[OF i(2)] by (auto simp: clear_from_def)
  qed
  ultimately show ?thesis by (auto simp: marks_def bits'_def Let_def)
qed

lemma mask_numerals:
  "(3 :: u16) = mask 2" "(7 :: u16) = mask 3" "(15 :: u16) = mask 4"
  "(31 :: u16) = mask 5" "(63 :: u16) = mask 6" "(127 :: u16) = mask 7"
  by (simp_all add: mask_eq_exp_minus_1)

lemma mark_rest_marks:
  assumes "(p + n) div 8 < length bits" "clear_from bits p" "n < 8"
  shows "\<exists>bits'. mark_rest bits p n = Some (bits', p + n) \<and> marks bits bits' p n"
proof -
  have "n = 0 \<or> n = 1 \<or> n = 2 \<or> n = 3 \<or> n = 4 \<or> n = 5 \<or> n = 6 \<or> n = 7"
    using assms(3) by linarith
  then show ?thesis
    unfolding mark_rest_def mask_numerals
    using setN_marks[OF assms(1,2)] set1_marks[of p bits] assms(1) div_le_mono[of p "p + n" 8]
    by auto
qed

lemma mark8_marks:
  assumes "(p + n) div 8 < length bits" "clear_from bits p"
  shows "\<exists>bits' m. mark8 bits p n = Some (bits', p + m, n - m) \<and> m \<le> n \<and> n - m < 8
           \<and> marks bits bits' p m"
  using assms
proof (induction bits p n rule: mark8.induct)
  case (1 bits p n)
  show ?case
  proof (cases "8 \<le> n")
    case True
    have "p div 8 + 1 < length bits" using "1.prems"(1) True div_le_mono[of "p + 8" "p + n" 8] by simp
    then obtain b where b: "set8 bits p = Some b" "marks bits b p 8"
      using set8_marks "1.prems"(2) by blast
    have "\<exists>bits' m. mark8 b (p + 8) (n - 8) = Some (bits', p + 8 + m, n - 8 - m)
        \<and> m \<le> n - 8 \<and> n - 8 - m < 8 \<and> marks b bits' (p + 8) m"
      using "1.IH"[OF True] "1.prems" True b marks_clear[OF b(2)] marks_length[OF b(2)] by simp
    then obtain bits' m where m: "mark8 b (p + 8) (n - 8) = Some (bits', p + 8 + m, n - 8 - m)"
      "m \<le> n - 8" "n - 8 - m < 8" "marks b bits' (p + 8) m" by blast
    then have "mark8 bits p n = Some (bits', p + (8 + m), n - (8 + m))"
      using True b by (subst mark8.simps) (simp add: add.assoc)
    then show ?thesis using m True marks_trans[OF b(2) m(4)] by fastforce
  next
    case False
    then show ?thesis by (subst mark8.simps) (force intro: exI[of _ 0])
  qed
qed

lemma mark16_marks:
  assumes "(p + n) div 8 < length bits" "clear_from bits p"
  shows "\<exists>bits' m. mark16 bits p n = Some (bits', p + m, n - m) \<and> m \<le> n
           \<and> marks bits bits' p m"
  using assms
proof (induction bits p n rule: mark16.induct)
  case (1 bits p n)
  show ?case
  proof (cases "16 \<le> n")
    case True
    have "p div 8 + 2 < length bits"
      using "1.prems"(1) div_le_mono[of "p + 16" "p + n" 8] True by simp
    then obtain b where b: "set16 bits p = Some b" "marks bits b p 16"
      using set16_marks "1.prems"(2) by blast
    have "\<exists>bits' m. mark16 b (p + 16) (n - 16) = Some (bits', p + 16 + m, n - 16 - m)
        \<and> m \<le> n - 16 \<and> marks b bits' (p + 16) m"
      using "1.IH"[OF True] "1.prems" True b marks_clear[OF b(2)] marks_length[OF b(2)] by simp
    then obtain bits' m where m: "mark16 b (p + 16) (n - 16) = Some (bits', p + 16 + m, n - 16 - m)"
      "m \<le> n - 16" "marks b bits' (p + 16) m" by blast
    then have "mark16 bits p n = Some (bits', p + (16 + m), n - (16 + m))"
      using True b by (subst mark16.simps) (simp add: add.assoc)
    then show ?thesis using m True marks_trans[OF b(2) m(3)] by fastforce
  next
    case False
    then show ?thesis by (subst mark16.simps) (force intro: exI[of _ 0])
  qed
qed

lemma mark_push_marks:
  assumes "(p + n) div 8 < length bits" "clear_from bits p"
  shows "\<exists>bits'. mark_push bits p n = Some (bits', p + n) \<and> marks bits bits' p n"
proof (cases "8 \<le> n")
  case True
  obtain b m where b: "mark16 bits p n = Some (b, p + m, n - m)" "m \<le> n" "marks bits b p m"
    using mark16_marks[OF assms] by blast
  have cb: "clear_from b (p + m)" and lb: "length b = length bits"
    using marks_clear[OF b(3) assms(2)] marks_length[OF b(3)] .
  obtain c l where c: "mark8 b (p + m) (n - m) = Some (c, p + m + l, n - m - l)" "l \<le> n - m"
      "n - m - l < 8" "marks b c (p + m) l"
    using mark8_marks[of "p + m" "n - m" b] assms(1) b(2) cb lb by auto
  have cc: "clear_from c (p + m + l)" and lc: "length c = length bits"
    using marks_clear[OF c(4) cb] marks_length[OF c(4)] lb by simp_all
  have "(p + m + l + (n - m - l)) div 8 < length c"
    using assms(1) lc b(2) c(2) by simp
  then obtain d where d: "mark_rest c (p + m + l) (n - m - l) = Some (d, p + m + l + (n - m - l))"
      "marks c d (p + m + l) (n - m - l)"
    using mark_rest_marks cc c(3) by blast
  have "marks bits d p (m + (l + (n - m - l)))"
    using marks_trans[OF b(3) marks_trans[OF c(4) d(2)]] .
  then show ?thesis using True b c d by (auto simp: mark_push_def)
next
  case False
  then show ?thesis using mark_rest_marks[OF assms] by (auto simp: mark_push_def)
qed

lemma unat_lt_byte: "unat (b :: byte) < 256"
  using unsigned_less[where w = b and ?'a = nat] by simp

lemma sint_byte: "sint (b :: byte) = (if unat b < 128 then int (unat b) else int (unat b) - 256)"
proof -
  have "bit b 7 \<longleftrightarrow> odd (unat b div 128)"
    by (simp add: bit_iff_odd[of "unat b", symmetric, where n = 7, simplified] bit_unsigned_iff)
  moreover have "unat b div 128 = 1" if "\<not> unat b < 128"
    using that unat_lt_byte[of b] by (simp add: div_nat_eqI)
  ultimately have bit7: "bit b 7 \<longleftrightarrow> \<not> unat b < 128" by (cases "unat b < 128") simp_all
  have "uint b < 2 ^ 8" using uint_bounded[of b] by simp
  then have "take_bit 8 (uint b) = uint b" by (simp add: take_bit_int_eq_self)
  then have "sint b = uint b - 256 * of_bool (bit b 7)"
    using signed_take_bit_eq_take_bit_minus[of 7 "uint b"] by (simp add: sint_uint bit_uint_iff)
  then show ?thesis using bit7 by simp
qed

lemma push_width_code:
  assumes "\<not> sint (op :: byte) < sint (0x60 :: byte)"
  shows "unat (op - 0x60 + 1) = push_width op" "push_width op \<le> 32"
proof -
  have u: "96 \<le> unat op" "unat op < 128"
    using assms unat_lt_byte[of op] by (auto simp: sint_byte simp del: of_nat_unat split: if_splits)
  then have "unat (op - 95) = unat op - unat (95 :: byte)"
    by (intro unat_sub) (simp add: word_le_nat_alt)
  then have "unat (op - 0x60 + 1) = unat op - 95" by simp
  then show "unat (op - 0x60 + 1) = push_width op" "push_width op \<le> 32"
    using u by (auto simp: push_width_def word_le_nat_alt)
qed

lemma push_width_other: "sint (op :: byte) < sint (0x60 :: byte) \<Longrightarrow> push_width op = 0"
  by (auto simp: push_width_def sint_byte word_le_nat_alt simp del: of_nat_unat split: if_splits)

lemma data_map_drop:
  assumes "pc < length code"
  shows "data_map (drop pc code) =
    False # replicate (min (push_width (code ! pc)) (length code - Suc pc)) True
      @ data_map (drop (Suc pc + push_width (code ! pc)) code)"
  using assms by (simp add: Cons_nth_drop_Suc[symmetric] add.commute)

lemma codeBitmapInternal_step:
  assumes "pc < length code" "length bits = length code div 8 + 5" "clear_from bits pc"
  shows "\<exists>b. codeBitmapInternal code pc bits
               = codeBitmapInternal code (Suc pc + push_width (code ! pc)) b
           \<and> marks bits b (Suc pc) (push_width (code ! pc))"
proof (cases "sint (code ! pc) < sint (0x60 :: byte)")
  case True
  then show ?thesis
    using assms(1) push_width_other[OF True]
    by (intro exI[of _ bits]) (simp add: codeBitmapInternal.simps[of code pc])
next
  case False
  have c: "clear_from bits (pc + 1)" using assms(3) by (simp add: clear_from_def)
  have "(pc + 1 + push_width (code ! pc)) div 8 \<le> (length code + 32) div 8"
    using push_width_code(2)[OF False] assms(1) by (intro div_le_mono) simp
  then have "(pc + 1 + push_width (code ! pc)) div 8 < length bits" using assms(2) by simp
  from mark_push_marks[OF this c] show ?thesis
    using assms(1) False push_width_code(1)[OF False]
    by (subst codeBitmapInternal.simps) fastforce
qed

lemma codeBitmapInternal_correct:
  assumes "length bits = length code div 8 + 5" "clear_from bits pc"
  shows "\<exists>bits'. codeBitmapInternal code pc bits = Some bits' \<and> length bits' = length bits \<and>
    (\<forall>i<length code. bitat bits' i \<longleftrightarrow>
       (if i < pc then bitat bits i else data_map (drop pc code) ! (i - pc)))"
  using assms
proof (induction "length code - pc" arbitrary: pc bits rule: less_induct)
  case less
  show ?case
  proof (cases "pc < length code")
    case False
    then show ?thesis by (subst codeBitmapInternal.simps) simp
  next
    case pc: True
    define n where "n = push_width (code ! pc)"
    obtain b where b: "codeBitmapInternal code pc bits = codeBitmapInternal code (Suc pc + n) b"
        "marks bits b (Suc pc) n"
      using codeBitmapInternal_step[OF pc less.prems] by (auto simp: n_def)
    have c: "clear_from bits (Suc pc)" using less.prems(2) by (simp add: clear_from_def)
    obtain bits' where bits': "codeBitmapInternal code (Suc pc + n) b = Some bits'"
        "length bits' = length b"
        "\<forall>i<length code. bitat bits' i \<longleftrightarrow> (if i < Suc pc + n then bitat b i
            else data_map (drop (Suc pc + n) code) ! (i - (Suc pc + n)))"
      using less.hyps[of "Suc pc + n" b] pc less.prems(1) marks_clear[OF b(2) c] marks_length[OF b(2)]
      using diff_less_mono2[of pc "Suc pc + n" "length code"] by simp blast
    have "bitat bits' i \<longleftrightarrow> (if i < pc then bitat bits i else data_map (drop pc code) ! (i - pc))"
      if i: "i < length code" for i
    proof -
      consider "i < pc" | "i = pc" | "pc < i" "i < Suc pc + n" | "Suc pc + n \<le> i" by linarith
      then show ?thesis
        using i bits'(3) b(2) less.prems(2)
        by cases (auto simp: data_map_drop[OF pc] marks_def clear_from_def nth_append nth_Cons'
                  simp flip: n_def)
    qed
    then show ?thesis using b bits' by (auto simp: marks_length)
  qed
qed

lemma codeBitmap_bits:
  "\<exists>bits. codeBitmap code = Some bits \<and> length bits = length code div 8 + 5 \<and>
     (\<forall>i<length code. bitat bits i \<longleftrightarrow> data_map code ! i)"
proof -
  define bits0 :: bitvec where "bits0 = replicate (length code div 8 + 5) 0"
  have "clear_from bits0 0" by (simp add: clear_from_def bitat_def bits0_def)
  then show ?thesis
    using codeBitmapInternal_correct[of bits0 code 0]
    by (auto simp: bits0_def codeBitmap_def add.commute)
qed

text \<open>
  C9: The jump destination analysis never writes out of range, and for every position of the
  code the bit vector says "code" exactly when the position is the first byte of an instruction,
  as computed by walking over the code instruction by instruction.
\<close>

theorem codeBitmap_correct:
  "\<exists>bits. codeBitmap code = Some bits \<and> length bits = length code div 8 + 5 \<and>
     (\<forall>pos. pos < length code \<longrightarrow> codeSegment bits pos = Some (\<not> data_map code ! pos))"
proof -
  obtain bits where "codeBitmap code = Some bits" "length bits = length code div 8 + 5"
      "\<forall>i<length code. bitat bits i \<longleftrightarrow> data_map code ! i"
    using codeBitmap_bits by blast
  moreover from this have "codeSegment bits i = Some (\<not> data_map code ! i)" if "i < length code" for i
    using that div_le_mono[of i "length code" 8] by (simp add: codeSegment_bitat)
  ultimately show ?thesis by blast
qed

theorem codeBitmap_correct_witness:
  "\<exists>bits. codeBitmap [0x61, 0x5B, 0x5B, 0x5B] = Some bits \<and> codeSegment bits 2 = Some False
     \<and> codeSegment bits 3 = Some True"
proof -
  have "data_map [0x61, 0x5B, 0x5B, 0x5B] = [False, True, True, False]"
    by (simp add: push_width_def)
  then show ?thesis
    using codeBitmap_correct[of "[0x61, 0x5B, 0x5B, 0x5B]"] by fastforce
qed

end
