(* ===== verification/Contract.thy ===== *)
theory Contract
  imports Analysis Errors
begin

text \<open>
  Contracts (\<open>src/vm/contract.go\<close>): the execution frame of one call. The map of jump
  destination analyses is shared between a contract and the contracts it calls (a Go map is a
  reference), so the maps live in a store \<open>jumptabs\<close> and a contract holds an index into it.
  A contract that is the caller of another is kept as the part of it that the callee reads: its
  address, its own caller's address, its value and its map of analyses, none of which changes
  once the frame runs.
\<close>

section \<open>Frames\<close>

type_synonym jumptabs = "(hash \<rightharpoonup> bitvec) list"

datatype ContractRef =
    AccountRef address
  | ContractOf (of_address: address) (of_CallerAddress: address) (of_value: int) (of_jumpdests: nat)

primrec Ref_Address :: "ContractRef \<Rightarrow> address" where
  "Ref_Address (AccountRef a) = a"
| "Ref_Address (ContractOf a ca v j) = a"

record Contract =
  CallerAddress :: address
  caller :: ContractRef
  self :: ContractRef
  jumpdests :: nat
  analysis :: "bitvec option"
  Code :: bytes
  CodeHash :: hash
  CodeAddr :: "address option"
  Input :: bytes
  Gas :: u64
  c_value :: int

definition NewContract ::
  "jumptabs \<Rightarrow> ContractRef \<Rightarrow> ContractRef \<Rightarrow> int \<Rightarrow> u64 \<Rightarrow> Contract \<times> jumptabs" where
  "NewContract tabs callr object value gas =
     (let c = \<lparr>CallerAddress = Ref_Address callr, caller = callr, self = object,
               jumpdests = 0, analysis = None, Code = [], CodeHash = 0, CodeAddr = None,
               Input = [], Gas = gas, c_value = value\<rparr>
      in case callr of
           ContractOf a ca v j \<Rightarrow> (c\<lparr>jumpdests := j\<rparr>, tabs)
         | AccountRef a \<Rightarrow> (c\<lparr>jumpdests := length tabs\<rparr>, tabs @ [Map.empty]))"

text \<open>The reference to a running contract that the contracts it calls hold.\<close>

definition as_caller :: "Contract \<Rightarrow> ContractRef" where
  "as_caller c = ContractOf (Ref_Address (self c)) (CallerAddress c) (c_value c) (jumpdests c)"

definition isCode :: "jumptabs \<Rightarrow> Contract \<Rightarrow> u64 \<Rightarrow> (bool \<times> Contract \<times> jumptabs) option" where
  "isCode tabs c udest =
     (case analysis c of
        Some a \<Rightarrow> do { b \<leftarrow> codeSegment a (unat udest); Some (b, c, tabs) }
      | None \<Rightarrow>
          if CodeHash c \<noteq> 0 then do {
            tab \<leftarrow> index tabs (jumpdests c);
            (a, tabs) \<leftarrow>
              (case tab (CodeHash c) of
                 Some a \<Rightarrow> Some (a, tabs)
               | None \<Rightarrow> do {
                   a \<leftarrow> codeBitmap (Code c);
                   Some (a, tabs[jumpdests c := tab(CodeHash c \<mapsto> a)]) });
            b \<leftarrow> codeSegment a (unat udest);
            Some (b, c\<lparr>analysis := Some a\<rparr>, tabs) }
          else do {
            a \<leftarrow> codeBitmap (Code c);
            b \<leftarrow> codeSegment a (unat udest);
            Some (b, c\<lparr>analysis := Some a\<rparr>, tabs) })"

definition validJumpdest ::
  "jumptabs \<Rightarrow> Contract \<Rightarrow> u256 \<Rightarrow> (bool \<times> Contract \<times> jumptabs) option" where
  "validJumpdest tabs c dest =
     (let (udest, overflow) = Uint64WithOverflow dest in
      if overflow \<or> length (Code c) \<le> unat udest then Some (False, c, tabs)
      else do {
        op \<leftarrow> index (Code c) (unat udest);
        if op \<noteq> OP_JUMPDEST then Some (False, c, tabs) else isCode tabs c udest })"

definition AsDelegate :: "Contract \<Rightarrow> Contract option" where
  "AsDelegate c =
     (case caller c of
        ContractOf a ca v j \<Rightarrow> Some (c\<lparr>CallerAddress := ca, c_value := v\<rparr>)
      | AccountRef a \<Rightarrow> None)"

definition GetOp :: "Contract \<Rightarrow> u64 \<Rightarrow> OpCode" where
  "GetOp c n = (if unat n < length (Code c) then Code c ! unat n else OP_STOP)"

definition Caller :: "Contract \<Rightarrow> address" where
  "Caller c = CallerAddress c"

definition UseGas :: "Contract \<Rightarrow> u64 \<Rightarrow> bool \<times> Contract" where
  "UseGas c gas = (if Gas c < gas then (False, c) else (True, c\<lparr>Gas := Gas c - gas\<rparr>))"

definition Contract_Address :: "Contract \<Rightarrow> address" where
  "Contract_Address c = Ref_Address (self c)"

definition Value :: "Contract \<Rightarrow> int" where
  "Value c = c_value c"

definition SetCallCode :: "Contract \<Rightarrow> address option \<Rightarrow> hash \<Rightarrow> bytes \<Rightarrow> Contract" where
  "SetCallCode c addr hash code = c\<lparr>Code := code, CodeHash := hash, CodeAddr := addr\<rparr>"

definition SetCodeOptionalHash :: "Contract \<Rightarrow> address option \<Rightarrow> bytes \<times> hash \<Rightarrow> Contract" where
  "SetCodeOptionalHash c addr codeAndHash =
     c\<lparr>Code := fst codeAndHash, CodeHash := snd codeAndHash, CodeAddr := addr\<rparr>"

section \<open>Cached analyses\<close>

text \<open>
  The caches are sound when every stored bit vector is the analysis of the code it is stored for.
  \<open>code_of\<close> assigns to a code hash the code it belongs to; that different codes have different
  hashes is what \<open>frame_code\<close> asks of the frames that run. A Go slice is shorter than
  \<open>2 ^ 63\<close>.
\<close>

definition tabs_ok :: "(hash \<Rightarrow> bytes) \<Rightarrow> jumptabs \<Rightarrow> bool" where
  "tabs_ok code_of tabs \<longleftrightarrow>
     (\<forall>tab\<in>set tabs. \<forall>h a. tab h = Some a \<longrightarrow> codeBitmap (code_of h) = Some a)"

definition frame_code :: "(hash \<Rightarrow> bytes) \<Rightarrow> Contract \<Rightarrow> bool" where
  "frame_code code_of c \<longleftrightarrow>
     (CodeHash c \<noteq> 0 \<longrightarrow> code_of (CodeHash c) = Code c) \<and> length (Code c) < 2 ^ 63"

definition frame_ok :: "(hash \<Rightarrow> bytes) \<Rightarrow> jumptabs \<Rightarrow> Contract \<Rightarrow> bool" where
  "frame_ok code_of tabs c \<longleftrightarrow> frame_code code_of c \<and> jumpdests c < length tabs \<and>
     (\<forall>a. analysis c = Some a \<longrightarrow> codeBitmap (Code c) = Some a)"

text \<open>The reference: a jump destination is a JUMPDEST byte at the start of an instruction.\<close>

definition jumpdest_spec :: "bytes \<Rightarrow> u256 \<Rightarrow> bool" where
  "jumpdest_spec code dest \<longleftrightarrow>
     unat dest < length code \<and> code ! unat dest = OP_JUMPDEST \<and> \<not> data_map code ! unat dest"

lemma index_ok: "i < length xs \<Longrightarrow> index xs i = Some (xs ! i)"
  by (simp add: index_def)

lemma codeBitmap_total:
  "\<exists>a. codeBitmap code = Some a \<and>
     (\<forall>pos<length code. codeSegment a pos = Some (\<not> data_map code ! pos))"
proof -
  obtain a where "codeBitmap code = Some a" "length a = length code div 8 + 5"
      "\<forall>i<length code. bitat a i \<longleftrightarrow> data_map code ! i"
    using codeBitmap_bits by blast
  then show ?thesis
    using div_le_mono[of _ "length code" 8] by (fastforce simp: codeSegment_bitat)
qed

lemma isCode_ok:
  assumes "tabs_ok code_of tabs" "frame_ok code_of tabs c" "unat udest < length (Code c)"
  shows "\<exists>a tabs'. isCode tabs c udest
            = Some (\<not> data_map (Code c) ! unat udest, c\<lparr>analysis := Some a\<rparr>, tabs')
          \<and> codeBitmap (Code c) = Some a \<and> length tabs' = length tabs \<and> tabs_ok code_of tabs'"
proof -
  obtain a where a: "codeBitmap (Code c) = Some a"
      "codeSegment a (unat udest) = Some (\<not> data_map (Code c) ! unat udest)"
    using codeBitmap_total assms(3) by blast
  show ?thesis
  proof (cases "analysis c")
    case (Some b)
    then have "b = a" using assms(2) a(1) by (simp add: frame_ok_def)
    moreover have "c\<lparr>analysis := Some b\<rparr> = c" using Some by (cases c) simp
    ultimately show ?thesis
      using Some a assms(1) by (intro exI[of _ a] exI[of _ tabs]) (simp add: isCode_def)
  next
    case None
    show ?thesis
    proof (cases "CodeHash c \<noteq> 0")
      case True
      then have code: "code_of (CodeHash c) = Code c" and j: "jumpdests c < length tabs"
        using assms(2) by (simp_all add: frame_ok_def frame_code_def)
      define tab where "tab = tabs ! jumpdests c"
      have tab: "codeBitmap (code_of h) = Some b" if "tab h = Some b" for h b
        using that assms(1) nth_mem[OF j] unfolding tabs_ok_def tab_def by blast
      show ?thesis
      proof (cases "tab (CodeHash c)")
        case (Some b)
        then have "b = a" using tab[OF Some] a(1) code by simp
        then show ?thesis
          using None True j a assms(1) Some
          by (intro exI[of _ a] exI[of _ tabs]) (simp add: isCode_def index_ok flip: tab_def)
      next
        case n: None
        define tabs' where "tabs' = tabs[jumpdests c := tab(CodeHash c \<mapsto> a)]"
        have "tabs_ok code_of tabs'"
          using assms(1) tab a(1) code unfolding tabs_ok_def tabs'_def
          by (auto dest!: set_update_subset_insert[THEN subsetD] split: if_splits)
        then show ?thesis
          using None True j a n
          by (intro exI[of _ a] exI[of _ tabs']) (simp add: isCode_def index_ok tabs'_def flip: tab_def)
      qed
    next
      case False
      then show ?thesis
        using None a assms(1) by (intro exI[of _ a] exI[of _ tabs]) (simp add: isCode_def)
    qed
  qed
qed

text \<open>
  C7: With sound caches the jump destination check never panics, accepts a destination exactly
  when it is a JUMPDEST byte at the start of an instruction of the running code, changes nothing
  of the frame but the cached analysis, and leaves the caches sound, whether the analysis was
  already cached in the frame, was cached in the shared map, or had to be computed.
\<close>

theorem validJumpdest_correct:
  assumes "tabs_ok code_of tabs" "frame_ok code_of tabs c"
  shows "\<exists>a tabs'. validJumpdest tabs c dest
            = Some (jumpdest_spec (Code c) dest, c\<lparr>analysis := a\<rparr>, tabs')
          \<and> tabs_ok code_of tabs' \<and> frame_ok code_of tabs' (c\<lparr>analysis := a\<rparr>)"
proof -
  have len: "length (Code c) < 2 ^ 63" using assms(2) by (simp add: frame_ok_def frame_code_def)
  show ?thesis
  proof (cases "IsUint64 dest \<and> unat dest < length (Code c) \<and> Code c ! unat dest = OP_JUMPDEST")
    case True
    then have "unat (Uint64 dest) < length (Code c)" by simp
    from isCode_ok[OF assms this] obtain a tabs' where a:
      "isCode tabs c (Uint64 dest)
         = Some (\<not> data_map (Code c) ! unat dest, c\<lparr>analysis := Some a\<rparr>, tabs')"
      "codeBitmap (Code c) = Some a" "length tabs' = length tabs" "tabs_ok code_of tabs'"
      using True by auto
    then have "frame_ok code_of tabs' (c\<lparr>analysis := Some a\<rparr>)"
      using assms(2) by (simp add: frame_ok_def frame_code_def)
    then show ?thesis
      using True a
      by (intro exI[of _ "Some a"] exI[of _ tabs'])
         (simp add: validJumpdest_def Uint64WithOverflow_def jumpdest_spec_def index_ok)
  next
    case False
    then have "\<not> jumpdest_spec (Code c) dest"
      using len by (auto simp: jumpdest_spec_def IsUint64_def)
    moreover have "validJumpdest tabs c dest = Some (False, c, tabs)"
      using False by (auto simp: validJumpdest_def Uint64WithOverflow_def index_ok)
    ultimately show ?thesis
      using assms by (intro exI[of _ "analysis c"] exI[of _ tabs]) simp
  qed
qed

theorem validJumpdest_correct_witness:
  "\<exists>a tabs'. validJumpdest [Map.empty]
       (SetCallCode (fst (NewContract [] (AccountRef 1) (AccountRef 2) 0 100)) None 7
          [0x60, 0x5B, 0x5B]) 2
     = Some (True, a, tabs')"
proof -
  define c where "c = SetCallCode (fst (NewContract [] (AccountRef 1) (AccountRef 2) 0 100))
    None 7 [0x60, 0x5B, 0x5B]"
  have "tabs_ok (\<lambda>_. [0x60, 0x5B, 0x5B]) [Map.empty]" by (simp add: tabs_ok_def)
  moreover have "frame_ok (\<lambda>_. [0x60, 0x5B, 0x5B]) [Map.empty] c"
    by (simp add: frame_ok_def frame_code_def c_def SetCallCode_def NewContract_def)
  moreover have "jumpdest_spec (Code c) 2"
    by (simp add: jumpdest_spec_def c_def SetCallCode_def push_width_def)
  ultimately show ?thesis
    using validJumpdest_correct[of "\<lambda>_. [0x60, 0x5B, 0x5B]" "[Map.empty]" c 2]
    by (fastforce simp flip: c_def)
qed

text \<open>Gas of a frame only goes down, by exactly what was asked for.\<close>

lemma UseGas_cases:
  "UseGas c g = (if unat g \<le> unat (Gas c) then (True, c\<lparr>Gas := Gas c - g\<rparr>) else (False, c))"
  by (auto simp: UseGas_def word_less_nat_alt)

lemma UseGas_unat:
  "UseGas c g = (True, c') \<Longrightarrow> unat (Gas c) = unat (Gas c') + unat g \<and> c' = c\<lparr>Gas := Gas c - g\<rparr>"
  by (auto simp: UseGas_cases unat_sub word_le_nat_alt split: if_splits)

end
