(* ===== verification/Call_Tree.thy ===== *)
theory Call_Tree
  imports Errors
begin

text \<open>
  The call tree of the tracer (\<open>src/vm/tracer.go\<close>, types \<open>Call\<close> and \<open>CallTree\<close>). The calls are
  linked by pointers in both directions, so the model keeps them in a store (a list that only
  grows) and a pointer is an index into it; \<open>nil\<close> is \<open>None\<close>. The theory shows that every tree the
  operations can build is well formed, that \<open>ParentOf\<close> and \<open>ChildrenOf\<close> are inverse to each
  other, and that a properly nested run of \<open>add\<close> and \<open>exit\<close> records exactly the nesting.
\<close>

section \<open>The tree\<close>

record Call =
  Call_From :: address
  Call_To :: "address option"
  Call_Data :: bytes
  Call_Value :: u256
  Call_Gas :: u256
  Call_Index :: u64
  Parent :: "nat option"
  Children :: "nat list"
  Ret :: bytes
  RemainingGas :: u64
  Err :: "error option"

record CallTree =
  calls :: "Call list"
  ct_root :: "nat option"
  ct_current :: "nat option"
  ct_count :: u64
  ct_lookup :: "u64 \<rightharpoonup> nat"

definition NewCallTree :: CallTree where
  "NewCallTree = \<lparr>calls = [], ct_root = None, ct_current = None, ct_count = 0,
                  ct_lookup = Map.empty\<rparr>"

definition ct_add ::
  "CallTree \<Rightarrow> address \<Rightarrow> address option \<Rightarrow> bytes \<Rightarrow> u256 \<Rightarrow> u256 \<Rightarrow> CallTree" where
  "ct_add c from to data value gas =
     (let new = length (calls c);
          newCall = \<lparr>Call_From = from, Call_To = to, Call_Data = data, Call_Value = value,
                     Call_Gas = gas, Call_Index = ct_count c, Parent = ct_current c,
                     Children = [], Ret = [], RemainingGas = 0, Err = None\<rparr>;
          root = (case ct_root c of None \<Rightarrow> Some new | Some r \<Rightarrow> Some r);
          store = (case ct_current c of
                     None \<Rightarrow> calls c
                   | Some p \<Rightarrow> (calls c)[p := (calls c ! p)\<lparr>Children := Children (calls c ! p) @ [new]\<rparr>])
      in c\<lparr>calls := store @ [newCall], ct_root := root,
           ct_lookup := (ct_lookup c)(ct_count c \<mapsto> new), ct_current := Some new,
           ct_count := ct_count c + 1\<rparr>)"

definition ct_exit :: "CallTree \<Rightarrow> u64 \<Rightarrow> bytes \<Rightarrow> error option \<Rightarrow> CallTree" where
  "ct_exit c leftoverGas ret err =
     (case ct_current c of
        None \<Rightarrow> c
      | Some p \<Rightarrow>
          c\<lparr>calls := (calls c)[p := (calls c ! p)\<lparr>RemainingGas := leftoverGas, Ret := ret, Err := err\<rparr>],
            ct_current := Parent (calls c ! p)\<rparr>)"

definition Root :: "CallTree \<Rightarrow> nat option" where
  "Root c = ct_root c"

definition Current :: "CallTree \<Rightarrow> nat option" where
  "Current c = ct_current c"

definition FindCall :: "CallTree \<Rightarrow> u64 \<Rightarrow> nat option" where
  "FindCall c i = ct_lookup c i"

definition ParentOf :: "CallTree \<Rightarrow> u64 \<Rightarrow> nat option" where
  "ParentOf c i = (case ct_lookup c i of None \<Rightarrow> None | Some node \<Rightarrow> Parent (calls c ! node))"

definition ChildrenOf :: "CallTree \<Rightarrow> u64 \<Rightarrow> nat list" where
  "ChildrenOf c i = (case ct_lookup c i of None \<Rightarrow> [] | Some node \<Rightarrow> Children (calls c ! node))"

definition IsRoot :: "Call \<Rightarrow> bool" where
  "IsRoot c \<longleftrightarrow> Parent c = None"

definition ParentIndex :: "CallTree \<Rightarrow> Call \<Rightarrow> int" where
  "ParentIndex t c = (case Parent c of None \<Rightarrow> -1 | Some p \<Rightarrow> sint (Call_Index (calls t ! p)))"

definition ChildrenIndices :: "CallTree \<Rightarrow> Call \<Rightarrow> u64 list" where
  "ChildrenIndices t c = map (\<lambda>p. Call_Index (calls t ! p)) (Children c)"

definition CurrentCallIndex :: "CallTree \<Rightarrow> u64" where
  "CurrentCallIndex c = (case ct_current c of None \<Rightarrow> 0 | Some p \<Rightarrow> Call_Index (calls c ! p))"

section \<open>Well-formed trees\<close>

definition wf_call :: "CallTree \<Rightarrow> nat \<Rightarrow> bool" where
  "wf_call t i \<longleftrightarrow>
     Call_Index (calls t ! i) = of_nat i \<and>
     (\<forall>p. Parent (calls t ! i) = Some p \<longrightarrow> p < i \<and> i \<in> set (Children (calls t ! p))) \<and>
     (\<forall>j\<in>set (Children (calls t ! i)). i < j \<and> j < length (calls t) \<and> Parent (calls t ! j) = Some i) \<and>
     sorted_wrt (<) (Children (calls t ! i))"

definition wf_call_tree :: "CallTree \<Rightarrow> bool" where
  "wf_call_tree t \<longleftrightarrow>
     length (calls t) < 2 ^ 64 \<and>
     ct_count t = of_nat (length (calls t)) \<and>
     ct_root t = (if calls t = [] then None else Some 0) \<and>
     (\<forall>p. ct_current t = Some p \<longrightarrow> p < length (calls t)) \<and>
     (\<forall>k i. ct_lookup t k = Some i \<longleftrightarrow> i < length (calls t) \<and> k = of_nat i) \<and>
     (\<forall>i<length (calls t). wf_call t i)"

inductive ct_reachable :: "CallTree \<Rightarrow> bool" where
  ct_new: "ct_reachable NewCallTree"
| ct_add: "ct_reachable t \<Longrightarrow> length (calls t) + 1 < 2 ^ 64 \<Longrightarrow>
    ct_reachable (ct_add t from to data value gas)"
| ct_exit: "ct_reachable t \<Longrightarrow> ct_reachable (ct_exit t leftoverGas ret err)"

text \<open>
  The abstract view: a call with its arguments, the calls made inside it in order, and its
  result. \<open>run_trace\<close> performs the operations of one such call; \<open>read_call\<close> reads the record
  back from the store.
\<close>

datatype call_trace =
  CallTrace address "address option" bytes u256 u256 "call_trace list" u64 bytes "error option"

fun run_trace :: "CallTree \<Rightarrow> call_trace \<Rightarrow> CallTree"
  and run_traces :: "CallTree \<Rightarrow> call_trace list \<Rightarrow> CallTree" where
  "run_trace t (CallTrace from to data value gas inner leftoverGas ret err) =
     ct_exit (run_traces (ct_add t from to data value gas) inner) leftoverGas ret err"
| "run_traces t [] = t"
| "run_traces t (c # cs) = run_traces (run_trace t c) cs"

function read_call :: "Call list \<Rightarrow> nat \<Rightarrow> call_trace" where
  "read_call h p =
     CallTrace (Call_From (h ! p)) (Call_To (h ! p)) (Call_Data (h ! p)) (Call_Value (h ! p))
       (Call_Gas (h ! p))
       (map (read_call h) (filter (\<lambda>q. p < q \<and> q < length h) (Children (h ! p))))
       (RemainingGas (h ! p)) (Ret (h ! p)) (Err (h ! p))"
  by pat_completeness auto
termination
  by (relation "measure (\<lambda>(h, p). length h - p)") auto

declare read_call.simps [simp del]

lemma of_nat_u64_inj:
  assumes "i < 2 ^ 64" "j < 2 ^ 64"
  shows "(of_nat i :: u64) = of_nat j \<longleftrightarrow> i = j"
  using assms by (simp add: word_of_nat_eq_iff take_bit_nat_eq_self)

section \<open>The operations on the store\<close>

lemma add_fields:
  "length (calls (ct_add t f r d v g)) = Suc (length (calls t))"
  "ct_current (ct_add t f r d v g) = Some (length (calls t))"
  "ct_count (ct_add t f r d v g) = ct_count t + 1"
  "ct_lookup (ct_add t f r d v g) = (ct_lookup t)(ct_count t \<mapsto> length (calls t))"
  "ct_root (ct_add t f r d v g) = (case ct_root t of None \<Rightarrow> Some (length (calls t)) | Some r \<Rightarrow> Some r)"
  by (simp_all add: ct_add_def Let_def split: option.split)

lemma add_new:
  "calls (ct_add t f r d v g) ! length (calls t) =
     \<lparr>Call_From = f, Call_To = r, Call_Data = d, Call_Value = v, Call_Gas = g,
      Call_Index = ct_count t, Parent = ct_current t, Children = [], Ret = [],
      RemainingGas = 0, Err = None\<rparr>"
  by (simp add: ct_add_def Let_def nth_append split: option.split)

lemma add_old:
  assumes "i < length (calls t)"
  shows "calls (ct_add t f r d v g) ! i =
     (if ct_current t = Some i
      then (calls t ! i)\<lparr>Children := Children (calls t ! i) @ [length (calls t)]\<rparr>
      else calls t ! i)"
  using assms by (auto simp: ct_add_def Let_def nth_append nth_list_update split: option.split)

lemma exit_fields:
  "length (calls (ct_exit t g r e)) = length (calls t)"
  "ct_count (ct_exit t g r e) = ct_count t"
  "ct_lookup (ct_exit t g r e) = ct_lookup t"
  "ct_root (ct_exit t g r e) = ct_root t"
  by (simp_all add: ct_exit_def split: option.split)

lemma exit_current:
  "ct_current (ct_exit t g r e) = (case ct_current t of None \<Rightarrow> None | Some p \<Rightarrow> Parent (calls t ! p))"
  by (simp add: ct_exit_def split: option.split)

lemma exit_nth:
  assumes "i < length (calls t)"
  shows "calls (ct_exit t g r e) ! i =
     (if ct_current t = Some i
      then (calls t ! i)\<lparr>RemainingGas := g, Ret := r, Err := e\<rparr> else calls t ! i)"
  using assms by (auto simp: ct_exit_def nth_list_update split: option.split)

lemma exit_links:
  assumes "i < length (calls t)"
  shows "Children (calls (ct_exit t g r e) ! i) = Children (calls t ! i)"
    "Parent (calls (ct_exit t g r e) ! i) = Parent (calls t ! i)"
    "Call_Index (calls (ct_exit t g r e) ! i) = Call_Index (calls t ! i)"
  using assms by (simp_all add: exit_nth)

lemma wf_exit:
  assumes "wf_call_tree t"
  shows "wf_call_tree (ct_exit t g r e)"
proof -
  have "wf_call (ct_exit t g r e) i" if i: "i < length (calls t)" for i
  proof -
    have w: "wf_call t i" using assms i by (simp add: wf_call_tree_def)
    have "\<And>p. Parent (calls t ! i) = Some p \<Longrightarrow> p < length (calls t)"
      using w i by (force simp: wf_call_def)
    then show ?thesis using w i by (auto simp: wf_call_def exit_links exit_fields)
  qed
  moreover have "p < length (calls t)" if "ct_current (ct_exit t g r e) = Some p" for p
  proof -
    obtain c where c: "ct_current t = Some c" "Parent (calls t ! c) = Some p"
      using \<open>ct_current (ct_exit t g r e) = Some p\<close> by (auto simp: exit_current split: option.splits)
    then have "c < length (calls t)" "wf_call t c" using assms by (auto simp: wf_call_tree_def)
    then show ?thesis using c by (force simp: wf_call_def)
  qed
  moreover have "calls (ct_exit t g r e) = [] \<longleftrightarrow> calls t = []"
    using exit_fields(1)[of t g r e] by (metis length_0_conv)
  ultimately show ?thesis
    using assms unfolding wf_call_tree_def by (simp add: exit_fields)
qed

lemma wf_add:
  assumes "wf_call_tree t" "length (calls t) + 1 < 2 ^ 64"
  shows "wf_call_tree (ct_add t f r d v g)"
proof -
  let ?n = "length (calls t)" and ?t = "ct_add t f r d v g"
  have cur: "p < ?n" if "ct_current t = Some p" for p
    using assms(1) that by (simp add: wf_call_tree_def)
  have old: "Parent (calls ?t ! i) = Parent (calls t ! i)"
      "Call_Index (calls ?t ! i) = Call_Index (calls t ! i)"
      "Children (calls ?t ! i) = Children (calls t ! i) @ (if ct_current t = Some i then [?n] else [])"
    if "i < ?n" for i
    using that by (simp_all add: add_old)
  have new: "Parent (calls ?t ! ?n) = ct_current t" "Call_Index (calls ?t ! ?n) = of_nat ?n"
      "Children (calls ?t ! ?n) = []"
    using assms(1) by (simp_all add: add_new wf_call_tree_def)
  have "wf_call ?t i" if "i < Suc ?n" for i
  proof (cases "i = ?n")
    case True
    then show ?thesis
      using cur by (auto simp: wf_call_def new old)
  next
    case False
    then have i: "i < ?n" using that by simp
    then have w: "wf_call t i" using assms(1) by (simp add: wf_call_tree_def)
    have "\<And>p. Parent (calls t ! i) = Some p \<Longrightarrow> p < ?n" using w i by (force simp: wf_call_def)
    then show ?thesis
      using w i by (auto simp: wf_call_def old new add_fields sorted_wrt_append)
  qed
  moreover have "ct_root ?t = Some 0"
    using assms(1) by (simp add: add_fields wf_call_tree_def split: if_splits)
  moreover have "ct_lookup ?t k = Some i \<longleftrightarrow> i < Suc ?n \<and> k = of_nat i" for k i
    using assms of_nat_u64_inj[of i ?n]
    by (auto simp: add_fields wf_call_tree_def less_Suc_eq)
  moreover have "calls ?t \<noteq> []" using add_fields(1)[of t f r d v g] by auto
  ultimately show ?thesis
    using assms unfolding wf_call_tree_def by (simp add: add_fields add.commute)
qed

lemma wf_NewCallTree: "wf_call_tree NewCallTree"
  by (simp add: wf_call_tree_def NewCallTree_def)

lemma ct_reachable_wf: "ct_reachable t \<Longrightarrow> wf_call_tree t"
  by (induction rule: ct_reachable.induct) (simp_all add: wf_NewCallTree wf_add wf_exit)

section \<open>Nested calls\<close>

text \<open>The part of the store that one call and the calls inside it occupy.\<close>

definition closed_part :: "Call list \<Rightarrow> nat \<Rightarrow> bool" where
  "closed_part h lo \<longleftrightarrow>
     (\<forall>i. lo \<le> i \<and> i < length h \<longrightarrow> (\<forall>c\<in>set (Children (h ! i)). i < c \<and> c < length h))"

lemma read_call_agree:
  assumes "closed_part h lo" "length h \<le> length h'" "\<And>i. lo \<le> i \<Longrightarrow> i < length h \<Longrightarrow> h' ! i = h ! i"
  shows "lo \<le> p \<Longrightarrow> p < length h \<Longrightarrow> read_call h' p = read_call h p"
proof (induction "length h - p" arbitrary: p rule: less_induct)
  case less
  have ch: "p < c \<and> c < length h" if "c \<in> set (Children (h ! p))" for c
    using assms(1) less.prems that unfolding closed_part_def by blast
  have f: "filter (\<lambda>q. p < q \<and> q < length h') (Children (h ! p)) = Children (h ! p)"
    unfolding filter_id_conv using ch assms(2) order.strict_trans2 by blast
  have g: "filter (\<lambda>q. p < q \<and> q < length h) (Children (h ! p)) = Children (h ! p)"
    unfolding filter_id_conv using ch by blast
  have m: "map (read_call h') (Children (h ! p)) = map (read_call h) (Children (h ! p))"
  proof (rule map_cong[OF refl])
    fix c assume "c \<in> set (Children (h ! p))"
    note c = ch[OF this]
    then have "length h - c < length h - p" by arith
    then show "read_call h' c = read_call h c" using less.hyps[of c] less.prems c by simp
  qed
  show ?case
    unfolding read_call.simps[of h' p] read_call.simps[of h p] assms(3)[OF less.prems] f g m ..
qed

text \<open>What a run leaves: the current call is the same, the calls below are untouched except that
  the current one got the new children \<open>ps\<close>, and the new part of the store is closed.\<close>

definition extends :: "CallTree \<Rightarrow> CallTree \<Rightarrow> nat list \<Rightarrow> bool" where
  "extends t t' ps \<longleftrightarrow>
     ct_current t' = ct_current t \<and> length (calls t) \<le> length (calls t') \<and>
     (\<forall>i<length (calls t). calls t' ! i =
        (if ct_current t = Some i
         then (calls t ! i)\<lparr>Children := Children (calls t ! i) @ ps\<rparr> else calls t ! i)) \<and>
     closed_part (calls t') (length (calls t)) \<and>
     (\<forall>p\<in>set ps. length (calls t) \<le> p \<and> p < length (calls t'))"

definition cur_ok :: "CallTree \<Rightarrow> bool" where
  "cur_ok t \<longleftrightarrow> (\<forall>p. ct_current t = Some p \<longrightarrow> p < length (calls t))"

lemma extends_refl: "extends t t []"
  by (simp add: extends_def closed_part_def)

lemma extends_cur: "extends t t' ps \<Longrightarrow> cur_ok t \<Longrightarrow> cur_ok t'"
  by (force simp: extends_def cur_ok_def)

lemma extendsD:
  assumes "extends t t' ps"
  shows "ct_current t' = ct_current t" "length (calls t) \<le> length (calls t')"
    "\<And>i. i < length (calls t) \<Longrightarrow> calls t' ! i =
        (if ct_current t = Some i
         then (calls t ! i)\<lparr>Children := Children (calls t ! i) @ ps\<rparr> else calls t ! i)"
    "closed_part (calls t') (length (calls t))"
    "\<And>p. p \<in> set ps \<Longrightarrow> length (calls t) \<le> p \<and> p < length (calls t')"
  using assms by (simp_all add: extends_def)

lemma extends_same:
  assumes "cur_ok t" "extends t t' ps" "extends t' t'' qs"
    and "length (calls t) \<le> i" "i < length (calls t')"
  shows "calls t'' ! i = calls t' ! i"
proof -
  have "ct_current t' \<noteq> Some i"
    using assms(1,4) extendsD(1)[OF assms(2)] by (auto simp: cur_ok_def)
  then show ?thesis using extendsD(3)[OF assms(3)] assms(5) by simp
qed

lemma closed_part_trans:
  assumes "closed_part h lo" "closed_part h' (length h)" "length h \<le> length h'"
    and "\<And>i. lo \<le> i \<Longrightarrow> i < length h \<Longrightarrow> h' ! i = h ! i"
  shows "closed_part h' lo"
  unfolding closed_part_def
proof (intro allI impI ballI)
  fix i c assume i: "lo \<le> i \<and> i < length h'" "c \<in> set (Children (h' ! i))"
  show "i < c \<and> c < length h'"
  proof (cases "i < length h")
    case True
    then have "c \<in> set (Children (h ! i))" using i assms(4)[of i] by simp
    then have "i < c \<and> c < length h" using assms(1) i True unfolding closed_part_def by blast
    then show ?thesis using assms(3) by simp
  next
    case False
    then have "length h \<le> i \<and> i < length h'" using i by simp
    then show ?thesis using i(2) assms(2) unfolding closed_part_def by blast
  qed
qed

lemma extends_trans:
  assumes "cur_ok t" "extends t t' ps" "extends t' t'' qs"
  shows "extends t t'' (ps @ qs)"
    "\<And>p. length (calls t) \<le> p \<Longrightarrow> p < length (calls t') \<Longrightarrow>
       read_call (calls t'') p = read_call (calls t') p"
proof -
  note le = extendsD(2)[OF assms(2)] extendsD(2)[OF assms(3)]
  show "read_call (calls t'') p = read_call (calls t') p"
    if "length (calls t) \<le> p" "p < length (calls t')" for p
    using read_call_agree[OF extendsD(4)[OF assms(2)] le(2) extends_same[OF assms] that] .
  have "closed_part (calls t'') (length (calls t))"
    using closed_part_trans[OF extendsD(4)[OF assms(2)] extendsD(4)[OF assms(3)] le(2)
        extends_same[OF assms]] .
  moreover have "calls t'' ! i = (if ct_current t = Some i
      then (calls t ! i)\<lparr>Children := Children (calls t ! i) @ (ps @ qs)\<rparr> else calls t ! i)"
    if "i < length (calls t)" for i
    using that le extendsD(1,3)[OF assms(2)] extendsD(3)[OF assms(3)] by simp
  moreover have "length (calls t) \<le> p \<and> p < length (calls t'')" if "p \<in> set (ps @ qs)" for p
    using that le extendsD(5)[OF assms(2), of p] extendsD(5)[OF assms(3), of p] by auto
  ultimately show "extends t t'' (ps @ qs)"
    using le extendsD(1)[OF assms(2)] extendsD(1)[OF assms(3)] unfolding extends_def by simp
qed

lemma run_trace_records:
  "cur_ok t \<Longrightarrow> extends t (run_trace t tr) [length (calls t)] \<and>
     read_call (calls (run_trace t tr)) (length (calls t)) = tr"
  "cur_ok t \<Longrightarrow> \<exists>ps. extends t (run_traces t trs) ps \<and>
     map (read_call (calls (run_traces t trs))) ps = trs"
proof (induction t tr and t trs rule: run_trace_run_traces.induct)
  case (1 t sender to data val gas inner leftoverGas ret err)
  let ?t1 = "ct_add t sender to data val gas"
  let ?t2 = "run_traces ?t1 inner"
  let ?t3 = "ct_exit ?t2 leftoverGas ret err"
  let ?n = "length (calls t)"
  have "cur_ok ?t1" by (simp add: cur_ok_def add_fields)
  then obtain ps where ps: "extends ?t1 ?t2 ps" "map (read_call (calls ?t2)) ps = inner"
    using "1.IH" by blast
  have cur2: "ct_current ?t2 = Some ?n" and len2: "Suc ?n \<le> length (calls ?t2)"
    using ps(1) by (auto simp: extends_def add_fields)
  have n2: "calls ?t2 ! ?n = (calls ?t1 ! ?n)\<lparr>Children := ps\<rparr>"
    using ps(1) by (auto simp: extends_def add_fields add_new)
  have old2: "calls ?t2 ! i = calls ?t1 ! i" if "i < ?n" for i
    using ps(1) that by (auto simp: extends_def add_fields)
  have n3: "calls ?t3 ! ?n = (calls ?t2 ! ?n)\<lparr>RemainingGas := leftoverGas, Ret := ret, Err := err\<rparr>"
    and other3: "\<And>i. i \<noteq> ?n \<Longrightarrow> i < length (calls ?t2) \<Longrightarrow> calls ?t3 ! i = calls ?t2 ! i"
    using cur2 len2 by (simp_all add: exit_nth)
  have psb: "\<And>p. p \<in> set ps \<Longrightarrow> Suc ?n \<le> p \<and> p < length (calls ?t2)"
    and closed2: "closed_part (calls ?t2) (Suc ?n)"
    using extendsD(4,5)[OF ps(1)] by (simp_all add: add_fields)
  have rd: "read_call (calls ?t3) p = read_call (calls ?t2) p" if "p \<in> set ps" for p
  proof (rule read_call_agree[OF closed2])
    show "calls ?t3 ! i = calls ?t2 ! i" if "Suc ?n \<le> i" "i < length (calls ?t2)" for i
      using other3[of i] that by simp
  qed (use psb[OF that] in \<open>simp_all add: exit_fields\<close>)
  have "map (read_call (calls ?t3)) ps = inner" using trans[OF map_cong[OF refl rd] ps(2)] .
  moreover have "filter (\<lambda>q. ?n < q \<and> q < length (calls ?t3)) ps = ps"
    using psb by (simp add: exit_fields filter_id_conv Suc_le_eq)
  ultimately have "read_call (calls ?t3) ?n =
      CallTrace sender to data val gas inner leftoverGas ret err"
    using n2 n3 by (subst read_call.simps) (simp add: add_new)
  moreover have "closed_part (calls ?t3) ?n"
    unfolding closed_part_def
  proof (intro allI impI ballI)
    fix i c assume i: "?n \<le> i \<and> i < length (calls ?t3)" "c \<in> set (Children (calls ?t3 ! i))"
    show "i < c \<and> c < length (calls ?t3)"
    proof (cases "i = ?n")
      case True
      then show ?thesis using i n2 n3 psb[of c] by (simp add: exit_fields)
    next
      case False
      then have "c \<in> set (Children (calls ?t2 ! i))" "Suc ?n \<le> i" "i < length (calls ?t2)"
        using i other3[of i] by (simp_all add: exit_fields)
      then show ?thesis using closed2 unfolding closed_part_def exit_fields by blast
    qed
  qed
  moreover have "ct_current ?t3 = ct_current t"
    using cur2 n2 by (simp add: exit_current add_new)
  moreover have "calls ?t3 ! i = (if ct_current t = Some i
      then (calls t ! i)\<lparr>Children := Children (calls t ! i) @ [?n]\<rparr> else calls t ! i)" if "i < ?n" for i
    using that other3[of i] old2[OF that] len2 by (simp add: add_old)
  ultimately show ?case using len2 by (simp add: extends_def exit_fields)
next
  case (2 t)
  then show ?case using extends_refl by force
next
  case (3 t c cs)
  let ?t1 = "run_trace t c"
  have e: "extends t ?t1 [length (calls t)]" "read_call (calls ?t1) (length (calls t)) = c"
    using 3 by blast+
  obtain ps where ps: "extends ?t1 (run_traces ?t1 cs) ps"
      "map (read_call (calls (run_traces ?t1 cs))) ps = cs"
    using 3 extends_cur[OF e(1)] by blast
  have "length (calls t) < length (calls ?t1)" using e(1) by (simp add: extends_def)
  then show ?case
    using extends_trans[OF \<open>cur_ok t\<close> e(1) ps(1)] e(2) ps(2)
    by (intro exI[of _ "length (calls t) # ps"]) simp
qed

text \<open>
  C0: A properly nested run of \<open>add\<close> and \<open>exit\<close> ends with the call that was current before it,
  and reading the record back from the pointer structure gives exactly the calls that were made,
  with their arguments, their order, their nesting and their results; everything recorded
  before stays as it was, except for the new child of the call that was current.
\<close>

theorem call_tree_records_nesting:
  assumes "ct_reachable t"
  shows "Current (run_trace t tr) = Current t
    \<and> read_call (calls (run_trace t tr)) (length (calls t)) = tr
    \<and> (\<forall>i<length (calls t). calls (run_trace t tr) ! i =
         (if Current t = Some i
          then (calls t ! i)\<lparr>Children := Children (calls t ! i) @ [length (calls t)]\<rparr>
          else calls t ! i))"
proof -
  have "cur_ok t" using ct_reachable_wf[OF assms(1)] by (simp add: wf_call_tree_def cur_ok_def)
  then show ?thesis
    using run_trace_records(1)[of t tr] by (simp add: extends_def Current_def)
qed

theorem call_tree_records_nesting_witness:
  "read_call (calls (run_trace NewCallTree
       (CallTrace 1 (Some 2) [] 5 100
          [CallTrace 2 (Some 3) [7] 0 50 [] 10 [] (Some ErrOutOfGas)] 20 [] None))) 0
     = CallTrace 1 (Some 2) [] 5 100
          [CallTrace 2 (Some 3) [7] 0 50 [] 10 [] (Some ErrOutOfGas)] 20 [] None"
proof -
  have "calls NewCallTree = []" by (simp add: NewCallTree_def)
  then show ?thesis using call_tree_records_nesting[OF ct_new] by (metis list.size(3))
qed

text \<open>
  C0: In every tree that the operations can build, the calls are numbered consecutively and found
  by their number, a call's parent lists it among its children and is older than it, and
  \<open>ParentOf\<close> and \<open>ChildrenOf\<close> are inverse to each other.
\<close>

theorem parent_of_children_of:
  assumes "ct_reachable t" "i < length (calls t)" "j < length (calls t)"
  shows "FindCall t (of_nat i) = Some i
    \<and> (ParentOf t (of_nat j) = Some i \<longleftrightarrow> j \<in> set (ChildrenOf t (of_nat i)))
    \<and> (ParentOf t (of_nat j) = Some i \<longrightarrow> i < j)"
proof -
  have w: "wf_call_tree t" by (rule ct_reachable_wf[OF assms(1)])
  then have l: "ct_lookup t (of_nat k) = Some k" if "k < length (calls t)" for k
    using that by (simp add: wf_call_tree_def)
  have wf: "wf_call t i" "wf_call t j" using w assms by (auto simp: wf_call_tree_def)
  have "FindCall t (of_nat i) = Some i" using l[OF assms(2)] by (simp add: FindCall_def)
  moreover have p: "ParentOf t (of_nat j) = Parent (calls t ! j)"
    and c: "ChildrenOf t (of_nat i) = Children (calls t ! i)"
    using l[OF assms(2)] l[OF assms(3)] by (simp_all add: ParentOf_def ChildrenOf_def)
  moreover have "Parent (calls t ! j) = Some i \<longleftrightarrow> j \<in> set (Children (calls t ! i))"
    using wf unfolding wf_call_def by blast
  moreover have "Parent (calls t ! j) = Some i \<longrightarrow> i < j"
    using wf unfolding wf_call_def by blast
  ultimately show ?thesis by simp
qed

theorem parent_of_children_of_witness:
  "ParentOf (ct_add (ct_add NewCallTree 1 None [] 0 0) 2 None [] 0 0) 1 = Some 0"
proof -
  define t1 where "t1 = ct_add NewCallTree 1 None [] 0 0"
  define t where "t = ct_add t1 2 None [] 0 0"
  have t1: "length (calls t1) = 1" "ct_current t1 = Some 0" "ct_reachable t1"
    unfolding t1_def using ct_add[OF ct_new] by (simp_all add: add_fields NewCallTree_def)
  have t: "length (calls t) = 2" "ct_reachable t"
    unfolding t_def using t1 ct_add[OF t1(3)] by (simp_all add: add_fields)
  have "ParentOf t 1 = Some 0 \<longleftrightarrow> 1 \<in> set (ChildrenOf t 0)"
    using parent_of_children_of[of t 0 1] t by simp
  moreover have "FindCall t 0 = Some 0" using parent_of_children_of[of t 0 1] t by simp
  moreover have "1 \<in> set (Children (calls t ! 0))"
    unfolding t_def using t1 by (simp add: add_old)
  ultimately show ?thesis
    by (simp add: ChildrenOf_def FindCall_def t_def t1_def)
qed

end
