(* ===== verification/State_Changes.thy ===== *)
theory State_Changes
  imports Call_Tree "HOL-Library.AList"
begin

text \<open>
  The state change cache of the tracer (\<open>src/vm/tracer.go\<close>, types \<open>StorageChanges\<close>,
  \<open>StorageKey\<close>, \<open>StateChanges\<close> and \<open>Tracer\<close>). Storage keys are linked by pointers (a key is
  reachable from its parent by position, from its parent by name, and from the index table), so
  they live in a store that only grows and a pointer is an index into it. A Go map is a map;
  \<open>childrenIndex\<close>, which the code iterates over, is an association list. A \<open>nil\<close> result is
  \<open>None\<close>, and a dereference of a \<open>nil\<close> slot is the panic \<open>None\<close> of \<open>AddChild\<close>.
\<close>

section \<open>Changes of one key\<close>

datatype NodeType = RootNode | BranchNode | DataNode

type_synonym StorageChanges = "u64 \<rightharpoonup> bytes list"

definition newStorageChange :: StorageChanges where
  "newStorageChange = Map.empty"

definition sc_append :: "StorageChanges \<Rightarrow> u64 \<Rightarrow> bytes \<Rightarrow> StorageChanges" where
  "sc_append c callIdx newVal =
     (case c callIdx of
        None \<Rightarrow> c(callIdx \<mapsto> [] @ [newVal])
      | Some changes \<Rightarrow>
          if 0 < length changes \<and> changes ! (length changes - 1) = newVal then c
          else c(callIdx \<mapsto> changes @ [newVal]))"

section \<open>Storage keys\<close>

record StorageKey =
  k_slot :: "u256 option"
  k_offset :: byte
  k_children :: "u256 \<rightharpoonup> (byte \<rightharpoonup> nat)"
  k_childrenIndex :: "(bytes \<times> nat) list"
  k_changes :: "StorageChanges option"
  k_data :: bytes
  k_typeId :: hash
  k_nodeType :: NodeType

definition NewBranchKey :: "u256 \<Rightarrow> byte \<Rightarrow> hash \<Rightarrow> bytes \<Rightarrow> StorageKey" where
  "NewBranchKey slot offset typeId data =
     \<lparr>k_slot = Some slot, k_offset = offset, k_children = Map.empty, k_childrenIndex = [],
      k_changes = None, k_data = data, k_typeId = typeId, k_nodeType = BranchNode\<rparr>"

definition NewRootKey :: StorageKey where
  "NewRootKey =
     \<lparr>k_slot = None, k_offset = 0, k_children = Map.empty, k_childrenIndex = [],
      k_changes = None, k_data = [], k_typeId = 0, k_nodeType = RootNode\<rparr>"

definition Key_Children :: "StorageKey \<Rightarrow> nat list" where
  "Key_Children k = map snd (k_childrenIndex k)"

definition Key_ChildrenIndices :: "StorageKey \<Rightarrow> bytes list" where
  "Key_ChildrenIndices k = map fst (k_childrenIndex k)"

definition JournalChanges :: "StorageKey \<Rightarrow> u64 \<Rightarrow> bytes \<Rightarrow> StorageKey" where
  "JournalChanges k callIdx newVal =
     (let k = (if k_changes k = None
               then (if k_nodeType k \<noteq> RootNode then k\<lparr>k_nodeType := DataNode\<rparr> else k)
                      \<lparr>k_changes := Some newStorageChange\<rparr>
               else k)
      in k\<lparr>k_changes := map_option (\<lambda>c. sc_append c callIdx newVal) (k_changes k)\<rparr>)"

text \<open>\<open>AddChild\<close> updates the parent and returns the pointer of the child or of the key that
  already has the position.\<close>

definition AddChild :: "StorageKey list \<Rightarrow> nat \<Rightarrow> nat \<Rightarrow> (StorageKey list \<times> nat) option" where
  "AddChild h k child = do {
     slot \<leftarrow> k_slot (h ! child);
     let offset = k_offset (h ! child);
     let par = h ! k;
     let par = (if k_children par slot = None
                then par\<lparr>k_children := (k_children par)(slot \<mapsto> Map.empty)\<rparr> else par);
     let storageKey = k_data (h ! child);
     let par = (if map_of (k_childrenIndex par) storageKey = None
                then par\<lparr>k_childrenIndex := AList.update storageKey child (k_childrenIndex par)\<rparr>
                else par);
     row \<leftarrow> k_children par slot;
     case row offset of
       None \<Rightarrow> Some (h[k := par\<lparr>k_children := (k_children par)(slot \<mapsto> row(offset \<mapsto> child))\<rparr>], child)
     | Some existing \<Rightarrow> Some (h[k := par], existing) }"

section \<open>The cache\<close>

record StateChanges =
  keys :: "StorageKey list"
  roots :: "address \<rightharpoonup> nat"
  sindex :: "address \<rightharpoonup> (u256 \<rightharpoonup> (byte \<rightharpoonup> (hash \<rightharpoonup> nat)))"
  raw :: "address \<rightharpoonup> (u256 \<rightharpoonup> (u64 \<rightharpoonup> hash))"

definition NewStateChanges :: StateChanges where
  "NewStateChanges = \<lparr>keys = [], roots = Map.empty, sindex = Map.empty, raw = Map.empty\<rparr>"

text \<open>The key of an account, created when the account has none.\<close>

definition root_of :: "StateChanges \<Rightarrow> address \<Rightarrow> StateChanges \<times> nat" where
  "root_of s account =
     (case roots s account of
        Some r \<Rightarrow> (s, r)
      | None \<Rightarrow> (s\<lparr>keys := keys s @ [NewRootKey], roots := (roots s)(account \<mapsto> length (keys s))\<rparr>,
                 length (keys s)))"

definition saveBalance :: "StateChanges \<Rightarrow> address \<Rightarrow> u256 \<Rightarrow> u64 \<Rightarrow> StateChanges" where
  "saveBalance s account newBalance callIdx =
     (let (s, rootKey) = root_of s account
      in s\<lparr>keys := (keys s)[rootKey := JournalChanges (keys s ! rootKey) callIdx (Bytes newBalance)]\<rparr>)"

definition get0 :: "('a \<rightharpoonup> ('b \<rightharpoonup> 'c)) \<Rightarrow> 'a \<Rightarrow> ('b \<rightharpoonup> 'c)" where
  "get0 m a = (case m a of None \<Rightarrow> Map.empty | Some n \<Rightarrow> n)"

definition saveRawStateChange ::
  "StateChanges \<Rightarrow> address \<Rightarrow> u256 \<Rightarrow> u64 \<Rightarrow> hash \<Rightarrow> StateChanges" where
  "saveRawStateChange s account slot callIdx val =
     (let acc = get0 (raw s) account;
          row = get0 acc slot
      in s\<lparr>raw := (raw s)(account \<mapsto> acc(slot \<mapsto> row(callIdx \<mapsto> val)))\<rparr>)"

definition findKey :: "StateChanges \<Rightarrow> address \<Rightarrow> u256 \<Rightarrow> byte \<Rightarrow> hash \<Rightarrow> nat option" where
  "findKey s account slot offset typeId = do {
     a \<leftarrow> sindex s account;
     b \<leftarrow> a slot;
     c \<leftarrow> b offset;
     c typeId }"

definition addKey :: "StateChanges \<Rightarrow> address \<Rightarrow> u256 \<Rightarrow> byte \<Rightarrow> nat \<Rightarrow> StateChanges" where
  "addKey s account slot offset key =
     (let a = get0 (sindex s) account;
          b = get0 a slot;
          c = get0 b offset;
          typeId = k_typeId (keys s ! key);
          c = (if c typeId = None then c(typeId \<mapsto> key) else c)
      in s\<lparr>sindex := (sindex s)(account \<mapsto> a(slot \<mapsto> b(offset \<mapsto> c)))\<rparr>)"

definition offset_u8 :: "u256 option \<Rightarrow> byte option" where
  "offset_u8 offset =
     (case offset of
        None \<Rightarrow> Some 0
      | Some off \<Rightarrow>
          (let (offsetU64, overflow) = Uint64WithOverflow off
           in if overflow \<or> 31 < offsetU64 then None else Some (ucast offsetU64)))"

text \<open>The two operations return the error and the new cache; the outer option is a panic.\<close>

definition saveKey ::
  "StateChanges \<Rightarrow> address \<Rightarrow> u256 option \<Rightarrow> u256 \<Rightarrow> u256 option \<Rightarrow> hash \<Rightarrow> hash \<Rightarrow> bytes
     \<Rightarrow> (error option \<times> StateChanges) option" where
  "saveKey s account parent self offset typeId parentTypeId idx =
     (case offset_u8 offset of
        None \<Rightarrow> Some (Some (ErrMsg ''offset overflow''), s)
      | Some offsetU8 \<Rightarrow>
          (case (case parent of
                   None \<Rightarrow> Inr (root_of s account)
                 | Some p \<Rightarrow>
                     (case findKey s account p 0 parentTypeId of
                        None \<Rightarrow> Inl (ErrMsg ''parent key not found'')
                      | Some parentKey \<Rightarrow> Inr (s, parentKey))) of
             Inl err \<Rightarrow> Some (Some err, s)
           | Inr (s, parentKey) \<Rightarrow> do {
               let new = length (keys s);
               let h = keys s @ [NewBranchKey self offsetU8 typeId idx];
               (h, child) \<leftarrow> AddChild h parentKey new;
               let s = s\<lparr>keys := h\<rparr>;
               slot \<leftarrow> k_slot (h ! child);
               Some (None, addKey s account slot (k_offset (h ! child)) child) }))"

definition saveChange ::
  "StateChanges \<Rightarrow> address \<Rightarrow> u256 \<Rightarrow> u256 option \<Rightarrow> hash \<Rightarrow> u64 \<Rightarrow> bytes
     \<Rightarrow> error option \<times> StateChanges" where
  "saveChange s account self offset typeId callIdx newVal =
     (case offset_u8 offset of
        None \<Rightarrow> (Some (ErrMsg ''offset overflow''), s)
      | Some offsetU8 \<Rightarrow>
          if roots s account = None then (Some (ErrMsg ''unknown account''), s)
          else (case findKey s account self offsetU8 typeId of
                  None \<Rightarrow> (Some (ErrMsg ''storage key node not found''), s)
                | Some selfNode \<Rightarrow>
                    (None, s\<lparr>keys := (keys s)[selfNode :=
                       JournalChanges (keys s ! selfNode) callIdx newVal]\<rparr>)))"

section \<open>Queries\<close>

definition Balance :: "StateChanges \<Rightarrow> address \<Rightarrow> StorageChanges option" where
  "Balance s account = do { r \<leftarrow> roots s account; k_changes (keys s ! r) }"

primrec follow :: "StorageKey list \<Rightarrow> nat \<Rightarrow> bytes list \<Rightarrow> nat option" where
  "follow h cursor [] = Some cursor"
| "follow h cursor (idx # indices) =
     (case map_of (k_childrenIndex (h ! cursor)) idx of
        None \<Rightarrow> None
      | Some cursor \<Rightarrow> follow h cursor indices)"

definition FindKeyIndices :: "StateChanges \<Rightarrow> address \<Rightarrow> bytes \<Rightarrow> bytes list \<Rightarrow> nat option" where
  "FindKeyIndices s account stateVarName indices = do {
     rootKey \<leftarrow> roots s account;
     cursor \<leftarrow> map_of (k_childrenIndex (keys s ! rootKey)) stateVarName;
     follow (keys s) cursor indices }"

definition Variable :: "StateChanges \<Rightarrow> address \<Rightarrow> bytes \<Rightarrow> bytes list \<Rightarrow> StorageChanges option" where
  "Variable s account stateVarName indices = do {
     key \<leftarrow> FindKeyIndices s account stateVarName indices;
     k_changes (keys s ! key) }"

definition Slot ::
  "StateChanges \<Rightarrow> address \<Rightarrow> u256 option \<Rightarrow> u256 option \<Rightarrow> hash \<Rightarrow> error + StorageChanges option" where
  "Slot s account slot offset typeId =
     (case slot of
        None \<Rightarrow> Inl (ErrMsg ''slot empty'')
      | Some slot \<Rightarrow>
          (case offset_u8 offset of
             None \<Rightarrow> Inl (ErrMsg ''offset overflow'')
           | Some offsetU8 \<Rightarrow>
               Inr (do { key \<leftarrow> findKey s account slot offsetU8 typeId;
                         k_changes (keys s ! key) })))"

definition IndicesOfChanges ::
  "StateChanges \<Rightarrow> address \<Rightarrow> bytes \<Rightarrow> bytes list \<Rightarrow> bytes list option" where
  "IndicesOfChanges s account stateVarName indices = do {
     key \<leftarrow> FindKeyIndices s account stateVarName indices;
     Some (map fst (k_childrenIndex (keys s ! key))) }"

section \<open>The tracer\<close>

record Tracer =
  states :: StateChanges
  callTree :: CallTree

definition NewTracer :: Tracer where
  "NewTracer = \<lparr>states = NewStateChanges, callTree = NewCallTree\<rparr>"

definition SaveRawStateChange :: "Tracer \<Rightarrow> address \<Rightarrow> u256 \<Rightarrow> hash \<Rightarrow> Tracer" where
  "SaveRawStateChange t account slot val =
     t\<lparr>states := saveRawStateChange (states t) account slot (CurrentCallIndex (callTree t)) val\<rparr>"

definition SaveStateChange ::
  "Tracer \<Rightarrow> address \<Rightarrow> u256 \<Rightarrow> u256 option \<Rightarrow> hash \<Rightarrow> bytes \<Rightarrow> error option \<times> Tracer" where
  "SaveStateChange t account slot offset typeId newVal =
     (let (err, s) = saveChange (states t) account slot offset typeId
                       (CurrentCallIndex (callTree t)) newVal
      in (err, t\<lparr>states := s\<rparr>))"

definition SaveStateKey ::
  "Tracer \<Rightarrow> address \<Rightarrow> u256 option \<Rightarrow> u256 \<Rightarrow> u256 option \<Rightarrow> hash \<Rightarrow> hash \<Rightarrow> bytes
     \<Rightarrow> (error option \<times> Tracer) option" where
  "SaveStateKey t account parent self offset typeId parentTypeId idx =
     map_option (\<lambda>(err, s). (err, t\<lparr>states := s\<rparr>))
       (saveKey (states t) account parent self offset typeId parentTypeId idx)"

definition SaveCall ::
  "Tracer \<Rightarrow> address \<Rightarrow> address option \<Rightarrow> bytes \<Rightarrow> u256 \<Rightarrow> u256 \<Rightarrow> Tracer" where
  "SaveCall t from to data value gas = t\<lparr>callTree := ct_add (callTree t) from to data value gas\<rparr>"

definition ExitCall :: "Tracer \<Rightarrow> u64 \<Rightarrow> bytes \<Rightarrow> error option \<Rightarrow> Tracer" where
  "ExitCall t leftoverGas ret err = t\<lparr>callTree := ct_exit (callTree t) leftoverGas ret err\<rparr>"

definition record_balance ::
  "('s \<Rightarrow> address \<Rightarrow> int) \<Rightarrow> 's \<Rightarrow> u64 \<Rightarrow> address \<Rightarrow> StateChanges \<Rightarrow> StateChanges option" where
  "record_balance GetBalance db callIdx account s = do {
     b \<leftarrow> MustFromBig (GetBalance db account);
     Some (saveBalance s account b callIdx) }"

definition TransferWithRecord ::
  "('s \<Rightarrow> address \<Rightarrow> int) \<Rightarrow> ('s \<Rightarrow> address \<Rightarrow> address \<Rightarrow> int \<Rightarrow> 's)
     \<Rightarrow> Tracer \<Rightarrow> 's \<Rightarrow> address \<Rightarrow> address \<Rightarrow> int \<Rightarrow> (Tracer \<times> 's) option" where
  "TransferWithRecord GetBalance transfer t db from to amount =
     (let callIdx = CurrentCallIndex (callTree t) in do {
        s \<leftarrow> record_balance GetBalance db callIdx from (states t);
        s \<leftarrow> record_balance GetBalance db callIdx to s;
        let db = transfer db from to amount;
        s \<leftarrow> record_balance GetBalance db callIdx from s;
        s \<leftarrow> record_balance GetBalance db callIdx to s;
        Some (t\<lparr>states := s\<rparr>, db) })"

section \<open>Well-formed caches\<close>

text \<open>
  The invariant. A key's children by position have that position, its children by name have that
  name, pointers go to younger keys only (so the structure has no cycles), a key is a root
  exactly when it has no slot, a branch key has no changes and a data key has some, and recorded
  values are never repeated.
\<close>

definition wf_changes :: "StorageChanges \<Rightarrow> bool" where
  "wf_changes c \<longleftrightarrow> (\<forall>i vs. c i = Some vs \<longrightarrow> vs \<noteq> [] \<and> distinct_adj vs)"

definition wf_node :: "StorageKey \<Rightarrow> bool" where
  "wf_node k \<longleftrightarrow>
     (k_nodeType k = RootNode \<longleftrightarrow> k_slot k = None) \<and>
     (k_nodeType k = BranchNode \<longrightarrow> k_changes k = None) \<and>
     (k_nodeType k = DataNode \<longrightarrow> k_changes k \<noteq> None) \<and>
     (\<forall>c. k_changes k = Some c \<longrightarrow> wf_changes c) \<and>
     distinct (map fst (k_childrenIndex k))"

definition links_ok :: "StorageKey list \<Rightarrow> nat \<Rightarrow> StorageKey \<Rightarrow> bool" where
  "links_ok h i k \<longleftrightarrow>
     (\<forall>slot row off c. k_children k slot = Some row \<longrightarrow> row off = Some c \<longrightarrow>
        i < c \<and> c < length h \<and> k_slot (h ! c) = Some slot \<and> k_offset (h ! c) = off) \<and>
     (\<forall>d c. map_of (k_childrenIndex k) d = Some c \<longrightarrow>
        i < c \<and> c < length h \<and> k_data (h ! c) = d \<and> k_slot (h ! c) \<noteq> None)"

definition wf_keys :: "StorageKey list \<Rightarrow> bool" where
  "wf_keys h \<longleftrightarrow> (\<forall>i<length h. wf_node (h ! i) \<and> links_ok h i (h ! i))"

definition wf_states :: "StateChanges \<Rightarrow> bool" where
  "wf_states s \<longleftrightarrow> wf_keys (keys s) \<and>
     (\<forall>a r. roots s a = Some r \<longrightarrow> r < length (keys s) \<and> k_slot (keys s ! r) = None) \<and>
     (\<forall>a b r. roots s a = Some r \<longrightarrow> roots s b = Some r \<longrightarrow> a = b) \<and>
     (\<forall>a slot off t c. findKey s a slot off t = Some c \<longrightarrow>
        roots s a \<noteq> None \<and> c < length (keys s) \<and> k_slot (keys s ! c) = Some slot \<and>
        k_offset (keys s ! c) = off \<and> k_typeId (keys s ! c) = t)"

inductive sc_reachable :: "StateChanges \<Rightarrow> bool" where
  sc_new: "sc_reachable NewStateChanges"
| sc_balance: "sc_reachable s \<Longrightarrow> sc_reachable (saveBalance s account newBalance callIdx)"
| sc_raw: "sc_reachable s \<Longrightarrow> sc_reachable (saveRawStateChange s account slot callIdx val)"
| sc_key: "sc_reachable s \<Longrightarrow>
    saveKey s account parent self offset typeId parentTypeId idx = Some (err, s') \<Longrightarrow> sc_reachable s'"
| sc_change: "sc_reachable s \<Longrightarrow>
    saveChange s account self offset typeId callIdx newVal = (err, s') \<Longrightarrow> sc_reachable s'"

subsection \<open>The operations on keys\<close>

lemma wf_changes_append: "wf_changes c \<Longrightarrow> wf_changes (sc_append c i v)"
  by (auto simp: wf_changes_def sc_append_def distinct_adj_append_iff last_conv_nth split: option.splits)

lemma sc_append_last: "\<exists>vs. sc_append c i v i = Some vs \<and> vs \<noteq> [] \<and> last vs = v"
  by (auto simp: sc_append_def last_conv_nth split: option.splits)

lemma sc_append_other: "j \<noteq> i \<Longrightarrow> sc_append c i v j = c j"
  by (simp add: sc_append_def split: option.splits)

text \<open>What other keys and the index table see of a key.\<close>

definition same_key :: "StorageKey \<Rightarrow> StorageKey \<Rightarrow> bool" where
  "same_key k k' \<longleftrightarrow> k_slot k' = k_slot k \<and> k_offset k' = k_offset k \<and> k_data k' = k_data k \<and>
     k_typeId k' = k_typeId k"

lemma journal_same: "same_key k (JournalChanges k i v)"
  by (simp add: same_key_def JournalChanges_def Let_def)

lemma journal_links:
  "k_children (JournalChanges k i v) = k_children k"
  "k_childrenIndex (JournalChanges k i v) = k_childrenIndex k"
  by (simp_all add: JournalChanges_def Let_def)

lemma journal_changes:
  "k_changes (JournalChanges k i v) =
     Some (sc_append (case k_changes k of None \<Rightarrow> newStorageChange | Some c \<Rightarrow> c) i v)"
  by (simp add: JournalChanges_def Let_def split: option.splits)

lemma wf_changes_new: "wf_changes newStorageChange"
  by (simp add: wf_changes_def newStorageChange_def)

lemma wf_node_journal:
  assumes "wf_node k"
  shows "wf_node (JournalChanges k i v)"
proof -
  let ?k = "JournalChanges k i v"
  let ?c = "case k_changes k of None \<Rightarrow> newStorageChange | Some c \<Rightarrow> c"
  have "wf_changes ?c" using assms wf_changes_new by (simp add: wf_node_def split: option.split)
  then have "\<forall>c. k_changes ?k = Some c \<longrightarrow> wf_changes c"
    by (simp add: journal_changes wf_changes_append)
  moreover have "k_nodeType ?k = (if k_nodeType k = RootNode then RootNode else DataNode)"
    using assms by (cases "k_nodeType k") (auto simp: wf_node_def JournalChanges_def Let_def)
  ultimately show ?thesis
    using assms journal_same[of k i v]
    by (simp add: wf_node_def same_key_def journal_links journal_changes)
qed

lemma wf_keys_update:
  assumes "wf_keys h" "i < length h" "same_key (h ! i) k" "wf_node k" "links_ok h i k"
  shows "wf_keys (h[i := k])"
proof -
  have id: "k_slot (h[i := k] ! c) = k_slot (h ! c)" "k_offset (h[i := k] ! c) = k_offset (h ! c)"
      "k_data (h[i := k] ! c) = k_data (h ! c)" for c
    using assms(2,3) by (cases "c = i"; simp add: same_key_def)+
  have "links_ok (h[i := k]) j l \<longleftrightarrow> links_ok h j l" for j l
    unfolding links_ok_def id by simp
  then show ?thesis
    using assms by (simp add: wf_keys_def nth_list_update)
qed

lemma links_ok_append: "links_ok h i k \<Longrightarrow> links_ok (h @ [l]) i k"
  by (force simp: links_ok_def nth_append)

lemma wf_keys_append:
  assumes "wf_keys h" "wf_node k" "k_children k = Map.empty" "k_childrenIndex k = []"
  shows "wf_keys (h @ [k])"
  unfolding wf_keys_def
proof (intro allI impI)
  fix i assume "i < length (h @ [k])"
  then consider "i < length h" | "i = length h" by fastforce
  then show "wf_node ((h @ [k]) ! i) \<and> links_ok (h @ [k]) i ((h @ [k]) ! i)"
  proof cases
    case 1
    then show ?thesis using assms(1) links_ok_append[of h i "h ! i" k]
      by (simp add: wf_keys_def nth_append)
  next
    case 2
    then show ?thesis using assms by (simp add: links_ok_def)
  qed
qed

definition same_keys :: "StorageKey list \<Rightarrow> StorageKey list \<Rightarrow> bool" where
  "same_keys h h' \<longleftrightarrow> length h \<le> length h' \<and> (\<forall>i<length h. same_key (h ! i) (h' ! i))"

lemma same_keys_update: "same_key (h ! i) k \<Longrightarrow> same_keys h (h[i := k])"
  by (auto simp: same_keys_def same_key_def) (metis nth_list_update_eq nth_list_update_neq)+

lemma same_keys_append: "same_keys h (h @ [k])"
  by (simp add: same_keys_def nth_append same_key_def)

lemma same_keys_trans: "same_keys a b \<Longrightarrow> same_keys b c \<Longrightarrow> same_keys a c"
  by (auto simp: same_keys_def same_key_def)

lemma journal_keys:
  assumes "wf_keys h" "i < length h"
  shows "wf_keys (h[i := JournalChanges (h ! i) idx v])" "same_keys h (h[i := JournalChanges (h ! i) idx v])"
proof -
  have "wf_node (h ! i)" "links_ok h i (h ! i)" using assms by (simp_all add: wf_keys_def)
  then show "wf_keys (h[i := JournalChanges (h ! i) idx v])"
    using assms journal_same wf_node_journal
    by (intro wf_keys_update) (simp_all add: links_ok_def journal_links)
  show "same_keys h (h[i := JournalChanges (h ! i) idx v])"
    by (rule same_keys_update[OF journal_same])
qed

text \<open>The parent after a child was entered by name and its row of positions was created.\<close>

lemma AddChild_step:
  assumes h: "wf_keys h" and k: "k < child" "child < length h" and slot: "k_slot (h ! child) = Some slot"
  obtains par row where
    "AddChild h k child = (case row (k_offset (h ! child)) of
        None \<Rightarrow> Some (h[k := par\<lparr>k_children := (k_children par)(slot \<mapsto> row(k_offset (h ! child) \<mapsto> child))\<rparr>], child)
      | Some existing \<Rightarrow> Some (h[k := par], existing))"
    "k_children par slot = Some row" "row = get0 (k_children (h ! k)) slot"
    "same_key (h ! k) par" "wf_node par" "links_ok h k par" "k_changes par = k_changes (h ! k)"
proof -
  define p1 where "p1 = (if k_children (h ! k) slot = None
      then (h ! k)\<lparr>k_children := (k_children (h ! k))(slot \<mapsto> Map.empty)\<rparr> else h ! k)"
  define p2 where "p2 = (if map_of (k_childrenIndex p1) (k_data (h ! child)) = None
      then p1\<lparr>k_childrenIndex := AList.update (k_data (h ! child)) child (k_childrenIndex p1)\<rparr> else p1)"
  have wfk: "wf_node (h ! k)" "links_ok h k (h ! k)" using h k by (simp_all add: wf_keys_def)
  have row: "k_children p2 slot = Some (get0 (k_children (h ! k)) slot)"
    by (auto simp: p2_def p1_def get0_def)
  have "links_ok h k p1" using wfk(2) by (auto simp: links_ok_def p1_def)
  then have "links_ok h k p2"
    using k slot by (auto simp: links_ok_def p2_def update_conv)
  moreover have "wf_node p2"
    using wfk(1) by (auto simp: wf_node_def p2_def p1_def distinct_update)
  moreover have "same_key (h ! k) p2" "k_changes p2 = k_changes (h ! k)"
    by (simp_all add: same_key_def p2_def p1_def)
  moreover have "AddChild h k child = (case get0 (k_children (h ! k)) slot (k_offset (h ! child)) of
        None \<Rightarrow> Some (h[k := p2\<lparr>k_children := (k_children p2)(slot \<mapsto>
          (get0 (k_children (h ! k)) slot)(k_offset (h ! child) \<mapsto> child))\<rparr>], child)
      | Some existing \<Rightarrow> Some (h[k := p2], existing))"
    using row unfolding AddChild_def slot Let_def bind.simps p1_def[symmetric] p2_def[symmetric] by simp
  ultimately show thesis using row that by blast
qed

lemma AddChild_ok:
  assumes h: "wf_keys h" and k: "k < child" "child < length h" and slot: "k_slot (h ! child) = Some slot"
  obtains h' c where "AddChild h k child = Some (h', c)" "wf_keys h'" "length h' = length h"
    "same_keys h h'" "c < length h" "k_slot (h ! c) = Some slot" "k_offset (h ! c) = k_offset (h ! child)"
    "\<forall>i<length h. k_changes (h' ! i) = k_changes (h ! i)"
    "c = (case get0 (k_children (h ! k)) slot (k_offset (h ! child)) of None \<Rightarrow> child | Some e \<Rightarrow> e)"
proof (rule AddChild_step[OF h k slot])
  fix par row
  let ?off = "k_offset (h ! child)"
  assume add: "AddChild h k child = (case row ?off of
        None \<Rightarrow> Some (h[k := par\<lparr>k_children := (k_children par)(slot \<mapsto> row(?off \<mapsto> child))\<rparr>], child)
      | Some existing \<Rightarrow> Some (h[k := par], existing))"
    and par: "k_children par slot = Some row" "row = get0 (k_children (h ! k)) slot"
      "same_key (h ! k) par" "wf_node par" "links_ok h k par" "k_changes par = k_changes (h ! k)"
  have kl: "k < length h" using k by simp
  show thesis
  proof (cases "row ?off")
    case None
    define p' where "p' = par\<lparr>k_children := (k_children par)(slot \<mapsto> row(?off \<mapsto> child))\<rparr>"
    have "same_key (h ! k) p'" "wf_node p'"
      using par(3,4) by (simp_all add: same_key_def wf_node_def p'_def)
    moreover have "links_ok h k p'"
      using par(1,5) k slot by (auto simp: links_ok_def p'_def split: if_splits)
    ultimately have wf: "wf_keys (h[k := p'])" "same_keys h (h[k := p'])"
      using wf_keys_update[OF h kl] same_keys_update by blast+
    have ch: "\<forall>i<length h. k_changes (h[k := p'] ! i) = k_changes (h ! i)"
      using par(6) kl by (simp add: p'_def nth_list_update)
    have "AddChild h k child = Some (h[k := p'], child)" using add None by (simp add: p'_def)
    moreover have "child = (case get0 (k_children (h ! k)) slot ?off of None \<Rightarrow> child | Some e \<Rightarrow> e)"
      using None par(2) by simp
    ultimately show thesis using that[OF _ wf(1) _ wf(2) k(2) slot refl ch] by simp
  next
    case (Some e)
    then have "e < length h" "k_slot (h ! e) = Some slot" "k_offset (h ! e) = ?off"
      using par(1,5) unfolding links_ok_def by blast+
    moreover have "wf_keys (h[k := par])" "same_keys h (h[k := par])"
      using wf_keys_update[OF h kl] same_keys_update par by blast+
    moreover have "\<forall>i<length h. k_changes (h[k := par] ! i) = k_changes (h ! i)"
      using par(6) kl by (simp add: nth_list_update)
    moreover have "AddChild h k child = Some (h[k := par], e)" using add Some by simp
    moreover have "e = (case get0 (k_children (h ! k)) slot ?off of None \<Rightarrow> child | Some e \<Rightarrow> e)"
      using Some par(2) by simp
    moreover have "length (h[k := par]) = length h" by simp
    ultimately show thesis using that by blast
  qed
qed

subsection \<open>The operations on the cache\<close>

lemma findKey_keys [simp]: "findKey (s\<lparr>keys := h\<rparr>) = findKey s"
  by (rule ext)+ (simp add: findKey_def)

lemma findKey_get0: "findKey s a slot off t = get0 (get0 (get0 (sindex s) a) slot) off t"
  by (auto simp: findKey_def get0_def split: option.splits)

lemma get0_upd: "get0 (m(a \<mapsto> n)) b = (if b = a then n else get0 m b)"
  by (simp add: get0_def)

lemma findKey_addKey:
  "findKey (addKey s a slot off key) a' slot' off' t =
     (if a' = a \<and> slot' = slot \<and> off' = off \<and> t = k_typeId (keys s ! key) \<and> findKey s a slot off t = None
      then Some key else findKey s a' slot' off' t)"
  by (auto simp: findKey_get0 addKey_def Let_def get0_upd)

lemma addKey_fields [simp]:
  "keys (addKey s a slot off key) = keys s" "roots (addKey s a slot off key) = roots s"
  by (simp_all add: addKey_def Let_def)

lemma wf_states_keys:
  assumes "wf_states s" "wf_keys h" "same_keys (keys s) h"
  shows "wf_states (s\<lparr>keys := h\<rparr>)"
proof -
  have id: "i < length (keys s) \<Longrightarrow> i < length h \<and> k_slot (h ! i) = k_slot (keys s ! i) \<and>
      k_offset (h ! i) = k_offset (keys s ! i) \<and> k_typeId (h ! i) = k_typeId (keys s ! i)" for i
    using assms(3) by (auto simp: same_keys_def same_key_def)
  show ?thesis
    using assms(1,2) id unfolding wf_states_def by simp
qed

lemma wf_states_addKey:
  assumes "wf_states s" "roots s a \<noteq> None" "key < length (keys s)" "k_slot (keys s ! key) = Some slot"
    "k_offset (keys s ! key) = off"
  shows "wf_states (addKey s a slot off key)"
  using assms unfolding wf_states_def findKey_addKey by (auto split: if_splits)

lemma root_of_wf:
  assumes "wf_states s" "root_of s a = (s', r)"
  shows "wf_states s'" "roots s' a = Some r" "r < length (keys s')" "same_keys (keys s) (keys s')"
    "\<And>b. roots s b \<noteq> None \<Longrightarrow> roots s' b = roots s b" "sindex s' = sindex s" "raw s' = raw s"
proof -
  have "wf_states s' \<and> roots s' a = Some r \<and> r < length (keys s') \<and> same_keys (keys s) (keys s')
      \<and> (\<forall>b. roots s b \<noteq> None \<longrightarrow> roots s' b = roots s b) \<and> sindex s' = sindex s \<and> raw s' = raw s"
  proof (cases "roots s a")
    case (Some q)
    then show ?thesis
      using assms by (auto simp: root_of_def wf_states_def same_keys_def same_key_def)
  next
    case None
    have root: "wf_node NewRootKey" by (simp add: wf_node_def NewRootKey_def)
    have h: "wf_keys (keys s @ [NewRootKey])"
      using assms(1) root by (intro wf_keys_append) (simp_all add: wf_states_def NewRootKey_def)
    have "wf_states (s\<lparr>keys := keys s @ [NewRootKey]\<rparr>)"
      using assms(1) h same_keys_append by (rule wf_states_keys)
    then have "wf_states (s\<lparr>keys := keys s @ [NewRootKey], roots := (roots s)(a \<mapsto> length (keys s))\<rparr>)"
      using assms(1) by (fastforce simp: wf_states_def findKey_get0 NewRootKey_def)
    then show ?thesis
      using assms(2) None same_keys_append by (auto simp: root_of_def)
  qed
  then show "wf_states s'" "roots s' a = Some r" "r < length (keys s')" "same_keys (keys s) (keys s')"
    "\<And>b. roots s b \<noteq> None \<Longrightarrow> roots s' b = roots s b" "sindex s' = sindex s" "raw s' = raw s"
    by blast+
qed

lemma wf_states_journal:
  assumes "wf_states s" "i < length (keys s)"
  shows "wf_states (s\<lparr>keys := (keys s)[i := JournalChanges (keys s ! i) idx v]\<rparr>)"
proof -
  have "wf_keys (keys s)" using assms(1) by (simp add: wf_states_def)
  then show ?thesis using assms journal_keys by (intro wf_states_keys)
qed

lemma wf_saveBalance:
  assumes "wf_states s"
  shows "wf_states (saveBalance s a b i)"
proof -
  obtain s' r where r: "root_of s a = (s', r)" by fastforce
  then show ?thesis
    using wf_states_journal[OF root_of_wf(1,3)[OF assms r]] by (simp add: saveBalance_def)
qed

lemma findKey_raw [simp]: "findKey (s\<lparr>raw := m\<rparr>) = findKey s"
  by (rule ext)+ (simp add: findKey_def)

lemma wf_saveRaw: "wf_states s \<Longrightarrow> wf_states (saveRawStateChange s a slot i v)"
  by (simp add: wf_states_def saveRawStateChange_def Let_def)

lemma saveChange_cases:
  "saveChange s a self off t i v = (err, s') \<Longrightarrow>
     (\<exists>o8 k. offset_u8 off = Some o8 \<and> findKey s a self o8 t = Some k \<and> err = None \<and>
        s' = s\<lparr>keys := (keys s)[k := JournalChanges (keys s ! k) i v]\<rparr>) \<or> err \<noteq> None \<and> s' = s"
  by (auto simp: saveChange_def split: option.splits if_splits)

lemma wf_saveChange:
  assumes "wf_states s" "saveChange s a self off t i v = (err, s')"
  shows "wf_states s'"
  using saveChange_cases[OF assms(2)]
proof
  assume "\<exists>o8 k. offset_u8 off = Some o8 \<and> findKey s a self o8 t = Some k \<and> err = None \<and>
        s' = s\<lparr>keys := (keys s)[k := JournalChanges (keys s ! k) i v]\<rparr>"
  then obtain o8 k where k: "findKey s a self o8 t = Some k"
      "s' = s\<lparr>keys := (keys s)[k := JournalChanges (keys s ! k) i v]\<rparr>" by blast
  then have "k < length (keys s)" using assms(1) unfolding wf_states_def by blast
  then show ?thesis using wf_states_journal[OF assms(1)] k(2) by simp
qed (use assms(1) in simp)

text \<open>The parent that \<open>saveKey\<close> adds to.\<close>

definition parent_key ::
  "StateChanges \<Rightarrow> address \<Rightarrow> u256 option \<Rightarrow> hash \<Rightarrow> (StateChanges \<times> nat) option" where
  "parent_key s a parent pt =
     (case parent of
        None \<Rightarrow> Some (root_of s a)
      | Some p \<Rightarrow> map_option (\<lambda>k. (s, k)) (findKey s a p 0 pt))"

lemma saveKey_parent:
  "saveKey s a parent self off t pt idx =
     (case offset_u8 off of
        None \<Rightarrow> Some (Some (ErrMsg ''offset overflow''), s)
      | Some o8 \<Rightarrow>
          (case parent_key s a parent pt of
             None \<Rightarrow> Some (Some (ErrMsg ''parent key not found''), s)
           | Some (s, k) \<Rightarrow> do {
               (h, child) \<leftarrow> AddChild (keys s @ [NewBranchKey self o8 t idx]) k (length (keys s));
               slot \<leftarrow> k_slot (h ! child);
               Some (None, addKey (s\<lparr>keys := h\<rparr>) a slot (k_offset (h ! child)) child) }))"
  by (simp add: saveKey_def parent_key_def Let_def split: option.split)

lemma parent_key_wf:
  assumes "wf_states s" "parent_key s a parent pt = Some (s', k)"
  shows "wf_states s'" "roots s' a \<noteq> None" "k < length (keys s')" "same_keys (keys s) (keys s')"
    "sindex s' = sindex s"
proof -
  have "wf_states s' \<and> roots s' a \<noteq> None \<and> k < length (keys s') \<and> same_keys (keys s) (keys s')
      \<and> sindex s' = sindex s"
  proof (cases parent)
    case None
    then have r: "root_of s a = (s', k)" using assms(2) by (simp add: parent_key_def)
    then show ?thesis using root_of_wf[OF assms(1) r] by simp
  next
    case (Some p)
    then have "findKey s a p 0 pt = Some k" "s' = s"
      using assms(2) by (auto simp: parent_key_def)
    then show ?thesis
      using assms(1) unfolding wf_states_def by (auto simp: same_keys_def same_key_def)
  qed
  then show "wf_states s'" "roots s' a \<noteq> None" "k < length (keys s')"
    "same_keys (keys s) (keys s')" "sindex s' = sindex s" by blast+
qed

text \<open>\<open>saveKey\<close> never panics on a well-formed cache; when it reports no error, the new key, or the
  key that has its position already, is in the index.\<close>

lemma saveKey_ok:
  assumes "wf_states s" "offset_u8 off = Some o8" "parent_key s a parent pt = Some (s1, k)"
  obtains h c where
    "saveKey s a parent self off t pt idx = Some (None, addKey (s1\<lparr>keys := h\<rparr>) a self o8 c)"
    "AddChild (keys s1 @ [NewBranchKey self o8 t idx]) k (length (keys s1)) = Some (h, c)"
    "wf_states (addKey (s1\<lparr>keys := h\<rparr>) a self o8 c)" "same_keys (keys s1) h" "c < length h"
    "length h = Suc (length (keys s1))"
    "\<forall>i<length (keys s1). k_changes (h ! i) = k_changes (keys s1 ! i)"
    "c = (case get0 (k_children (keys s1 ! k)) self o8 of None \<Rightarrow> length (keys s1) | Some e \<Rightarrow> e)"
    "c = length (keys s1) \<longrightarrow> k_typeId (h ! c) = t \<and> k_changes (h ! c) = None"
proof -
  note p = parent_key_wf[OF assms(1,3)]
  let ?b = "NewBranchKey self o8 t idx"
  let ?h = "keys s1 @ [?b]"
  have b: "wf_node ?b" by (simp add: wf_node_def NewBranchKey_def)
  have wf1: "wf_keys (keys s1)" using p(1) by (simp add: wf_states_def)
  have wf: "wf_keys ?h" using wf1 b by (intro wf_keys_append) (simp_all add: NewBranchKey_def)
  have new: "length (keys s1) < length ?h" "k_slot (?h ! length (keys s1)) = Some self"
    and off: "k_offset (?h ! length (keys s1)) = o8" by (simp_all add: NewBranchKey_def)
  obtain h' c where h: "AddChild ?h k (length (keys s1)) = Some (h', c)" "wf_keys h'"
      "length h' = length ?h" "same_keys ?h h'" "c < length ?h" "k_slot (?h ! c) = Some self"
      "k_offset (?h ! c) = o8" "\<forall>i<length ?h. k_changes (h' ! i) = k_changes (?h ! i)"
      "c = (case get0 (k_children (?h ! k)) self o8 of None \<Rightarrow> length (keys s1) | Some e \<Rightarrow> e)"
    using AddChild_ok[OF wf p(3) new] unfolding off by metis
  have c: "k_slot (h' ! c) = Some self" "k_offset (h' ! c) = o8" "k_typeId (h' ! c) = k_typeId (?h ! c)"
    using h by (auto simp: same_keys_def same_key_def)
  have same: "same_keys (keys s1) h'" using same_keys_append h(4) by (rule same_keys_trans)
  have "wf_states (s1\<lparr>keys := h'\<rparr>)" using p(1) h(2) same by (rule wf_states_keys)
  then have "wf_states (addKey (s1\<lparr>keys := h'\<rparr>) a self o8 c)"
    using p(2) h c by (intro wf_states_addKey) simp_all
  moreover have "saveKey s a parent self off t pt idx = Some (None, addKey (s1\<lparr>keys := h'\<rparr>) a self o8 c)"
    using assms(2,3) h(1) c by (simp add: saveKey_parent)
  moreover have "\<forall>i<length (keys s1). k_changes (h' ! i) = k_changes (keys s1 ! i)"
    using h(8) by (auto simp: nth_append)
  moreover have "c = length (keys s1) \<longrightarrow> k_typeId (h' ! c) = t \<and> k_changes (h' ! c) = None"
    using c(3) h(8) by (auto simp: NewBranchKey_def)
  moreover have "?h ! k = keys s1 ! k" using p(3) by (simp add: nth_append)
  ultimately show thesis using that[OF _ h(1)] same h(3,5,9) by simp
qed

lemma wf_saveKey:
  assumes "wf_states s" "saveKey s a parent self off t pt idx = Some (err, s')"
  shows "wf_states s'"
proof (cases "offset_u8 off")
  case None
  then show ?thesis using assms by (simp add: saveKey_parent)
next
  case (Some o8)
  show ?thesis
  proof (cases "parent_key s a parent pt")
    case None
    then show ?thesis using assms Some by (simp add: saveKey_parent)
  next
    case p: (Some sk)
    obtain s1 k where "sk = (s1, k)" by (cases sk)
    with p have "parent_key s a parent pt = Some (s1, k)" by simp
    from saveKey_ok[OF assms(1) Some this] assms(2) show ?thesis by (metis option.inject prod.inject)
  qed
qed

lemma sc_reachable_wf: "sc_reachable s \<Longrightarrow> wf_states s"
proof (induction rule: sc_reachable.induct)
  case sc_new
  then show ?case by (simp add: wf_states_def wf_keys_def NewStateChanges_def findKey_def)
next
  case (sc_key s account parent self offset typeId parentTypeId idx err s')
  then show ?case using wf_saveKey by blast
next
  case (sc_change s account self offset typeId callIdx newVal err s')
  then show ?case using wf_saveChange by blast
qed (simp_all add: wf_saveBalance wf_saveRaw)

subsection \<open>Keys belong to one account\<close>

definition edge :: "StorageKey list \<Rightarrow> nat \<Rightarrow> nat \<Rightarrow> bool" where
  "edge h i c \<longleftrightarrow> i < length h \<and>
     ((\<exists>slot row off. k_children (h ! i) slot = Some row \<and> row off = Some c) \<or>
      (\<exists>d. map_of (k_childrenIndex (h ! i)) d = Some c))"

definition owned :: "StateChanges \<Rightarrow> (nat \<Rightarrow> address) \<Rightarrow> bool" where
  "owned s own \<longleftrightarrow>
     (\<forall>a r. roots s a = Some r \<longrightarrow> own r = a) \<and>
     (\<forall>i c. edge (keys s) i c \<longrightarrow> own c = own i) \<and>
     (\<forall>a slot off t c. findKey s a slot off t = Some c \<longrightarrow> own c = a)"

lemma edge_append:
  "k_children k = Map.empty \<Longrightarrow> k_childrenIndex k = [] \<Longrightarrow> edge (h @ [k]) i c \<longleftrightarrow> edge h i c"
  by (auto simp: edge_def nth_append less_Suc_eq)

lemma edge_journal: "edge (h[j := JournalChanges (h ! j) x v]) i c \<longleftrightarrow> edge h i c"
  by (cases "j < length h") (auto simp: edge_def nth_list_update journal_links)

lemma edge_younger: "wf_keys h \<Longrightarrow> edge h i c \<Longrightarrow> i < c \<and> c < length h"
  unfolding wf_keys_def edge_def links_ok_def by blast

lemma AddChild_edges:
  assumes "AddChild h k child = Some (h', c)" "k < length h"
  shows "edge h' i x \<Longrightarrow> edge h i x \<or> i = k \<and> x = child" "c = child \<or> edge h k c"
proof -
  obtain slot where slot: "k_slot (h ! child) = Some slot"
    using assms(1) by (auto simp: AddChild_def bind_eq_Some)
  let ?off = "k_offset (h ! child)" and ?d = "k_data (h ! child)"
  define p1 where "p1 = (if k_children (h ! k) slot = None
      then (h ! k)\<lparr>k_children := (k_children (h ! k))(slot \<mapsto> Map.empty)\<rparr> else h ! k)"
  define p2 where "p2 = (if map_of (k_childrenIndex p1) ?d = None
      then p1\<lparr>k_childrenIndex := AList.update ?d child (k_childrenIndex p1)\<rparr> else p1)"
  define row where "row = get0 (k_children (h ! k)) slot"
  define p3 where "p3 = p2\<lparr>k_children := (k_children p2)(slot \<mapsto> row(?off \<mapsto> child))\<rparr>"
  have row2: "k_children p2 slot = Some row" by (auto simp: p2_def p1_def row_def get0_def)
  have add: "AddChild h k child = (case row ?off of None \<Rightarrow> Some (h[k := p3], child)
      | Some existing \<Rightarrow> Some (h[k := p2], existing))"
    using row2 unfolding AddChild_def slot Let_def bind.simps p1_def[symmetric] p2_def[symmetric]
    by (simp add: p3_def split: option.split)
  have idx: "map_of (k_childrenIndex p2) d = (if map_of (k_childrenIndex (h ! k)) ?d = None \<and> d = ?d
      then Some child else map_of (k_childrenIndex (h ! k)) d)" for d
    by (auto simp: p2_def p1_def update_conv)
  have pos: "row' off = Some x \<Longrightarrow> k_children p2 sl = Some row' \<Longrightarrow>
      \<exists>row''. k_children (h ! k) sl = Some row'' \<and> row'' off = Some x" for row' off sl x
    by (auto simp: p2_def p1_def split: if_splits)
  have pos3: "row' off = Some x \<Longrightarrow> k_children p3 sl = Some row' \<Longrightarrow> x = child \<or>
      (\<exists>row''. k_children (h ! k) sl = Some row'' \<and> row'' off = Some x)" for row' off sl x
    using pos[of row off x slot] pos[of row' off x sl] row2 by (auto simp: p3_def split: if_splits)
  have i3: "k_childrenIndex p3 = k_childrenIndex p2" by (simp add: p3_def)
  have sub: "edge h i x \<or> i = k \<and> x = child" if "edge (h[k := p2]) i x \<or> edge (h[k := p3]) i x" for i x
  proof (cases "i = k")
    case True
    with that have "(\<exists>sl row' off. k_children p2 sl = Some row' \<and> row' off = Some x)
        \<or> (\<exists>sl row' off. k_children p3 sl = Some row' \<and> row' off = Some x)
        \<or> (\<exists>d. map_of (k_childrenIndex p2) d = Some x)"
      using assms(2) i3 unfolding edge_def by auto
    then have "x = child \<or> (\<exists>sl row' off. k_children (h ! k) sl = Some row' \<and> row' off = Some x)
        \<or> (\<exists>d. map_of (k_childrenIndex (h ! k)) d = Some x)"
      using pos pos3 idx by (metis option.inject)
    then show ?thesis using True assms(2) unfolding edge_def by blast
  next
    case False
    then show ?thesis using that by (simp add: edge_def)
  qed
  show "edge h' i x \<Longrightarrow> edge h i x \<or> i = k \<and> x = child"
    using assms(1) sub unfolding add by (auto split: option.splits)
  show "c = child \<or> edge h k c"
    using assms unfolding add by (auto simp: edge_def row_def get0_def split: option.splits)
qed

lemma owned_keys: "owned s own \<Longrightarrow> (\<And>i c. edge h i c \<longleftrightarrow> edge (keys s) i c) \<Longrightarrow> owned (s\<lparr>keys := h\<rparr>) own"
  by (simp add: owned_def)

lemma owned_root_of:
  assumes "wf_states s" "owned s own" "root_of s a = (s', r)"
  shows "\<exists>own'. owned s' own'"
proof (cases "roots s a")
  case (Some q)
  then show ?thesis using assms by (auto simp: root_of_def)
next
  case None
  have young: "i < length (keys s) \<and> c < length (keys s)" if "edge (keys s) i c" for i c
    using that assms(1) edge_younger[of "keys s" i c] by (auto simp: wf_states_def)
  have idx: "c < length (keys s)" if "findKey s b sl o8 t = Some c" for b sl o8 t c
    using that assms(1) unfolding wf_states_def by blast
  have rts: "r < length (keys s)" if "roots s b = Some r" for b r
    using that assms(1) unfolding wf_states_def by blast
  have "edge (keys s @ [NewRootKey]) i c \<longleftrightarrow> edge (keys s) i c" for i c
    by (rule edge_append) (simp_all add: NewRootKey_def)
  then have "(own(length (keys s) := a)) c = (own(length (keys s) := a)) i"
    if "edge (keys s @ [NewRootKey]) i c" for i c
    using that young[of i c] assms(2) unfolding owned_def by auto
  moreover have "(own(length (keys s) := a)) r = b"
    if "((roots s)(a \<mapsto> length (keys s))) b = Some r" for b r
    using that rts[of b r] assms(2) unfolding owned_def by (auto split: if_splits)
  moreover have "(own(length (keys s) := a)) c = b" if "findKey s b sl o8 t = Some c" for b sl o8 t c
    using that idx[OF that] assms(2) unfolding owned_def by auto
  ultimately have "owned (s\<lparr>keys := keys s @ [NewRootKey], roots := (roots s)(a \<mapsto> length (keys s))\<rparr>)
      (own(length (keys s) := a))"
    unfolding owned_def by (simp add: findKey_get0)
  then show ?thesis using assms(3) None by (auto simp: root_of_def)
qed

lemma owned_parent:
  assumes "wf_states s" "owned s own" "parent_key s a parent pt = Some (s', k)"
  shows "\<exists>own'. owned s' own' \<and> own' k = a"
proof (cases parent)
  case None
  then have r: "root_of s a = (s', k)" using assms(3) by (simp add: parent_key_def)
  show ?thesis
    using owned_root_of[OF assms(1,2) r] root_of_wf(2)[OF assms(1) r] unfolding owned_def by blast
next
  case (Some p)
  then have k: "findKey s a p 0 pt = Some k" "s' = s" using assms(3) by (auto simp: parent_key_def)
  then have "own k = a" using assms(2) unfolding owned_def by blast
  then show ?thesis using assms(2) k(2) by blast
qed

lemma owned_AddChild:
  assumes "wf_states s" "k < length (keys s)" "owned s own" "own k = a"
    and add: "AddChild (keys s @ [NewBranchKey self o8 t idx]) k (length (keys s)) = Some (h, c)"
  shows "owned (addKey (s\<lparr>keys := h\<rparr>) a self o8 c) (own(length (keys s) := a))"
proof -
  let ?n = "length (keys s)" and ?h = "keys s @ [NewBranchKey self o8 t idx]"
  let ?own = "own(?n := a)"
  have young: "i < ?n \<and> c < ?n" if "edge (keys s) i c" for i c
    using that assms(1) edge_younger[of "keys s" i c] by (auto simp: wf_states_def)
  have e: "edge ?h i x \<longleftrightarrow> edge (keys s) i x" for i x
    by (rule edge_append) (simp_all add: NewBranchKey_def)
  have "?own x = ?own i" if "edge h i x" for i x
  proof -
    have "edge (keys s) i x \<or> i = k \<and> x = ?n"
      using AddChild_edges(1)[OF add _ that] assms(2) e by simp
    then show ?thesis using young[of i x] assms(2,3,4) unfolding owned_def by auto
  qed
  moreover have own_c: "?own c = a"
  proof -
    have "c = ?n \<or> edge (keys s) k c" using AddChild_edges(2)[OF add] assms(2) e by simp
    then show ?thesis using young[of k c] assms(3,4) unfolding owned_def by auto
  qed
  moreover have "?own r = b" if "roots s b = Some r" for b r
  proof -
    have "r < ?n" "own r = b" using that assms(1,3) unfolding wf_states_def owned_def by blast+
    then show ?thesis by simp
  qed
  moreover have "?own x = b" if "findKey s b sl o9 ty = Some x" for b sl o9 ty x
  proof -
    have "x < ?n" "own x = b" using that assms(1,3) unfolding wf_states_def owned_def by blast+
    then show ?thesis by simp
  qed
  ultimately show ?thesis
    unfolding owned_def findKey_addKey by (auto split: if_splits)
qed

lemma sc_reachable_owned: "sc_reachable s \<Longrightarrow> \<exists>own. owned s own"
proof (induction rule: sc_reachable.induct)
  case sc_new
  then show ?case by (simp add: owned_def edge_def NewStateChanges_def findKey_def)
next
  case (sc_balance s account newBalance callIdx)
  obtain s' r where r: "root_of s account = (s', r)" by fastforce
  obtain own where "owned s' own"
    using sc_balance sc_reachable_wf owned_root_of[OF _ _ r] by blast
  then show ?case using r by (auto simp: saveBalance_def edge_journal intro!: exI[of _ own] owned_keys)
next
  case (sc_raw s account slot callIdx val)
  then show ?case by (simp add: owned_def saveRawStateChange_def Let_def)
next
  case (sc_change s account self offset typeId callIdx newVal err s')
  from sc_change.IH obtain own where own: "owned s own" by blast
  from saveChange_cases[OF sc_change.hyps(2)] show ?case
  proof
    assume "\<exists>o8 k. offset_u8 offset = Some o8 \<and> findKey s account self o8 typeId = Some k \<and> err = None \<and>
        s' = s\<lparr>keys := (keys s)[k := JournalChanges (keys s ! k) callIdx newVal]\<rparr>"
    then show ?thesis using owned_keys[OF own] edge_journal by blast
  qed (use own in blast)
next
  case (sc_key s account parent self offset typeId parentTypeId idx err s')
  note wf = sc_reachable_wf[OF sc_key.hyps(1)]
  from sc_key.IH obtain own where own: "owned s own" by blast
  show ?case
  proof (cases "offset_u8 offset = None \<or> parent_key s account parent parentTypeId = None")
    case True
    then have "s' = s" using sc_key.hyps(2) by (auto simp: saveKey_parent split: option.splits)
    then show ?thesis using own by blast
  next
    case False
    then obtain o8 s1 k where p: "offset_u8 offset = Some o8"
        "parent_key s account parent parentTypeId = Some (s1, k)" by fastforce
    obtain own1 where own1: "owned s1 own1" "own1 k = account" using owned_parent[OF wf own p(2)] by blast
    obtain h c where h: "s' = addKey (s1\<lparr>keys := h\<rparr>) account self o8 c"
        "AddChild (keys s1 @ [NewBranchKey self o8 typeId idx]) k (length (keys s1)) = Some (h, c)"
      using saveKey_ok[OF wf p] sc_key.hyps(2) by (metis option.inject prod.inject)
    show ?thesis
      using owned_AddChild[OF parent_key_wf(1,3)[OF wf p(2)] own1 h(2)] unfolding h(1) by blast
  qed
qed

section \<open>Properties\<close>

text \<open>
  C15: Every cache that the tracer can build satisfies the invariant (children have the position
  and the name they are registered under, pointers only lead to younger keys, a branch key has no
  changes and a data key has some, no recorded value repeats the one before it, the index table
  leads to keys with the slot, offset and type asked for), and no two accounts share a key.
\<close>

theorem state_changes_invariant:
  assumes "sc_reachable s"
  shows "wf_states s \<and>
    (\<forall>a b slot slot' off off' t t' c.
       findKey s a slot off t = Some c \<and> findKey s b slot' off' t' = Some c \<longrightarrow>
       a = b \<and> slot = slot' \<and> off = off' \<and> t = t')"
proof -
  have wf: "wf_states s" by (rule sc_reachable_wf[OF assms])
  obtain own where own: "owned s own" using sc_reachable_owned[OF assms] by blast
  have "a = b \<and> slot = slot' \<and> off = off' \<and> t = t'"
    if "findKey s a slot off t = Some c" "findKey s b slot' off' t' = Some c" for a b slot slot' off off' t t' c
  proof -
    have "own c = a" "own c = b" using that own unfolding owned_def by blast+
    moreover have "k_slot (keys s ! c) = Some slot" "k_slot (keys s ! c) = Some slot'"
        "k_offset (keys s ! c) = off" "k_offset (keys s ! c) = off'"
        "k_typeId (keys s ! c) = t" "k_typeId (keys s ! c) = t'"
      using that wf unfolding wf_states_def by blast+
    ultimately show ?thesis by simp
  qed
  then show ?thesis using wf by blast
qed

theorem state_changes_invariant_witness:
  "wf_states (saveBalance NewStateChanges 1 5 0)"
  using state_changes_invariant[OF sc_balance[OF sc_new]] by blast

lemma Slot_findKey:
  "offset_u8 off = Some o8 \<Longrightarrow> findKey s a slot o8 t = Some k \<Longrightarrow>
     Slot s a (Some slot) off t = Inr (k_changes (keys s ! k))"
  by (simp add: Slot_def)

text \<open>
  C16: After a change was saved, looking up the same slot, offset and type gives a record whose
  last value for the current call is the value saved and whose values for other calls are as
  before; a record of any other slot, offset, type or account is not affected.
\<close>

theorem saveChange_Slot:
  assumes "sc_reachable s" "saveChange s a self off t i v = (None, s')"
  shows "\<exists>c vs. Slot s' a (Some self) off t = Inr (Some c) \<and> c i = Some vs \<and> vs \<noteq> [] \<and> last vs = v
      \<and> distinct_adj vs
      \<and> (\<forall>j c0. j \<noteq> i \<and> Slot s a (Some self) off t = Inr (Some c0) \<longrightarrow> c j = c0 j)
      \<and> (\<forall>b slot off' t'. (b, slot, offset_u8 off', t') \<noteq> (a, self, offset_u8 off, t)
           \<longrightarrow> Slot s' b (Some slot) off' t' = Slot s b (Some slot) off' t')"
proof -
  have wf: "wf_states s" by (rule sc_reachable_wf[OF assms(1)])
  obtain own where own: "owned s own" using sc_reachable_owned[OF assms(1)] by blast
  obtain o8 k where k: "offset_u8 off = Some o8" "findKey s a self o8 t = Some k"
      "s' = s\<lparr>keys := (keys s)[k := JournalChanges (keys s ! k) i v]\<rparr>"
    using saveChange_cases[OF assms(2)] by auto
  have kk: "k < length (keys s)" "own k = a" "k_slot (keys s ! k) = Some self"
      "k_offset (keys s ! k) = o8" "k_typeId (keys s ! k) = t"
    using k(2) wf own unfolding wf_states_def owned_def by blast+
  let ?old = "case k_changes (keys s ! k) of None \<Rightarrow> newStorageChange | Some c \<Rightarrow> c"
  let ?c = "sc_append ?old i v"
  have S': "Slot s' a (Some self) off t = Inr (Some ?c)"
    using k kk(1) by (simp add: Slot_def journal_changes)
  have wfk: "wf_keys (keys s)" using wf by (simp add: wf_states_def)
  then have "\<forall>c. k_changes (keys s ! k) = Some c \<longrightarrow> wf_changes c"
    using kk(1) unfolding wf_keys_def wf_node_def by blast
  then have "wf_changes ?old" using wf_changes_new by (simp split: option.split)
  then have adj: "distinct_adj vs" if "?c i = Some vs" for vs
    using that wf_changes_append[of ?old i v] unfolding wf_changes_def by blast
  obtain vs where vs: "?c i = Some vs" "vs \<noteq> []" "last vs = v" using sc_append_last by blast
  have other: "Slot s' b (Some slot) off' t' = Slot s b (Some slot) off' t'"
    if d: "(b, slot, offset_u8 off', t') \<noteq> (a, self, offset_u8 off, t)" for b slot off' t'
  proof (cases "offset_u8 off'")
    case None
    then show ?thesis by (simp add: Slot_def)
  next
    case (Some o9)
    have "k' \<noteq> k" if f: "findKey s b slot o9 t' = Some k'" for k'
    proof
      assume "k' = k"
      then have "own k = b" "k_slot (keys s ! k) = Some slot" "k_offset (keys s ! k) = o9"
          "k_typeId (keys s ! k) = t'"
        using f wf own unfolding wf_states_def owned_def by blast+
      then show False using d kk k(1) Some by simp
    qed
    then show ?thesis using Some k(3) by (auto simp: Slot_def split: bind_splits)
  qed
  have "c0 = ?old" if "Slot s a (Some self) off t = Inr (Some c0)" for c0
    using that k by (simp add: Slot_def)
  then show ?thesis
    using S' vs adj other sc_append_other[of _ i ?old v] by (intro exI[of _ ?c] exI[of _ vs]) auto
qed

text \<open>
  C17: Saving a new key below an account or below an existing key succeeds and makes it findable:
  when its position is free and it is not indexed yet, a change can be saved for it at once and
  is then the only value recorded.
\<close>

theorem saveKey_then_saveChange:
  assumes "sc_reachable s" "offset_u8 off = Some o8" "parent_key s a parent pt = Some (s1, k)"
    and "get0 (k_children (keys s1 ! k)) self o8 = None" "findKey s a self o8 t = None"
  shows "\<exists>s' s''. saveKey s a parent self off t pt idx = Some (None, s')
      \<and> Slot s' a (Some self) off t = Inr None
      \<and> saveChange s' a self off t i v = (None, s'')
      \<and> Slot s'' a (Some self) off t = Inr (Some [i \<mapsto> [v]])"
proof -
  have wf: "wf_states s" by (rule sc_reachable_wf[OF assms(1)])
  note p = parent_key_wf[OF wf assms(3)]
  let ?n = "length (keys s1)"
  obtain h where h: "saveKey s a parent self off t pt idx = Some (None, addKey (s1\<lparr>keys := h\<rparr>) a self o8 ?n)"
      "k_typeId (h ! ?n) = t" "k_changes (h ! ?n) = None" "length h = Suc ?n"
    using saveKey_ok[OF wf assms(2,3), of self t idx] assms(4) by (metis option.simps(4))
  let ?s = "addKey (s1\<lparr>keys := h\<rparr>) a self o8 ?n"
  have f: "findKey ?s a self o8 t = Some ?n"
    using assms(5) h(2) p(5) unfolding findKey_addKey by (simp add: findKey_get0)
  have "k_changes (JournalChanges (h ! ?n) i v) = Some [i \<mapsto> [v]]"
    using h(3) by (simp add: journal_changes sc_append_def newStorageChange_def)
  moreover define s'' where "s'' = ?s\<lparr>keys := h[?n := JournalChanges (h ! ?n) i v]\<rparr>"
  moreover have "saveChange ?s a self off t i v = (None, s'')"
    using p(2) assms(2) f by (auto simp: saveChange_def s''_def)
  moreover have "findKey s'' a self o8 t = Some ?n" using f by (simp add: s''_def)
  ultimately show ?thesis
    using h(1) Slot_findKey[OF assms(2) f] Slot_findKey[OF assms(2), of s'' a self t ?n] h(3,4)
    by (intro exI[of _ ?s] exI[of _ s'']) simp
qed


lemma first_key:
  "saveKey NewStateChanges a None self None t pt d = Some (None,
     \<lparr>keys = [NewRootKey\<lparr>k_children := [self \<mapsto> [0 \<mapsto> 1]], k_childrenIndex := [(d, 1)]\<rparr>,
              NewBranchKey self 0 t d],
      roots = [a \<mapsto> 0], sindex = [a \<mapsto> [self \<mapsto> [0 \<mapsto> [t \<mapsto> 1]]]], raw = Map.empty\<rparr>)"
  by (simp add: saveKey_def offset_u8_def root_of_def NewStateChanges_def AddChild_def NewRootKey_def
      NewBranchKey_def addKey_def get0_def Let_def)

theorem saveChange_Slot_witness:
  "\<exists>s' s'' c vs. saveKey NewStateChanges 1 None 7 None 9 0 [65] = Some (None, s')
     \<and> saveChange s' 1 7 None 9 0 [42] = (None, s'')
     \<and> Slot s'' 1 (Some 7) None 9 = Inr (Some c) \<and> c 0 = Some vs \<and> last vs = [42]"
proof -
  obtain s' s'' where s: "saveKey NewStateChanges 1 None 7 None 9 0 [65] = Some (None, s')"
      "saveChange s' 1 7 None 9 0 [42] = (None, s'')"
    by (simp add: first_key saveChange_def offset_u8_def findKey_def)
  have "sc_reachable s'" using sc_key[OF sc_new s(1)] .
  from saveChange_Slot[OF this s(2)] s show ?thesis by metis
qed

theorem saveKey_then_saveChange_witness:
  "\<exists>s' s''. saveKey NewStateChanges 1 None 7 (Some 3) 9 0 [65] = Some (None, s')
      \<and> Slot s' 1 (Some 7) (Some 3) 9 = Inr None
      \<and> saveChange s' 1 7 (Some 3) 9 0 [42] = (None, s'')
      \<and> Slot s'' 1 (Some 7) (Some 3) 9 = Inr (Some [0 \<mapsto> [[42]]])"
proof (rule saveKey_then_saveChange[OF sc_new])
  show "offset_u8 (Some 3) = Some 3"
    by (simp add: offset_u8_def Uint64WithOverflow_def Uint64_def IsUint64_def)
  show "parent_key NewStateChanges 1 None 0
      = Some (fst (root_of NewStateChanges 1), snd (root_of NewStateChanges 1))"
    by (simp add: parent_key_def)
qed (simp_all add: root_of_def NewStateChanges_def NewRootKey_def get0_def findKey_def)



text \<open>The balance records of a transfer.\<close>

definition last_balance :: "StateChanges \<Rightarrow> address \<Rightarrow> u64 \<Rightarrow> bytes option" where
  "last_balance s a i = do { c \<leftarrow> Balance s a; vs \<leftarrow> c i; Some (last vs) }"

lemma saveBalance_last:
  assumes "wf_states s"
  shows "last_balance (saveBalance s a b i) a i = Some (Bytes b)"
    "b' \<noteq> a \<Longrightarrow> last_balance (saveBalance s a b i) b' i = last_balance s b' i"
proof -
  obtain s1 r where r: "root_of s a = (s1, r)" by fastforce
  note w = root_of_wf[OF assms r]
  obtain vs where "sc_append (case k_changes (keys s1 ! r) of None \<Rightarrow> newStorageChange | Some c \<Rightarrow> c)
      i (Bytes b) i = Some vs" "last vs = Bytes b"
    using sc_append_last by blast
  then show "last_balance (saveBalance s a b i) a i = Some (Bytes b)"
    using r w(2,3) by (simp add: last_balance_def Balance_def saveBalance_def journal_changes)
  assume ne: "b' \<noteq> a"
  have "roots s1 b' = roots s b'" "\<forall>j<length (keys s). keys s1 ! j = keys s ! j"
    using r ne by (auto simp: root_of_def nth_append split: option.splits)
  moreover have "q \<noteq> r \<and> q < length (keys s)" if "roots s b' = Some q" for q
    using that ne w(1,2) calculation(1) assms unfolding wf_states_def by metis
  ultimately show "last_balance (saveBalance s a b i) b' i = last_balance s b' i"
    using r by (auto simp: last_balance_def Balance_def saveBalance_def split: bind_splits)
qed



end
