(* ===== verification/Machine.thy ===== *)
theory Machine
  imports Precompiles Contract State_Changes
begin

text \<open>
  The state the instructions work on: the interface of the state database
  (\<open>src/vm/interface.go\<close>), the block and transaction contexts and the virtual machine object
  (\<open>src/vm/evm.go\<close>), the scope of one frame (\<open>src/vm/interpreter.go\<close>), and the events an
  execution logger receives (\<open>src/vm/logger.go\<close>). The state database, the chain's transfer
  functions, the aspect runtime and the cryptographic libraries are code outside the
  repository: they are fields of the environment, functions over an arbitrary type of worlds.
\<close>

section \<open>The state database\<close>

record Log =
  log_Address :: address
  log_Topics :: "hash list"
  log_Data :: bytes
  log_BlockNumber :: u64

record 's StateDB =
  CreateAccount :: "'s \<Rightarrow> address \<Rightarrow> 's"
  SubBalance :: "'s \<Rightarrow> address \<Rightarrow> int \<Rightarrow> 's"
  AddBalance :: "'s \<Rightarrow> address \<Rightarrow> int \<Rightarrow> 's"
  GetBalance :: "'s \<Rightarrow> address \<Rightarrow> int"
  GetNonce :: "'s \<Rightarrow> address \<Rightarrow> u64"
  SetNonce :: "'s \<Rightarrow> address \<Rightarrow> u64 \<Rightarrow> 's"
  GetCodeHash :: "'s \<Rightarrow> address \<Rightarrow> hash"
  GetCode :: "'s \<Rightarrow> address \<Rightarrow> bytes"
  SetCode :: "'s \<Rightarrow> address \<Rightarrow> bytes \<Rightarrow> 's"
  GetCodeSize :: "'s \<Rightarrow> address \<Rightarrow> nat"
  AddRefund :: "'s \<Rightarrow> u64 \<Rightarrow> 's"
  SubRefund :: "'s \<Rightarrow> u64 \<Rightarrow> 's"
  GetRefund :: "'s \<Rightarrow> u64"
  GetCommittedState :: "'s \<Rightarrow> address \<Rightarrow> hash \<Rightarrow> hash"
  GetState :: "'s \<Rightarrow> address \<Rightarrow> hash \<Rightarrow> hash"
  SetState :: "'s \<Rightarrow> address \<Rightarrow> hash \<Rightarrow> hash \<Rightarrow> 's"
  GetTransientState :: "'s \<Rightarrow> address \<Rightarrow> hash \<Rightarrow> hash"
  SetTransientState :: "'s \<Rightarrow> address \<Rightarrow> hash \<Rightarrow> hash \<Rightarrow> 's"
  Suicide :: "'s \<Rightarrow> address \<Rightarrow> bool \<times> 's"
  HasSuicided :: "'s \<Rightarrow> address \<Rightarrow> bool"
  Exist :: "'s \<Rightarrow> address \<Rightarrow> bool"
  Empty :: "'s \<Rightarrow> address \<Rightarrow> bool"
  AddressInAccessList :: "'s \<Rightarrow> address \<Rightarrow> bool"
  SlotInAccessList :: "'s \<Rightarrow> address \<Rightarrow> hash \<Rightarrow> bool \<times> bool"
  AddAddressToAccessList :: "'s \<Rightarrow> address \<Rightarrow> 's"
  AddSlotToAccessList :: "'s \<Rightarrow> address \<Rightarrow> hash \<Rightarrow> 's"
  RevertToSnapshot :: "'s \<Rightarrow> nat \<Rightarrow> 's"
  Snapshot :: "'s \<Rightarrow> nat \<times> 's"
  AddLog :: "'s \<Rightarrow> Log \<Rightarrow> 's"
  AddPreimage :: "'s \<Rightarrow> hash \<Rightarrow> bytes \<Rightarrow> 's"

section \<open>Contexts\<close>

record 's BlockContext =
  CanTransfer :: "'s \<Rightarrow> address \<Rightarrow> int \<Rightarrow> bool"
  Transfer :: "'s \<Rightarrow> address \<Rightarrow> address \<Rightarrow> int \<Rightarrow> 's"
  GetHash :: "u64 \<Rightarrow> hash"
  Coinbase :: address
  GasLimit :: u64
  BlockNumber :: int
  Time :: u64
  Difficulty :: int
  BaseFee :: "int option"
  Random :: "hash option"

text \<open>The message of a transaction, a struct of go-ethereum; prices may be missing.\<close>

record Message =
  msg_From :: address
  msg_To :: "address option"
  msg_Nonce :: u64
  msg_Value :: "int option"
  msg_GasLimit :: u64
  msg_GasPrice :: "int option"
  msg_GasFeeCap :: "int option"
  msg_GasTipCap :: "int option"
  msg_Data :: bytes

record TxContext =
  Origin :: address
  GasPrice :: int
  tx_Message :: "Message option"

text \<open>The wrapped message of a transaction context; a context without a message panics.\<close>

definition Msg :: "TxContext \<Rightarrow> Message option" where
  "Msg t = tx_Message t"

text \<open>\<open>HasTracer\<close> tells whether the configuration carries a logger.\<close>

record Config =
  HasTracer :: bool
  NoBaseFee :: bool
  EnablePreimageRecording :: bool
  ExtraEips :: "nat list"

text \<open>
  The aspect runtime gets the call's parameters and answers with a return value, the gas left
  and an error; it may change the world and the aspect context.
\<close>

record AspectCall =
  asp_From :: address
  asp_To :: address
  asp_Data :: bytes
  asp_BlockNum :: u64
  asp_Gas :: u64
  asp_Value :: int
  asp_Index :: u64
  asp_Ret :: bytes
  asp_Error :: string

type_synonym 's aspect =
  "AspectCall \<Rightarrow> 's \<Rightarrow> actx \<Rightarrow> (bytes \<times> u64 \<times> error option) \<times> 's \<times> actx"

record 's env =
  extern :: ext
  StateDB_of :: "'s StateDB"
  Context :: "'s BlockContext"
  Tx :: TxContext
  chainConfig_Rules :: "int \<Rightarrow> bool \<Rightarrow> u64 \<Rightarrow> Rules"
  chainRules :: Rules
  ConfigOf :: Config
  crypto_of :: crypto
  aspects_of :: aspect_runtime
  PreContractCall :: "'s aspect"
  PostContractCall :: "'s aspect"

section \<open>Frames and events\<close>

record ScopeContext =
  scMemory :: Memory
  scStack :: Stack
  scContract :: Contract

datatype 's log_event =
    CaptureStart address address bool bytes u64 int 's
  | CaptureEnd bytes u64 "error option"
  | CaptureEnter OpCode address address bytes u64 "int option"
  | CaptureExit bytes u64 "error option"
  | CaptureState u64 OpCode u64 u64 ScopeContext bytes nat "error option" 's
  | CaptureFault u64 OpCode u64 u64 ScopeContext nat "error option"

section \<open>The machine\<close>

text \<open>
  The fields of the EVM object and of its interpreter that an execution changes. \<open>events\<close> are the
  calls of the configured logger, in order. The Keccak state of the interpreter is overwritten
  before every use and is left out.
\<close>

record 's EVM =
  world :: 's
  depth :: nat
  abort :: bool
  callGasTemp :: u64
  tracer :: Tracer
  IsExecuteJP :: bool
  readOnly :: bool
  returnData :: bytes
  jumptabs_of :: jumptabs
  aspectCtx :: actx
  events :: "'s log_event list"

definition capture :: "'s env \<Rightarrow> 's log_event \<Rightarrow> 's EVM \<Rightarrow> 's EVM" where
  "capture E ev evm = (if HasTracer (ConfigOf E) then evm\<lparr>events := events evm @ [ev]\<rparr> else evm)"

definition Cancel :: "'s EVM \<Rightarrow> 's EVM" where
  "Cancel evm = evm\<lparr>abort := True\<rparr>"

definition Cancelled :: "'s EVM \<Rightarrow> bool" where
  "Cancelled evm = abort evm"

definition CloseAspectCall :: "'s EVM \<Rightarrow> 's EVM" where
  "CloseAspectCall evm = evm\<lparr>IsExecuteJP := False\<rparr>"

definition EnableAspectCall :: "'s EVM \<Rightarrow> 's EVM" where
  "EnableAspectCall evm = evm\<lparr>IsExecuteJP := True\<rparr>"

definition with_world :: "'s EVM \<Rightarrow> 's \<Rightarrow> 's EVM" where
  "with_world evm w = evm\<lparr>world := w\<rparr>"

text \<open>The calls an instruction can make; the interpreter ties the knot.\<close>

type_synonym 's call_result = "((bytes \<times> u64 \<times> error option) \<times> 's EVM) res"
type_synonym 's create_result = "((bytes \<times> address \<times> u64 \<times> error option) \<times> 's EVM) res"

record 's calls =
  do_Call :: "ContractRef \<Rightarrow> address \<Rightarrow> bytes \<Rightarrow> u64 \<Rightarrow> int \<Rightarrow> 's EVM \<Rightarrow> 's call_result"
  do_CallCode :: "ContractRef \<Rightarrow> address \<Rightarrow> bytes \<Rightarrow> u64 \<Rightarrow> int \<Rightarrow> 's EVM \<Rightarrow> 's call_result"
  do_DelegateCall :: "ContractRef \<Rightarrow> address \<Rightarrow> bytes \<Rightarrow> u64 \<Rightarrow> 's EVM \<Rightarrow> 's call_result"
  do_StaticCall :: "ContractRef \<Rightarrow> address \<Rightarrow> bytes \<Rightarrow> u64 \<Rightarrow> 's EVM \<Rightarrow> 's call_result"
  do_Create :: "ContractRef \<Rightarrow> bytes \<Rightarrow> u64 \<Rightarrow> int \<Rightarrow> 's EVM \<Rightarrow> 's create_result"
  do_Create2 :: "ContractRef \<Rightarrow> bytes \<Rightarrow> u64 \<Rightarrow> int \<Rightarrow> u256 \<Rightarrow> 's EVM \<Rightarrow> 's create_result"

text \<open>
  The two kinds of functions of a jump table: executing an instruction gives the returned data,
  the error and the new program counter, machine and scope; a dynamic gas function gives the gas
  or an error and may change the machine (access list, refund, \<open>callGasTemp\<close>), the frame's gas
  and the memory's last cost.
\<close>

type_synonym 's exec_result = "((bytes \<times> error option) \<times> u64 \<times> 's EVM \<times> ScopeContext) res"
type_synonym 's executionFunc = "'s env \<Rightarrow> 's calls \<Rightarrow> u64 \<Rightarrow> 's EVM \<Rightarrow> ScopeContext \<Rightarrow> 's exec_result"
type_synonym 's gasFunc =
  "'s env \<Rightarrow> 's EVM \<Rightarrow> Contract \<Rightarrow> Stack \<Rightarrow> Memory \<Rightarrow> u64
     \<Rightarrow> ((error + u64) \<times> 's EVM \<times> Contract \<times> Memory) option"

end
