(* ===== verification/Gas_Table.thy ===== *)
theory Gas_Table
  imports Machine
begin

text \<open>
  Gas (\<open>src/vm/gas.go\<close>, \<open>src/vm/gas_table.go\<close>, \<open>src/vm/operations_acl.go\<close>): the step
  constants, the call gas rule, the memory expansion cost and the dynamic gas functions. A gas
  function that reports an error returns \<open>Inl\<close>; a panic (a stack position that does not exist,
  the canary in SSTORE) is \<open>None\<close>. \<open>no_ovf\<close> is the test of an overflow flag followed by the
  return of \<open>ErrGasUintOverflow\<close>.
\<close>

section \<open>Constants and the call gas rule (gas.go)\<close>

definition GasQuickStep :: u64 where "GasQuickStep = 2"
definition GasFastestStep :: u64 where "GasFastestStep = 3"
definition GasFastStep :: u64 where "GasFastStep = 5"
definition GasMidStep :: u64 where "GasMidStep = 8"
definition GasSlowStep :: u64 where "GasSlowStep = 10"
definition GasExtStep :: u64 where "GasExtStep = 20"

definition callGas :: "bool \<Rightarrow> u64 \<Rightarrow> u64 \<Rightarrow> u256 \<Rightarrow> error + u64" where
  "callGas isEip150 availableGas base callCost =
     (let availableGas = availableGas - base;
          gas = availableGas - availableGas div 64
      in if isEip150 \<and> (\<not> IsUint64 callCost \<or> gas < Uint64 callCost) then Inr gas
         else if \<not> IsUint64 callCost then Inl ErrGasUintOverflow
         else Inr (Uint64 callCost))"

section \<open>Memory expansion (gas_table.go)\<close>

definition no_ovf :: "'a \<times> bool \<Rightarrow> ('a \<Rightarrow> error + 'b) \<Rightarrow> error + 'b" where
  "no_ovf r k = (if snd r then Inl ErrGasUintOverflow else k (fst r))"

definition memoryGasCost :: "ext \<Rightarrow> Memory \<Rightarrow> u64 \<Rightarrow> (error + u64) \<times> Memory" where
  "memoryGasCost X mem newMemSize =
     (if newMemSize = 0 then (Inr 0, mem)
      else if 0x1FFFFFFFE0 < newMemSize then (Inl ErrGasUintOverflow, mem)
      else
        let newMemSizeWords = toWordSize newMemSize;
            newMemSize = newMemSizeWords * 32
        in if Mem_Len mem < unat newMemSize
           then let square = newMemSizeWords * newMemSizeWords;
                    linCoef = newMemSizeWords * MemoryGas (Params X);
                    quadCoef = square div QuadCoeffDiv (Params X);
                    newTotalFee = linCoef + quadCoef;
                    fee = newTotalFee - lastGasCost mem
                in (Inr fee, mem\<lparr>lastGasCost := newTotalFee\<rparr>)
           else (Inr 0, mem))"

text \<open>A gas function that only looks at the stack and the memory, and its usual beginning:
  charge for the memory, return its error, go on with the rest.\<close>

definition mem_gas ::
  "(ext \<Rightarrow> Stack \<Rightarrow> Memory \<Rightarrow> u64 \<Rightarrow> ((error + u64) \<times> Memory) option) \<Rightarrow> 's gasFunc" where
  "mem_gas f E evm contract stack mem memorySize = do {
     (r, mem) \<leftarrow> f (extern E) stack mem memorySize;
     Some (r, evm, contract, mem) }"

definition mem_then ::
  "ext \<Rightarrow> Memory \<Rightarrow> u64 \<Rightarrow> (u64 \<Rightarrow> (error + u64) option) \<Rightarrow> ((error + u64) \<times> Memory) option" where
  "mem_then X mem memorySize k =
     (case memoryGasCost X mem memorySize of
        (Inl err, mem) \<Rightarrow> Some (Inl err, mem)
      | (Inr gas, mem) \<Rightarrow> do { r \<leftarrow> k gas; Some (r, mem) })"

definition memoryCopierGas :: "nat \<Rightarrow> 's gasFunc" where
  "memoryCopierGas stackpos = mem_gas (\<lambda>X stack mem memorySize.
     mem_then X mem memorySize (\<lambda>gas. do {
       back \<leftarrow> Back stack stackpos;
       Some (no_ovf (Uint64WithOverflow back) (\<lambda>words.
             no_ovf (SafeMul X (toWordSize words) (CopyGas (Params X))) (\<lambda>words.
             no_ovf (SafeAdd X gas words) Inr))) }))"

definition gasCallDataCopy :: "'s gasFunc" where "gasCallDataCopy = memoryCopierGas 2"
definition gasCodeCopy :: "'s gasFunc" where "gasCodeCopy = memoryCopierGas 2"
definition gasMcopy :: "'s gasFunc" where "gasMcopy = memoryCopierGas 2"
definition gasExtCodeCopy :: "'s gasFunc" where "gasExtCodeCopy = memoryCopierGas 3"
definition gasReturnDataCopy :: "'s gasFunc" where "gasReturnDataCopy = memoryCopierGas 2"

section \<open>Storage\<close>

text \<open>The result of a gas function that changed only the world.\<close>

definition gas_ret :: "'s EVM \<Rightarrow> Contract \<Rightarrow> Memory \<Rightarrow> 's \<Rightarrow> u64
    \<Rightarrow> ((error + u64) \<times> 's EVM \<times> Contract \<times> Memory) option" where
  "gas_ret evm contract mem w gas = Some (Inr gas, evm\<lparr>world := w\<rparr>, contract, mem)"

definition gasSStore :: "'s gasFunc" where
  "gasSStore E evm contract stack mem memorySize =
     (let db = StateDB_of E; P = Params (extern E); w = world evm; rules = chainRules E in do {
        y \<leftarrow> Back stack 1;
        x \<leftarrow> Back stack 0;
        let current = GetState db w (Contract_Address contract) x;
        if IsPetersburg rules \<or> \<not> IsConstantinople rules then
          if current = 0 \<and> y \<noteq> 0 then gas_ret evm contract mem w (SstoreSetGas P)
          else if current \<noteq> 0 \<and> y = 0
          then gas_ret evm contract mem (AddRefund db w (SstoreRefundGas P)) (SstoreClearGas P)
          else gas_ret evm contract mem w (SstoreResetGas P)
        else if current = y then gas_ret evm contract mem w (NetSstoreNoopGas P)
        else
          let original = GetCommittedState db w (Contract_Address contract) x in
          if original = current then
            if original = 0 then gas_ret evm contract mem w (NetSstoreInitGas P)
            else
              let w = (if y = 0 then AddRefund db w (NetSstoreClearRefund P) else w)
              in gas_ret evm contract mem w (NetSstoreCleanGas P)
          else
            let w = (if original \<noteq> 0 then
                       if current = 0 then SubRefund db w (NetSstoreClearRefund P)
                       else if y = 0 then AddRefund db w (NetSstoreClearRefund P) else w
                     else w);
                w = (if original = y then
                       if original = 0 then AddRefund db w (NetSstoreResetClearRefund P)
                       else AddRefund db w (NetSstoreResetRefund P)
                     else w)
            in gas_ret evm contract mem w (NetSstoreDirtyGas P) })"

definition gasSStoreEIP2200 :: "'s gasFunc" where
  "gasSStoreEIP2200 E evm contract stack mem memorySize =
     (let db = StateDB_of E; P = Params (extern E); w = world evm in
      if Gas contract \<le> SstoreSentryGasEIP2200 P
      then Some (Inl (ErrMsg ''not enough gas for reentrancy sentry''), evm, contract, mem)
      else do {
        y \<leftarrow> Back stack 1;
        x \<leftarrow> Back stack 0;
        let current = GetState db w (Contract_Address contract) x;
        if current = y then gas_ret evm contract mem w (SloadGasEIP2200 P)
        else
          let original = GetCommittedState db w (Contract_Address contract) x in
          if original = current then
            if original = 0 then gas_ret evm contract mem w (SstoreSetGasEIP2200 P)
            else
              let w = (if y = 0 then AddRefund db w (SstoreClearsScheduleRefundEIP2200 P) else w)
              in gas_ret evm contract mem w (SstoreResetGasEIP2200 P)
          else
            let w = (if original \<noteq> 0 then
                       if current = 0 then SubRefund db w (SstoreClearsScheduleRefundEIP2200 P)
                       else if y = 0 then AddRefund db w (SstoreClearsScheduleRefundEIP2200 P) else w
                     else w);
                w = (if original = y then
                       if original = 0
                       then AddRefund db w (SstoreSetGasEIP2200 P - SloadGasEIP2200 P)
                       else AddRefund db w (SstoreResetGasEIP2200 P - SloadGasEIP2200 P)
                     else w)
            in gas_ret evm contract mem w (SloadGasEIP2200 P) })"

definition makeGasJournal :: "u64 \<Rightarrow> 's gasFunc" where
  "makeGasJournal n E evm contract stack mem memorySize =
     Some (Inr (SloadGasEIP2200 (Params (extern E))), evm, contract, mem)"

section \<open>Logs, hashing and creation\<close>

definition makeGasLog :: "u64 \<Rightarrow> 's gasFunc" where
  "makeGasLog n = mem_gas (\<lambda>X stack mem memorySize. do {
     back \<leftarrow> Back stack 1;
     let (requestedSize, overflow) = Uint64WithOverflow back;
     if overflow then Some (Inl ErrGasUintOverflow, mem)
     else mem_then X mem memorySize (\<lambda>gas. Some (
       no_ovf (SafeAdd X gas (LogGas (Params X))) (\<lambda>gas.
       no_ovf (SafeAdd X gas (n * LogTopicGas (Params X))) (\<lambda>gas.
       no_ovf (SafeMul X requestedSize (LogDataGas (Params X))) (\<lambda>memorySizeGas.
       no_ovf (SafeAdd X gas memorySizeGas) Inr))))) })"

definition word_gas :: "nat \<Rightarrow> 's gasFunc" where
  "word_gas stackpos = mem_gas (\<lambda>X stack mem memorySize.
     mem_then X mem memorySize (\<lambda>gas. do {
       back \<leftarrow> Back stack stackpos;
       Some (no_ovf (Uint64WithOverflow back) (\<lambda>wordGas.
             no_ovf (SafeMul X (toWordSize wordGas) (Keccak256WordGas (Params X))) (\<lambda>wordGas.
             no_ovf (SafeAdd X gas wordGas) Inr))) }))"

definition gasKeccak256 :: "'s gasFunc" where "gasKeccak256 = word_gas 1"

definition pureMemoryGascost :: "'s gasFunc" where
  "pureMemoryGascost = mem_gas (\<lambda>X stack mem memorySize. Some (memoryGasCost X mem memorySize))"

definition gasReturn :: "'s gasFunc" where "gasReturn = pureMemoryGascost"
definition gasRevert :: "'s gasFunc" where "gasRevert = pureMemoryGascost"
definition gasMLoad :: "'s gasFunc" where "gasMLoad = pureMemoryGascost"
definition gasMStore8 :: "'s gasFunc" where "gasMStore8 = pureMemoryGascost"
definition gasMStore :: "'s gasFunc" where "gasMStore = pureMemoryGascost"
definition gasCreate :: "'s gasFunc" where "gasCreate = pureMemoryGascost"

definition gasCreate2 :: "'s gasFunc" where "gasCreate2 = word_gas 2"

definition init_code_gas :: "(params \<Rightarrow> u64) \<Rightarrow> 's gasFunc" where
  "init_code_gas perWord = mem_gas (\<lambda>X stack mem memorySize.
     mem_then X mem memorySize (\<lambda>gas. do {
       back \<leftarrow> Back stack 2;
       let (sz, overflow) = Uint64WithOverflow back;
       Some (if overflow \<or> MaxInitCodeSize (Params X) < sz then Inl ErrGasUintOverflow
             else let moreGas = perWord (Params X) * ((sz + 31) div 32)
                  in no_ovf (SafeAdd X gas moreGas) Inr) }))"

definition gasCreateEip3860 :: "'s gasFunc" where
  "gasCreateEip3860 = init_code_gas InitCodeWordGas"

definition gasCreate2Eip3860 :: "'s gasFunc" where
  "gasCreate2Eip3860 = init_code_gas (\<lambda>P. InitCodeWordGas P + Keccak256WordGas P)"

definition exp_gas :: "(params \<Rightarrow> u64) \<Rightarrow> 's gasFunc" where
  "exp_gas expByte = mem_gas (\<lambda>X stack mem memorySize. do {
     e \<leftarrow> Back stack 1;
     let expByteLen = of_nat ((BitLen256 (Lib256 X) e + 7) div 8);
     let gas = expByteLen * expByte (Params X);
     Some (no_ovf (SafeAdd X gas (ExpGas (Params X))) Inr, mem) })"

definition gasExpFrontier :: "'s gasFunc" where "gasExpFrontier = exp_gas ExpByteFrontier"
definition gasExpEIP158 :: "'s gasFunc" where "gasExpEIP158 = exp_gas ExpByteEIP158"

section \<open>Calls\<close>

text \<open>The end of the call gas functions: the gas for the callee goes to \<open>callGasTemp\<close> and on top
  of the gas so far.\<close>

definition set_call_gas ::
  "'s env \<Rightarrow> 's EVM \<Rightarrow> Contract \<Rightarrow> Stack \<Rightarrow> Memory \<Rightarrow> u64
     \<Rightarrow> ((error + u64) \<times> 's EVM \<times> Contract \<times> Memory) option" where
  "set_call_gas E evm contract stack mem gas = do {
     requested \<leftarrow> Back stack 0;
     case callGas (IsEIP150 (chainRules E)) (Gas contract) gas requested of
       Inl err \<Rightarrow> Some (Inl err, evm\<lparr>callGasTemp := 0\<rparr>, contract, mem)
     | Inr temp \<Rightarrow>
         Some (no_ovf (SafeAdd (extern E) gas temp) Inr, evm\<lparr>callGasTemp := temp\<rparr>, contract, mem) }"

text \<open>What CALL pays for a new account and for a transfer.\<close>

definition call_surcharge :: "'s env \<Rightarrow> 's EVM \<Rightarrow> u256 \<Rightarrow> u256 \<Rightarrow> u64" where
  "call_surcharge E evm val addr =
     (let db = StateDB_of E; P = Params (extern E); w = world evm;
          transfersValue = (val \<noteq> 0);
          address = Bytes20 addr;
          gas = (if IsEIP158 (chainRules E)
                 then if transfersValue \<and> Empty db w address then CallNewAccountGas P else 0
                 else if \<not> Exist db w address then CallNewAccountGas P else 0)
      in if transfersValue then gas + CallValueTransferGas P else gas)"

definition gasCall :: "'s gasFunc" where
  "gasCall E evm contract stack mem memorySize = do {
     val \<leftarrow> Back stack 2;
     addr \<leftarrow> Back stack 1;
     let gas = call_surcharge E evm val addr;
     case memoryGasCost (extern E) mem memorySize of
       (Inl err, mem) \<Rightarrow> Some (Inl err, evm, contract, mem)
     | (Inr memoryGas, mem) \<Rightarrow>
         let (gas, overflow) = SafeAdd (extern E) gas memoryGas in
         if overflow then Some (Inl ErrGasUintOverflow, evm, contract, mem)
         else set_call_gas E evm contract stack mem gas }"

definition gasCallCode :: "'s gasFunc" where
  "gasCallCode E evm contract stack mem memorySize =
     (case memoryGasCost (extern E) mem memorySize of
        (Inl err, mem) \<Rightarrow> Some (Inl err, evm, contract, mem)
      | (Inr memoryGas, mem) \<Rightarrow> do {
          val \<leftarrow> Back stack 2;
          let gas = (if val \<noteq> 0 then CallValueTransferGas (Params (extern E)) else 0);
          let (gas, overflow) = SafeAdd (extern E) gas memoryGas;
          if overflow then Some (Inl ErrGasUintOverflow, evm, contract, mem)
          else set_call_gas E evm contract stack mem gas })"

definition gasDelegateCall :: "'s gasFunc" where
  "gasDelegateCall E evm contract stack mem memorySize =
     (case memoryGasCost (extern E) mem memorySize of
        (Inl err, mem) \<Rightarrow> Some (Inl err, evm, contract, mem)
      | (Inr gas, mem) \<Rightarrow> set_call_gas E evm contract stack mem gas)"

definition gasStaticCall :: "'s gasFunc" where
  "gasStaticCall E evm contract stack mem memorySize =
     (case memoryGasCost (extern E) mem memorySize of
        (Inl err, mem) \<Rightarrow> Some (Inl err, evm, contract, mem)
      | (Inr gas, mem) \<Rightarrow> set_call_gas E evm contract stack mem gas)"

definition gasSelfdestruct :: "'s gasFunc" where
  "gasSelfdestruct E evm contract stack mem memorySize =
     (let db = StateDB_of E; P = Params (extern E); w = world evm; rules = chainRules E in do {
        gas \<leftarrow>
          (if IsEIP150 rules then do {
             b \<leftarrow> Back stack 0;
             let address = Bytes20 b;
             Some (if IsEIP158 rules
                   then if Empty db w address \<and> GetBalance db w (Contract_Address contract) \<noteq> 0
                        then SelfdestructGasEIP150 P + CreateBySelfdestructGas P
                        else SelfdestructGasEIP150 P
                   else if \<not> Exist db w address
                        then SelfdestructGasEIP150 P + CreateBySelfdestructGas P
                        else SelfdestructGasEIP150 P) }
           else Some 0);
        let w = (if \<not> HasSuicided db w (Contract_Address contract)
                 then AddRefund db w (SelfdestructRefundGas P) else w);
        gas_ret evm contract mem w gas })"

section \<open>Access lists (operations_acl.go)\<close>

definition makeGasSStoreFunc :: "(params \<Rightarrow> u64) \<Rightarrow> 's gasFunc" where
  "makeGasSStoreFunc clearing E evm contract stack mem memorySize =
     (let db = StateDB_of E; P = Params (extern E); w = world evm;
          self = Contract_Address contract; clearingRefund = clearing P in
      if Gas contract \<le> SstoreSentryGasEIP2200 P
      then Some (Inl (ErrMsg ''not enough gas for reentrancy sentry''), evm, contract, mem)
      else do {
        y \<leftarrow> Back stack 1;
        slot \<leftarrow> peek stack;
        let current = GetState db w self slot;
        let (addrPresent, slotPresent) = SlotInAccessList db w self slot;
        (cost, w) \<leftarrow>
          (if \<not> slotPresent
           then if \<not> addrPresent then None
                else Some (ColdSloadCostEIP2929 P, AddSlotToAccessList db w self slot)
           else Some (0, w));
        if current = y then gas_ret evm contract mem w (cost + WarmStorageReadCostEIP2929 P)
        else
          let original = GetCommittedState db w self slot in
          if original = current then
            if original = 0 then gas_ret evm contract mem w (cost + SstoreSetGasEIP2200 P)
            else
              let w = (if y = 0 then AddRefund db w clearingRefund else w)
              in gas_ret evm contract mem w
                   (cost + (SstoreResetGasEIP2200 P - ColdSloadCostEIP2929 P))
          else
            let w = (if original \<noteq> 0 then
                       if current = 0 then SubRefund db w clearingRefund
                       else if y = 0 then AddRefund db w clearingRefund else w
                     else w);
                w = (if original = y then
                       if original = 0
                       then AddRefund db w (SstoreSetGasEIP2200 P - WarmStorageReadCostEIP2929 P)
                       else AddRefund db w
                              ((SstoreResetGasEIP2200 P - ColdSloadCostEIP2929 P)
                                 - WarmStorageReadCostEIP2929 P)
                     else w)
            in gas_ret evm contract mem w (cost + WarmStorageReadCostEIP2929 P) })"

definition gasSLoadEIP2929 :: "'s gasFunc" where
  "gasSLoadEIP2929 E evm contract stack mem memorySize =
     (let db = StateDB_of E; P = Params (extern E); w = world evm;
          self = Contract_Address contract in do {
        slot \<leftarrow> peek stack;
        if \<not> snd (SlotInAccessList db w self slot)
        then gas_ret evm contract mem (AddSlotToAccessList db w self slot) (ColdSloadCostEIP2929 P)
        else gas_ret evm contract mem w (WarmStorageReadCostEIP2929 P) })"

definition gasExtCodeCopyEIP2929 :: "'s gasFunc" where
  "gasExtCodeCopyEIP2929 E evm contract stack mem memorySize =
     (let db = StateDB_of E; P = Params (extern E) in do {
        (r, evm, contract, mem) \<leftarrow> gasExtCodeCopy E evm contract stack mem memorySize;
        case r of
          Inl err \<Rightarrow> Some (Inl err, evm, contract, mem)
        | Inr gas \<Rightarrow> do {
            a \<leftarrow> peek stack;
            let addr = Bytes20 a;
            if \<not> AddressInAccessList db (world evm) addr
            then Some (no_ovf (SafeAdd (extern E) gas
                         (ColdAccountAccessCostEIP2929 P - WarmStorageReadCostEIP2929 P)) Inr,
                       evm\<lparr>world := AddAddressToAccessList db (world evm) addr\<rparr>, contract, mem)
            else Some (Inr gas, evm, contract, mem) } })"

definition gasEip2929AccountCheck :: "'s gasFunc" where
  "gasEip2929AccountCheck E evm contract stack mem memorySize =
     (let db = StateDB_of E; P = Params (extern E); w = world evm in do {
        a \<leftarrow> peek stack;
        let addr = Bytes20 a;
        if \<not> AddressInAccessList db w addr
        then gas_ret evm contract mem (AddAddressToAccessList db w addr)
               (ColdAccountAccessCostEIP2929 P - WarmStorageReadCostEIP2929 P)
        else gas_ret evm contract mem w 0 })"

definition makeCallVariantGasCallEIP2929 :: "'s gasFunc \<Rightarrow> 's gasFunc" where
  "makeCallVariantGasCallEIP2929 oldCalculator E evm contract stack mem memorySize =
     (let db = StateDB_of E; P = Params (extern E) in do {
        a \<leftarrow> Back stack 1;
        let addr = Bytes20 a;
        let warmAccess = AddressInAccessList db (world evm) addr;
        let coldCost = ColdAccountAccessCostEIP2929 P - WarmStorageReadCostEIP2929 P;
        let evm = (if \<not> warmAccess
                   then evm\<lparr>world := AddAddressToAccessList db (world evm) addr\<rparr> else evm);
        let (ok, contract) = (if \<not> warmAccess then UseGas contract coldCost else (True, contract));
        if \<not> ok then Some (Inl ErrOutOfGas, evm, contract, mem)
        else do {
          (r, evm, contract, mem) \<leftarrow> oldCalculator E evm contract stack mem memorySize;
          case r of
            Inl err \<Rightarrow> Some (Inl err, evm, contract, mem)
          | Inr gas \<Rightarrow>
              if warmAccess then Some (Inr gas, evm, contract, mem)
              else Some (Inr (gas + coldCost), evm,
                         contract\<lparr>Gas := Gas contract + coldCost\<rparr>, mem) } })"

definition gasCallEIP2929 :: "'s gasFunc" where
  "gasCallEIP2929 = makeCallVariantGasCallEIP2929 gasCall"
definition gasDelegateCallEIP2929 :: "'s gasFunc" where
  "gasDelegateCallEIP2929 = makeCallVariantGasCallEIP2929 gasDelegateCall"
definition gasStaticCallEIP2929 :: "'s gasFunc" where
  "gasStaticCallEIP2929 = makeCallVariantGasCallEIP2929 gasStaticCall"
definition gasCallCodeEIP2929 :: "'s gasFunc" where
  "gasCallCodeEIP2929 = makeCallVariantGasCallEIP2929 gasCallCode"

definition makeSelfdestructGasFn :: "bool \<Rightarrow> 's gasFunc" where
  "makeSelfdestructGasFn refundsEnabled E evm contract stack mem memorySize =
     (let db = StateDB_of E; P = Params (extern E); self = Contract_Address contract in do {
        a \<leftarrow> peek stack;
        let address = Bytes20 a;
        let (gas, w) = (if \<not> AddressInAccessList db (world evm) address
                        then (ColdAccountAccessCostEIP2929 P,
                              AddAddressToAccessList db (world evm) address)
                        else (0, world evm));
        let gas = (if Empty db w address \<and> GetBalance db w self \<noteq> 0
                   then gas + CreateBySelfdestructGas P else gas);
        let w = (if refundsEnabled \<and> \<not> HasSuicided db w self
                 then AddRefund db w (SelfdestructRefundGas P) else w);
        gas_ret evm contract mem w gas })"

definition gasSelfdestructEIP2929 :: "'s gasFunc" where
  "gasSelfdestructEIP2929 = makeSelfdestructGasFn True"
definition gasSelfdestructEIP3529 :: "'s gasFunc" where
  "gasSelfdestructEIP3529 = makeSelfdestructGasFn False"
definition gasSStoreEIP2929 :: "'s gasFunc" where
  "gasSStoreEIP2929 = makeGasSStoreFunc SstoreClearsScheduleRefundEIP2200"
definition gasSStoreEIP3529 :: "'s gasFunc" where
  "gasSStoreEIP3529 = makeGasSStoreFunc SstoreClearsScheduleRefundEIP3529"

end
