(* ===== verification/Instructions.thy ===== *)
theory Instructions
  imports Gas_Table
begin

unbundle bit_operations_syntax

text \<open>
  The instructions (\<open>src/vm/instructions.go\<close>), one definition per \<open>op\<close> function. Most touch a
  part of the state only; the combinators \<open>stack_op\<close> and \<open>mem_op\<close> say which part and carry the
  rest along unchanged. A Go panic is \<open>Panic\<close>. The calls out of a frame go through the argument
  \<open>cs\<close>.
\<close>

section \<open>Kinds of instructions\<close>

definition stack_op ::
  "('s env \<Rightarrow> u64 \<Rightarrow> 's EVM \<Rightarrow> ScopeContext \<Rightarrow> Stack option) \<Rightarrow> 's executionFunc" where
  "stack_op f E cs pc evm scope = lift (do {
     st \<leftarrow> f E pc evm scope;
     Some (([], None), pc, evm, scope\<lparr>scStack := st\<rparr>) })"

definition mem_op ::
  "('s env \<Rightarrow> 's EVM \<Rightarrow> ScopeContext \<Rightarrow> (Stack \<times> Memory \<times> error option) option) \<Rightarrow> 's executionFunc" where
  "mem_op f E cs pc evm scope = lift (do {
     (st, mem, err) \<leftarrow> f E evm scope;
     Some (([], err), pc, evm, scope\<lparr>scStack := st, scMemory := mem\<rparr>) })"

definition fail_with :: "error \<Rightarrow> 's executionFunc" where
  "fail_with err E cs pc evm scope = Ok (([], Some err), pc, evm, scope)"

definition unary :: "(u256 \<Rightarrow> u256) \<Rightarrow> 's executionFunc" where
  "unary f = stack_op (\<lambda>E pc evm scope. do {
     x \<leftarrow> peek (scStack scope);
     Some (poke (scStack scope) (f x)) })"

definition binary :: "(uint256_lib \<Rightarrow> u256 \<Rightarrow> u256 \<Rightarrow> u256) \<Rightarrow> 's executionFunc" where
  "binary f = stack_op (\<lambda>E pc evm scope. do {
     (x, st) \<leftarrow> pop (scStack scope);
     y \<leftarrow> peek st;
     Some (poke st (f (Lib256 (extern E)) x y)) })"

definition ternary :: "(uint256_lib \<Rightarrow> u256 \<Rightarrow> u256 \<Rightarrow> u256 \<Rightarrow> u256) \<Rightarrow> 's executionFunc" where
  "ternary f = stack_op (\<lambda>E pc evm scope. do {
     (x, st) \<leftarrow> pop (scStack scope);
     (y, st) \<leftarrow> pop st;
     z \<leftarrow> peek st;
     Some (poke st (f (Lib256 (extern E)) x y z)) })"

definition push_op ::
  "('s env \<Rightarrow> u64 \<Rightarrow> 's EVM \<Rightarrow> ScopeContext \<Rightarrow> u256 option) \<Rightarrow> 's executionFunc" where
  "push_op f = stack_op (\<lambda>E pc evm scope. do {
     v \<leftarrow> f E pc evm scope;
     Some (push (scStack scope) v) })"

definition replace_op ::
  "('s env \<Rightarrow> 's EVM \<Rightarrow> ScopeContext \<Rightarrow> u256 \<Rightarrow> u256 option) \<Rightarrow> 's executionFunc" where
  "replace_op f = stack_op (\<lambda>E pc evm scope. do {
     x \<leftarrow> peek (scStack scope);
     v \<leftarrow> f E evm scope x;
     Some (poke (scStack scope) v) })"

section \<open>Arithmetic, comparison and bit operations\<close>

definition opAdd :: "'s executionFunc" where "opAdd = binary (\<lambda>L x y. x + y)"
definition opSub :: "'s executionFunc" where "opSub = binary (\<lambda>L x y. x - y)"
definition opMul :: "'s executionFunc" where "opMul = binary (\<lambda>L x y. x * y)"
definition opDiv :: "'s executionFunc" where "opDiv = binary Div256"
definition opSdiv :: "'s executionFunc" where "opSdiv = binary SDiv256"
definition opMod :: "'s executionFunc" where "opMod = binary Mod256"
definition opSmod :: "'s executionFunc" where "opSmod = binary SMod256"
definition opExp :: "'s executionFunc" where "opExp = binary Exp256"

definition opSignExtend :: "'s executionFunc" where
  "opSignExtend = binary (\<lambda>L back num. ExtendSign256 L num back)"

definition opNot :: "'s executionFunc" where "opNot = unary (\<lambda>x. NOT x)"
definition opLt :: "'s executionFunc" where "opLt = binary (\<lambda>L x y. if x < y then 1 else 0)"
definition opGt :: "'s executionFunc" where "opGt = binary (\<lambda>L x y. if y < x then 1 else 0)"

definition opSlt :: "'s executionFunc" where
  "opSlt = binary (\<lambda>L x y. if sint x < sint y then 1 else 0)"
definition opSgt :: "'s executionFunc" where
  "opSgt = binary (\<lambda>L x y. if sint y < sint x then 1 else 0)"

definition opEq :: "'s executionFunc" where "opEq = binary (\<lambda>L x y. if x = y then 1 else 0)"
definition opIszero :: "'s executionFunc" where "opIszero = unary (\<lambda>x. if x = 0 then 1 else 0)"
definition opAnd :: "'s executionFunc" where "opAnd = binary (\<lambda>L x y. x AND y)"
definition opOr :: "'s executionFunc" where "opOr = binary (\<lambda>L x y. x OR y)"
definition opXor :: "'s executionFunc" where "opXor = binary (\<lambda>L x y. x XOR y)"
definition opByte :: "'s executionFunc" where "opByte = binary (\<lambda>L th val. Byte256 L val th)"

definition opAddmod :: "'s executionFunc" where
  "opAddmod = ternary (\<lambda>L x y z. if z = 0 then 0 else AddMod256 L x y z)"
definition opMulmod :: "'s executionFunc" where "opMulmod = ternary MulMod256"

definition opSHL :: "'s executionFunc" where
  "opSHL = binary (\<lambda>L shift val. if shift < 256 then push_bit (unat (Uint64 shift)) val else 0)"
definition opSHR :: "'s executionFunc" where
  "opSHR = binary (\<lambda>L shift val. if shift < 256 then drop_bit (unat (Uint64 shift)) val else 0)"

definition opSAR :: "'s executionFunc" where
  "opSAR = binary (\<lambda>L shift val.
     if 256 < shift then if 0 \<le> sint val then 0 else - 1
     else SRsh256 L val (unat (Uint64 shift)))"

definition opKeccak256 :: "'s executionFunc" where
  "opKeccak256 E cs pc evm scope = lift (do {
     (offset, st) \<leftarrow> pop (scStack scope);
     sz \<leftarrow> peek st;
     data \<leftarrow> GetPtr (scMemory scope) (Uint64 offset) (Uint64 sz);
     let h = Keccak256Hash (extern E) data;
     let evm = (if EnablePreimageRecording (ConfigOf E)
                then evm\<lparr>world := AddPreimage (StateDB_of E) (world evm) h data\<rparr> else evm);
     Some (([], None), pc, evm, scope\<lparr>scStack := poke st h\<rparr>) })"

section \<open>Environment\<close>

definition opAddress :: "'s executionFunc" where
  "opAddress = push_op (\<lambda>E pc evm scope. Some (addr_word (Contract_Address (scContract scope))))"

definition opBalance :: "'s executionFunc" where
  "opBalance = replace_op (\<lambda>E evm scope slot.
     Some (FromBig (GetBalance (StateDB_of E) (world evm) (Bytes20 slot))))"

definition opOrigin :: "'s executionFunc" where
  "opOrigin = push_op (\<lambda>E pc evm scope. Some (addr_word (Origin (Tx E))))"

definition opCaller :: "'s executionFunc" where
  "opCaller = push_op (\<lambda>E pc evm scope. Some (addr_word (Caller (scContract scope))))"

definition opCallValue :: "'s executionFunc" where
  "opCallValue = push_op (\<lambda>E pc evm scope. Some (FromBig (c_value (scContract scope))))"

definition opCallDataLoad :: "'s executionFunc" where
  "opCallDataLoad = replace_op (\<lambda>E evm scope x.
     let (offset, overflow) = Uint64WithOverflow x in
     if \<not> overflow then map_option SetBytes (getData (extern E) (Input (scContract scope)) offset 32)
     else Some 0)"

definition opCallDataSize :: "'s executionFunc" where
  "opCallDataSize = push_op (\<lambda>E pc evm scope.
     Some (SetUint64 (of_nat (length (Input (scContract scope))))))"

text \<open>The shape of the copy instructions after their stack arguments were popped.\<close>

definition saturate :: "u256 \<Rightarrow> u64" where
  "saturate x = (let (v, overflow) = Uint64WithOverflow x in
     if overflow then 0xffffffffffffffff else v)"

definition copy_data ::
  "ext \<Rightarrow> bytes \<Rightarrow> u256 \<Rightarrow> u256 \<Rightarrow> u256 \<Rightarrow> Memory \<Rightarrow> Memory option" where
  "copy_data X src memOffset dataOffset len mem = do {
     data \<leftarrow> getData X src (saturate dataOffset) (Uint64 len);
     Mem_Set mem (Uint64 memOffset) (Uint64 len) data }"

definition opCallDataCopy :: "'s executionFunc" where
  "opCallDataCopy = mem_op (\<lambda>E evm scope. do {
     (memOffset, st) \<leftarrow> pop (scStack scope);
     (dataOffset, st) \<leftarrow> pop st;
     (len, st) \<leftarrow> pop st;
     mem \<leftarrow> copy_data (extern E) (Input (scContract scope)) memOffset dataOffset len (scMemory scope);
     Some (st, mem, None) })"

definition opReturnDataSize :: "'s executionFunc" where
  "opReturnDataSize = push_op (\<lambda>E pc evm scope. Some (SetUint64 (of_nat (length (returnData evm)))))"

definition opReturnDataCopy :: "'s executionFunc" where
  "opReturnDataCopy = mem_op (\<lambda>E evm scope. do {
     (memOffset, st) \<leftarrow> pop (scStack scope);
     (dataOffset, st) \<leftarrow> pop st;
     (len, st) \<leftarrow> pop st;
     let (offset64, overflow) = Uint64WithOverflow dataOffset;
     if overflow then Some (st, scMemory scope, Some ErrReturnDataOutOfBounds)
     else
       let (end64, overflow) = Uint64WithOverflow (dataOffset + len) in
       if overflow \<or> length (returnData evm) < unat end64
       then Some (st, scMemory scope, Some ErrReturnDataOutOfBounds)
       else do {
         data \<leftarrow> slice (returnData evm) (unat offset64) (unat end64);
         mem \<leftarrow> Mem_Set (scMemory scope) (Uint64 memOffset) (Uint64 len) data;
         Some (st, mem, None) } })"

definition opExtCodeSize :: "'s executionFunc" where
  "opExtCodeSize = replace_op (\<lambda>E evm scope slot.
     Some (SetUint64 (of_nat (GetCodeSize (StateDB_of E) (world evm) (Bytes20 slot)))))"

definition opCodeSize :: "'s executionFunc" where
  "opCodeSize = push_op (\<lambda>E pc evm scope. Some (SetUint64 (of_nat (length (Code (scContract scope))))))"

definition opCodeCopy :: "'s executionFunc" where
  "opCodeCopy = mem_op (\<lambda>E evm scope. do {
     (memOffset, st) \<leftarrow> pop (scStack scope);
     (codeOffset, st) \<leftarrow> pop st;
     (len, st) \<leftarrow> pop st;
     mem \<leftarrow> copy_data (extern E) (Code (scContract scope)) memOffset codeOffset len (scMemory scope);
     Some (st, mem, None) })"

definition opExtCodeCopy :: "'s executionFunc" where
  "opExtCodeCopy = mem_op (\<lambda>E evm scope. do {
     (a, st) \<leftarrow> pop (scStack scope);
     (memOffset, st) \<leftarrow> pop st;
     (codeOffset, st) \<leftarrow> pop st;
     (len, st) \<leftarrow> pop st;
     mem \<leftarrow> copy_data (extern E) (GetCode (StateDB_of E) (world evm) (Bytes20 a))
              memOffset codeOffset len (scMemory scope);
     Some (st, mem, None) })"

definition opExtCodeHash :: "'s executionFunc" where
  "opExtCodeHash = replace_op (\<lambda>E evm scope slot.
     Some (if Empty (StateDB_of E) (world evm) (Bytes20 slot) then 0
           else GetCodeHash (StateDB_of E) (world evm) (Bytes20 slot)))"

definition opGasprice :: "'s executionFunc" where
  "opGasprice = push_op (\<lambda>E pc evm scope. Some (FromBig (GasPrice (Tx E))))"

definition opBlockhash :: "'s executionFunc" where
  "opBlockhash = replace_op (\<lambda>E evm scope num.
     let (num64, overflow) = Uint64WithOverflow num in
     if overflow then Some 0
     else
       let upper = (word_of_int (BlockNumber (Context E)) :: u64);
           lower = (if upper < 257 then 0 else upper - 256)
       in Some (if lower \<le> num64 \<and> num64 < upper then GetHash (Context E) num64 else 0))"

definition opCoinbase :: "'s executionFunc" where
  "opCoinbase = push_op (\<lambda>E pc evm scope. Some (addr_word (Coinbase (Context E))))"
definition opTimestamp :: "'s executionFunc" where
  "opTimestamp = push_op (\<lambda>E pc evm scope. Some (SetUint64 (Time (Context E))))"
definition opNumber :: "'s executionFunc" where
  "opNumber = push_op (\<lambda>E pc evm scope. Some (FromBig (BlockNumber (Context E))))"
definition opDifficulty :: "'s executionFunc" where
  "opDifficulty = push_op (\<lambda>E pc evm scope. Some (FromBig (Difficulty (Context E))))"
definition opRandom :: "'s executionFunc" where
  "opRandom = push_op (\<lambda>E pc evm scope. Random (Context E))"
definition opGasLimit :: "'s executionFunc" where
  "opGasLimit = push_op (\<lambda>E pc evm scope. Some (SetUint64 (GasLimit (Context E))))"

section \<open>Stack, memory, storage and flow\<close>

definition opPop :: "'s executionFunc" where
  "opPop = stack_op (\<lambda>E pc evm scope. map_option snd (pop (scStack scope)))"

definition opMload :: "'s executionFunc" where
  "opMload = replace_op (\<lambda>E evm scope v. map_option SetBytes (GetPtr (scMemory scope) (Uint64 v) 32))"

definition opMstore :: "'s executionFunc" where
  "opMstore = mem_op (\<lambda>E evm scope. do {
     (mStart, st) \<leftarrow> pop (scStack scope);
     (val, st) \<leftarrow> pop st;
     mem \<leftarrow> Set32 (scMemory scope) (Uint64 mStart) val;
     Some (st, mem, None) })"

definition opMstore8 :: "'s executionFunc" where
  "opMstore8 = mem_op (\<lambda>E evm scope. do {
     (off, st) \<leftarrow> pop (scStack scope);
     (val, st) \<leftarrow> pop st;
     bs \<leftarrow> set_index (store (scMemory scope)) (unat (Uint64 off)) (ucast (Uint64 val));
     Some (st, (scMemory scope)\<lparr>store := bs\<rparr>, None) })"

definition opSload :: "'s executionFunc" where
  "opSload = replace_op (\<lambda>E evm scope loc.
     Some (GetState (StateDB_of E) (world evm) (Contract_Address (scContract scope)) loc))"

definition opSstore :: "'s executionFunc" where
  "opSstore E cs pc evm scope =
     (if readOnly evm then fail_with ErrWriteProtection E cs pc evm scope
      else lift (do {
        (loc, st) \<leftarrow> pop (scStack scope);
        (val, st) \<leftarrow> pop st;
        let w = SetState (StateDB_of E) (world evm) (Contract_Address (scContract scope)) loc val;
        Some (([], None), pc, evm\<lparr>world := w\<rparr>, scope\<lparr>scStack := st\<rparr>) }))"

text \<open>The common part of the two jumps: check the destination and move the counter before it.\<close>

definition jump_to :: "u256 \<Rightarrow> Stack \<Rightarrow> 's executionFunc" where
  "jump_to pos st E cs pc evm scope = lift (do {
     (valid, c, tabs) \<leftarrow> validJumpdest (jumptabs_of evm) (scContract scope) pos;
     let evm = evm\<lparr>jumptabs_of := tabs\<rparr>;
     let scope = scope\<lparr>scStack := st, scContract := c\<rparr>;
     Some (if \<not> valid then (([], Some ErrInvalidJump), pc, evm, scope)
           else (([], None), Uint64 pos - 1, evm, scope)) })"

definition opJump :: "'s executionFunc" where
  "opJump E cs pc evm scope =
     (if abort evm then fail_with errStopToken E cs pc evm scope
      else case pop (scStack scope) of
             None \<Rightarrow> Panic
           | Some (pos, st) \<Rightarrow> jump_to pos st E cs pc evm scope)"

definition opJumpi :: "'s executionFunc" where
  "opJumpi E cs pc evm scope =
     (if abort evm then fail_with errStopToken E cs pc evm scope
      else case do { (pos, st) \<leftarrow> pop (scStack scope);
                     (cond, st) \<leftarrow> pop st;
                     Some (pos, cond, st) } of
             None \<Rightarrow> Panic
           | Some (pos, cond, st) \<Rightarrow>
               if cond \<noteq> 0 then jump_to pos st E cs pc evm scope
               else Ok (([], None), pc, evm, scope\<lparr>scStack := st\<rparr>))"

definition opJumpdest :: "'s executionFunc" where
  "opJumpdest = stack_op (\<lambda>E pc evm scope. Some (scStack scope))"

definition opPc :: "'s executionFunc" where
  "opPc = push_op (\<lambda>E pc evm scope. Some (SetUint64 pc))"
definition opMsize :: "'s executionFunc" where
  "opMsize = push_op (\<lambda>E pc evm scope. Some (SetUint64 (of_nat (Mem_Len (scMemory scope)))))"
definition opGas :: "'s executionFunc" where
  "opGas = push_op (\<lambda>E pc evm scope. Some (SetUint64 (Gas (scContract scope))))"

section \<open>Creation and calls\<close>

definition use_gas :: "ScopeContext \<Rightarrow> u64 \<Rightarrow> ScopeContext" where
  "use_gas scope gas = scope\<lparr>scContract := snd (UseGas (scContract scope) gas)\<rparr>"

definition add_gas :: "ScopeContext \<Rightarrow> u64 \<Rightarrow> ScopeContext" where
  "add_gas scope gas = scope\<lparr>scContract := (scContract scope)\<lparr>Gas := Gas (scContract scope) + gas\<rparr>\<rparr>"

text \<open>The end of both creations: push the address or zero, return the gas that is left, keep the
  data of a revert.\<close>

definition finish_create ::
  "u64 \<Rightarrow> ScopeContext \<Rightarrow> u256 \<Rightarrow> bytes \<Rightarrow> u64 \<Rightarrow> error option \<Rightarrow> 's EVM \<Rightarrow> 's exec_result" where
  "finish_create pc scope stackvalue res returnGas suberr evm =
     (let scope = add_gas (scope\<lparr>scStack := push (scStack scope) stackvalue\<rparr>) returnGas
      in if suberr = Some ErrExecutionReverted
         then Ok ((res, None), pc, evm\<lparr>returnData := res\<rparr>, scope)
         else Ok (([], None), pc, evm\<lparr>returnData := []\<rparr>, scope))"

definition opCreate :: "'s executionFunc" where
  "opCreate E cs pc evm scope =
     (if readOnly evm then fail_with ErrWriteProtection E cs pc evm scope
      else bind_res (lift (do {
             (val, st) \<leftarrow> pop (scStack scope);
             (offset, st) \<leftarrow> pop st;
             (sz, st) \<leftarrow> pop st;
             input \<leftarrow> GetCopy (scMemory scope) (Uint64 offset) (Uint64 sz);
             Some (val, input, st) }))
        (\<lambda>(val, input, st).
           let gas = Gas (scContract scope);
               gas = (if IsEIP150 (chainRules E) then gas - gas div 64 else gas);
               scope = use_gas (scope\<lparr>scStack := st\<rparr>) gas
           in bind_res (do_Create cs (as_caller (scContract scope)) input gas (uint val) evm)
                (\<lambda>((res, addr, returnGas, suberr), evm).
                   let stackvalue =
                         (if IsHomestead (chainRules E) \<and> suberr = Some ErrCodeStoreOutOfGas then 0
                          else if suberr \<noteq> None \<and> suberr \<noteq> Some ErrCodeStoreOutOfGas then 0
                          else addr_word addr)
                   in finish_create pc scope stackvalue res returnGas suberr evm)))"

definition opCreate2 :: "'s executionFunc" where
  "opCreate2 E cs pc evm scope =
     (if readOnly evm then fail_with ErrWriteProtection E cs pc evm scope
      else bind_res (lift (do {
             (endowment, st) \<leftarrow> pop (scStack scope);
             (offset, st) \<leftarrow> pop st;
             (sz, st) \<leftarrow> pop st;
             (salt, st) \<leftarrow> pop st;
             input \<leftarrow> GetCopy (scMemory scope) (Uint64 offset) (Uint64 sz);
             Some (endowment, salt, input, st) }))
        (\<lambda>(endowment, salt, input, st).
           let gas = Gas (scContract scope);
               gas = gas - gas div 64;
               scope = use_gas (scope\<lparr>scStack := st\<rparr>) gas
           in bind_res (do_Create2 cs (as_caller (scContract scope)) input gas (uint endowment) salt evm)
                (\<lambda>((res, addr, returnGas, suberr), evm).
                   let stackvalue = (if suberr \<noteq> None then 0 else addr_word addr)
                   in finish_create pc scope stackvalue res returnGas suberr evm)))"

text \<open>The end of the four calls: push success, copy the returned data, return the gas left.\<close>

definition finish_call ::
  "u64 \<Rightarrow> ScopeContext \<Rightarrow> u256 \<Rightarrow> u256 \<Rightarrow> (bytes \<times> u64 \<times> error option) \<times> 's EVM \<Rightarrow> 's exec_result" where
  "finish_call pc scope retOffset retSize r =
     (case r of ((ret, returnGas, err), evm) \<Rightarrow>
        lift (do {
          let temp = (if err \<noteq> None then 0 else 1);
          let st = push (scStack scope) temp;
          mem \<leftarrow> (if err = None \<or> err = Some ErrExecutionReverted
                  then Mem_Set (scMemory scope) (Uint64 retOffset) (Uint64 retSize) ret
                  else Some (scMemory scope));
          Some ((ret, None), pc, evm\<lparr>returnData := ret\<rparr>,
                add_gas (scope\<lparr>scStack := st, scMemory := mem\<rparr>) returnGas) }))"

text \<open>The arguments of CALL and CALLCODE, and of DELEGATECALL and STATICCALL.\<close>

definition call_args ::
  "ScopeContext \<Rightarrow> (address \<times> u256 \<times> bytes \<times> u256 \<times> u256 \<times> Stack) option" where
  "call_args scope = do {
     (temp, st) \<leftarrow> pop (scStack scope);
     (addr, st) \<leftarrow> pop st;
     (val, st) \<leftarrow> pop st;
     (inOffset, st) \<leftarrow> pop st;
     (inSize, st) \<leftarrow> pop st;
     (retOffset, st) \<leftarrow> pop st;
     (retSize, st) \<leftarrow> pop st;
     args \<leftarrow> GetPtr (scMemory scope) (Uint64 inOffset) (Uint64 inSize);
     Some (Bytes20 addr, val, args, retOffset, retSize, st) }"

definition call_args_noval ::
  "ScopeContext \<Rightarrow> (address \<times> bytes \<times> u256 \<times> u256 \<times> Stack) option" where
  "call_args_noval scope = do {
     (temp, st) \<leftarrow> pop (scStack scope);
     (addr, st) \<leftarrow> pop st;
     (inOffset, st) \<leftarrow> pop st;
     (inSize, st) \<leftarrow> pop st;
     (retOffset, st) \<leftarrow> pop st;
     (retSize, st) \<leftarrow> pop st;
     args \<leftarrow> GetPtr (scMemory scope) (Uint64 inOffset) (Uint64 inSize);
     Some (Bytes20 addr, args, retOffset, retSize, st) }"

definition opCall :: "'s executionFunc" where
  "opCall E cs pc evm scope =
     bind_res (lift (call_args scope)) (\<lambda>(toAddr, val, args, retOffset, retSize, st).
       let scope = scope\<lparr>scStack := st\<rparr> in
       if readOnly evm \<and> val \<noteq> 0 then fail_with ErrWriteProtection E cs pc evm scope
       else
         let gas = (if val \<noteq> 0 then callGasTemp evm + CallStipend (Params (extern E))
                    else callGasTemp evm)
         in bind_res (do_Call cs (as_caller (scContract scope)) toAddr args gas (uint val) evm)
              (finish_call pc scope retOffset retSize))"

definition opCallCode :: "'s executionFunc" where
  "opCallCode E cs pc evm scope =
     bind_res (lift (call_args scope)) (\<lambda>(toAddr, val, args, retOffset, retSize, st).
       let scope = scope\<lparr>scStack := st\<rparr>;
           gas = (if val \<noteq> 0 then callGasTemp evm + CallStipend (Params (extern E))
                  else callGasTemp evm)
       in bind_res (do_CallCode cs (as_caller (scContract scope)) toAddr args gas (uint val) evm)
            (finish_call pc scope retOffset retSize))"

definition opDelegateCall :: "'s executionFunc" where
  "opDelegateCall E cs pc evm scope =
     bind_res (lift (call_args_noval scope)) (\<lambda>(toAddr, args, retOffset, retSize, st).
       let scope = scope\<lparr>scStack := st\<rparr>
       in bind_res (do_DelegateCall cs (as_caller (scContract scope)) toAddr args (callGasTemp evm) evm)
            (finish_call pc scope retOffset retSize))"

definition opStaticCall :: "'s executionFunc" where
  "opStaticCall E cs pc evm scope =
     bind_res (lift (call_args_noval scope)) (\<lambda>(toAddr, args, retOffset, retSize, st).
       let scope = scope\<lparr>scStack := st\<rparr>
       in bind_res (do_StaticCall cs (as_caller (scContract scope)) toAddr args (callGasTemp evm) evm)
            (finish_call pc scope retOffset retSize))"

section \<open>Halting\<close>

definition popped_range :: "ScopeContext \<Rightarrow> (bytes \<times> Stack) option" where
  "popped_range scope = do {
     (offset, st) \<leftarrow> pop (scStack scope);
     (sz, st) \<leftarrow> pop st;
     ret \<leftarrow> GetPtr (scMemory scope) (Uint64 offset) (Uint64 sz);
     Some (ret, st) }"

definition opReturn :: "'s executionFunc" where
  "opReturn E cs pc evm scope = lift (do {
     (ret, st) \<leftarrow> popped_range scope;
     Some ((ret, Some errStopToken), pc, evm, scope\<lparr>scStack := st\<rparr>) })"

definition opRevert :: "'s executionFunc" where
  "opRevert E cs pc evm scope = lift (do {
     (ret, st) \<leftarrow> popped_range scope;
     Some ((ret, Some ErrExecutionReverted), pc, evm\<lparr>returnData := ret\<rparr>, scope\<lparr>scStack := st\<rparr>) })"

definition opUndefined :: "'s executionFunc" where
  "opUndefined E cs pc evm scope = lift (do {
     op \<leftarrow> index (Code (scContract scope)) (unat pc);
     Some (([], Some (ErrInvalidOpCode op)), pc, evm, scope) })"

definition opStop :: "'s executionFunc" where
  "opStop = fail_with errStopToken"

definition opSelfdestruct :: "'s executionFunc" where
  "opSelfdestruct E cs pc evm scope =
     (if readOnly evm then fail_with ErrWriteProtection E cs pc evm scope
      else lift (do {
        (beneficiary, st) \<leftarrow> pop (scStack scope);
        let db = StateDB_of E;
        let self = Contract_Address (scContract scope);
        let balance = GetBalance db (world evm) self;
        let w = AddBalance db (world evm) (Bytes20 beneficiary) balance;
        let w = snd (Suicide db w self);
        let evm = evm\<lparr>world := w\<rparr>;
        let evm = capture E (CaptureEnter OP_SELFDESTRUCT self (Bytes20 beneficiary) [] 0 (Some balance)) evm;
        let evm = capture E (CaptureExit [] 0 None) evm;
        Some (([], Some errStopToken), pc, evm, scope\<lparr>scStack := st\<rparr>) }))"

section \<open>Instruction families\<close>

primrec pop_n :: "nat \<Rightarrow> Stack \<Rightarrow> (u256 list \<times> Stack) option" where
  "pop_n 0 st = Some ([], st)"
| "pop_n (Suc n) st = do {
     (x, st) \<leftarrow> pop st;
     (xs, st) \<leftarrow> pop_n n st;
     Some (x # xs, st) }"

definition makeLog :: "nat \<Rightarrow> 's executionFunc" where
  "makeLog sz E cs pc evm scope =
     (if readOnly evm then fail_with ErrWriteProtection E cs pc evm scope
      else lift (do {
        (mStart, st) \<leftarrow> pop (scStack scope);
        (mSize, st) \<leftarrow> pop st;
        (topics, st) \<leftarrow> pop_n sz st;
        d \<leftarrow> GetCopy (scMemory scope) (Uint64 mStart) (Uint64 mSize);
        let w = AddLog (StateDB_of E) (world evm)
                  \<lparr>log_Address = Contract_Address (scContract scope), log_Topics = topics,
                   log_Data = d, log_BlockNumber = word_of_int (BlockNumber (Context E))\<rparr>;
        Some (([], None), pc, evm\<lparr>world := w\<rparr>, scope\<lparr>scStack := st\<rparr>) }))"

definition opPush1 :: "'s executionFunc" where
  "opPush1 E cs pc evm scope =
     (let code = Code (scContract scope);
          pc = pc + 1;
          v = (if unat pc < length code then SetUint64 (ucast (code ! unat pc)) else 0)
      in Ok (([], None), pc, evm, scope\<lparr>scStack := push (scStack scope) v\<rparr>))"

definition makePush :: "u64 \<Rightarrow> nat \<Rightarrow> 's executionFunc" where
  "makePush sz pushByteSize E cs pc evm scope = lift (
     let code = Code (scContract scope);
         codeLen = int (length code);
         startMin = (if sint (pc + 1) < codeLen then sint (pc + 1) else codeLen);
         endMin = (if startMin + int pushByteSize < codeLen then startMin + int pushByteSize else codeLen)
     in if startMin < 0 then None
        else do {
          bs \<leftarrow> slice code (nat startMin) (nat endMin);
          let v = SetBytes (RightPadBytes (extern E) bs (int pushByteSize));
          Some (([], None), pc + sz, evm, scope\<lparr>scStack := push (scStack scope) v\<rparr>) })"

definition makeDup :: "nat \<Rightarrow> 's executionFunc" where
  "makeDup sz = stack_op (\<lambda>E pc evm scope. dup (scStack scope) sz)"

definition makeSwap :: "nat \<Rightarrow> 's executionFunc" where
  "makeSwap sz = stack_op (\<lambda>E pc evm scope. swap (scStack scope) (sz + 1))"

section \<open>Journal instructions\<close>

text \<open>A journal instruction pops its arguments and updates the tracer; an error of the tracer ends
  the frame.\<close>

definition journal_op ::
  "('s env \<Rightarrow> 's EVM \<Rightarrow> ScopeContext \<Rightarrow> (Stack \<times> error option \<times> Tracer) option) \<Rightarrow> 's executionFunc" where
  "journal_op f E cs pc evm scope = lift (do {
     (st, err, t) \<leftarrow> f E evm scope;
     Some (([], err), pc, evm\<lparr>tracer := t\<rparr>, scope\<lparr>scStack := st\<rparr>) })"

definition extractStorageLen :: "u256 \<Rightarrow> error + u64" where
  "extractStorageLen dataLen =
     (let len = dataLen div 2;
          outOfPlaceEncoding = dataLen AND 1;
          len = (if outOfPlaceEncoding = 0 then len AND 0x7f else len);
          isLess = (if len < 32 then 1 else 0)
      in if outOfPlaceEncoding = isLess then Inl (ErrMsg ''storage encoding error'')
         else if \<not> IsUint64 len then Inl (ErrMsg ''storage too large to load'')
         else Inr (Uint64 len))"

definition unmask :: "u256 \<Rightarrow> bytes" where
  "unmask data = Bytes (data AND NOT 0xff)"

definition u64Ceiling :: "u64 \<Rightarrow> u64 \<Rightarrow> u64" where
  "u64Ceiling nom denom = (nom + denom - 1) div denom"

primrec read_slots :: "'s env \<Rightarrow> 's \<Rightarrow> address \<Rightarrow> u256 \<Rightarrow> nat \<Rightarrow> bytes" where
  "read_slots E w addr referenceSlot 0 = []"
| "read_slots E w addr referenceSlot (Suc n) =
     Bytes32 (GetState (StateDB_of E) w addr (referenceSlot + 1))
       @ read_slots E w addr (referenceSlot + 1) n"

definition opReferenceChangeJournal :: "'s executionFunc" where
  "opReferenceChangeJournal = journal_op (\<lambda>E evm scope. do {
     (storageSlot, st) \<leftarrow> pop (scStack scope);
     (typeId, st) \<leftarrow> pop st;
     let self = Contract_Address (scContract scope);
     let rawState = GetState (StateDB_of E) (world evm) self storageSlot;
     case extractStorageLen rawState of
       Inl err \<Rightarrow> Some (st, Some err, tracer evm)
     | Inr len \<Rightarrow> do {
         stateBytes \<leftarrow>
           (if len < 32 then slice (unmask rawState) 0 (unat len)
            else Some (read_slots E (world evm) self
                         (Keccak256Hash (extern E) (Bytes storageSlot)) (unat (u64Ceiling len 32))));
         let (err, t) = SaveStateChange (tracer evm) self storageSlot None typeId stateBytes;
         Some (st, err, t) } })"

definition opValueChangeJournal :: "'s executionFunc" where
  "opValueChangeJournal = journal_op (\<lambda>E evm scope. do {
     (storageSlot, st) \<leftarrow> pop (scStack scope);
     (offset, st) \<leftarrow> pop st;
     (typeSize, st) \<leftarrow> pop st;
     (typeId, st) \<leftarrow> pop st;
     let (offsetU64, overflow) = Uint64WithOverflow offset;
     if overflow \<or> 31 < offsetU64 then Some (st, Some (ErrMsg ''offset out of range''), tracer evm)
     else
       let (typeSizeU64, overflow) = Uint64WithOverflow typeSize in
       if overflow \<or> 32 < typeSizeU64
       then Some (st, Some (ErrMsg ''type size out of range''), tracer evm)
       else do {
         let self = Contract_Address (scContract scope);
         let newVal = Bytes32 (GetState (StateDB_of E) (world evm) self storageSlot);
         bs \<leftarrow> slice newVal (unat (32 - offsetU64 - typeSizeU64)) (unat (32 - offsetU64));
         let (err, t) = SaveStateChange (tracer evm) self storageSlot (Some offset) typeId bs;
         Some (st, err, t) } })"

definition loadDataFromMem :: "u256 \<Rightarrow> Memory \<Rightarrow> (error + bytes) option" where
  "loadDataFromMem memPtr mem = do {
     let offset = Uint64 memPtr;
     bs \<leftarrow> GetCopy mem offset 32;
     let dataLen = SetBytes bs;
     if \<not> IsUint64 memPtr then Some (Inl (ErrMsg ''mem data too long''))
     else do {
       data \<leftarrow> GetCopy mem (offset + 32) (Uint64 dataLen);
       Some (Inr data) } }"

text \<open>Save a key whose name or index is given directly, or is loaded from memory.\<close>

definition save_key ::
  "'s EVM \<Rightarrow> ScopeContext \<Rightarrow> u256 option \<Rightarrow> u256 \<Rightarrow> u256 option \<Rightarrow> hash \<Rightarrow> hash \<Rightarrow> Stack
     \<Rightarrow> error + bytes \<Rightarrow> (Stack \<times> error option \<times> Tracer) option" where
  "save_key evm scope base storageSlot offset typeId parentTypeId st key =
     (case key of
        Inl err \<Rightarrow> Some (st, Some err, tracer evm)
      | Inr k \<Rightarrow> do {
          (err, t) \<leftarrow> SaveStateKey (tracer evm) (Contract_Address (scContract scope))
                        base storageSlot offset typeId parentTypeId k;
          Some (st, err, t) })"

definition opReferenceIndexValueStorageJournal :: "'s executionFunc" where
  "opReferenceIndexValueStorageJournal = journal_op (\<lambda>E evm scope. do {
     (base, st) \<leftarrow> pop (scStack scope);
     (storageSlot, st) \<leftarrow> pop st;
     (keyPtr, st) \<leftarrow> pop st;
     (offset, st) \<leftarrow> pop st;
     (typeId, st) \<leftarrow> pop st;
     (parentTypeId, st) \<leftarrow> pop st;
     key \<leftarrow> loadDataFromMem keyPtr (scMemory scope);
     save_key evm scope (Some base) storageSlot (Some offset) typeId parentTypeId st key })"

definition opValueIndexValueStorageJournal :: "'s executionFunc" where
  "opValueIndexValueStorageJournal = journal_op (\<lambda>E evm scope. do {
     (base, st) \<leftarrow> pop (scStack scope);
     (storageSlot, st) \<leftarrow> pop st;
     (keyValue, st) \<leftarrow> pop st;
     (offset, st) \<leftarrow> pop st;
     (typeId, st) \<leftarrow> pop st;
     (parentTypeId, st) \<leftarrow> pop st;
     save_key evm scope (Some base) storageSlot (Some offset) typeId parentTypeId st
       (Inr (Bytes32 keyValue)) })"

definition opReferenceIndexReferenceStorageJournal :: "'s executionFunc" where
  "opReferenceIndexReferenceStorageJournal = journal_op (\<lambda>E evm scope. do {
     (base, st) \<leftarrow> pop (scStack scope);
     (storageSlot, st) \<leftarrow> pop st;
     (keyPtr, st) \<leftarrow> pop st;
     (typeId, st) \<leftarrow> pop st;
     (parentTypeId, st) \<leftarrow> pop st;
     key \<leftarrow> loadDataFromMem keyPtr (scMemory scope);
     save_key evm scope (Some base) storageSlot None typeId parentTypeId st key })"

definition opValueIndexReferenceStorageJournal :: "'s executionFunc" where
  "opValueIndexReferenceStorageJournal = journal_op (\<lambda>E evm scope. do {
     (base, st) \<leftarrow> pop (scStack scope);
     (storageSlot, st) \<leftarrow> pop st;
     (keyValue, st) \<leftarrow> pop st;
     (typeId, st) \<leftarrow> pop st;
     (parentTypeId, st) \<leftarrow> pop st;
     save_key evm scope (Some base) storageSlot None typeId parentTypeId st
       (Inr (Bytes32 keyValue)) })"

definition opReferenceStateVarJournal :: "'s executionFunc" where
  "opReferenceStateVarJournal = journal_op (\<lambda>E evm scope. do {
     (stateVarNamePtr, st) \<leftarrow> pop (scStack scope);
     (storageSlot, st) \<leftarrow> pop st;
     (typeId, st) \<leftarrow> pop st;
     key \<leftarrow> loadDataFromMem stateVarNamePtr (scMemory scope);
     save_key evm scope None storageSlot None typeId 0 st key })"

definition opValueStateVarJournal :: "'s executionFunc" where
  "opValueStateVarJournal = journal_op (\<lambda>E evm scope. do {
     (stateVarNamePtr, st) \<leftarrow> pop (scStack scope);
     (storageSlot, st) \<leftarrow> pop st;
     (offset, st) \<leftarrow> pop st;
     (typeId, st) \<leftarrow> pop st;
     key \<leftarrow> loadDataFromMem stateVarNamePtr (scMemory scope);
     save_key evm scope None storageSlot (Some offset) typeId 0 st key })"

end
