(* ===== verification/Jump_Table.thy ===== *)
theory Jump_Table
  imports Instructions "HOL-Library.List_Lexorder" "HOL-Library.Char_ord"
begin

text \<open>
  The instruction sets (\<open>src/vm/jump_table.go\<close>, \<open>src/vm/eips.go\<close>,
  \<open>src/vm/jump_table_export.go\<close>): the operation record, the frontier table in the order of the
  source, the later forks as changes of the table before, the activation of single EIPs and the
  instructions they add. The table is a function of the opcode; the gas constants come from the
  protocol parameters, so the tables take the external functions as an argument. \<open>validate\<close>
  panics (\<open>None\<close>) like the source.
\<close>

section \<open>Operations\<close>

record 's operation =
  execute :: "'s executionFunc"
  constantGas :: u64
  dynamicGas :: "'s gasFunc option"
  op_minStack :: nat
  op_maxStack :: nat
  memorySize :: "memorySizeFunc option"

type_synonym 's JumpTable = "OpCode \<Rightarrow> 's operation"

definition oper ::
  "'s executionFunc \<Rightarrow> u64 \<Rightarrow> 's gasFunc option \<Rightarrow> nat \<Rightarrow> nat \<Rightarrow> memorySizeFunc option \<Rightarrow> 's operation" where
  "oper ex const dyn mn mx msize =
     \<lparr>execute = ex, constantGas = const, dynamicGas = dyn, op_minStack = mn, op_maxStack = mx,
      memorySize = msize\<rparr>"

definition opcode_list :: "OpCode list" where
  "opcode_list = map of_nat [0..<256]"

definition validate :: "'s JumpTable \<Rightarrow> 's JumpTable option" where
  "validate jt =
     (if list_all (\<lambda>i. \<not> (memorySize (jt i) \<noteq> None \<and> dynamicGas (jt i) = None)) opcode_list
      then Some jt else None)"

definition operation_Stack :: "'s operation \<Rightarrow> nat \<times> nat" where
  "operation_Stack op = (op_minStack op, op_maxStack op)"

definition HasCost :: "'s operation \<Rightarrow> bool" where
  "HasCost op \<longleftrightarrow> dynamicGas op \<noteq> None \<or> constantGas op \<noteq> 0"

section \<open>Frontier\<close>

definition frontier_1 :: "ext \<Rightarrow> (OpCode \<times> 's operation) list" where
  "frontier_1 X =
    [(OP_STOP, oper opStop 0 None
        (minStack 0 0) (maxStack X 0 0) None),
     (OP_ADD, oper opAdd GasFastestStep None
        (minStack 2 1) (maxStack X 2 1) None),
     (OP_MUL, oper opMul GasFastStep None
        (minStack 2 1) (maxStack X 2 1) None),
     (OP_SUB, oper opSub GasFastestStep None
        (minStack 2 1) (maxStack X 2 1) None),
     (OP_DIV, oper opDiv GasFastStep None
        (minStack 2 1) (maxStack X 2 1) None),
     (OP_SDIV, oper opSdiv GasFastStep None
        (minStack 2 1) (maxStack X 2 1) None),
     (OP_MOD, oper opMod GasFastStep None
        (minStack 2 1) (maxStack X 2 1) None),
     (OP_SMOD, oper opSmod GasFastStep None
        (minStack 2 1) (maxStack X 2 1) None),
     (OP_ADDMOD, oper opAddmod GasMidStep None
        (minStack 3 1) (maxStack X 3 1) None),
     (OP_MULMOD, oper opMulmod GasMidStep None
        (minStack 3 1) (maxStack X 3 1) None),
     (OP_EXP, oper opExp 0 (Some gasExpFrontier)
        (minStack 2 1) (maxStack X 2 1) None),
     (OP_SIGNEXTEND, oper opSignExtend GasFastStep None
        (minStack 2 1) (maxStack X 2 1) None),
     (OP_LT, oper opLt GasFastestStep None
        (minStack 2 1) (maxStack X 2 1) None),
     (OP_GT, oper opGt GasFastestStep None
        (minStack 2 1) (maxStack X 2 1) None),
     (OP_SLT, oper opSlt GasFastestStep None
        (minStack 2 1) (maxStack X 2 1) None),
     (OP_SGT, oper opSgt GasFastestStep None
        (minStack 2 1) (maxStack X 2 1) None),
     (OP_EQ, oper opEq GasFastestStep None
        (minStack 2 1) (maxStack X 2 1) None),
     (OP_ISZERO, oper opIszero GasFastestStep None
        (minStack 1 1) (maxStack X 1 1) None),
     (OP_AND, oper opAnd GasFastestStep None
        (minStack 2 1) (maxStack X 2 1) None),
     (OP_XOR, oper opXor GasFastestStep None
        (minStack 2 1) (maxStack X 2 1) None),
     (OP_OR, oper opOr GasFastestStep None
        (minStack 2 1) (maxStack X 2 1) None),
     (OP_NOT, oper opNot GasFastestStep None
        (minStack 1 1) (maxStack X 1 1) None),
     (OP_BYTE, oper opByte GasFastestStep None
        (minStack 2 1) (maxStack X 2 1) None),
     (OP_KECCAK256, oper opKeccak256 (Keccak256Gas (Params X)) (Some gasKeccak256)
        (minStack 2 1) (maxStack X 2 1) (Some memoryKeccak256))]"

definition frontier_2 :: "ext \<Rightarrow> (OpCode \<times> 's operation) list" where
  "frontier_2 X =
    [(OP_ADDRESS, oper opAddress GasQuickStep None
        (minStack 0 1) (maxStack X 0 1) None),
     (OP_BALANCE, oper opBalance (BalanceGasFrontier (Params X)) None
        (minStack 1 1) (maxStack X 1 1) None),
     (OP_ORIGIN, oper opOrigin GasQuickStep None
        (minStack 0 1) (maxStack X 0 1) None),
     (OP_CALLER, oper opCaller GasQuickStep None
        (minStack 0 1) (maxStack X 0 1) None),
     (OP_CALLVALUE, oper opCallValue GasQuickStep None
        (minStack 0 1) (maxStack X 0 1) None),
     (OP_CALLDATALOAD, oper opCallDataLoad GasFastestStep None
        (minStack 1 1) (maxStack X 1 1) None),
     (OP_CALLDATASIZE, oper opCallDataSize GasQuickStep None
        (minStack 0 1) (maxStack X 0 1) None),
     (OP_CALLDATACOPY, oper opCallDataCopy GasFastestStep (Some gasCallDataCopy)
        (minStack 3 0) (maxStack X 3 0) (Some memoryCallDataCopy)),
     (OP_CODESIZE, oper opCodeSize GasQuickStep None
        (minStack 0 1) (maxStack X 0 1) None),
     (OP_CODECOPY, oper opCodeCopy GasFastestStep (Some gasCodeCopy)
        (minStack 3 0) (maxStack X 3 0) (Some memoryCodeCopy)),
     (OP_GASPRICE, oper opGasprice GasQuickStep None
        (minStack 0 1) (maxStack X 0 1) None),
     (OP_EXTCODESIZE, oper opExtCodeSize (ExtcodeSizeGasFrontier (Params X)) None
        (minStack 1 1) (maxStack X 1 1) None),
     (OP_EXTCODECOPY, oper opExtCodeCopy (ExtcodeCopyBaseFrontier (Params X)) (Some gasExtCodeCopy)
        (minStack 4 0) (maxStack X 4 0) (Some memoryExtCodeCopy)),
     (OP_BLOCKHASH, oper opBlockhash GasExtStep None
        (minStack 1 1) (maxStack X 1 1) None),
     (OP_COINBASE, oper opCoinbase GasQuickStep None
        (minStack 0 1) (maxStack X 0 1) None),
     (OP_TIMESTAMP, oper opTimestamp GasQuickStep None
        (minStack 0 1) (maxStack X 0 1) None),
     (OP_NUMBER, oper opNumber GasQuickStep None
        (minStack 0 1) (maxStack X 0 1) None),
     (OP_DIFFICULTY, oper opDifficulty GasQuickStep None
        (minStack 0 1) (maxStack X 0 1) None),
     (OP_GASLIMIT, oper opGasLimit GasQuickStep None
        (minStack 0 1) (maxStack X 0 1) None),
     (OP_POP, oper opPop GasQuickStep None
        (minStack 1 0) (maxStack X 1 0) None),
     (OP_MLOAD, oper opMload GasFastestStep (Some gasMLoad)
        (minStack 1 1) (maxStack X 1 1) (Some memoryMLoad)),
     (OP_MSTORE, oper opMstore GasFastestStep (Some gasMStore)
        (minStack 2 0) (maxStack X 2 0) (Some memoryMStore)),
     (OP_MSTORE8, oper opMstore8 GasFastestStep (Some gasMStore8)
        (minStack 2 0) (maxStack X 2 0) (Some memoryMStore8)),
     (OP_SLOAD, oper opSload (SloadGasFrontier (Params X)) None
        (minStack 1 1) (maxStack X 1 1) None)]"

definition frontier_3 :: "ext \<Rightarrow> (OpCode \<times> 's operation) list" where
  "frontier_3 X =
    [(OP_SSTORE, oper opSstore 0 (Some gasSStore)
        (minStack 2 0) (maxStack X 2 0) None),
     (OP_JUMP, oper opJump GasMidStep None
        (minStack 1 0) (maxStack X 1 0) None),
     (OP_JUMPI, oper opJumpi GasSlowStep None
        (minStack 2 0) (maxStack X 2 0) None),
     (OP_PC, oper opPc GasQuickStep None
        (minStack 0 1) (maxStack X 0 1) None),
     (OP_MSIZE, oper opMsize GasQuickStep None
        (minStack 0 1) (maxStack X 0 1) None),
     (OP_GAS, oper opGas GasQuickStep None
        (minStack 0 1) (maxStack X 0 1) None),
     (OP_JUMPDEST, oper opJumpdest (JumpdestGas (Params X)) None
        (minStack 0 0) (maxStack X 0 0) None),
     (OP_PUSH1, oper opPush1 GasFastestStep None
        (minStack 0 1) (maxStack X 0 1) None),
     (OP_PUSH2, oper (makePush 2 2) GasFastestStep None
        (minStack 0 1) (maxStack X 0 1) None),
     (OP_PUSH3, oper (makePush 3 3) GasFastestStep None
        (minStack 0 1) (maxStack X 0 1) None),
     (OP_PUSH4, oper (makePush 4 4) GasFastestStep None
        (minStack 0 1) (maxStack X 0 1) None),
     (OP_PUSH5, oper (makePush 5 5) GasFastestStep None
        (minStack 0 1) (maxStack X 0 1) None),
     (OP_PUSH6, oper (makePush 6 6) GasFastestStep None
        (minStack 0 1) (maxStack X 0 1) None),
     (OP_PUSH7, oper (makePush 7 7) GasFastestStep None
        (minStack 0 1) (maxStack X 0 1) None),
     (OP_PUSH8, oper (makePush 8 8) GasFastestStep None
        (minStack 0 1) (maxStack X 0 1) None),
     (OP_PUSH9, oper (makePush 9 9) GasFastestStep None
        (minStack 0 1) (maxStack X 0 1) None),
     (OP_PUSH10, oper (makePush 10 10) GasFastestStep None
        (minStack 0 1) (maxStack X 0 1) None),
     (OP_PUSH11, oper (makePush 11 11) GasFastestStep None
        (minStack 0 1) (maxStack X 0 1) None),
     (OP_PUSH12, oper (makePush 12 12) GasFastestStep None
        (minStack 0 1) (maxStack X 0 1) None),
     (OP_PUSH13, oper (makePush 13 13) GasFastestStep None
        (minStack 0 1) (maxStack X 0 1) None),
     (OP_PUSH14, oper (makePush 14 14) GasFastestStep None
        (minStack 0 1) (maxStack X 0 1) None),
     (OP_PUSH15, oper (makePush 15 15) GasFastestStep None
        (minStack 0 1) (maxStack X 0 1) None),
     (OP_PUSH16, oper (makePush 16 16) GasFastestStep None
        (minStack 0 1) (maxStack X 0 1) None),
     (OP_PUSH17, oper (makePush 17 17) GasFastestStep None
        (minStack 0 1) (maxStack X 0 1) None)]"

definition frontier_4 :: "ext \<Rightarrow> (OpCode \<times> 's operation) list" where
  "frontier_4 X =
    [(OP_PUSH18, oper (makePush 18 18) GasFastestStep None
        (minStack 0 1) (maxStack X 0 1) None),
     (OP_PUSH19, oper (makePush 19 19) GasFastestStep None
        (minStack 0 1) (maxStack X 0 1) None),
     (OP_PUSH20, oper (makePush 20 20) GasFastestStep None
        (minStack 0 1) (maxStack X 0 1) None),
     (OP_PUSH21, oper (makePush 21 21) GasFastestStep None
        (minStack 0 1) (maxStack X 0 1) None),
     (OP_PUSH22, oper (makePush 22 22) GasFastestStep None
        (minStack 0 1) (maxStack X 0 1) None),
     (OP_PUSH23, oper (makePush 23 23) GasFastestStep None
        (minStack 0 1) (maxStack X 0 1) None),
     (OP_PUSH24, oper (makePush 24 24) GasFastestStep None
        (minStack 0 1) (maxStack X 0 1) None),
     (OP_PUSH25, oper (makePush 25 25) GasFastestStep None
        (minStack 0 1) (maxStack X 0 1) None),
     (OP_PUSH26, oper (makePush 26 26) GasFastestStep None
        (minStack 0 1) (maxStack X 0 1) None),
     (OP_PUSH27, oper (makePush 27 27) GasFastestStep None
        (minStack 0 1) (maxStack X 0 1) None),
     (OP_PUSH28, oper (makePush 28 28) GasFastestStep None
        (minStack 0 1) (maxStack X 0 1) None),
     (OP_PUSH29, oper (makePush 29 29) GasFastestStep None
        (minStack 0 1) (maxStack X 0 1) None),
     (OP_PUSH30, oper (makePush 30 30) GasFastestStep None
        (minStack 0 1) (maxStack X 0 1) None),
     (OP_PUSH31, oper (makePush 31 31) GasFastestStep None
        (minStack 0 1) (maxStack X 0 1) None),
     (OP_PUSH32, oper (makePush 32 32) GasFastestStep None
        (minStack 0 1) (maxStack X 0 1) None),
     (OP_DUP1, oper (makeDup 1) GasFastestStep None
        (minDupStack 1) (maxDupStack X 1) None),
     (OP_DUP2, oper (makeDup 2) GasFastestStep None
        (minDupStack 2) (maxDupStack X 2) None),
     (OP_DUP3, oper (makeDup 3) GasFastestStep None
        (minDupStack 3) (maxDupStack X 3) None),
     (OP_DUP4, oper (makeDup 4) GasFastestStep None
        (minDupStack 4) (maxDupStack X 4) None),
     (OP_DUP5, oper (makeDup 5) GasFastestStep None
        (minDupStack 5) (maxDupStack X 5) None),
     (OP_DUP6, oper (makeDup 6) GasFastestStep None
        (minDupStack 6) (maxDupStack X 6) None),
     (OP_DUP7, oper (makeDup 7) GasFastestStep None
        (minDupStack 7) (maxDupStack X 7) None),
     (OP_DUP8, oper (makeDup 8) GasFastestStep None
        (minDupStack 8) (maxDupStack X 8) None),
     (OP_DUP9, oper (makeDup 9) GasFastestStep None
        (minDupStack 9) (maxDupStack X 9) None)]"

definition frontier_5 :: "ext \<Rightarrow> (OpCode \<times> 's operation) list" where
  "frontier_5 X =
    [(OP_DUP10, oper (makeDup 10) GasFastestStep None
        (minDupStack 10) (maxDupStack X 10) None),
     (OP_DUP11, oper (makeDup 11) GasFastestStep None
        (minDupStack 11) (maxDupStack X 11) None),
     (OP_DUP12, oper (makeDup 12) GasFastestStep None
        (minDupStack 12) (maxDupStack X 12) None),
     (OP_DUP13, oper (makeDup 13) GasFastestStep None
        (minDupStack 13) (maxDupStack X 13) None),
     (OP_DUP14, oper (makeDup 14) GasFastestStep None
        (minDupStack 14) (maxDupStack X 14) None),
     (OP_DUP15, oper (makeDup 15) GasFastestStep None
        (minDupStack 15) (maxDupStack X 15) None),
     (OP_DUP16, oper (makeDup 16) GasFastestStep None
        (minDupStack 16) (maxDupStack X 16) None),
     (OP_SWAP1, oper (makeSwap 1) GasFastestStep None
        (minSwapStack 2) (maxSwapStack X 2) None),
     (OP_SWAP2, oper (makeSwap 2) GasFastestStep None
        (minSwapStack 3) (maxSwapStack X 3) None),
     (OP_SWAP3, oper (makeSwap 3) GasFastestStep None
        (minSwapStack 4) (maxSwapStack X 4) None),
     (OP_SWAP4, oper (makeSwap 4) GasFastestStep None
        (minSwapStack 5) (maxSwapStack X 5) None),
     (OP_SWAP5, oper (makeSwap 5) GasFastestStep None
        (minSwapStack 6) (maxSwapStack X 6) None),
     (OP_SWAP6, oper (makeSwap 6) GasFastestStep None
        (minSwapStack 7) (maxSwapStack X 7) None),
     (OP_SWAP7, oper (makeSwap 7) GasFastestStep None
        (minSwapStack 8) (maxSwapStack X 8) None),
     (OP_SWAP8, oper (makeSwap 8) GasFastestStep None
        (minSwapStack 9) (maxSwapStack X 9) None),
     (OP_SWAP9, oper (makeSwap 9) GasFastestStep None
        (minSwapStack 10) (maxSwapStack X 10) None),
     (OP_SWAP10, oper (makeSwap 10) GasFastestStep None
        (minSwapStack 11) (maxSwapStack X 11) None),
     (OP_SWAP11, oper (makeSwap 11) GasFastestStep None
        (minSwapStack 12) (maxSwapStack X 12) None),
     (OP_SWAP12, oper (makeSwap 12) GasFastestStep None
        (minSwapStack 13) (maxSwapStack X 13) None),
     (OP_SWAP13, oper (makeSwap 13) GasFastestStep None
        (minSwapStack 14) (maxSwapStack X 14) None),
     (OP_SWAP14, oper (makeSwap 14) GasFastestStep None
        (minSwapStack 15) (maxSwapStack X 15) None),
     (OP_SWAP15, oper (makeSwap 15) GasFastestStep None
        (minSwapStack 16) (maxSwapStack X 16) None),
     (OP_SWAP16, oper (makeSwap 16) GasFastestStep None
        (minSwapStack 17) (maxSwapStack X 17) None),
     (OP_LOG0, oper (makeLog 0) 0 (Some (makeGasLog 0))
        (minStack 2 0) (maxStack X 2 0) (Some memoryLog))]"

definition frontier_6 :: "ext \<Rightarrow> (OpCode \<times> 's operation) list" where
  "frontier_6 X =
    [(OP_LOG1, oper (makeLog 1) 0 (Some (makeGasLog 1))
        (minStack 3 0) (maxStack X 3 0) (Some memoryLog)),
     (OP_LOG2, oper (makeLog 2) 0 (Some (makeGasLog 2))
        (minStack 4 0) (maxStack X 4 0) (Some memoryLog)),
     (OP_LOG3, oper (makeLog 3) 0 (Some (makeGasLog 3))
        (minStack 5 0) (maxStack X 5 0) (Some memoryLog)),
     (OP_LOG4, oper (makeLog 4) 0 (Some (makeGasLog 4))
        (minStack 6 0) (maxStack X 6 0) (Some memoryLog)),
     (OP_RSVJNAL, oper opReferenceStateVarJournal 0 (Some (makeGasJournal 3))
        (minStack 3 0) (maxStack X 3 0) None),
     (OP_VSVJNAL, oper opValueStateVarJournal 0 (Some (makeGasJournal 4))
        (minStack 4 0) (maxStack X 4 0) None),
     (OP_IRVVJNAL, oper opReferenceIndexValueStorageJournal 0 (Some (makeGasJournal 6))
        (minStack 6 0) (maxStack X 6 0) None),
     (OP_IRVRJNAL, oper opReferenceIndexReferenceStorageJournal 0 (Some (makeGasJournal 5))
        (minStack 5 0) (maxStack X 5 0) None),
     (OP_IVVVJNAL, oper opValueIndexValueStorageJournal 0 (Some (makeGasJournal 6))
        (minStack 6 0) (maxStack X 6 0) None),
     (OP_IVVRJNAL, oper opValueIndexReferenceStorageJournal 0 (Some (makeGasJournal 5))
        (minStack 5 0) (maxStack X 5 0) None),
     (OP_VVJNAL, oper opValueChangeJournal 0 (Some (makeGasJournal 4))
        (minStack 4 0) (maxStack X 4 0) None),
     (OP_VRJNAL, oper opReferenceChangeJournal 0 (Some (makeGasJournal 2))
        (minStack 2 0) (maxStack X 2 0) None),
     (OP_CREATE, oper opCreate (CreateGas (Params X)) (Some gasCreate)
        (minStack 3 1) (maxStack X 3 1) (Some memoryCreate)),
     (OP_CALL, oper opCall (CallGasFrontier (Params X)) (Some gasCall)
        (minStack 7 1) (maxStack X 7 1) (Some memoryCall)),
     (OP_CALLCODE, oper opCallCode (CallGasFrontier (Params X)) (Some gasCallCode)
        (minStack 7 1) (maxStack X 7 1) (Some memoryCall)),
     (OP_RETURN, oper opReturn 0 (Some gasReturn)
        (minStack 2 0) (maxStack X 2 0) (Some memoryReturn)),
     (OP_SELFDESTRUCT, oper opSelfdestruct 0 (Some gasSelfdestruct)
        (minStack 1 0) (maxStack X 1 0) None)]"

definition frontier_entries :: "ext \<Rightarrow> (OpCode \<times> 's operation) list" where
  "frontier_entries X =
     frontier_1 X @ frontier_2 X @ frontier_3 X @ frontier_4 X @ frontier_5 X @ frontier_6 X"

definition undefined_op :: "ext \<Rightarrow> 's operation" where
  "undefined_op X = oper opUndefined 0 None 0 (maxStack X 0 0) None"

definition frontier_table :: "ext \<Rightarrow> 's JumpTable" where
  "frontier_table X op =
     (case map_of (frontier_entries X) op of None \<Rightarrow> undefined_op X | Some entry \<Rightarrow> entry)"

definition newFrontierInstructionSet :: "ext \<Rightarrow> 's JumpTable option" where
  "newFrontierInstructionSet X = validate (frontier_table X)"

section \<open>Single EIPs (eips.go)\<close>

definition opSelfBalance :: "'s executionFunc" where
  "opSelfBalance = push_op (\<lambda>E pc evm scope.
     Some (FromBig (GetBalance (StateDB_of E) (world evm) (Contract_Address (scContract scope)))))"

definition opChainID :: "'s executionFunc" where
  "opChainID = push_op (\<lambda>E pc evm scope. Some (FromBig (ChainID (chainRules E))))"

definition opTload :: "'s executionFunc" where
  "opTload = replace_op (\<lambda>E evm scope loc.
     Some (GetTransientState (StateDB_of E) (world evm) (Contract_Address (scContract scope)) loc))"

definition opTstore :: "'s executionFunc" where
  "opTstore E cs pc evm scope =
     (if readOnly evm then fail_with ErrWriteProtection E cs pc evm scope
      else lift (do {
        (loc, st) \<leftarrow> pop (scStack scope);
        (val, st) \<leftarrow> pop st;
        let w = SetTransientState (StateDB_of E) (world evm)
                  (Contract_Address (scContract scope)) loc val;
        Some (([], None), pc, evm\<lparr>world := w\<rparr>, scope\<lparr>scStack := st\<rparr>) }))"

definition opBaseFee :: "'s executionFunc" where
  "opBaseFee = push_op (\<lambda>E pc evm scope. map_option FromBig (BaseFee (Context E)))"

definition opPush0 :: "'s executionFunc" where
  "opPush0 = push_op (\<lambda>E pc evm scope. Some 0)"

definition opMcopy :: "'s executionFunc" where
  "opMcopy = mem_op (\<lambda>E evm scope. do {
     (dst, st) \<leftarrow> pop (scStack scope);
     (src, st) \<leftarrow> pop st;
     (len, st) \<leftarrow> pop st;
     mem \<leftarrow> Mem_Copy (scMemory scope) (Uint64 dst) (Uint64 src) (Uint64 len);
     Some (st, mem, None) })"

text \<open>The two in-place changes of an entry.\<close>

definition set_const :: "OpCode \<Rightarrow> u64 \<Rightarrow> 's JumpTable \<Rightarrow> 's JumpTable" where
  "set_const op g jt = jt(op := (jt op)\<lparr>constantGas := g\<rparr>)"

definition set_dyn :: "OpCode \<Rightarrow> 's gasFunc \<Rightarrow> 's JumpTable \<Rightarrow> 's JumpTable" where
  "set_dyn op g jt = jt(op := (jt op)\<lparr>dynamicGas := Some g\<rparr>)"

definition enable1884 :: "ext \<Rightarrow> 's JumpTable \<Rightarrow> 's JumpTable" where
  "enable1884 X jt =
     (let jt = set_const OP_SLOAD (SloadGasEIP1884 (Params X)) jt;
          jt = set_const OP_BALANCE (BalanceGasEIP1884 (Params X)) jt;
          jt = set_const OP_EXTCODEHASH (ExtcodeHashGasEIP1884 (Params X)) jt
      in jt(OP_SELFBALANCE := oper opSelfBalance GasFastStep None
              (minStack 0 1) (maxStack X 0 1) None))"

definition enable1344 :: "ext \<Rightarrow> 's JumpTable \<Rightarrow> 's JumpTable" where
  "enable1344 X jt =
     jt(OP_CHAINID := oper opChainID GasQuickStep None (minStack 0 1) (maxStack X 0 1) None)"

definition enable2200 :: "ext \<Rightarrow> 's JumpTable \<Rightarrow> 's JumpTable" where
  "enable2200 X jt =
     set_dyn OP_SSTORE gasSStoreEIP2200 (set_const OP_SLOAD (SloadGasEIP2200 (Params X)) jt)"

definition enable2929 :: "ext \<Rightarrow> 's JumpTable \<Rightarrow> 's JumpTable" where
  "enable2929 X jt =
     (let warm = WarmStorageReadCostEIP2929 (Params X);
          jt = set_dyn OP_SSTORE gasSStoreEIP2929 jt;
          jt = set_dyn OP_SLOAD gasSLoadEIP2929 (set_const OP_SLOAD 0 jt);
          jt = set_dyn OP_EXTCODECOPY gasExtCodeCopyEIP2929 (set_const OP_EXTCODECOPY warm jt);
          jt = set_dyn OP_EXTCODESIZE gasEip2929AccountCheck (set_const OP_EXTCODESIZE warm jt);
          jt = set_dyn OP_EXTCODEHASH gasEip2929AccountCheck (set_const OP_EXTCODEHASH warm jt);
          jt = set_dyn OP_BALANCE gasEip2929AccountCheck (set_const OP_BALANCE warm jt);
          jt = set_dyn OP_CALL gasCallEIP2929 (set_const OP_CALL warm jt);
          jt = set_dyn OP_CALLCODE gasCallCodeEIP2929 (set_const OP_CALLCODE warm jt);
          jt = set_dyn OP_STATICCALL gasStaticCallEIP2929 (set_const OP_STATICCALL warm jt);
          jt = set_dyn OP_DELEGATECALL gasDelegateCallEIP2929 (set_const OP_DELEGATECALL warm jt)
      in set_dyn OP_SELFDESTRUCT gasSelfdestructEIP2929
           (set_const OP_SELFDESTRUCT (SelfdestructGasEIP150 (Params X)) jt))"

definition enable3529 :: "ext \<Rightarrow> 's JumpTable \<Rightarrow> 's JumpTable" where
  "enable3529 X jt =
     set_dyn OP_SELFDESTRUCT gasSelfdestructEIP3529 (set_dyn OP_SSTORE gasSStoreEIP3529 jt)"

definition enable3198 :: "ext \<Rightarrow> 's JumpTable \<Rightarrow> 's JumpTable" where
  "enable3198 X jt =
     jt(OP_BASEFEE := oper opBaseFee GasQuickStep None (minStack 0 1) (maxStack X 0 1) None)"

definition enable1153 :: "ext \<Rightarrow> 's JumpTable \<Rightarrow> 's JumpTable" where
  "enable1153 X jt =
     jt(OP_TLOAD := oper opTload (WarmStorageReadCostEIP2929 (Params X)) None
          (minStack 1 1) (maxStack X 1 1) None,
        OP_TSTORE := oper opTstore (WarmStorageReadCostEIP2929 (Params X)) None
          (minStack 2 0) (maxStack X 2 0) None)"

definition enable3855 :: "ext \<Rightarrow> 's JumpTable \<Rightarrow> 's JumpTable" where
  "enable3855 X jt =
     jt(OP_PUSH0 := oper opPush0 GasQuickStep None (minStack 0 1) (maxStack X 0 1) None)"

definition enable3860 :: "ext \<Rightarrow> 's JumpTable \<Rightarrow> 's JumpTable" where
  "enable3860 X jt = set_dyn OP_CREATE2 gasCreate2Eip3860 (set_dyn OP_CREATE gasCreateEip3860 jt)"

definition enable5656 :: "ext \<Rightarrow> 's JumpTable \<Rightarrow> 's JumpTable" where
  "enable5656 X jt =
     jt(OP_MCOPY := oper opMcopy GasFastestStep (Some gasMcopy)
          (minStack 3 0) (maxStack X 3 0) (Some memoryMcopy))"

definition activators :: "(nat \<times> (ext \<Rightarrow> 's JumpTable \<Rightarrow> 's JumpTable)) list" where
  "activators =
     [(3855, enable3855), (3860, enable3860), (3529, enable3529), (3198, enable3198),
      (2929, enable2929), (2200, enable2200), (1884, enable1884), (1344, enable1344),
      (1153, enable1153), (5656, enable5656)]"

definition EnableEIP :: "ext \<Rightarrow> nat \<Rightarrow> 's JumpTable \<Rightarrow> error + 's JumpTable" where
  "EnableEIP X eipNum jt =
     (case map_of activators eipNum of
        None \<Rightarrow> Inl (ErrMsg (''undefined eip '' @ decimal eipNum))
      | Some enablerFn \<Rightarrow> Inr (enablerFn X jt))"

definition ValidEip :: "nat \<Rightarrow> bool" where
  "ValidEip eipNum \<longleftrightarrow>
     map_of (activators :: (nat \<times> (ext \<Rightarrow> unit JumpTable \<Rightarrow> unit JumpTable)) list) eipNum \<noteq> None"

definition ActivateableEips :: "string list" where
  "ActivateableEips =
     sort (map (\<lambda>(k, _). decimal k)
       (activators :: (nat \<times> (ext \<Rightarrow> unit JumpTable \<Rightarrow> unit JumpTable)) list))"

section \<open>Forks\<close>

definition newHomesteadInstructionSet :: "ext \<Rightarrow> 's JumpTable option" where
  "newHomesteadInstructionSet X = do {
     instructionSet \<leftarrow> newFrontierInstructionSet X;
     validate (instructionSet(OP_DELEGATECALL :=
       oper opDelegateCall (CallGasFrontier (Params X)) (Some gasDelegateCall)
         (minStack 6 1) (maxStack X 6 1) (Some memoryDelegateCall))) }"

definition newTangerineWhistleInstructionSet :: "ext \<Rightarrow> 's JumpTable option" where
  "newTangerineWhistleInstructionSet X = do {
     jt \<leftarrow> newHomesteadInstructionSet X;
     let jt = set_const OP_BALANCE (BalanceGasEIP150 (Params X)) jt;
     let jt = set_const OP_EXTCODESIZE (ExtcodeSizeGasEIP150 (Params X)) jt;
     let jt = set_const OP_SLOAD (SloadGasEIP150 (Params X)) jt;
     let jt = set_const OP_EXTCODECOPY (ExtcodeCopyBaseEIP150 (Params X)) jt;
     let jt = set_const OP_CALL (CallGasEIP150 (Params X)) jt;
     let jt = set_const OP_CALLCODE (CallGasEIP150 (Params X)) jt;
     let jt = set_const OP_DELEGATECALL (CallGasEIP150 (Params X)) jt;
     validate jt }"

definition newSpuriousDragonInstructionSet :: "ext \<Rightarrow> 's JumpTable option" where
  "newSpuriousDragonInstructionSet X = do {
     jt \<leftarrow> newTangerineWhistleInstructionSet X;
     validate (set_dyn OP_EXP gasExpEIP158 jt) }"

definition newByzantiumInstructionSet :: "ext \<Rightarrow> 's JumpTable option" where
  "newByzantiumInstructionSet X = do {
     jt \<leftarrow> newSpuriousDragonInstructionSet X;
     validate (jt
       (OP_STATICCALL := oper opStaticCall (CallGasEIP150 (Params X)) (Some gasStaticCall)
          (minStack 6 1) (maxStack X 6 1) (Some memoryStaticCall),
        OP_RETURNDATASIZE := oper opReturnDataSize GasQuickStep None
          (minStack 0 1) (maxStack X 0 1) None,
        OP_RETURNDATACOPY := oper opReturnDataCopy GasFastestStep (Some gasReturnDataCopy)
          (minStack 3 0) (maxStack X 3 0) (Some memoryReturnDataCopy),
        OP_REVERT := oper opRevert 0 (Some gasRevert)
          (minStack 2 0) (maxStack X 2 0) (Some memoryRevert))) }"

definition newConstantinopleInstructionSet :: "ext \<Rightarrow> 's JumpTable option" where
  "newConstantinopleInstructionSet X = do {
     jt \<leftarrow> newByzantiumInstructionSet X;
     validate (jt
       (OP_SHL := oper opSHL GasFastestStep None (minStack 2 1) (maxStack X 2 1) None,
        OP_SHR := oper opSHR GasFastestStep None (minStack 2 1) (maxStack X 2 1) None,
        OP_SAR := oper opSAR GasFastestStep None (minStack 2 1) (maxStack X 2 1) None,
        OP_EXTCODEHASH := oper opExtCodeHash (ExtcodeHashGasConstantinople (Params X)) None
          (minStack 1 1) (maxStack X 1 1) None,
        OP_CREATE2 := oper opCreate2 (Create2Gas (Params X)) (Some gasCreate2)
          (minStack 4 1) (maxStack X 4 1) (Some memoryCreate2))) }"

definition newIstanbulInstructionSet :: "ext \<Rightarrow> 's JumpTable option" where
  "newIstanbulInstructionSet X = do {
     jt \<leftarrow> newConstantinopleInstructionSet X;
     let jt = enable1344 X jt;
     let jt = enable1884 X jt;
     let jt = enable2200 X jt;
     validate jt }"

definition newBerlinInstructionSet :: "ext \<Rightarrow> 's JumpTable option" where
  "newBerlinInstructionSet X = do {
     jt \<leftarrow> newIstanbulInstructionSet X;
     validate (enable2929 X jt) }"

definition newLondonInstructionSet :: "ext \<Rightarrow> 's JumpTable option" where
  "newLondonInstructionSet X = do {
     jt \<leftarrow> newBerlinInstructionSet X;
     let jt = enable3529 X jt;
     let jt = enable3198 X jt;
     validate jt }"

definition newMergeInstructionSet :: "ext \<Rightarrow> 's JumpTable option" where
  "newMergeInstructionSet X = do {
     jt \<leftarrow> newLondonInstructionSet X;
     validate (jt(OP_PREVRANDAO := oper opRandom GasQuickStep None
       (minStack 0 1) (maxStack X 0 1) None)) }"

definition newShanghaiInstructionSet :: "ext \<Rightarrow> 's JumpTable option" where
  "newShanghaiInstructionSet X = do {
     jt \<leftarrow> newMergeInstructionSet X;
     let jt = enable3855 X jt;
     let jt = enable3860 X jt;
     validate jt }"

definition newCancunInstructionSet :: "ext \<Rightarrow> 's JumpTable option" where
  "newCancunInstructionSet X = do {
     jt \<leftarrow> newShanghaiInstructionSet X;
     let jt = enable1153 X jt;
     let jt = enable5656 X jt;
     validate jt }"

definition copyJumpTable :: "'s JumpTable \<Rightarrow> 's JumpTable" where
  "copyJumpTable source = (\<lambda>op. source op)"

section \<open>Lookup by rules (jump_table_export.go)\<close>

definition LookupInstructionSet :: "ext \<Rightarrow> Rules \<Rightarrow> ('s JumpTable \<times> error option) option" where
  "LookupInstructionSet X rules =
     (let ok = map_option (\<lambda>t. (t, None)) in
      if IsPrague rules
      then map_option (\<lambda>t. (t, Some (ErrMsg ''prague-fork not defined yet''))) (newShanghaiInstructionSet X)
      else if IsCancun rules
      then map_option (\<lambda>t. (t, Some (ErrMsg ''cancun-fork not defined yet''))) (newShanghaiInstructionSet X)
      else if IsShanghai rules then ok (newShanghaiInstructionSet X)
      else if IsMerge rules then ok (newMergeInstructionSet X)
      else if IsLondon rules then ok (newLondonInstructionSet X)
      else if IsBerlin rules then ok (newBerlinInstructionSet X)
      else if IsIstanbul rules then ok (newIstanbulInstructionSet X)
      else if IsConstantinople rules then ok (newConstantinopleInstructionSet X)
      else if IsByzantium rules then ok (newByzantiumInstructionSet X)
      else if IsEIP158 rules then ok (newSpuriousDragonInstructionSet X)
      else if IsEIP150 rules then ok (newTangerineWhistleInstructionSet X)
      else if IsHomestead rules then ok (newHomesteadInstructionSet X)
      else ok (newFrontierInstructionSet X))"

end
