(* ===== verification/Interpreter.thy ===== *)
theory Interpreter
  imports Jump_Table
begin

text \<open>
  The interpreter (\<open>src/vm/interpreter.go\<close>) and the calls of the virtual machine
  (\<open>src/vm/evm.go\<close>). One pass of the interpreter's loop is \<open>step\<close>; the loop, a call and the
  frames below it are mutually recursive, so the loop takes fuel: a frame with \<open>n\<close> fuel runs its
  callees and its next pass with \<open>n - 1\<close>. The calls are functions of the way a frame is run.
  Deferred functions run where their frame returns.
\<close>

section \<open>One pass of the loop\<close>

datatype 's outcome =
    Continue u64 "'s EVM" ScopeContext
  | Return bytes "error option" "'s EVM" ScopeContext

text \<open>The memory size an operation asks for, rounded up to words.\<close>

definition memory_size :: "ext \<Rightarrow> 's operation \<Rightarrow> Stack \<Rightarrow> (error + u64) option" where
  "memory_size X operation stack =
     (case memorySize operation of
        None \<Rightarrow> Some (Inr 0)
      | Some f \<Rightarrow> do {
          (memSize, overflow) \<leftarrow> f stack;
          Some (if overflow then Inl ErrGasUintOverflow
                else no_ovf (SafeMul X (toWordSize memSize) 32) Inr) })"

text \<open>Charging for an operation: the error that ends the frame with the cost so far, or the cost and
  the memory size to resize to.\<close>

definition charge ::
  "'s env \<Rightarrow> 's operation \<Rightarrow> 's EVM \<Rightarrow> ScopeContext
     \<Rightarrow> ((error \<times> u64 + u64 \<times> u64) \<times> 's EVM \<times> ScopeContext) option" where
  "charge E operation evm scope =
     (let cost = constantGas operation;
          (ok, contract) = UseGas (scContract scope) cost;
          scope = scope\<lparr>scContract := contract\<rparr>
      in if \<not> ok then Some (Inl (ErrOutOfGas, cost), evm, scope)
         else case dynamicGas operation of
           None \<Rightarrow> Some (Inr (cost, 0), evm, scope)
         | Some gasf \<Rightarrow> do {
             ms \<leftarrow> memory_size (extern E) operation (scStack scope);
             case ms of
               Inl err \<Rightarrow> Some (Inl (err, cost), evm, scope)
             | Inr msize \<Rightarrow> do {
                 (r, evm, contract, mem) \<leftarrow>
                   gasf E evm (scContract scope) (scStack scope) (scMemory scope) msize;
                 let scope = scope\<lparr>scContract := contract, scMemory := mem\<rparr>;
                 case r of
                   Inl err \<Rightarrow> Some (Inl (ErrOutOfGas, cost), evm, scope)
                 | Inr dynamicCost \<Rightarrow>
                     let cost = cost + dynamicCost;
                         (ok, contract) = UseGas contract dynamicCost;
                         scope = scope\<lparr>scContract := contract\<rparr>
                     in Some (if \<not> ok then Inl (ErrOutOfGas, cost) else Inr (cost, msize),
                              evm, scope) } })"

definition resize :: "ext \<Rightarrow> u64 \<Rightarrow> ScopeContext \<Rightarrow> ScopeContext" where
  "resize X msize scope =
     (if 0 < msize then scope\<lparr>scMemory := Resize X (scMemory scope) msize\<rparr> else scope)"

definition step ::
  "'s env \<Rightarrow> 's JumpTable \<Rightarrow> 's calls \<Rightarrow> u64 \<Rightarrow> 's EVM \<Rightarrow> ScopeContext \<Rightarrow> 's outcome res" where
  "step E table cs pc evm scope =
     (let gasCopy = Gas (scContract scope);
          op = GetOp (scContract scope) pc;
          operation = table op;
          sLen = stack_len (scStack scope);
          state = (\<lambda>cost scope err evm. capture E
             (CaptureState pc op gasCopy cost scope (returnData evm) (depth evm) err (world evm)) evm);
          unlogged = (\<lambda>err cost evm scope. Ok (Return [] (Some err) (state cost scope (Some err) evm) scope))
      in if sLen < op_minStack operation
         then unlogged (ErrStackUnderflow sLen (op_minStack operation)) (constantGas operation) evm scope
         else if op_maxStack operation < sLen
         then unlogged (ErrStackOverflow sLen (op_maxStack operation)) (constantGas operation) evm scope
         else bind_res (lift (charge E operation evm scope)) (\<lambda>(r, evm, scope).
           case r of
             Inl (err, cost) \<Rightarrow> unlogged err cost evm scope
           | Inr (cost, msize) \<Rightarrow>
               let evm = state cost scope None evm in
               let scope = resize (extern E) msize scope in
               bind_res (execute operation E cs pc evm scope) (\<lambda>((res, err), pc', evm, scope).
                 case err of
                   None \<Rightarrow> Ok (Continue (pc' + 1) evm scope)
                 | Some err \<Rightarrow>
                     if err = errStopToken then Ok (Return res None evm scope)
                     else Ok (Return res (Some err)
                            (capture E (CaptureFault pc op gasCopy cost scope (depth evm) (Some err)) evm)
                            scope))))"

section \<open>Running a frame\<close>

type_synonym 's loop_fn =
  "u64 \<Rightarrow> 's EVM \<Rightarrow> ScopeContext \<Rightarrow> ((bytes \<times> error option) \<times> 's EVM \<times> ScopeContext) res"

type_synonym 's run_fn =
  "Contract \<Rightarrow> bytes \<Rightarrow> bool \<Rightarrow> 's EVM \<Rightarrow> ((bytes \<times> error option) \<times> Contract \<times> 's EVM) res"

definition leave_frame :: "bool \<Rightarrow> 's EVM \<Rightarrow> 's EVM" where
  "leave_frame set_ro evm =
     (let evm = (if set_ro then evm\<lparr>readOnly := False\<rparr> else evm) in evm\<lparr>depth := depth evm - 1\<rparr>)"

definition run_frame :: "'s loop_fn \<Rightarrow> 's run_fn" where
  "run_frame lp contract input ro evm =
     (let set_ro = (ro \<and> \<not> readOnly evm);
          evm = evm\<lparr>depth := depth evm + 1\<rparr>;
          evm = (if set_ro then evm\<lparr>readOnly := True\<rparr> else evm);
          evm = evm\<lparr>returnData := []\<rparr>
      in if Code contract = [] then Ok (([], None), contract, leave_frame set_ro evm)
         else bind_res (lp 0 evm \<lparr>scMemory = NewMemory, scStack = newstack,
                                  scContract = contract\<lparr>Input := input\<rparr>\<rparr>)
                (\<lambda>(r, evm, scope). Ok (r, scContract scope, leave_frame set_ro evm)))"

section \<open>Calls\<close>

definition precompile :: "'s env \<Rightarrow> address \<Rightarrow> PrecompiledContract option" where
  "precompile E addr =
     (let rules = chainRules E in
      map_of (if IsBerlin rules then PrecompiledContractsBerlin
              else if IsIstanbul rules then PrecompiledContractsIstanbul
              else if IsByzantium rules then PrecompiledContractsByzantium
              else PrecompiledContractsHomestead) addr)"

definition run_precompile ::
  "'s env \<Rightarrow> PrecompiledContract \<Rightarrow> bytes \<Rightarrow> u64 \<Rightarrow> 's EVM \<Rightarrow> 's call_result" where
  "run_precompile E p input gas evm = lift (do {
     (r, h) \<leftarrow> RunPrecompiledContract (extern E) (crypto_of E) (aspects_of E) p input gas (aspectCtx evm);
     Some (r, evm\<lparr>aspectCtx := h\<rparr>) })"

definition run_code ::
  "'s run_fn \<Rightarrow> Contract \<Rightarrow> bytes \<Rightarrow> bool \<Rightarrow> 's EVM \<Rightarrow> 's call_result" where
  "run_code run contract input ro evm =
     bind_res (run contract input ro evm) (\<lambda>((ret, err), contract, evm).
       Ok ((ret, Gas contract, err), evm))"

text \<open>The end of every call: an error reverts the state, and takes the gas unless it is a revert.\<close>

definition settle ::
  "'s env \<Rightarrow> nat \<Rightarrow> (bytes \<times> u64 \<times> error option) \<times> 's EVM \<Rightarrow> (bytes \<times> u64 \<times> error option) \<times> 's EVM" where
  "settle E snapshot r =
     (case r of ((ret, gas, err), evm) \<Rightarrow>
        if err \<noteq> None
        then ((ret, if err \<noteq> Some ErrExecutionReverted then 0 else gas, err),
              evm\<lparr>world := RevertToSnapshot (StateDB_of E) (world evm) snapshot\<rparr>)
        else ((ret, gas, err), evm))"

definition take_snapshot :: "'s env \<Rightarrow> 's EVM \<Rightarrow> nat \<times> 's EVM" where
  "take_snapshot E evm =
     (let (i, w) = Snapshot (StateDB_of E) (world evm) in (i, evm\<lparr>world := w\<rparr>))"

definition new_contract ::
  "'s EVM \<Rightarrow> ContractRef \<Rightarrow> ContractRef \<Rightarrow> int \<Rightarrow> u64 \<Rightarrow> Contract \<times> 's EVM" where
  "new_contract evm callr object val gas =
     (let (c, tabs) = NewContract (jumptabs_of evm) callr object val gas in (c, evm\<lparr>jumptabs_of := tabs\<rparr>))"

definition with_code :: "'s env \<Rightarrow> 's EVM \<Rightarrow> address \<Rightarrow> Contract \<Rightarrow> Contract" where
  "with_code E evm addr c =
     SetCallCode c (Some addr) (GetCodeHash (StateDB_of E) (world evm) addr)
       (GetCode (StateDB_of E) (world evm) addr)"

definition too_deep :: "'s env \<Rightarrow> 's EVM \<Rightarrow> bool" where
  "too_deep E evm \<longleftrightarrow> CallCreateDepth (Params (extern E)) < depth evm"

definition capture_enter ::
  "'s env \<Rightarrow> OpCode \<Rightarrow> bool \<Rightarrow> address \<Rightarrow> address \<Rightarrow> bytes \<Rightarrow> u64 \<Rightarrow> int \<Rightarrow> 's EVM \<Rightarrow> 's EVM" where
  "capture_enter E typ creating from' to' input gas val evm =
     (if depth evm = 0 then capture E (CaptureStart from' to' creating input gas val (world evm)) evm
      else capture E (CaptureEnter typ from' to' input gas (Some val)) evm)"

definition capture_leave :: "'s env \<Rightarrow> bytes \<Rightarrow> u64 \<Rightarrow> error option \<Rightarrow> 's EVM \<Rightarrow> 's EVM" where
  "capture_leave E ret used err evm =
     (if depth evm = 0 then capture E (CaptureEnd ret used err) evm
      else capture E (CaptureExit ret used err) evm)"

definition aspect_call ::
  "'s env \<Rightarrow> 's EVM \<Rightarrow> ContractRef \<Rightarrow> address \<Rightarrow> bytes \<Rightarrow> u64 \<Rightarrow> int \<Rightarrow> u64 \<Rightarrow> bytes \<Rightarrow> string \<Rightarrow> AspectCall" where
  "aspect_call E evm callr addr input gas val idx ret err =
     \<lparr>asp_From = Ref_Address callr, asp_To = addr, asp_Data = input,
      asp_BlockNum = word_of_int (BlockNumber (Context E)), asp_Gas = gas, asp_Value = val,
      asp_Index = idx, asp_Ret = ret, asp_Error = err\<rparr>"

definition is_oog :: "error \<Rightarrow> bool" where
  "is_oog err \<longleftrightarrow> error_text err = error_text ErrOutOfGas"

text \<open>Code with the aspects around it. The first component of the result tells whether the aspect
  before the call ended it.\<close>

definition pre_aspect ::
  "'s env \<Rightarrow> ContractRef \<Rightarrow> address \<Rightarrow> bytes \<Rightarrow> u64 \<Rightarrow> int \<Rightarrow> u64 \<Rightarrow> 's EVM
     \<Rightarrow> (bytes \<times> u64 \<times> error option) \<times> 's EVM" where
  "pre_aspect E callr addr input gas val idx evm =
     (if IsExecuteJP evm then
        (case PreContractCall E (aspect_call E evm callr addr input gas val idx [] []) (world evm) (aspectCtx evm) of
           ((ret, gas', err), w, h) \<Rightarrow>
             ((ret, gas', map_option (\<lambda>e. if is_oog e then ErrOutOfGas else e) err),
              evm\<lparr>world := w, aspectCtx := h\<rparr>))
      else (([], gas, None), evm))"

definition post_aspect ::
  "'s env \<Rightarrow> ContractRef \<Rightarrow> address \<Rightarrow> bytes \<Rightarrow> int \<Rightarrow> u64
     \<Rightarrow> (bytes \<times> u64 \<times> error option) \<times> 's EVM \<Rightarrow> (bytes \<times> u64 \<times> error option) \<times> 's EVM" where
  "post_aspect E callr addr input val idx r =
     (case r of ((ret, gas, err), evm) \<Rightarrow>
      if IsExecuteJP evm then
        (case PostContractCall E
                (aspect_call E evm callr addr input gas val idx ret
                   (case err of None \<Rightarrow> [] | Some e \<Rightarrow> error_text e))
                (world evm) (aspectCtx evm) of
           ((pret, pgas, perr), w, h) \<Rightarrow>
             let (ret, err) = (case perr of
                   None \<Rightarrow> (ret, err)
                 | Some e \<Rightarrow> if is_oog e then (ret, Some ErrOutOfGas) else (pret, Some e))
             in ((ret, pgas, err), evm\<lparr>world := w, aspectCtx := h\<rparr>))
      else r)"

definition call_code ::
  "'s run_fn \<Rightarrow> 's env \<Rightarrow> ContractRef \<Rightarrow> address \<Rightarrow> bytes \<Rightarrow> u64 \<Rightarrow> int \<Rightarrow> 's EVM
     \<Rightarrow> (bool \<times> (bytes \<times> u64 \<times> error option) \<times> 's EVM) res" where
  "call_code run E callr addr input gas val evm =
     (let idx = CurrentCallIndex (callTree (tracer evm)) in
      if GetCode (StateDB_of E) (world evm) addr = [] then Ok (False, ([], gas, None), evm)
      else
        let code = GetCode (StateDB_of E) (world evm) addr;
            ((pret, gas, perr), evm) = pre_aspect E callr addr input gas val idx evm
        in if perr \<noteq> None then Ok (True, (pret, gas, perr), evm)
           else
             let (c, evm) = new_contract evm callr (AccountRef addr) val gas;
                 c = SetCallCode c (Some addr) (GetCodeHash (StateDB_of E) (world evm) addr) code
             in bind_res (run_code run c input False evm) (\<lambda>r.
                  let (r, evm) = post_aspect E callr addr input val idx r in Ok (False, r, evm)))"

definition call_body ::
  "'s run_fn \<Rightarrow> 's env \<Rightarrow> ContractRef \<Rightarrow> address \<Rightarrow> bytes \<Rightarrow> u64 \<Rightarrow> int \<Rightarrow> nat \<Rightarrow> 's EVM \<Rightarrow> 's call_result" where
  "call_body run E callr addr input gas val snapshot evm =
     (let evm = capture_enter E OP_CALL False (Ref_Address callr) addr input gas val evm in
      bind_res
        (case precompile E addr of
           Some p \<Rightarrow>
             bind_res (run_precompile E
                (CloneWithCtx p \<lparr>ec_from = Ref_Address callr, ec_to = addr, ec_gas = gas, ec_value = val\<rparr>)
                input gas evm) (\<lambda>(r, evm). Ok (False, r, evm))
         | None \<Rightarrow> call_code run E callr addr input gas val evm)
        (\<lambda>(early, r, evm).
           if early then
             Ok (r, capture_leave E (fst r) 0 (snd (snd r)) evm)
           else
             let (r, evm) = settle E snapshot (r, evm)
             in Ok (r, capture_leave E (fst r) (gas - fst (snd r)) (snd (snd r)) evm)))"

definition call_guarded ::
  "'s run_fn \<Rightarrow> 's env \<Rightarrow> ContractRef \<Rightarrow> address \<Rightarrow> bytes \<Rightarrow> u64 \<Rightarrow> int \<Rightarrow> 's EVM \<Rightarrow> 's call_result" where
  "call_guarded run E callr addr input gas val evm =
     (let db = StateDB_of E; from' = Ref_Address callr in
      if too_deep E evm then Ok (([], gas, Some ErrDepth), evm)
      else if val \<noteq> 0 \<and> \<not> CanTransfer (Context E) (world evm) from' val
      then Ok (([], gas, Some ErrInsufficientBalance), evm)
      else
        let (snapshot, evm) = take_snapshot E evm in
        if \<not> Exist db (world evm) addr \<and> precompile E addr = None \<and> IsEIP158 (chainRules E) \<and> val = 0
        then Ok (([], gas, None),
                 capture_leave E [] 0 None (capture_enter E OP_CALL False from' addr input gas val evm))
        else
          let w = (if \<not> Exist db (world evm) addr then CreateAccount db (world evm) addr else world evm) in
          bind_res (lift (TransferWithRecord (GetBalance db) (Transfer (Context E)) (tracer evm) w from' addr val))
            (\<lambda>(t, w). call_body run E callr addr input gas val snapshot (evm\<lparr>tracer := t, world := w\<rparr>)))"

definition EVM_Call ::
  "'s run_fn \<Rightarrow> 's env \<Rightarrow> ContractRef \<Rightarrow> address \<Rightarrow> bytes \<Rightarrow> u64 \<Rightarrow> int \<Rightarrow> 's EVM \<Rightarrow> 's call_result" where
  "EVM_Call run E callr addr input gas val evm =
     bind_res (lift (MustFromBig val)) (\<lambda>v.
       let evm = evm\<lparr>tracer := SaveCall (tracer evm) (Ref_Address callr) (Some addr) input v (SetUint64 gas)\<rparr> in
       bind_res (call_guarded run E callr addr input gas val evm) (\<lambda>((ret, leftOverGas, err), evm).
         Ok ((ret, leftOverGas, err), evm\<lparr>tracer := ExitCall (tracer evm) leftOverGas ret err\<rparr>)))"

text \<open>The other three calls share the frame around the code: enter event, precompile or code,
  settling, exit event.\<close>

definition plain_call ::
  "'s run_fn \<Rightarrow> 's env \<Rightarrow> OpCode \<Rightarrow> ContractRef \<Rightarrow> address \<Rightarrow> bytes \<Rightarrow> u64 \<Rightarrow> int option \<Rightarrow> bool
     \<Rightarrow> nat \<Rightarrow> ('s EVM \<Rightarrow> (Contract \<times> 's EVM) option) \<Rightarrow> 's EVM \<Rightarrow> 's call_result" where
  "plain_call run E typ callr addr input gas shown ro snapshot mk evm =
     (let evm = capture E (CaptureEnter typ (Ref_Address callr) addr input gas shown) evm in
      bind_res
        (case precompile E addr of
           Some p \<Rightarrow> run_precompile E p input gas evm
         | None \<Rightarrow> bind_res (lift (mk evm)) (\<lambda>(c, evm). run_code run (with_code E evm addr c) input ro evm))
        (\<lambda>r. let (r, evm) = settle E snapshot r
             in Ok (r, capture E (CaptureExit (fst r) (gas - fst (snd r)) (snd (snd r))) evm)))"

definition EVM_CallCode ::
  "'s run_fn \<Rightarrow> 's env \<Rightarrow> ContractRef \<Rightarrow> address \<Rightarrow> bytes \<Rightarrow> u64 \<Rightarrow> int \<Rightarrow> 's EVM \<Rightarrow> 's call_result" where
  "EVM_CallCode run E callr addr input gas val evm =
     (if too_deep E evm then Ok (([], gas, Some ErrDepth), evm)
      else if \<not> CanTransfer (Context E) (world evm) (Ref_Address callr) val
      then Ok (([], gas, Some ErrInsufficientBalance), evm)
      else
        let (snapshot, evm) = take_snapshot E evm in
        plain_call run E OP_CALLCODE callr addr input gas (Some val) False snapshot
          (\<lambda>evm. Some (new_contract evm callr (AccountRef (Ref_Address callr)) val gas)) evm)"

definition EVM_DelegateCall ::
  "'s run_fn \<Rightarrow> 's env \<Rightarrow> ContractRef \<Rightarrow> address \<Rightarrow> bytes \<Rightarrow> u64 \<Rightarrow> 's EVM \<Rightarrow> 's call_result" where
  "EVM_DelegateCall run E callr addr input gas evm =
     (if too_deep E evm then Ok (([], gas, Some ErrDepth), evm)
      else
        let (snapshot, evm) = take_snapshot E evm;
            mk = (\<lambda>evm. let (c, evm) = new_contract evm callr (AccountRef (Ref_Address callr)) 0 gas
                         in map_option (\<lambda>c. (c, evm)) (AsDelegate c))
        in case callr of
             ContractOf a ca v j \<Rightarrow>
               plain_call run E OP_DELEGATECALL callr addr input gas (Some v) False snapshot mk evm
           | AccountRef a \<Rightarrow>
               if HasTracer (ConfigOf E) then Panic
               else plain_call run E OP_DELEGATECALL callr addr input gas None False snapshot mk evm)"

definition EVM_StaticCall ::
  "'s run_fn \<Rightarrow> 's env \<Rightarrow> ContractRef \<Rightarrow> address \<Rightarrow> bytes \<Rightarrow> u64 \<Rightarrow> 's EVM \<Rightarrow> 's call_result" where
  "EVM_StaticCall run E callr addr input gas evm =
     (if too_deep E evm then Ok (([], gas, Some ErrDepth), evm)
      else
        let (snapshot, evm) = take_snapshot E evm;
            evm = evm\<lparr>world := AddBalance (StateDB_of E) (world evm) addr 0\<rparr>
        in plain_call run E OP_STATICCALL callr addr input gas None True snapshot
             (\<lambda>evm. Some (new_contract evm callr (AccountRef addr) 0 gas)) evm)"

section \<open>Creation\<close>

definition emptyCodeHash :: "ext \<Rightarrow> hash" where
  "emptyCodeHash X = Keccak256Hash X []"

text \<open>The checks of the code a creation returned, and storing it.\<close>

definition check_code :: "'s env \<Rightarrow> bytes \<Rightarrow> error option \<Rightarrow> error option" where
  "check_code E ret err =
     (let err = (if err = None \<and> IsEIP158 (chainRules E) \<and> MaxCodeSize (Params (extern E)) < length ret
                 then Some ErrMaxCodeSizeExceeded else err)
      in if err = None \<and> 1 \<le> length ret \<and> hd ret = 0xEF \<and> IsLondon (chainRules E)
         then Some ErrInvalidCode else err)"

definition store_code ::
  "'s env \<Rightarrow> address \<Rightarrow> bytes \<Rightarrow> error option \<Rightarrow> Contract \<Rightarrow> 's EVM \<Rightarrow> error option \<times> Contract \<times> 's EVM" where
  "store_code E addr ret err contract evm =
     (if err = None then
        let createDataGas = of_nat (length ret) * CreateDataGas (Params (extern E));
            (ok, contract) = UseGas contract createDataGas
        in if ok then (None, contract, evm\<lparr>world := SetCode (StateDB_of E) (world evm) addr ret\<rparr>)
           else (Some ErrCodeStoreOutOfGas, contract, evm)
      else (err, contract, evm))"

definition settle_create ::
  "'s env \<Rightarrow> nat \<Rightarrow> error option \<Rightarrow> Contract \<Rightarrow> 's EVM \<Rightarrow> Contract \<times> 's EVM" where
  "settle_create E snapshot err contract evm =
     (if err \<noteq> None \<and> (IsHomestead (chainRules E) \<or> err \<noteq> Some ErrCodeStoreOutOfGas)
      then (if err \<noteq> Some ErrExecutionReverted then snd (UseGas contract (Gas contract)) else contract,
            evm\<lparr>world := RevertToSnapshot (StateDB_of E) (world evm) snapshot\<rparr>)
      else (contract, evm))"

definition create_body ::
  "'s run_fn \<Rightarrow> 's env \<Rightarrow> ContractRef \<Rightarrow> bytes \<times> hash \<Rightarrow> u64 \<Rightarrow> int \<Rightarrow> address \<Rightarrow> OpCode \<Rightarrow> nat \<Rightarrow> 's EVM
     \<Rightarrow> 's create_result" where
  "create_body run E callr codeAndHash gas val addr typ snapshot evm =
     (let (c, evm) = new_contract evm callr (AccountRef addr) val gas;
          c = SetCodeOptionalHash c (Some addr) codeAndHash;
          evm = capture_enter E typ True (Ref_Address callr) addr (fst codeAndHash) gas val evm
      in bind_res (run c [] False evm) (\<lambda>((ret, err), contract, evm).
           let err = check_code E ret err;
               (err, contract, evm) = store_code E addr ret err contract evm;
               (contract, evm) = settle_create E snapshot err contract evm;
               evm = capture_leave E ret (gas - Gas contract) err evm
           in Ok ((ret, addr, Gas contract, err), evm)))"

definition collides :: "'s env \<Rightarrow> 's \<Rightarrow> address \<Rightarrow> bool" where
  "collides E w addr \<longleftrightarrow>
     (let contractHash = GetCodeHash (StateDB_of E) w addr
      in GetNonce (StateDB_of E) w addr \<noteq> 0 \<or>
         (contractHash \<noteq> 0 \<and> contractHash \<noteq> emptyCodeHash (extern E)))"

definition create_guarded ::
  "'s run_fn \<Rightarrow> 's env \<Rightarrow> ContractRef \<Rightarrow> bytes \<times> hash \<Rightarrow> u64 \<Rightarrow> int \<Rightarrow> address \<Rightarrow> OpCode \<Rightarrow> 's EVM
     \<Rightarrow> 's create_result" where
  "create_guarded run E callr codeAndHash gas val addr typ evm =
     (let db = StateDB_of E; from' = Ref_Address callr; nonce = GetNonce db (world evm) from' in
      if too_deep E evm then Ok (([], 0, gas, Some ErrDepth), evm)
      else if \<not> CanTransfer (Context E) (world evm) from' val
      then Ok (([], 0, gas, Some ErrInsufficientBalance), evm)
      else if nonce + 1 < nonce then Ok (([], 0, gas, Some ErrNonceUintOverflow), evm)
      else
        let w = SetNonce db (world evm) from' (nonce + 1);
            w = (if IsBerlin (chainRules E) then AddAddressToAccessList db w addr else w);
            evm = evm\<lparr>world := w\<rparr>
        in if collides E w addr then Ok (([], 0, 0, Some ErrContractAddressCollision), evm)
           else
             let (snapshot, evm) = take_snapshot E evm;
                 w = CreateAccount db (world evm) addr;
                 w = (if IsEIP158 (chainRules E) then SetNonce db w addr 1 else w)
             in bind_res (lift (TransferWithRecord (GetBalance db) (Transfer (Context E)) (tracer evm) w from' addr val))
                  (\<lambda>(t, w). create_body run E callr codeAndHash gas val addr typ snapshot
                              (evm\<lparr>tracer := t, world := w\<rparr>)))"

definition EVM_create ::
  "'s run_fn \<Rightarrow> 's env \<Rightarrow> ContractRef \<Rightarrow> bytes \<times> hash \<Rightarrow> u64 \<Rightarrow> int \<Rightarrow> address \<Rightarrow> OpCode \<Rightarrow> 's EVM
     \<Rightarrow> 's create_result" where
  "EVM_create run E callr codeAndHash gas val addr typ evm =
     bind_res (lift (MustFromBig val)) (\<lambda>v.
       let evm = evm\<lparr>tracer := SaveCall (tracer evm) (Ref_Address callr) None (fst codeAndHash) v (SetUint64 gas)\<rparr> in
       bind_res (create_guarded run E callr codeAndHash gas val addr typ evm)
         (\<lambda>((ret, a, leftoverGas, err), evm).
            Ok ((ret, a, leftoverGas, err), evm\<lparr>tracer := ExitCall (tracer evm) leftoverGas ret err\<rparr>)))"

definition EVM_Create ::
  "'s run_fn \<Rightarrow> 's env \<Rightarrow> ContractRef \<Rightarrow> bytes \<Rightarrow> u64 \<Rightarrow> int \<Rightarrow> 's EVM \<Rightarrow> 's create_result" where
  "EVM_Create run E callr code gas val evm =
     (let from' = Ref_Address callr;
          contractAddr = CreateAddress (extern E) from' (GetNonce (StateDB_of E) (world evm) from')
      in EVM_create run E callr (code, 0) gas val contractAddr OP_CREATE evm)"

definition codeAndHash_Hash :: "ext \<Rightarrow> bytes \<times> hash \<Rightarrow> hash" where
  "codeAndHash_Hash X c = (if snd c = 0 then Keccak256Hash X (fst c) else snd c)"

definition EVM_Create2 ::
  "'s run_fn \<Rightarrow> 's env \<Rightarrow> ContractRef \<Rightarrow> bytes \<Rightarrow> u64 \<Rightarrow> int \<Rightarrow> u256 \<Rightarrow> 's EVM \<Rightarrow> 's create_result" where
  "EVM_Create2 run E callr code gas endowment salt evm =
     (let codeAndHash = (code, codeAndHash_Hash (extern E) (code, 0));
          contractAddr = CreateAddress2 (extern E) (Ref_Address callr) salt (snd codeAndHash)
      in EVM_create run E callr codeAndHash gas endowment contractAddr OP_CREATE2 evm)"

section \<open>Tying the knot\<close>

definition mk_calls :: "'s env \<Rightarrow> 's run_fn \<Rightarrow> 's calls" where
  "mk_calls E run =
     \<lparr>do_Call = EVM_Call run E, do_CallCode = EVM_CallCode run E,
      do_DelegateCall = EVM_DelegateCall run E, do_StaticCall = EVM_StaticCall run E,
      do_Create = EVM_Create run E, do_Create2 = EVM_Create2 run E\<rparr>"

primrec loop :: "nat \<Rightarrow> 's env \<Rightarrow> 's JumpTable \<Rightarrow> 's loop_fn" where
  "loop 0 E table pc evm scope = OutOfFuel"
| "loop (Suc n) E table pc evm scope =
     bind_res (step E table (mk_calls E (run_frame (loop n E table))) pc evm scope)
       (\<lambda>out. case out of
          Return ret err evm scope \<Rightarrow> Ok ((ret, err), evm, scope)
        | Continue pc evm scope \<Rightarrow> loop n E table pc evm scope)"

definition Run :: "nat \<Rightarrow> 's env \<Rightarrow> 's JumpTable \<Rightarrow> 's run_fn" where
  "Run n E table = run_frame (loop n E table)"

section \<open>Setting up\<close>

definition instruction_set :: "'s env \<Rightarrow> 's JumpTable option" where
  "instruction_set E =
     (let X = extern E; rules = chainRules E in
      if IsCancun rules then newCancunInstructionSet X
      else if IsShanghai rules then newShanghaiInstructionSet X
      else if IsMerge rules then newMergeInstructionSet X
      else if IsLondon rules then newLondonInstructionSet X
      else if IsBerlin rules then newBerlinInstructionSet X
      else if IsIstanbul rules then newIstanbulInstructionSet X
      else if IsConstantinople rules then newConstantinopleInstructionSet X
      else if IsByzantium rules then newByzantiumInstructionSet X
      else if IsEIP158 rules then newSpuriousDragonInstructionSet X
      else if IsEIP150 rules then newTangerineWhistleInstructionSet X
      else if IsHomestead rules then newHomesteadInstructionSet X
      else newFrontierInstructionSet X)"

primrec enable_eips :: "ext \<Rightarrow> nat list \<Rightarrow> 's JumpTable \<Rightarrow> nat list \<Rightarrow> 's JumpTable \<times> nat list" where
  "enable_eips X [] table extraEips = (table, extraEips)"
| "enable_eips X (eip # eips) table extraEips =
     (case EnableEIP X eip table of
        Inl err \<Rightarrow> enable_eips X eips table extraEips
      | Inr table \<Rightarrow> enable_eips X eips table (extraEips @ [eip]))"

definition NewEVMInterpreter :: "'s env \<Rightarrow> ('s JumpTable \<times> 's env) option" where
  "NewEVMInterpreter E = do {
     table \<leftarrow> instruction_set E;
     let eips = ExtraEips (ConfigOf E);
     let table = (if 0 < length eips then copyJumpTable table else table);
     let (table, extraEips) = enable_eips (extern E) eips table [];
     Some (table, E\<lparr>ConfigOf := (ConfigOf E)\<lparr>ExtraEips := extraEips\<rparr>\<rparr>) }"

definition fresh_EVM :: "'s \<Rightarrow> 's EVM" where
  "fresh_EVM w =
     \<lparr>world = w, depth = 0, abort = False, callGasTemp = 0, tracer = NewTracer,
      IsExecuteJP = True, readOnly = False, returnData = [], jumptabs_of = [], aspectCtx = [],
      events = []\<rparr>"

text \<open>The environment before carries the code outside the repository and the chain configuration.\<close>

definition NewEVM ::
  "'s env \<Rightarrow> 's BlockContext \<Rightarrow> TxContext \<Rightarrow> 's \<Rightarrow> Config \<Rightarrow> ('s JumpTable \<times> 's env \<times> 's EVM) option" where
  "NewEVM E blockCtx txCtx w config = do {
     let E = E\<lparr>Context := blockCtx, Tx := txCtx, ConfigOf := config,
               chainRules := chainConfig_Rules E (BlockNumber blockCtx) (Random blockCtx \<noteq> None) (Time blockCtx)\<rparr>;
     (table, E) \<leftarrow> NewEVMInterpreter E;
     Some (table, E, fresh_EVM w) }"

definition Reset :: "'s env \<Rightarrow> 's EVM \<Rightarrow> TxContext \<Rightarrow> 's \<Rightarrow> 's env \<times> 's EVM" where
  "Reset E evm txCtx w = (E\<lparr>Tx := txCtx\<rparr>, evm\<lparr>world := w\<rparr>)"

definition SetBlockContext :: "'s env \<Rightarrow> 's BlockContext \<Rightarrow> 's env" where
  "SetBlockContext E blockCtx =
     E\<lparr>Context := blockCtx,
       chainRules := chainConfig_Rules E (BlockNumber blockCtx) (Random blockCtx \<noteq> None) (Time blockCtx)\<rparr>"

end
