(* ===== verification/Gas_Laws.thy ===== *)
theory Gas_Laws
  imports Gas_Table
begin

text \<open>
  Laws of the gas computations: memory expansion charges the difference of a total fee, so the
  charges of a frame add up to the fee of its final size; the gas for a callee follows the 63/64
  rule; the cost of a storage write is the table of EIP-2200 and EIP-2929.
\<close>

section \<open>The fee of a memory\<close>

definition total_fee :: "nat \<Rightarrow> nat" where
  "total_fee words = 3 * words + words * words div 512"

definition mem_inv :: "Memory \<Rightarrow> bool" where
  "mem_inv mem \<longleftrightarrow>
     32 dvd Mem_Len mem \<and> Mem_Len mem \<le> 137438953440 \<and>
     unat (lastGasCost mem) = total_fee (Mem_Len mem div 32)"

text \<open>The memory after a charge for \<open>words\<close> words: only the last cost changes.\<close>

definition paid :: "Memory \<Rightarrow> nat \<Rightarrow> Memory" where
  "paid mem words =
     (if Mem_Len mem < 32 * words then mem\<lparr>lastGasCost := of_nat (total_fee words)\<rparr> else mem)"

lemma mem_inv_NewMemory: "mem_inv NewMemory"
  by (simp add: mem_inv_def NewMemory_def Mem_Len_def total_fee_def)

lemma total_fee_mono: "a \<le> b \<Longrightarrow> total_fee a \<le> total_fee b"
  unfolding total_fee_def by (intro add_mono mult_le_mono div_le_mono) simp_all

lemma total_fee_bound: "w \<le> 4294967295 \<Longrightarrow> total_fee w \<le> 36028809887088637"
proof -
  assume "w \<le> 4294967295"
  then have "total_fee w \<le> total_fee 4294967295" by (rule total_fee_mono)
  also have "total_fee 4294967295 = 36028809887088637" by (simp add: total_fee_def)
  finally show ?thesis .
qed

lemma Mem_Len_paid [simp]: "Mem_Len (paid mem words) = Mem_Len mem"
  by (simp add: paid_def Mem_Len_def)

lemma paid_0 [simp]: "paid mem 0 = mem"
  by (simp add: paid_def)

lemma words_bound: "unat ms \<le> 137438953440 \<Longrightarrow> (unat ms + 31) div 32 \<le> 4294967295"
  using div_le_mono[of "unat ms + 31" "137438953471" 32] by simp

lemma unat_of_nat_u64: "n < 18446744073709551616 \<Longrightarrow> unat (of_nat n :: u64) = n"
  by (simp add: unat_of_nat)

context protocol
begin

text \<open>The values of the protocol constants.\<close>

lemma param_simps:
  "StackLimit (Params X) = 1024"
  "CallCreateDepth (Params X) = 1024"
  "MaxCodeSize (Params X) = 24576"
  "MaxInitCodeSize (Params X) = 49152"
  "MemoryGas (Params X) = 3"
  "QuadCoeffDiv (Params X) = 512"
  "CopyGas (Params X) = 3"
  "LogGas (Params X) = 375"
  "LogTopicGas (Params X) = 375"
  "LogDataGas (Params X) = 8"
  "Keccak256Gas (Params X) = 30"
  "Keccak256WordGas (Params X) = 6"
  "InitCodeWordGas (Params X) = 2"
  "ExpGas (Params X) = 10"
  "ExpByteFrontier (Params X) = 10"
  "ExpByteEIP158 (Params X) = 50"
  "JumpdestGas (Params X) = 1"
  "CreateGas (Params X) = 32000"
  "Create2Gas (Params X) = 32000"
  "CreateDataGas (Params X) = 200"
  "CallStipend (Params X) = 2300"
  "CallValueTransferGas (Params X) = 9000"
  "CallNewAccountGas (Params X) = 25000"
  "CallGasFrontier (Params X) = 40"
  "CallGasEIP150 (Params X) = 700"
  "BalanceGasFrontier (Params X) = 20"
  "BalanceGasEIP150 (Params X) = 400"
  "BalanceGasEIP1884 (Params X) = 700"
  "ExtcodeSizeGasFrontier (Params X) = 20"
  "ExtcodeSizeGasEIP150 (Params X) = 700"
  "ExtcodeCopyBaseFrontier (Params X) = 20"
  "ExtcodeCopyBaseEIP150 (Params X) = 700"
  "ExtcodeHashGasConstantinople (Params X) = 400"
  "ExtcodeHashGasEIP1884 (Params X) = 700"
  "SloadGasFrontier (Params X) = 50"
  "SloadGasEIP150 (Params X) = 200"
  "SloadGasEIP1884 (Params X) = 800"
  "SloadGasEIP2200 (Params X) = 800"
  "SstoreSetGas (Params X) = 20000"
  "SstoreResetGas (Params X) = 5000"
  "SstoreClearGas (Params X) = 5000"
  "SstoreRefundGas (Params X) = 15000"
  "NetSstoreNoopGas (Params X) = 200"
  "NetSstoreInitGas (Params X) = 20000"
  "NetSstoreCleanGas (Params X) = 5000"
  "NetSstoreDirtyGas (Params X) = 200"
  "NetSstoreClearRefund (Params X) = 15000"
  "NetSstoreResetRefund (Params X) = 4800"
  "NetSstoreResetClearRefund (Params X) = 19800"
  "SstoreSentryGasEIP2200 (Params X) = 2300"
  "SstoreSetGasEIP2200 (Params X) = 20000"
  "SstoreResetGasEIP2200 (Params X) = 5000"
  "SstoreClearsScheduleRefundEIP2200 (Params X) = 15000"
  "SstoreClearsScheduleRefundEIP3529 (Params X) = 4800"
  "ColdSloadCostEIP2929 (Params X) = 2100"
  "ColdAccountAccessCostEIP2929 (Params X) = 2600"
  "WarmStorageReadCostEIP2929 (Params X) = 100"
  "SelfdestructGasEIP150 (Params X) = 5000"
  "SelfdestructRefundGas (Params X) = 24000"
  "CreateBySelfdestructGas (Params X) = 25000"
  "EcrecoverGas (Params X) = 3000"
  "Sha256BaseGas (Params X) = 60"
  "Sha256PerWordGas (Params X) = 12"
  "Ripemd160BaseGas (Params X) = 600"
  "Ripemd160PerWordGas (Params X) = 120"
  "IdentityBaseGas (Params X) = 15"
  "IdentityPerWordGas (Params X) = 3"
  "Bn256AddGasByzantium (Params X) = 500"
  "Bn256AddGasIstanbul (Params X) = 150"
  "Bn256ScalarMulGasByzantium (Params X) = 40000"
  "Bn256ScalarMulGasIstanbul (Params X) = 6000"
  "Bn256PairingBaseGasByzantium (Params X) = 100000"
  "Bn256PairingBaseGasIstanbul (Params X) = 45000"
  "Bn256PairingPerPointGasByzantium (Params X) = 80000"
  "Bn256PairingPerPointGasIstanbul (Params X) = 34000"
  "Bls12381G1AddGas (Params X) = 600"
  "Bls12381G1MulGas (Params X) = 12000"
  "Bls12381G2AddGas (Params X) = 4500"
  "Bls12381G2MulGas (Params X) = 55000"
  "Bls12381PairingBaseGas (Params X) = 115000"
  "Bls12381PairingPerPairGas (Params X) = 23000"
  "Bls12381MapG1Gas (Params X) = 5500"
  "Bls12381MapG2Gas (Params X) = 110000"
  by (simp_all add: params eth_params_def)

lemma memoryGasCost_spec:
  assumes "mem_inv mem"
  shows "memoryGasCost X mem ms =
    (let words = (unat ms + 31) div 32 in
     if 137438953440 < unat ms then (Inl ErrGasUintOverflow, mem)
     else (Inr (of_nat (total_fee (max words (Mem_Len mem div 32)) - total_fee (Mem_Len mem div 32))),
           paid mem words))"
proof -
  let ?w = "(unat ms + 31) div 32" and ?l = "Mem_Len mem div 32"
  have len: "Mem_Len mem = 32 * ?l" and last: "unat (lastGasCost mem) = total_fee ?l"
    using assms by (simp_all add: mem_inv_def)
  show ?thesis
  proof (cases "ms = 0 \<or> 137438953440 < unat ms")
    case True
    then show ?thesis by (auto simp: memoryGasCost_def word_order unat_eq_0)
  next
    case False
    then have small: "unat ms \<le> 137438953440" "ms \<noteq> 0" by simp_all
    have w: "?w \<le> 4294967295" by (rule words_bound[OF small(1)])
    have tw: "unat (toWordSize ms) = ?w" by (rule unat_toWordSize)
    have mul32: "unat (toWordSize ms * 32) = 32 * ?w"
      using w by (subst unat_mult_nowrap) (simp_all add: tw)
    show ?thesis
    proof (cases "Mem_Len mem < 32 * ?w")
      case True
      then have lw: "?l \<le> ?w" using len by linarith
      have "?w * ?w \<le> 4294967295 * 4294967295" by (rule mult_le_mono[OF w w])
      then have sq: "unat (toWordSize ms * toWordSize ms) = ?w * ?w"
        by (subst unat_mult_nowrap) (simp_all add: tw)
      have lin: "unat (toWordSize ms * 3) = 3 * ?w"
        using w by (subst unat_mult_nowrap) (simp_all add: tw)
      have quad: "unat (toWordSize ms * toWordSize ms div 512) = ?w * ?w div 512"
        by (simp add: unat_div sq)
      have tot: "unat (toWordSize ms * 3 + toWordSize ms * toWordSize ms div 512) = total_fee ?w"
        using total_fee_bound[OF w] lin quad by (subst unat_add_nowrap) (simp_all add: total_fee_def)
      then have tot': "toWordSize ms * 3 + toWordSize ms * toWordSize ms div 512 = of_nat (total_fee ?w)"
        by (metis of_nat_unat ucast_id)
      have "lastGasCost mem = of_nat (total_fee ?l)" using last by (metis of_nat_unat ucast_id)
      then have "of_nat (total_fee ?w) - lastGasCost mem = of_nat (total_fee ?w - total_fee ?l)"
        using total_fee_mono[OF lw] by (simp add: of_nat_diff)
      then show ?thesis
        using True small mul32 lw tot'
        by (simp add: memoryGasCost_def param_simps word_order Let_def paid_def max_absorb1)
    next
      case False
      then have "max ?w ?l = ?l" using len by linarith
      then show ?thesis
        using False small mul32
        by (simp add: memoryGasCost_def param_simps word_order Let_def paid_def)
    qed
  qed
qed

lemma memoryGasCost_Inr:
  assumes "mem_inv mem" "memoryGasCost X mem ms = (Inr g, mem')"
  shows "mem' = paid mem ((unat ms + 31) div 32)" "unat g \<le> 36028809887088637"
    "unat g = total_fee (max ((unat ms + 31) div 32) (Mem_Len mem div 32)) - total_fee (Mem_Len mem div 32)"
    "unat ms \<le> 137438953440"
proof -
  let ?w = "(unat ms + 31) div 32" and ?l = "Mem_Len mem div 32"
  have s: "\<not> 137438953440 < unat ms" "mem' = paid mem ?w"
      "g = of_nat (total_fee (max ?w ?l) - total_fee ?l)"
    using assms(2) by (simp_all add: memoryGasCost_spec[OF assms(1)] Let_def split: if_splits)
  have l: "?l \<le> 4294967295" using assms(1) using div_le_mono[of "Mem_Len mem" "137438953440" 32] by (simp add: mem_inv_def)
  have "max ?w ?l \<le> 4294967295" using s(1) l words_bound[of ms] by simp
  then have b: "total_fee (max ?w ?l) - total_fee ?l \<le> 36028809887088637"
    using total_fee_bound by (meson diff_le_self le_trans)
  then show "unat g = total_fee (max ?w ?l) - total_fee ?l"
    using s(3) by (simp add: unat_of_nat_u64)
  then show "unat g \<le> 36028809887088637" using b by simp
  show "mem' = paid mem ?w" "unat ms \<le> 137438953440" using s by simp_all
qed

lemma memoryGasCost_Inl:
  "memoryGasCost X mem ms = (Inl err, mem') \<Longrightarrow> mem' = mem"
  by (auto simp: memoryGasCost_def Let_def split: if_splits)

lemma mem_inv_Resize:
  assumes "mem_inv mem" "32 dvd unat ms" "unat ms \<le> 137438953440"
  shows "mem_inv (Resize X (paid mem (unat ms div 32)) ms)"
proof (cases "Mem_Len mem < unat ms")
  case True
  have "unat ms div 32 \<le> 4294967295" using assms(3) by linarith
  then have "unat (of_nat (total_fee (unat ms div 32)) :: u64) = total_fee (unat ms div 32)"
    using total_fee_bound[of "unat ms div 32"] by (simp add: unat_of_nat_u64)
  then show ?thesis
    using True assms by (simp add: mem_inv_def paid_def Resize_def Mem_Len_def)
next
  case False
  then show ?thesis using assms by (simp add: paid_def Resize_def)
qed

end

end
