(* ===== verification/Frames.thy ===== *)
theory Frames
  imports Interpreter Gas_Laws
begin

text \<open>
  The contract of a frame. A frame, a call and a single instruction all keep the machine's depth,
  its read-only flag and its switches, change the world only in ways their mode allows, record
  their calls as a nested run of the call tree, and never end with more gas than they were given.
  The ways the world may change are a relation \<open>R\<close>, indexed by the read-only flag; the locale
  \<open>state_laws\<close> says which steps it has to contain. \<open>metered\<close> adds what the gas accounting rests
  on: the protocol constants, the rule of EIP-150 and aspects that do not create gas.
\<close>

section \<open>What a step keeps\<close>

definition grows :: "CallTree \<Rightarrow> CallTree \<Rightarrow> bool" where
  "grows t t' \<longleftrightarrow> (\<exists>trs. t' = run_traces t trs)"

text \<open>
  The calls of the logger nest. \<open>scan\<close> runs through them with the scopes opened and not closed so
  far, and fails on the end of a scope that is not the innermost open one. The scope \<open>CaptureStart\<close>
  opens is allowed only outermost, and only where \<open>outer\<close> says so.
\<close>

datatype log_scope = TopScope | InnerScope

fun scan_event :: "bool \<Rightarrow> 's log_event \<Rightarrow> log_scope list \<Rightarrow> log_scope list option" where
  "scan_event outer (CaptureStart f t c i g v w) s = (if outer \<and> s = [] then Some [TopScope] else None)"
| "scan_event outer (CaptureEnd out used err) s = (if outer \<and> s = [TopScope] then Some [] else None)"
| "scan_event outer (CaptureEnter op f t i g v) s = Some (InnerScope # s)"
| "scan_event outer (CaptureExit out used err) s =
     (case s of InnerScope # s' \<Rightarrow> Some s' | _ \<Rightarrow> None)"
| "scan_event outer (CaptureState pc op g c sc rd d err w) s = Some s"
| "scan_event outer (CaptureFault pc op g c sc d err) s = Some s"

primrec scan :: "bool \<Rightarrow> 's log_event list \<Rightarrow> log_scope list \<Rightarrow> log_scope list option" where
  "scan outer [] s = Some s"
| "scan outer (ev # evs) s = Option.bind (scan_event outer ev s) (scan outer evs)"

lemma scan_append: "scan outer (evs @ evs') s = Option.bind (scan outer evs s) (scan outer evs')"
  by (induction evs arbitrary: s) (auto split: Option.bind_split)

lemma scan_event_deeper:
  "scan_event False ev s = Some t \<Longrightarrow> scan_event outer ev (s @ u) = Some (t @ u)"
  by (cases ev) (auto split: list.splits log_scope.splits)

lemma scan_deeper: "scan False evs s = Some t \<Longrightarrow> scan outer evs (s @ u) = Some (t @ u)"
  by (induction evs arbitrary: s) (auto simp: bind_eq_Some dest: scan_event_deeper)

definition emits :: "bool \<Rightarrow> log_scope list \<Rightarrow> 's EVM \<Rightarrow> 's EVM \<Rightarrow> bool" where
  "emits outer k evm evm' \<longleftrightarrow> (\<exists>evs. events evm' = events evm @ evs \<and> scan outer evs [] = Some k)"

lemma emits_same [simp]: "events evm' = events evm \<Longrightarrow> emits outer [] evm evm'"
  by (simp add: emits_def)

lemma emits_event:
  "HasTracer (ConfigOf E) \<Longrightarrow> scan_event outer ev [] = Some k \<Longrightarrow> emits outer k evm (capture E ev evm)"
  by (simp add: emits_def capture_def)

lemma emits_then: "emits outer [] evm evm' \<Longrightarrow> emits outer k evm' evm'' \<Longrightarrow> emits outer k evm evm''"
  by (auto simp: emits_def scan_append)

lemma emits_inside: "emits outer k evm evm' \<Longrightarrow> emits False [] evm' evm'' \<Longrightarrow> emits outer k evm evm''"
  using scan_deeper[of _ "[]" "[]" outer k] by (fastforce simp: emits_def scan_append)

lemma emits_top: "emits False k evm evm' \<Longrightarrow> emits outer k evm evm'"
  using scan_deeper[of _ "[]" k outer "[]"] by (fastforce simp: emits_def)

lemma emits_capture_step:
  "scan_event False ev [] = Some [] \<Longrightarrow> emits outer [] evm (capture E ev evm)"
  using emits_top[OF emits_event, of E ev "[]" outer evm]
  by (cases "HasTracer (ConfigOf E)") (simp_all add: capture_def)

lemma emits_capture_end:
  assumes "emits outer k evm evm'" "HasTracer (ConfigOf E)" "scan_event outer ev k = Some []"
  shows "emits outer [] evm (capture E ev evm')"
  using assms by (auto simp: emits_def capture_def scan_append)

lemma emits_update [simp]:
  "emits outer k (evm\<lparr>world := w\<rparr>) evm' = emits outer k evm evm'"
  "emits outer k (evm\<lparr>tracer := t\<rparr>) evm' = emits outer k evm evm'"
  "emits outer k (evm\<lparr>depth := d\<rparr>) evm' = emits outer k evm evm'"
  "emits outer k (evm\<lparr>readOnly := ro\<rparr>) evm' = emits outer k evm evm'"
  "emits outer k (evm\<lparr>returnData := rd\<rparr>) evm' = emits outer k evm evm'"
  "emits outer k evm (evm'\<lparr>world := w\<rparr>) = emits outer k evm evm'"
  "emits outer k evm (evm'\<lparr>tracer := t\<rparr>) = emits outer k evm evm'"
  "emits outer k evm (evm'\<lparr>depth := d\<rparr>) = emits outer k evm evm'"
  "emits outer k evm (evm'\<lparr>readOnly := ro\<rparr>) = emits outer k evm evm'"
  "emits outer k evm (evm'\<lparr>returnData := rd\<rparr>) = emits outer k evm evm'"
  "emits outer k evm (evm'\<lparr>aspectCtx := h\<rparr>) = emits outer k evm evm'"
  by (simp_all add: emits_def)

definition stays :: "(bool \<Rightarrow> 's \<Rightarrow> 's \<Rightarrow> bool) \<Rightarrow> 's EVM \<Rightarrow> 's EVM \<Rightarrow> bool" where
  "stays R evm evm' \<longleftrightarrow>
     depth evm' = depth evm \<and> readOnly evm' = readOnly evm \<and> abort evm' = abort evm \<and>
     IsExecuteJP evm' = IsExecuteJP evm \<and> R (readOnly evm) (world evm) (world evm') \<and>
     grows (callTree (tracer evm)) (callTree (tracer evm')) \<and>
     emits (depth evm = 0) [] evm evm'"

definition good_call ::
  "(bool \<Rightarrow> 's \<Rightarrow> 's \<Rightarrow> bool) \<Rightarrow> u64 \<Rightarrow> 's EVM \<Rightarrow> 's call_result \<Rightarrow> bool" where
  "good_call R gas evm r \<longleftrightarrow>
     (case r of
        OutOfFuel \<Rightarrow> False
      | Panic \<Rightarrow> True
      | Ok ((ret, left, err), evm') \<Rightarrow> left \<le> gas \<and> stays R evm evm')"

definition good_create ::
  "(bool \<Rightarrow> 's \<Rightarrow> 's \<Rightarrow> bool) \<Rightarrow> u64 \<Rightarrow> 's EVM \<Rightarrow> 's create_result \<Rightarrow> bool" where
  "good_create R gas evm r \<longleftrightarrow>
     (case r of
        OutOfFuel \<Rightarrow> False
      | Panic \<Rightarrow> True
      | Ok ((ret, addr, left, err), evm') \<Rightarrow> left \<le> gas \<and> stays R evm evm')"

text \<open>The calls below a frame keep the contract as long as they get less gas than \<open>n\<close>.\<close>

definition calls_ok :: "(bool \<Rightarrow> 's \<Rightarrow> 's \<Rightarrow> bool) \<Rightarrow> nat \<Rightarrow> 's calls \<Rightarrow> bool" where
  "calls_ok R n cs \<longleftrightarrow>
     (\<forall>callr addr input gas val salt evm. unat gas < n \<longrightarrow>
        ((readOnly evm \<longrightarrow> val = 0) \<longrightarrow> good_call R gas evm (do_Call cs callr addr input gas val evm)) \<and>
        good_call R gas evm (do_CallCode cs callr addr input gas val evm) \<and>
        good_call R gas evm (do_DelegateCall cs callr addr input gas evm) \<and>
        good_call R gas evm (do_StaticCall cs callr addr input gas evm) \<and>
        (\<not> readOnly evm \<longrightarrow> good_create R gas evm (do_Create cs callr input gas val evm)) \<and>
        (\<not> readOnly evm \<longrightarrow> good_create R gas evm (do_Create2 cs callr input gas val salt evm)))"

text \<open>
  The gas an instruction may hand to a callee on top of the frame's gas: for the call
  instructions it is what the gas function put aside, with the stipend when value is sent.
\<close>

type_synonym 's callee_gas = "'s EVM \<Rightarrow> Stack \<Rightarrow> nat"

definition no_callee :: "'s callee_gas" where
  "no_callee evm st = 0"

definition plain_callee :: "'s callee_gas" where
  "plain_callee evm st = unat (callGasTemp evm)"

definition value_callee :: "ext \<Rightarrow> 's callee_gas" where
  "value_callee X evm st =
     unat (callGasTemp evm) + (if Back st 2 = Some 0 then 0 else unat (CallStipend (Params X)))"

definition same_size :: "Memory \<Rightarrow> Memory \<Rightarrow> bool" where
  "same_size mem mem' \<longleftrightarrow> Mem_Len mem' = Mem_Len mem \<and> lastGasCost mem' = lastGasCost mem"

definition exec_ok ::
  "'s env \<Rightarrow> (bool \<Rightarrow> 's \<Rightarrow> 's \<Rightarrow> bool) \<Rightarrow> 's callee_gas \<Rightarrow> 's executionFunc \<Rightarrow> bool" where
  "exec_ok E R callee f \<longleftrightarrow>
     (\<forall>n cs pc evm scope.
        let bound = unat (Gas (scContract scope)) + callee evm (scStack scope)
        in calls_ok R n cs \<longrightarrow> bound < n \<longrightarrow> bound < 18446744073709551616 \<longrightarrow>
           (case f E cs pc evm scope of
              OutOfFuel \<Rightarrow> False
            | Panic \<Rightarrow> True
            | Ok ((ret, err), pc', evm', scope') \<Rightarrow>
                stays R evm evm' \<and> unat (Gas (scContract scope')) \<le> bound \<and>
                same_size (scMemory scope) (scMemory scope')))"

definition halting :: "'s env \<Rightarrow> 's executionFunc \<Rightarrow> bool" where
  "halting E f \<longleftrightarrow>
     (\<forall>cs pc evm scope ret pc' evm' scope'. f E cs pc evm scope \<noteq> Ok ((ret, None), pc', evm', scope'))"

definition dyn_ok ::
  "'s env \<Rightarrow> (bool \<Rightarrow> 's \<Rightarrow> 's \<Rightarrow> bool) \<Rightarrow> 's callee_gas \<Rightarrow> 's gasFunc \<Rightarrow> bool" where
  "dyn_ok E R callee d \<longleftrightarrow>
     (\<forall>evm c st mem msize r evm' c' mem'.
        mem_inv mem \<longrightarrow> d E evm c st mem msize = Some (r, evm', c', mem') \<longrightarrow>
        stays R evm evm' \<and> Gas c' \<le> Gas c \<and>
        (\<forall>g. r = Inr g \<longrightarrow> Gas c' = Gas c \<and> callee evm' st \<le> unat g \<and> (msize = 0 \<longrightarrow> mem' = mem)))"

text \<open>Gas functions that charge for memory.\<close>

definition dyn_mem :: "'s env \<Rightarrow> 's gasFunc \<Rightarrow> bool" where
  "dyn_mem E d \<longleftrightarrow>
     (\<forall>evm c st mem msize g evm' c' mem'.
        mem_inv mem \<longrightarrow> d E evm c st mem msize = Some (Inr g, evm', c', mem') \<longrightarrow>
        mem' = paid mem ((unat msize + 31) div 32) \<and> unat msize \<le> 137438953440)"

definition dyn_pos :: "'s env \<Rightarrow> 's gasFunc \<Rightarrow> bool" where
  "dyn_pos E d \<longleftrightarrow>
     (\<forall>evm c st mem msize g evm' c' mem'. d E evm c st mem msize = Some (Inr g, evm', c', mem') \<longrightarrow> 0 < g)"

section \<open>The laws of the environment\<close>

locale state_laws =
  fixes E :: "'s env" and R :: "bool \<Rightarrow> 's \<Rightarrow> 's \<Rightarrow> bool"
  assumes R_refl: "R ro w w"
    and R_trans: "R ro w w' \<Longrightarrow> R ro w' w'' \<Longrightarrow> R ro w w''"
    and R_weaken: "R True w w' \<Longrightarrow> R False w w'"
    and R_address: "R ro w (AddAddressToAccessList (StateDB_of E) w a)"
    and R_slot: "R ro w (AddSlotToAccessList (StateDB_of E) w a k)"
    and R_add_refund: "R ro w (AddRefund (StateDB_of E) w g)"
    and R_sub_refund: "R ro w (SubRefund (StateDB_of E) w g)"
    and R_preimage: "R ro w (AddPreimage (StateDB_of E) w k bs)"
    and R_touch: "R ro w (AddBalance (StateDB_of E) w a 0)"
    and R_new_account: "\<not> Exist (StateDB_of E) w a \<Longrightarrow> R ro w (CreateAccount (StateDB_of E) w a)"
    and R_no_transfer: "R ro w (Transfer (Context E) w a b 0)"
    and R_snapshot: "R ro w (snd (Snapshot (StateDB_of E) w))"
    and R_revert: "R ro (snd (Snapshot (StateDB_of E) w)) w' \<Longrightarrow>
        R ro w (RevertToSnapshot (StateDB_of E) w' (fst (Snapshot (StateDB_of E) w)))"
    and R_state: "R False w (SetState (StateDB_of E) w a k v)"
    and R_transient: "R False w (SetTransientState (StateDB_of E) w a k v)"
    and R_log: "R False w (AddLog (StateDB_of E) w l)"
    and R_suicide: "R False w (snd (Suicide (StateDB_of E) w a))"
    and R_balance: "R False w (AddBalance (StateDB_of E) w a x)"
    and R_nonce: "R False w (SetNonce (StateDB_of E) w a n)"
    and R_code: "R False w (SetCode (StateDB_of E) w a bs)"
    and R_create: "R False w (CreateAccount (StateDB_of E) w a)"
    and R_transfer: "R False w (Transfer (Context E) w a b x)"
    and R_pre: "R ro w (fst (snd (PreContractCall E c w h)))"
    and R_post: "R ro w (fst (snd (PostContractCall E c w h)))"

locale metered = state_laws E R + protocol "extern E" for E :: "'s env" and R +
  assumes eip150: "IsEIP150 (chainRules E)"
    and pre_gas: "fst (snd (fst (PreContractCall E c w h))) \<le> asp_Gas c"
    and post_gas: "fst (snd (fst (PostContractCall E c w h))) \<le> asp_Gas c"

section \<open>The relation on machines\<close>

lemma run_traces_append: "run_traces t (as @ bs) = run_traces (run_traces t as) bs"
  by (induction as arbitrary: t) simp_all

lemma grows_refl [simp, intro]: "grows t t"
  unfolding grows_def by (rule exI[of _ "[]"]) simp

lemma grows_trans: "grows t t' \<Longrightarrow> grows t' t'' \<Longrightarrow> grows t t''"
  unfolding grows_def by (metis run_traces_append)

lemma grows_call:
  assumes "grows (ct_add t from to d v g) t'"
  shows "grows t (ct_exit t' left ret err)"
proof -
  obtain inner where "t' = run_traces (ct_add t from to d v g) inner"
    using assms by (auto simp: grows_def)
  then have "ct_exit t' left ret err = run_traces t [CallTrace from to d v g inner left ret err]" by simp
  then show ?thesis unfolding grows_def by blast
qed

context state_laws
begin

lemma stays_refl [simp, intro]: "stays R evm evm"
  by (simp add: stays_def R_refl)

lemma stays_trans:
  assumes "stays R evm evm'" "stays R evm' evm''"
  shows "stays R evm evm''"
proof -
  have "R (readOnly evm) (world evm) (world evm'')"
    using assms R_trans[of "readOnly evm" "world evm" "world evm'"] by (simp add: stays_def)
  moreover have "grows (callTree (tracer evm)) (callTree (tracer evm''))"
    using assms by (auto simp: stays_def intro: grows_trans)
  moreover have "emits (depth evm = 0) [] evm evm''"
    using assms emits_then[of "depth evm = 0" evm evm' "[]" evm''] by (simp add: stays_def)
  ultimately show ?thesis using assms by (simp add: stays_def)
qed

lemma stays_world: "R (readOnly evm) (world evm) w \<Longrightarrow> stays R evm (evm\<lparr>world := w\<rparr>)"
  by (simp add: stays_def)

lemma stays_capture:
  assumes "scan_event False ev [] = Some []"
  shows "stays R evm (capture E ev evm)"
  using emits_capture_step[OF assms, of _ evm E] by (simp add: stays_def capture_def R_refl)

lemma stays_step_event [simp]:
  "stays R evm (capture E (CaptureState pc op g c sc rd d err w) evm)"
  "stays R evm (capture E (CaptureFault pc op g c sc d err) evm)"
  by (simp_all add: stays_capture)

lemma stays_empty_scope:
  "stays R evm (capture E (CaptureExit out used err) (capture E (CaptureEnter op f t i g v) evm))"
  by (simp add: stays_def capture_def R_refl emits_def)

end


section \<open>Gas functions\<close>

named_theorems dyn_rules \<open>contracts of the gas functions\<close>

text \<open>A gas function that returns the frame and the memory unchanged.\<close>

definition world_ret ::
  "(bool \<Rightarrow> 's \<Rightarrow> 's \<Rightarrow> bool) \<Rightarrow> 's EVM \<Rightarrow> Contract \<Rightarrow> Memory
     \<Rightarrow> ((error + u64) \<times> 's EVM \<times> Contract \<times> Memory) option \<Rightarrow> bool" where
  "world_ret R evm c mem x \<longleftrightarrow>
     (\<forall>r evm' c' mem'. x = Some (r, evm', c', mem') \<longrightarrow>
        c' = c \<and> mem' = mem \<and> evm' = evm\<lparr>world := world evm'\<rparr> \<and> R (readOnly evm) (world evm) (world evm'))"

lemma world_ret_intros:
  "R (readOnly evm) (world evm) w \<Longrightarrow> world_ret R evm c mem (gas_ret evm c mem w g)"
  "world_ret R evm c mem x \<Longrightarrow> world_ret R evm c mem y \<Longrightarrow> world_ret R evm c mem (if b then x else y)"
  "(\<And>a. m = Some a \<Longrightarrow> world_ret R evm c mem (k a)) \<Longrightarrow> world_ret R evm c mem (Option.bind m k)"
  "R ro w0 w \<Longrightarrow> R ro w0 w' \<Longrightarrow> R ro w0 (if b then w else w')"
  by (auto simp: world_ret_def gas_ret_def bind_eq_Some)

lemma fst_if: "fst (if b then x else y) = (if b then fst x else fst y)"
  and snd_if: "snd (if b then x else y) = (if b then snd x else snd y)"
  by simp_all

lemma no_ovf_Inr: "no_ovf r k = Inr g \<longleftrightarrow> \<not> snd r \<and> k (fst r) = Inr g"
  by (simp add: no_ovf_def)

context metered
begin

lemma safe_add_Inr:
  "no_ovf (SafeAdd (extern E) a b) Inr = Inr g \<longleftrightarrow>
     unat a + unat b < 18446744073709551616 \<and> g = a + b"
  by (auto simp: no_ovf_Inr SafeAdd)

lemma mem_then_Inr:
  assumes "mem_inv mem" "mem_then (extern E) mem ms k = Some (Inr g, mem')"
  shows "mem' = paid mem ((unat ms + 31) div 32) \<and> unat ms \<le> 137438953440"
  using assms memoryGasCost_Inr[OF assms(1)]
  by (auto simp: mem_then_def bind_eq_Some split: prod.splits sum.splits)

lemma dyn_mem_gas:
  assumes "\<And>st mem ms g mem'. mem_inv mem \<Longrightarrow> f (extern E) st mem ms = Some (Inr g, mem') \<Longrightarrow>
      mem' = paid mem ((unat ms + 31) div 32) \<and> unat ms \<le> 137438953440"
  shows "dyn_mem E (mem_gas f)" "dyn_ok E R no_callee (mem_gas f)"
proof -
  show "dyn_mem E (mem_gas f)"
    unfolding dyn_mem_def mem_gas_def using assms by (auto simp: bind_eq_Some)
  show "dyn_ok E R no_callee (mem_gas f)"
    unfolding dyn_ok_def mem_gas_def no_callee_def using assms by (fastforce simp: bind_eq_Some)
qed

lemma memoryCopierGas_ok:
  "dyn_mem E (memoryCopierGas n)" "dyn_ok E R no_callee (memoryCopierGas n)"
  unfolding memoryCopierGas_def by (rule dyn_mem_gas, erule (1) mem_then_Inr)+

lemma word_gas_ok: "dyn_mem E (word_gas n)" "dyn_ok E R no_callee (word_gas n)"
  unfolding word_gas_def by (rule dyn_mem_gas, erule (1) mem_then_Inr)+

lemma init_code_gas_ok: "dyn_mem E (init_code_gas p)" "dyn_ok E R no_callee (init_code_gas p)"
  unfolding init_code_gas_def by (rule dyn_mem_gas, erule (1) mem_then_Inr)+

lemma pureMemoryGascost_ok:
  "dyn_mem E pureMemoryGascost" "dyn_ok E R no_callee pureMemoryGascost"
  unfolding pureMemoryGascost_def by (rule dyn_mem_gas, simp add: memoryGasCost_Inr(1,4))+

lemma makeGasLog_ok: "dyn_mem E (makeGasLog n)" "dyn_ok E R no_callee (makeGasLog n)"
  unfolding makeGasLog_def
  by (rule dyn_mem_gas, simp add: bind_eq_Some Uint64WithOverflow_def split: if_splits,
      elim exE conjE, erule (1) mem_then_Inr)+

text \<open>Functions that change the world only.\<close>

lemma R_then:
  "R ro w w' \<Longrightarrow> R ro w (AddAddressToAccessList (StateDB_of E) w' a)"
  "R ro w w' \<Longrightarrow> R ro w (AddSlotToAccessList (StateDB_of E) w' a k)"
  "R ro w w' \<Longrightarrow> R ro w (AddRefund (StateDB_of E) w' g)"
  "R ro w w' \<Longrightarrow> R ro w (SubRefund (StateDB_of E) w' g)"
  using R_trans R_address R_slot R_add_refund R_sub_refund by blast+

lemma dyn_world:
  assumes "\<And>evm c st mem ms. world_ret R evm c mem (d E evm c st mem ms)"
  shows "dyn_ok E R no_callee d"
proof -
  have "stays R evm evm' \<and> c' = c \<and> mem' = mem" if "d E evm c st mem ms = Some (r, evm', c', mem')"
    for evm c st mem ms r evm' c' mem'
    using assms[of evm c mem st ms] stays_world[of evm "world evm'"] that by (simp add: world_ret_def)
  then show ?thesis unfolding dyn_ok_def no_callee_def by blast
qed

lemma world_ret_same: "world_ret R evm c mem (Some (r, evm, c, mem))"
  by (simp add: world_ret_def R_refl)

lemmas world_rules = world_ret_same world_ret_intros[where R = R] R_then R_refl

lemma exp_gas_ok: "dyn_ok E R no_callee (exp_gas p)"
  by (rule dyn_world) (simp add: exp_gas_def mem_gas_def Let_def, intro world_rules)

lemma makeGasJournal_ok: "dyn_ok E R no_callee (makeGasJournal n)"
  by (rule dyn_world) (simp add: makeGasJournal_def world_ret_same)

lemma gasSStore_ok: "dyn_ok E R no_callee gasSStore"
  by (rule dyn_world) (unfold gasSStore_def Let_def, intro world_rules)

lemma gasSStoreEIP2200_ok: "dyn_ok E R no_callee gasSStoreEIP2200"
  by (rule dyn_world) (unfold gasSStoreEIP2200_def Let_def, intro world_rules)

lemma makeGasSStoreFunc_ok: "dyn_ok E R no_callee (makeGasSStoreFunc p)"
  by (rule dyn_world)
    (unfold makeGasSStoreFunc_def Let_def split_beta, intro world_rules,
      (auto split: if_splits intro: R_slot R_refl)+)

lemma gasSLoadEIP2929_ok: "dyn_ok E R no_callee gasSLoadEIP2929"
  by (rule dyn_world) (unfold gasSLoadEIP2929_def Let_def, intro world_rules)

lemma gasEip2929AccountCheck_ok: "dyn_ok E R no_callee gasEip2929AccountCheck"
  by (rule dyn_world) (unfold gasEip2929AccountCheck_def Let_def, intro world_rules)

lemma gasSelfdestruct_ok: "dyn_ok E R no_callee gasSelfdestruct"
  by (rule dyn_world) (unfold gasSelfdestruct_def Let_def, intro world_rules)

lemma makeSelfdestructGasFn_ok: "dyn_ok E R no_callee (makeSelfdestructGasFn b)"
  by (rule dyn_world) (unfold makeSelfdestructGasFn_def Let_def split_beta, simp only: fst_if snd_if fst_conv snd_conv, intro world_rules)

lemma gasExtCodeCopy_shape:
  "gasExtCodeCopy E evm c st mem ms = Some (r, evm', c', mem') \<Longrightarrow> evm' = evm \<and> c' = c"
  by (auto simp: gasExtCodeCopy_def memoryCopierGas_def mem_gas_def bind_eq_Some)

lemma gasExtCodeCopyEIP2929_cases:
  assumes "gasExtCodeCopyEIP2929 E evm c st mem ms = Some (r, evm', c', mem')"
  shows "stays R evm evm' \<and> c' = c"
    "r = Inr g \<Longrightarrow> \<exists>g'. gasExtCodeCopy E evm c st mem ms = Some (Inr g', evm, c, mem')"
proof -
  obtain r0 evm0 c0 mem0 where g: "gasExtCodeCopy E evm c st mem ms = Some (r0, evm0, c0, mem0)"
    using assms by (auto simp: gasExtCodeCopyEIP2929_def bind_eq_Some Let_def)
  then have [simp]: "evm0 = evm" "c0 = c" using gasExtCodeCopy_shape by blast+
  show "stays R evm evm' \<and> c' = c"
    using assms g R_address[of "readOnly evm" "world evm"]
    by (cases r0) (auto simp: gasExtCodeCopyEIP2929_def bind_eq_Some Let_def split: if_splits intro!: stays_world)
  show "\<exists>g'. gasExtCodeCopy E evm c st mem ms = Some (Inr g', evm, c, mem')" if "r = Inr g"
    using assms g that
    by (cases r0) (auto simp: gasExtCodeCopyEIP2929_def bind_eq_Some Let_def split: if_splits)
qed

lemma gasExtCodeCopyEIP2929_ok:
  "dyn_mem E gasExtCodeCopyEIP2929" "dyn_ok E R no_callee gasExtCodeCopyEIP2929"
proof -
  have m: "dyn_mem E gasExtCodeCopy" unfolding gasExtCodeCopy_def by (rule memoryCopierGas_ok)
  have *: "mem' = paid mem ((unat ms + 31) div 32) \<and> unat ms \<le> 137438953440"
    if "mem_inv mem" "gasExtCodeCopyEIP2929 E evm c st mem ms = Some (Inr g, evm', c', mem')"
    for evm c st mem ms g evm' c' mem'
    using gasExtCodeCopyEIP2929_cases(2)[OF that(2) refl] m that(1) unfolding dyn_mem_def by blast
  then show "dyn_mem E gasExtCodeCopyEIP2929" unfolding dyn_mem_def by blast
  have "mem' = mem" if "mem_inv mem" "gasExtCodeCopyEIP2929 E evm c st mem 0 = Some (Inr g, evm', c', mem')"
    for evm c st mem g evm' c' mem'
    using *[OF that] by simp
  then show "dyn_ok E R no_callee gasExtCodeCopyEIP2929"
    using gasExtCodeCopyEIP2929_cases(1) unfolding dyn_ok_def no_callee_def by blast
qed

text \<open>Calls: the charge covers what the callee gets, and adding the cold surcharge cannot wrap.\<close>

lemma callGas_bound:
  assumes "callGas True a b c = Inr t"
  shows "unat t \<le> 18158513697557839872"
proof -
  let ?a = "a - b"
  have "unat (?a - ?a div 64) = unat ?a - unat ?a div 64"
    by (subst unat_sub_u64) (simp_all add: unat_div word_le_unat)
  moreover have "unat ?a < 18446744073709551616" by (rule unat_lt_u64)
  ultimately have "unat (?a - ?a div 64) \<le> 18158513697557839872" by linarith
  then show ?thesis
    using assms by (auto simp: callGas_def Let_def word_order split: if_splits)
qed

lemma set_call_gas_spec:
  assumes "set_call_gas E evm c st mem gas = Some (r, evm', c', mem')"
  shows "c' = c" "mem' = mem" "stays R evm evm'"
    "r = Inr g \<Longrightarrow> unat g = unat gas + unat (callGasTemp evm') \<and> unat (callGasTemp evm') \<le> 18158513697557839872"
proof -
  obtain q where q: "Back st 0 = Some q" using assms by (auto simp: set_call_gas_def bind_eq_Some)
  have st: "stays R evm (evm\<lparr>callGasTemp := t\<rparr>)" for t by (simp add: stays_def R_refl)
  show "c' = c" "mem' = mem" "stays R evm evm'"
    using assms q st by (auto simp: set_call_gas_def split: sum.splits)
  show "unat g = unat gas + unat (callGasTemp evm') \<and> unat (callGasTemp evm') \<le> 18158513697557839872"
    if r: "r = Inr g"
  proof (cases "callGas (IsEIP150 (chainRules E)) (Gas c) gas q")
    case (Inl err)
    then show ?thesis using assms q r by (simp add: set_call_gas_def)
  next
    case (Inr t)
    then have "no_ovf (SafeAdd (extern E) gas t) Inr = Inr g" "evm' = evm\<lparr>callGasTemp := t\<rparr>"
      using assms q r by (simp_all add: set_call_gas_def)
    moreover have "unat t \<le> 18158513697557839872" using callGas_bound Inr eip150 by simp
    ultimately show ?thesis by (simp add: safe_add_Inr unat_add_nowrap)
  qed
qed

definition call_gas_ok :: "'s callee_gas \<Rightarrow> 's gasFunc \<Rightarrow> bool" where
  "call_gas_ok callee d \<longleftrightarrow>
     (\<forall>evm c st mem ms r evm' c' mem'.
        mem_inv mem \<longrightarrow> d E evm c st mem ms = Some (r, evm', c', mem') \<longrightarrow>
        stays R evm evm' \<and> c' = c \<and>
        (\<forall>g. r = Inr g \<longrightarrow> callee evm' st \<le> unat g \<and> unat g \<le> 18200000000000000000 \<and>
           mem' = paid mem ((unat ms + 31) div 32) \<and> unat ms \<le> 137438953440))"

lemma call_gas_okD:
  assumes "call_gas_ok callee d"
  shows "dyn_mem E d" "dyn_ok E R callee d"
proof -
  show "dyn_mem E d" using assms unfolding call_gas_ok_def dyn_mem_def by blast
  have z: "ms = 0 \<Longrightarrow> mem' = paid mem ((unat (ms :: u64) + 31) div 32) \<Longrightarrow> mem' = mem" for ms mem mem'
    by simp
  show "dyn_ok E R callee d"
    unfolding dyn_ok_def
  proof (intro allI impI)
    fix evm c st mem ms r evm' c' mem'
    assume "mem_inv mem" "d E evm c st mem ms = Some (r, evm', c', mem')"
    note * = assms[unfolded call_gas_ok_def, rule_format, OF this]
    then show "stays R evm evm' \<and> Gas c' \<le> Gas c \<and>
      (\<forall>g. r = Inr g \<longrightarrow> Gas c' = Gas c \<and> callee evm' st \<le> unat g \<and> (ms = 0 \<longrightarrow> mem' = mem))"
      using z by auto
  qed
qed

lemma call_gas_tail:
  assumes "mem_inv mem" "memoryGasCost (extern E) mem ms = (Inr mg, mem1)"
    and "set_call_gas E evm c st mem1 (gas + mg) = Some (r, evm', c', mem')"
    and "unat gas \<le> 34000"
  shows "stays R evm evm' \<and> c' = c \<and>
    (\<forall>g. r = Inr g \<longrightarrow> unat gas + unat (callGasTemp evm') \<le> unat g \<and> unat g \<le> 18200000000000000000 \<and>
       mem' = paid mem ((unat ms + 31) div 32) \<and> unat ms \<le> 137438953440)"
proof -
  note m = memoryGasCost_Inr[OF assms(1,2)]
  have "unat (gas + mg) = unat gas + unat mg" using m(2) assms(4) by (subst unat_add_nowrap) simp_all
  then have "unat gas + unat (callGasTemp evm') \<le> unat g \<and> unat g \<le> 18200000000000000000" if "r = Inr g" for g
    using set_call_gas_spec(4)[OF assms(3) that] m(2) assms(4) by linarith
  moreover have "mem' = paid mem ((unat ms + 31) div 32)"
    using set_call_gas_spec(2)[OF assms(3)] m(1) by simp
  ultimately show ?thesis using set_call_gas_spec(1,3)[OF assms(3)] m(4) by simp
qed

text \<open>The three shapes of the call gas functions: a surcharge, then the memory, then the callee.\<close>

lemma call_gas_shape:
  assumes inv: "mem_inv mem" and small: "unat gas \<le> 34000"
    and g: "(case memoryGasCost (extern E) mem ms of
       (Inl err, mem) \<Rightarrow> Some (Inl err, evm, c, mem)
     | (Inr memoryGas, mem) \<Rightarrow>
         let (gas, overflow) = SafeAdd (extern E) gas memoryGas in
         if overflow then Some (Inl ErrGasUintOverflow, evm, c, mem)
         else set_call_gas E evm c st mem gas) = Some (r, evm', c', mem')"
  shows "stays R evm evm' \<and> c' = c \<and>
    (\<forall>g. r = Inr g \<longrightarrow> unat gas + unat (callGasTemp evm') \<le> unat g \<and> unat g \<le> 18200000000000000000 \<and>
       mem' = paid mem ((unat ms + 31) div 32) \<and> unat ms \<le> 137438953440)"
proof (cases "memoryGasCost (extern E) mem ms")
  case (Pair mr mem1)
  show ?thesis
  proof (cases mr)
    case (Inl err)
    then show ?thesis using g Pair by auto
  next
    case (Inr mg)
    have "unat mg \<le> 36028809887088637" using memoryGasCost_Inr(2)[OF inv] Pair Inr by blast
    then have "SafeAdd (extern E) gas mg = (gas + mg, False)" using small by (simp add: SafeAdd)
    then have "set_call_gas E evm c st mem1 (gas + mg) = Some (r, evm', c', mem')"
      using g Pair Inr by simp
    then show ?thesis using call_gas_tail[OF inv _ _ small] Pair Inr by blast
  qed
qed

lemma call_surcharge_bounds:
  "unat (call_surcharge E evm v a) \<le> 34000" "v \<noteq> 0 \<Longrightarrow> 9000 \<le> unat (call_surcharge E evm v a)"
  by (simp_all add: call_surcharge_def Let_def param_simps)

lemma gasCall_ok: "call_gas_ok (value_callee (extern E)) gasCall"
  unfolding call_gas_ok_def
proof (intro allI impI)
  fix evm c st mem ms r evm' c' mem'
  assume inv: "mem_inv mem" and g: "gasCall E evm c st mem ms = Some (r, evm', c', mem')"
  obtain v a where v: "Back st 2 = Some v" "Back st 1 = Some a"
    using g by (auto simp: gasCall_def bind_eq_Some)
  have t: "stays R evm evm' \<and> c' = c \<and>
      (\<forall>g. r = Inr g \<longrightarrow> unat (call_surcharge E evm v a) + unat (callGasTemp evm') \<le> unat g \<and>
         unat g \<le> 18200000000000000000 \<and>
         mem' = paid mem ((unat ms + 31) div 32) \<and> unat ms \<le> 137438953440)"
    by (rule call_gas_shape[OF inv call_surcharge_bounds(1)]) (use g v in \<open>simp add: gasCall_def\<close>)
  have "value_callee (extern E) evm' st \<le> unat (call_surcharge E evm v a) + unat (callGasTemp evm')"
    using call_surcharge_bounds(2)[of v evm a] v by (cases "v = 0") (simp_all add: value_callee_def param_simps)
  then show "stays R evm evm' \<and> c' = c \<and>
      (\<forall>g. r = Inr g \<longrightarrow> value_callee (extern E) evm' st \<le> unat g \<and> unat g \<le> 18200000000000000000 \<and>
         mem' = paid mem ((unat ms + 31) div 32) \<and> unat ms \<le> 137438953440)"
    using t order.trans by blast
qed

lemma gasCallCode_ok: "call_gas_ok (value_callee (extern E)) gasCallCode"
  unfolding call_gas_ok_def
proof (intro allI impI)
  fix evm c st mem ms r evm' c' mem'
  assume inv: "mem_inv mem" and g: "gasCallCode E evm c st mem ms = Some (r, evm', c', mem')"
  show "stays R evm evm' \<and> c' = c \<and>
      (\<forall>g. r = Inr g \<longrightarrow> value_callee (extern E) evm' st \<le> unat g \<and> unat g \<le> 18200000000000000000 \<and>
         mem' = paid mem ((unat ms + 31) div 32) \<and> unat ms \<le> 137438953440)"
  proof (cases "Back st 2")
    case None
    then show ?thesis using g by (auto simp: gasCallCode_def split: prod.splits sum.splits)
  next
    case (Some v)
    let ?gas = "if v \<noteq> 0 then CallValueTransferGas (Params (extern E)) else 0"
    have small: "unat ?gas \<le> 34000" by (simp add: param_simps)
    have t: "stays R evm evm' \<and> c' = c \<and>
      (\<forall>g. r = Inr g \<longrightarrow> unat ?gas + unat (callGasTemp evm') \<le> unat g \<and> unat g \<le> 18200000000000000000 \<and>
         mem' = paid mem ((unat ms + 31) div 32) \<and> unat ms \<le> 137438953440)"
      by (rule call_gas_shape[OF inv small, where st = st])
        (use g Some in \<open>cases "memoryGasCost (extern E) mem ms"; cases "fst (memoryGasCost (extern E) mem ms)";
           auto simp: gasCallCode_def Let_def\<close>)
    have "value_callee (extern E) evm' st \<le> unat ?gas + unat (callGasTemp evm')"
      using Some by (simp add: value_callee_def param_simps)
    then show ?thesis using t order.trans by blast
  qed
qed

lemma plain_call_gas:
  assumes "\<And>evm c st mem ms. d E evm c st mem ms =
      (case memoryGasCost (extern E) mem ms of
         (Inl err, mem) \<Rightarrow> Some (Inl err, evm, c, mem)
       | (Inr gas, mem) \<Rightarrow> set_call_gas E evm c st mem gas)"
  shows "call_gas_ok plain_callee d"
  unfolding call_gas_ok_def
proof (intro allI impI)
  fix evm c st mem ms r evm' c' mem'
  assume inv: "mem_inv mem" and g: "d E evm c st mem ms = Some (r, evm', c', mem')"
  have add0: "SafeAdd (extern E) 0 m = (m, False)" for m
    using unat_lt_u64[of m] by (simp add: SafeAdd)
  have "stays R evm evm' \<and> c' = c \<and>
      (\<forall>g. r = Inr g \<longrightarrow> unat (0 :: u64) + unat (callGasTemp evm') \<le> unat g \<and> unat g \<le> 18200000000000000000 \<and>
         mem' = paid mem ((unat ms + 31) div 32) \<and> unat ms \<le> 137438953440)"
    by (rule call_gas_shape[OF inv, where st = st], simp)
      (use g in \<open>cases "memoryGasCost (extern E) mem ms"; cases "fst (memoryGasCost (extern E) mem ms)";
         auto simp: assms add0\<close>)
  then show "stays R evm evm' \<and> c' = c \<and>
      (\<forall>g. r = Inr g \<longrightarrow> plain_callee evm' st \<le> unat g \<and> unat g \<le> 18200000000000000000 \<and>
         mem' = paid mem ((unat ms + 31) div 32) \<and> unat ms \<le> 137438953440)"
    by (simp add: plain_callee_def)
qed

lemma gasDelegateCall_ok: "call_gas_ok plain_callee gasDelegateCall"
  by (rule plain_call_gas) (rule gasDelegateCall_def)

lemma gasStaticCall_ok: "call_gas_ok plain_callee gasStaticCall"
  by (rule plain_call_gas) (rule gasStaticCall_def)

lemma UseGas_Gas: "UseGas c g = (ok, c') \<Longrightarrow> c' = (if ok then c\<lparr>Gas := Gas c - g\<rparr> else c) \<and> (ok \<longrightarrow> g \<le> Gas c)"
  by (auto simp: UseGas_def split: if_splits)

lemma call_variant_ok:
  assumes "call_gas_ok callee old"
  shows "dyn_mem E (makeCallVariantGasCallEIP2929 old)"
    "dyn_ok E R callee (makeCallVariantGasCallEIP2929 old)"
proof -
  have *: "stays R evm evm' \<and> Gas c' \<le> Gas c \<and>
      (\<forall>g. r = Inr g \<longrightarrow> Gas c' = Gas c \<and> callee evm' st \<le> unat g \<and>
         mem' = paid mem ((unat ms + 31) div 32) \<and> unat ms \<le> 137438953440)"
    if inv: "mem_inv mem" and g: "makeCallVariantGasCallEIP2929 old E evm c st mem ms = Some (r, evm', c', mem')"
    for evm c st mem ms r evm' c' mem'
  proof -
    obtain a where a: "Back st 1 = Some a" using g by (auto simp: makeCallVariantGasCallEIP2929_def bind_eq_Some Let_def)
    let ?warm = "AddressInAccessList (StateDB_of E) (world evm) (Bytes20 a)"
    show ?thesis
    proof (cases ?warm)
      case True
      obtain r0 c0 mem0 evm0 where o: "old E evm c st mem ms = Some (r0, evm0, c0, mem0)"
        using g a True by (auto simp: makeCallVariantGasCallEIP2929_def bind_eq_Some Let_def)
      then have "(r, evm', c', mem') = (r0, evm0, c0, mem0)"
        using g a True by (auto simp: makeCallVariantGasCallEIP2929_def Let_def split: sum.splits)
      then show ?thesis using assms[unfolded call_gas_ok_def, rule_format, OF inv o] by auto
    next
      case False
      let ?evm = "evm\<lparr>world := AddAddressToAccessList (StateDB_of E) (world evm) (Bytes20 a)\<rparr>"
      have st0: "stays R evm ?evm" by (rule stays_world) (rule R_address)
      obtain ok c1 where u: "UseGas c 2500 = (ok, c1)" by fastforce
      show ?thesis
      proof (cases ok)
        case F: False
        then show ?thesis
          using g a False u st0 UseGas_Gas[OF u]
          by (auto simp: makeCallVariantGasCallEIP2929_def Let_def param_simps)
      next
        case T: True
        then have c1: "c1 = c\<lparr>Gas := Gas c - 2500\<rparr>" "2500 \<le> Gas c" using UseGas_Gas[OF u] by simp_all
        then have le: "Gas c1 \<le> Gas c" by (simp add: word_sub_le)
        obtain r0 c0 mem0 evm0 where o: "old E ?evm c1 st mem ms = Some (r0, evm0, c0, mem0)"
          using g a False u T by (auto simp: makeCallVariantGasCallEIP2929_def bind_eq_Some Let_def param_simps)
        note k = assms[unfolded call_gas_ok_def, rule_format, OF inv o]
        have st1: "stays R evm evm0" using stays_trans[OF st0] k by blast
        show ?thesis
        proof (cases r0)
          case (Inl err)
          then show ?thesis
            using g a False u T o st1 k le by (auto simp: makeCallVariantGasCallEIP2929_def Let_def param_simps)
        next
          case (Inr g0)
          have eq: "r = Inr (g0 + 2500)" "evm' = evm0" "c' = c0\<lparr>Gas := Gas c0 + 2500\<rparr>" "mem' = mem0"
            using g a False u T o Inr by (auto simp: makeCallVariantGasCallEIP2929_def Let_def param_simps)
          have g0: "callee evm0 st \<le> unat g0" "unat g0 \<le> 18200000000000000000" "c0 = c1"
              "mem0 = paid mem ((unat ms + 31) div 32)" "unat ms \<le> 137438953440"
            using k Inr by auto
          then have "unat (g0 + 2500) = unat g0 + 2500" by (subst unat_add_nowrap) simp_all
          then show ?thesis using eq g0 st1 c1 by simp
        qed
      qed
    qed
  qed
  then show "dyn_mem E (makeCallVariantGasCallEIP2929 old)" unfolding dyn_mem_def by blast
  have z: "ms = 0 \<Longrightarrow> mem' = paid mem ((unat (ms :: u64) + 31) div 32) \<Longrightarrow> mem' = mem" for ms mem mem'
    by simp
  show "dyn_ok E R callee (makeCallVariantGasCallEIP2929 old)"
    unfolding dyn_ok_def
  proof (intro allI impI)
    fix evm c st mem ms r evm' c' mem'
    assume "mem_inv mem" "makeCallVariantGasCallEIP2929 old E evm c st mem ms = Some (r, evm', c', mem')"
    note k = *[OF this]
    then show "stays R evm evm' \<and> Gas c' \<le> Gas c \<and>
      (\<forall>g. r = Inr g \<longrightarrow> Gas c' = Gas c \<and> callee evm' st \<le> unat g \<and> (ms = 0 \<longrightarrow> mem' = mem))"
      using z by auto
  qed
qed

end

end
