(* ===== verification/Frame_Steps.thy ===== *)
theory Frame_Steps
  imports Frames
begin

text \<open>
  The contract of a frame for every instruction: the ones that stay inside their frame keep the
  gas, the size of the memory and everything \<open>stays\<close> speaks of; the calls and creations pass on
  what their callees guarantee. Gas functions that always charge something are collected as well;
  they make the loop end.
\<close>

section \<open>Instructions inside a frame\<close>

definition local_exec :: "'s env \<Rightarrow> (bool \<Rightarrow> 's \<Rightarrow> 's \<Rightarrow> bool) \<Rightarrow> 's executionFunc \<Rightarrow> bool" where
  "local_exec E R f \<longleftrightarrow>
     (\<forall>cs pc evm scope. f E cs pc evm scope \<noteq> OutOfFuel \<and>
        (\<forall>cs'. f E cs' pc evm scope = f E cs pc evm scope) \<and>
        (\<forall>r pc' evm' scope'. f E cs pc evm scope = Ok (r, pc', evm', scope') \<longrightarrow>
           stays R evm evm' \<and> Gas (scContract scope') = Gas (scContract scope) \<and>
           same_size (scMemory scope) (scMemory scope')))"

lemma local_exec_ok: "local_exec E R f \<Longrightarrow> exec_ok E R callee f"
  unfolding local_exec_def exec_ok_def Let_def by (fastforce split: res.split)

lemma exec_ok_mono: "exec_ok E R no_callee f \<Longrightarrow> exec_ok E R callee f"
  unfolding exec_ok_def no_callee_def Let_def
proof (intro allI impI)
  fix n cs pc evm and scope :: ScopeContext
  let ?g = "unat (Gas (scContract scope))"
  let ?post = "\<lambda>b. case f E cs pc evm scope of
      OutOfFuel \<Rightarrow> False
    | Panic \<Rightarrow> True
    | Ok ((ret, err), pc', evm', scope') \<Rightarrow>
        stays R evm evm' \<and> unat (Gas (scContract scope')) \<le> b \<and> same_size (scMemory scope) (scMemory scope')"
  assume ok: "\<forall>n cs pc evm scope. calls_ok R n cs \<longrightarrow> unat (Gas (scContract scope)) + 0 < n \<longrightarrow>
      unat (Gas (scContract scope)) + 0 < 18446744073709551616 \<longrightarrow>
      (case f E cs pc evm scope of
         OutOfFuel \<Rightarrow> False
       | Panic \<Rightarrow> True
       | Ok ((ret, err), pc', evm', scope') \<Rightarrow>
           stays R evm evm' \<and> unat (Gas (scContract scope')) \<le> unat (Gas (scContract scope)) + 0 \<and>
           same_size (scMemory scope) (scMemory scope'))"
  assume c: "calls_ok R n cs" and b: "?g + callee evm (scStack scope) < n"
    "?g + callee evm (scStack scope) < 18446744073709551616"
  have "?post (?g + 0)" using ok c b by simp
  then show "?post (?g + callee evm (scStack scope))" by (auto split: res.splits)
qed

lemma same_size_refl [simp]: "same_size mem mem"
  by (simp add: same_size_def)

lemma same_size_Set: "Mem_Set m off sz v = Some m' \<Longrightarrow> same_size m m'"
  by (auto simp: same_size_def Mem_Set_def Mem_Len_def split: if_splits)

lemma same_size_Set32: "Set32 m off v = Some m' \<Longrightarrow> same_size m m'"
  by (auto simp: same_size_def Set32_def Mem_Len_def split: if_splits)

lemma same_size_Copy: "Mem_Copy m d s l = Some m' \<Longrightarrow> same_size m m'"
  by (auto simp: same_size_def Mem_Copy_def Mem_Len_def bind_eq_Some split: if_splits)

lemma same_size_copy_data: "copy_data X src a b l m = Some m' \<Longrightarrow> same_size m m'"
  by (auto simp: copy_data_def bind_eq_Some intro: same_size_Set)

lemma same_size_store: "length bs = Mem_Len m \<Longrightarrow> same_size m (m\<lparr>store := bs\<rparr>)"
  by (simp add: same_size_def Mem_Len_def)

lemmas same_size_rules = same_size_Set same_size_Set32 same_size_Copy same_size_copy_data same_size_store

lemma tracer_same:
  "callTree (snd (SaveStateChange t a s off ty v)) = callTree t"
  "SaveStateKey t a p s off ty pty i = Some (err, t') \<Longrightarrow> callTree t' = callTree t"
  by (auto simp: SaveStateChange_def SaveStateKey_def split: prod.splits)

text \<open>A journal instruction keeps the call tree.\<close>

definition tree_ret :: "Tracer \<Rightarrow> (Stack \<times> error option \<times> Tracer) option \<Rightarrow> bool" where
  "tree_ret t x \<longleftrightarrow> (\<forall>st err t'. x = Some (st, err, t') \<longrightarrow> callTree t' = callTree t)"

lemma tree_ret_intros:
  "tree_ret t (Some (st, err, t))"
  "tree_ret t (Some (st, err, snd (SaveStateChange t a s off ty v)))"
  "(\<And>a. m = Some a \<Longrightarrow> tree_ret t (k a)) \<Longrightarrow> tree_ret t (Option.bind m k)"
  "tree_ret t x \<Longrightarrow> tree_ret t y \<Longrightarrow> tree_ret t (if b then x else y)"
  "(\<And>e. tree_ret t (l e)) \<Longrightarrow> (\<And>a. tree_ret t (r a)) \<Longrightarrow> tree_ret t (case q of Inl e \<Rightarrow> l e | Inr a \<Rightarrow> r a)"
  by (auto simp: tree_ret_def tracer_same bind_eq_Some split: sum.splits)

lemma save_key_tree: "tree_ret (tracer evm) (save_key evm scope b s off ty pty st k)"
  by (auto simp: tree_ret_def save_key_def bind_eq_Some dest: tracer_same(2) split: sum.splits)

named_theorems exec_rules \<open>contracts of the instructions\<close>

context state_laws
begin

lemma stack_op_local: "local_exec E R (stack_op f)"
  by (auto simp: local_exec_def stack_op_def bind_eq_Some)

lemmas stack_ops = unary_def binary_def ternary_def push_op_def replace_op_def

lemma mem_op_local:
  assumes "\<And>evm scope st mem err. f E evm scope = Some (st, mem, err) \<Longrightarrow> same_size (scMemory scope) mem"
  shows "local_exec E R (mem_op f)"
  using assms by (auto simp: local_exec_def mem_op_def bind_eq_Some)

lemma journal_op_local:
  assumes "\<And>evm scope. tree_ret (tracer evm) (f E evm scope)"
  shows "local_exec E R (journal_op f)"
proof -
  have "stays R evm (evm\<lparr>tracer := t\<rparr>)" if "f E evm scope = Some (st, err, t)" for evm scope st err t
    using assms[of evm scope] that by (simp add: tree_ret_def stays_def R_refl)
  then show ?thesis by (auto simp: local_exec_def journal_op_def bind_eq_Some)
qed

lemma fail_with_local: "local_exec E R (fail_with err)"
  by (simp add: local_exec_def fail_with_def)

lemma stack_instructions_local [exec_rules]:
  "local_exec E R opAdd" "local_exec E R opSub" "local_exec E R opMul" "local_exec E R opDiv"
  "local_exec E R opSdiv" "local_exec E R opMod" "local_exec E R opSmod" "local_exec E R opExp"
  "local_exec E R opSignExtend" "local_exec E R opNot" "local_exec E R opLt" "local_exec E R opGt"
  "local_exec E R opSlt" "local_exec E R opSgt" "local_exec E R opEq" "local_exec E R opIszero"
  "local_exec E R opAnd" "local_exec E R opOr" "local_exec E R opXor" "local_exec E R opByte"
  "local_exec E R opAddmod" "local_exec E R opMulmod" "local_exec E R opSHL" "local_exec E R opSHR"
  "local_exec E R opSAR" "local_exec E R opAddress" "local_exec E R opBalance" "local_exec E R opOrigin"
  "local_exec E R opCaller" "local_exec E R opCallValue" "local_exec E R opCallDataLoad"
  "local_exec E R opCallDataSize" "local_exec E R opReturnDataSize" "local_exec E R opExtCodeSize"
  "local_exec E R opCodeSize" "local_exec E R opExtCodeHash" "local_exec E R opGasprice"
  "local_exec E R opBlockhash" "local_exec E R opCoinbase" "local_exec E R opTimestamp"
  "local_exec E R opNumber" "local_exec E R opDifficulty" "local_exec E R opRandom"
  "local_exec E R opGasLimit" "local_exec E R opPop" "local_exec E R opMload" "local_exec E R opSload"
  "local_exec E R opJumpdest" "local_exec E R opPc" "local_exec E R opMsize" "local_exec E R opGas"
  "local_exec E R (makeDup n)" "local_exec E R (makeSwap n)" "local_exec E R opSelfBalance"
  "local_exec E R opChainID" "local_exec E R opTload" "local_exec E R opBaseFee" "local_exec E R opPush0"
  unfolding opAdd_def opSub_def opMul_def opDiv_def opSdiv_def opMod_def opSmod_def opExp_def
    opSignExtend_def opNot_def opLt_def opGt_def opSlt_def opSgt_def opEq_def opIszero_def opAnd_def
    opOr_def opXor_def opByte_def opAddmod_def opMulmod_def opSHL_def opSHR_def opSAR_def
    opAddress_def opBalance_def opOrigin_def opCaller_def opCallValue_def opCallDataLoad_def
    opCallDataSize_def opReturnDataSize_def opExtCodeSize_def opCodeSize_def opExtCodeHash_def
    opGasprice_def opBlockhash_def opCoinbase_def opTimestamp_def opNumber_def opDifficulty_def
    opRandom_def opGasLimit_def opPop_def opMload_def opSload_def opJumpdest_def opPc_def
    opMsize_def opGas_def makeDup_def makeSwap_def opSelfBalance_def opChainID_def opTload_def
    opBaseFee_def opPush0_def stack_ops
  by (rule stack_op_local)+

lemma memory_instructions_local [exec_rules]:
  "local_exec E R opCallDataCopy" "local_exec E R opCodeCopy" "local_exec E R opExtCodeCopy"
  "local_exec E R opMstore" "local_exec E R opMcopy"
  unfolding opCallDataCopy_def opCodeCopy_def opExtCodeCopy_def opMstore_def opMcopy_def
  by (rule mem_op_local, auto simp: bind_eq_Some intro: same_size_rules)+

lemma opReturnDataCopy_local [exec_rules]: "local_exec E R opReturnDataCopy"
  unfolding opReturnDataCopy_def
  by (rule mem_op_local) (auto simp: bind_eq_Some Let_def Uint64WithOverflow_def split: if_splits intro: same_size_rules)

lemma opMstore8_local [exec_rules]: "local_exec E R opMstore8"
  unfolding opMstore8_def
  by (rule mem_op_local) (auto simp: bind_eq_Some set_index_eq_Some Mem_Len_def intro!: same_size_store)

lemma key_instructions_local [exec_rules]:
  "local_exec E R opReferenceIndexValueStorageJournal" "local_exec E R opValueIndexValueStorageJournal"
  "local_exec E R opReferenceIndexReferenceStorageJournal"
  "local_exec E R opValueIndexReferenceStorageJournal"
  "local_exec E R opReferenceStateVarJournal" "local_exec E R opValueStateVarJournal"
  unfolding opReferenceIndexValueStorageJournal_def opValueIndexValueStorageJournal_def
    opReferenceIndexReferenceStorageJournal_def opValueIndexReferenceStorageJournal_def
    opReferenceStateVarJournal_def opValueStateVarJournal_def split_beta
  by (rule journal_op_local, intro tree_ret_intros save_key_tree)+

lemma change_instructions_local [exec_rules]:
  "local_exec E R opReferenceChangeJournal" "local_exec E R opValueChangeJournal"
  unfolding opReferenceChangeJournal_def opValueChangeJournal_def split_beta Let_def
  by (rule journal_op_local, intro tree_ret_intros)+

lemma opKeccak256_local [exec_rules]: "local_exec E R opKeccak256"
  by (auto simp: local_exec_def opKeccak256_def bind_eq_Some Let_def intro!: stays_world R_preimage)

text \<open>Instructions that write fail in a read-only frame.\<close>

lemma writes_not_readonly: "\<not> readOnly evm \<Longrightarrow> R False (world evm) w \<Longrightarrow> stays R evm (evm\<lparr>world := w\<rparr>)"
  by (rule stays_world) simp

lemma opSstore_local [exec_rules]: "local_exec E R opSstore"
  by (auto simp: local_exec_def opSstore_def fail_with_def bind_eq_Some Let_def split: if_splits
      intro!: writes_not_readonly R_state)

lemma opTstore_local [exec_rules]: "local_exec E R opTstore"
  by (auto simp: local_exec_def opTstore_def fail_with_def bind_eq_Some Let_def split: if_splits
      intro!: writes_not_readonly R_transient)

lemma makeLog_local [exec_rules]: "local_exec E R (makeLog n)"
  by (auto simp: local_exec_def makeLog_def fail_with_def bind_eq_Some Let_def split: if_splits
      intro!: writes_not_readonly R_log)

lemma opSelfdestruct_local [exec_rules]: "local_exec E R opSelfdestruct"
proof -
  have "stays R evm (capture E (CaptureExit out used err) (capture E (CaptureEnter op f t i g v) (evm\<lparr>world :=
      snd (Suicide (StateDB_of E) (AddBalance (StateDB_of E) (world evm) b x) a)\<rparr>)))"
    if "\<not> readOnly evm" for evm out used err op f t i g v b x a
    using that R_trans[OF R_balance R_suicide]
    by (intro stays_trans[OF writes_not_readonly stays_empty_scope]) simp_all
  then show ?thesis
    by (auto simp: local_exec_def opSelfdestruct_def fail_with_def bind_eq_Some Let_def split: if_splits)
qed

lemma validJumpdest_Gas:
  "validJumpdest tabs c dest = Some (b, c', tabs') \<Longrightarrow> Gas c' = Gas c"
  by (auto simp: validJumpdest_def isCode_def Let_def bind_eq_Some Uint64WithOverflow_def
      split: if_splits option.splits)

lemma jump_to_local: "local_exec E R (jump_to pos st)"
  by (auto simp: local_exec_def jump_to_def bind_eq_Some Let_def stays_def R_refl split: if_splits
      dest: validJumpdest_Gas)

lemma opJump_local [exec_rules]: "local_exec E R opJump"
  unfolding local_exec_def
proof (intro allI)
  fix cs pc evm and scope :: ScopeContext
  show "opJump E cs pc evm scope \<noteq> OutOfFuel \<and>
      (\<forall>cs'. opJump E cs' pc evm scope = opJump E cs pc evm scope) \<and>
      (\<forall>r pc' evm' scope'. opJump E cs pc evm scope = Ok (r, pc', evm', scope') \<longrightarrow>
         stays R evm evm' \<and> Gas (scContract scope') = Gas (scContract scope) \<and>
         same_size (scMemory scope) (scMemory scope'))"
    using jump_to_local fail_with_local unfolding local_exec_def opJump_def
    by (auto split: option.splits)
qed

lemma opJumpi_local [exec_rules]: "local_exec E R opJumpi"
  unfolding local_exec_def
proof (intro allI)
  fix cs pc evm and scope :: ScopeContext
  show "opJumpi E cs pc evm scope \<noteq> OutOfFuel \<and>
      (\<forall>cs'. opJumpi E cs' pc evm scope = opJumpi E cs pc evm scope) \<and>
      (\<forall>r pc' evm' scope'. opJumpi E cs pc evm scope = Ok (r, pc', evm', scope') \<longrightarrow>
         stays R evm evm' \<and> Gas (scContract scope') = Gas (scContract scope) \<and>
         same_size (scMemory scope) (scMemory scope'))"
    using jump_to_local fail_with_local unfolding local_exec_def opJumpi_def
    by (auto split: option.splits)
qed

lemma ending_local [exec_rules]:
  "local_exec E R opReturn" "local_exec E R opRevert" "local_exec E R opUndefined" "local_exec E R opStop"
  by (auto simp: local_exec_def opReturn_def opRevert_def opUndefined_def opStop_def fail_with_def
      bind_eq_Some stays_def R_refl)

lemma push_local [exec_rules]: "local_exec E R opPush1" "local_exec E R (makePush sz n)"
  by (auto simp: local_exec_def opPush1_def makePush_def bind_eq_Some Let_def split: if_splits)

end

section \<open>More fuel\<close>

text \<open>A result with more fuel is the same result, or there was none. An instruction is monotone when
  callees with more fuel give it more.\<close>

definition res_le :: "'a res \<Rightarrow> 'a res \<Rightarrow> bool" where
  "res_le r r' \<longleftrightarrow> r = OutOfFuel \<or> r' = r"

definition calls_le :: "'s calls \<Rightarrow> 's calls \<Rightarrow> bool" where
  "calls_le cs cs' \<longleftrightarrow>
     (\<forall>callr addr input gas val salt evm.
        res_le (do_Call cs callr addr input gas val evm) (do_Call cs' callr addr input gas val evm) \<and>
        res_le (do_CallCode cs callr addr input gas val evm) (do_CallCode cs' callr addr input gas val evm) \<and>
        res_le (do_DelegateCall cs callr addr input gas evm) (do_DelegateCall cs' callr addr input gas evm) \<and>
        res_le (do_StaticCall cs callr addr input gas evm) (do_StaticCall cs' callr addr input gas evm) \<and>
        res_le (do_Create cs callr input gas val evm) (do_Create cs' callr input gas val evm) \<and>
        res_le (do_Create2 cs callr input gas val salt evm) (do_Create2 cs' callr input gas val salt evm))"

definition mono_exec :: "'s env \<Rightarrow> 's executionFunc \<Rightarrow> bool" where
  "mono_exec E f \<longleftrightarrow>
     (\<forall>cs cs' pc evm scope. calls_le cs cs' \<longrightarrow> res_le (f E cs pc evm scope) (f E cs' pc evm scope))"

lemma res_le_refl [simp, intro]: "res_le r r"
  by (simp add: res_le_def)

lemma res_le_bind:
  "res_le r r' \<Longrightarrow> (\<And>x. res_le (k x) (k' x)) \<Longrightarrow> res_le (bind_res r k) (bind_res r' k')"
  by (cases r) (auto simp: res_le_def)

lemma res_le_case_prod: "(\<And>a b. x = (a, b) \<Longrightarrow> res_le (f a b) (g a b)) \<Longrightarrow> res_le (case_prod f x) (case_prod g x)"
  by (cases x) simp

lemma res_le_if: "(b \<Longrightarrow> res_le r r') \<Longrightarrow> (\<not> b \<Longrightarrow> res_le q q') \<Longrightarrow> res_le (if b then r else q) (if b then r' else q')"
  by simp

lemma local_exec_mono: "local_exec E R f \<Longrightarrow> mono_exec E f"
  unfolding local_exec_def mono_exec_def res_le_def by blast

lemma call_instructions_mono:
  "mono_exec E opCall" "mono_exec E opCallCode" "mono_exec E opDelegateCall" "mono_exec E opStaticCall"
  "mono_exec E opCreate" "mono_exec E opCreate2"
  unfolding mono_exec_def opCall_def opCallCode_def opDelegateCall_def opStaticCall_def opCreate_def
    opCreate2_def Let_def fail_with_def
  by (intro allI impI res_le_if res_le_bind res_le_case_prod res_le_refl; simp add: calls_le_def)+

section \<open>Calls and creations\<close>

context metered
begin

lemma finish_call_ok:
  assumes "good_call R gas evm (Ok r)" "unat gas + unat (Gas (scContract scope)) \<le> bound"
    "bound < 18446744073709551616"
  shows "case finish_call pc scope off sz r of
      OutOfFuel \<Rightarrow> False
    | Panic \<Rightarrow> True
    | Ok ((ret, err), pc', evm', scope') \<Rightarrow>
        stays R evm evm' \<and> unat (Gas (scContract scope')) \<le> bound \<and>
        same_size (scMemory scope) (scMemory scope')"
proof -
  obtain ret left err evm1 where r: "r = ((ret, left, err), evm1)" by (cases r) auto
  then have g: "left \<le> gas" "stays R evm evm1" using assms(1) by (simp_all add: good_call_def)
  then have "unat (Gas (scContract scope) + left) = unat (Gas (scContract scope)) + unat left"
    using assms(2,3) by (subst unat_add_nowrap) (simp_all add: word_le_unat)
  then have le: "unat (Gas (scContract scope) + left) \<le> bound"
    using g(1) assms(2) by (simp add: word_le_unat)
  have "stays R evm (evm1\<lparr>returnData := ret\<rparr>)" using g(2) by (simp add: stays_def)
  then show ?thesis
    using le r by (auto simp: finish_call_def Let_def add_gas_def bind_eq_Some lift_def
        split: option.splits dest: same_size_Set)
qed

lemma call_args_value:
  assumes "call_args scope = Some (a, val, args, ro, rs, st)"
  shows "Back (scStack scope) 2 = Some val"
proof -
  obtain xs where xs: "scStack scope = top_first xs" using stk.mk_cases by blast
  obtain x1 s1 x2 s2 s3 where p: "pop (scStack scope) = Some (x1, s1)" "pop s1 = Some (x2, s2)"
      "pop s2 = Some (val, s3)"
    using assms by (auto simp: call_args_def bind_eq_Some)
  then show ?thesis using xs stk.pop_SomeD by (metis stk.back_law stk.mk_cases nth_Cons_0 nth_Cons_Suc
        numeral_2_eq_2 length_Cons zero_less_Suc Suc_less_eq top_first_inject)
qed

lemma call_ending:
  assumes "good_call R gas evm r" "unat gas + unat (Gas (scContract scope)) \<le> bound"
    "bound < 18446744073709551616"
  shows "case bind_res r (finish_call pc (scope\<lparr>scStack := st\<rparr>) off sz) of
      OutOfFuel \<Rightarrow> False
    | Panic \<Rightarrow> True
    | Ok ((ret, err), pc', evm', scope') \<Rightarrow>
        stays R evm evm' \<and> unat (Gas (scContract scope')) \<le> bound \<and>
        same_size (scMemory scope) (scMemory scope')"
proof (cases r)
  case (Ok q)
  have "unat gas + unat (Gas (scContract (scope\<lparr>scStack := st\<rparr>))) \<le> bound" using assms(2) by simp
  from finish_call_ok[OF assms(1)[unfolded Ok] this assms(3), of pc off sz]
  show ?thesis unfolding Ok by (simp cong: res.case_cong)
qed (use assms(1) in \<open>simp_all add: good_call_def\<close>)

lemma value_callee_gas:
  assumes "call_args scope = Some (a, val, args, ro, rs, st)"
    and "value_callee (extern E) evm (scStack scope) < 18446744073709551616"
  shows "unat (if val \<noteq> 0 then callGasTemp evm + CallStipend (Params (extern E)) else callGasTemp evm)
    = value_callee (extern E) evm (scStack scope)"
  using assms(2) call_args_value[OF assms(1)] by (auto simp: value_callee_def param_simps unat_add_nowrap)

lemma opCall_ok: "exec_ok E R (value_callee (extern E)) opCall"
  unfolding exec_ok_def Let_def
proof (intro allI impI)
  fix n cs pc and evm :: "'s EVM" and scope :: ScopeContext
  let ?bound = "unat (Gas (scContract scope)) + value_callee (extern E) evm (scStack scope)"
  assume c: "calls_ok R n cs" and b: "?bound < n" "?bound < 18446744073709551616"
  show "case opCall E cs pc evm scope of
      OutOfFuel \<Rightarrow> False
    | Panic \<Rightarrow> True
    | Ok ((ret, err), pc', evm', scope') \<Rightarrow>
        stays R evm evm' \<and> unat (Gas (scContract scope')) \<le> ?bound \<and>
        same_size (scMemory scope) (scMemory scope')"
  proof (cases "call_args scope")
    case None
    then show ?thesis by (simp add: opCall_def)
  next
    case (Some r)
    obtain a val args off sz st where r: "call_args scope = Some (a, val, args, off, sz, st)"
      using Some by (cases r) auto
    let ?gas = "if val \<noteq> 0 then callGasTemp evm + CallStipend (Params (extern E)) else callGasTemp evm"
    have gas: "unat ?gas = value_callee (extern E) evm (scStack scope)"
      by (rule value_callee_gas[OF r]) (use b(2) in simp)
    show ?thesis
    proof (cases "readOnly evm \<and> val \<noteq> 0")
      case True
      then show ?thesis using r by (simp add: opCall_def fail_with_def)
    next
      case False
      let ?r = "do_Call cs (as_caller (scContract scope)) a args ?gas (uint val) evm"
      have good: "good_call R ?gas evm ?r"
        using c b(1) gas False unfolding calls_ok_def by simp
      have "opCall E cs pc evm scope = bind_res ?r (finish_call pc (scope\<lparr>scStack := st\<rparr>) off sz)"
        using r False by (auto simp: opCall_def Let_def)
      then show ?thesis using call_ending[OF good _ b(2)] gas by simp
    qed
  qed
qed

lemma opCallCode_ok: "exec_ok E R (value_callee (extern E)) opCallCode"
  unfolding exec_ok_def Let_def
proof (intro allI impI)
  fix n cs pc and evm :: "'s EVM" and scope :: ScopeContext
  let ?bound = "unat (Gas (scContract scope)) + value_callee (extern E) evm (scStack scope)"
  assume c: "calls_ok R n cs" and b: "?bound < n" "?bound < 18446744073709551616"
  show "case opCallCode E cs pc evm scope of
      OutOfFuel \<Rightarrow> False
    | Panic \<Rightarrow> True
    | Ok ((ret, err), pc', evm', scope') \<Rightarrow>
        stays R evm evm' \<and> unat (Gas (scContract scope')) \<le> ?bound \<and>
        same_size (scMemory scope) (scMemory scope')"
  proof (cases "call_args scope")
    case None
    then show ?thesis by (simp add: opCallCode_def)
  next
    case (Some r)
    obtain a val args off sz st where r: "call_args scope = Some (a, val, args, off, sz, st)"
      using Some by (cases r) auto
    let ?gas = "if val \<noteq> 0 then callGasTemp evm + CallStipend (Params (extern E)) else callGasTemp evm"
    have gas: "unat ?gas = value_callee (extern E) evm (scStack scope)"
      by (rule value_callee_gas[OF r]) (use b(2) in simp)
    let ?r = "do_CallCode cs (as_caller (scContract scope)) a args ?gas (uint val) evm"
    have good: "good_call R ?gas evm ?r" using c b(1) gas unfolding calls_ok_def by simp
    have "opCallCode E cs pc evm scope = bind_res ?r (finish_call pc (scope\<lparr>scStack := st\<rparr>) off sz)"
      using r by (simp add: opCallCode_def Let_def)
    then show ?thesis using call_ending[OF good _ b(2)] gas by simp
  qed
qed

lemma noval_call_ok:
  assumes "\<And>cs pc evm scope. f E cs pc evm scope =
      bind_res (lift (call_args_noval scope)) (\<lambda>(toAddr, args, retOffset, retSize, st).
        let scope = scope\<lparr>scStack := st\<rparr>
        in bind_res (k cs (as_caller (scContract scope)) toAddr args (callGasTemp evm) evm)
             (finish_call pc scope retOffset retSize))"
    and "\<And>n cs callr a args gas evm. calls_ok R n cs \<Longrightarrow> unat gas < n \<Longrightarrow> good_call R gas evm (k cs callr a args gas evm)"
  shows "exec_ok E R plain_callee f"
  unfolding exec_ok_def Let_def
proof (intro allI impI)
  fix n cs pc and evm :: "'s EVM" and scope :: ScopeContext
  let ?bound = "unat (Gas (scContract scope)) + plain_callee evm (scStack scope)"
  assume c: "calls_ok R n cs" and b: "?bound < n" "?bound < 18446744073709551616"
  show "case f E cs pc evm scope of
      OutOfFuel \<Rightarrow> False
    | Panic \<Rightarrow> True
    | Ok ((ret, err), pc', evm', scope') \<Rightarrow>
        stays R evm evm' \<and> unat (Gas (scContract scope')) \<le> ?bound \<and>
        same_size (scMemory scope) (scMemory scope')"
  proof (cases "call_args_noval scope")
    case None
    then show ?thesis by (simp add: assms(1))
  next
    case (Some r)
    obtain a args off sz st where r: "call_args_noval scope = Some (a, args, off, sz, st)"
      using Some by (cases r) auto
    let ?r = "k cs (as_caller (scContract scope)) a args (callGasTemp evm) evm"
    have good: "good_call R (callGasTemp evm) evm ?r"
      by (rule assms(2)[OF c]) (use b(1) in \<open>simp add: plain_callee_def\<close>)
    have "f E cs pc evm scope = bind_res ?r (finish_call pc (scope\<lparr>scStack := st\<rparr>) off sz)"
      using r by (simp add: assms(1) Let_def)
    then show ?thesis using call_ending[OF good _ b(2)] by (simp add: plain_callee_def)
  qed
qed

lemma opDelegateCall_ok: "exec_ok E R plain_callee opDelegateCall"
  by (rule noval_call_ok[of _ do_DelegateCall]) (simp_all add: opDelegateCall_def calls_ok_def)

lemma opStaticCall_ok: "exec_ok E R plain_callee opStaticCall"
  by (rule noval_call_ok[of _ do_StaticCall]) (simp_all add: opStaticCall_def calls_ok_def)

lemma finish_create_ok:
  assumes "left \<le> gas" "gas \<le> Gas c" "stays R evm evm1" "scContract scope = c\<lparr>Gas := Gas c - gas\<rparr>"
  shows "case finish_create pc scope v ret left err evm1 of
      OutOfFuel \<Rightarrow> False
    | Panic \<Rightarrow> True
    | Ok ((ret, err), pc', evm', scope') \<Rightarrow>
        stays R evm evm' \<and> unat (Gas (scContract scope')) \<le> unat (Gas c) \<and>
        same_size (scMemory scope) (scMemory scope')"
proof -
  have s: "unat (Gas c - gas) = unat (Gas c) - unat gas" using assms(2) by (rule unat_sub_u64)
  moreover have "unat (Gas c - gas + left) = unat (Gas c - gas) + unat left"
    using assms(1,2) s unat_lt_u64[of "Gas c"] by (subst unat_add_nowrap) (simp_all add: word_le_unat)
  ultimately have "unat (Gas c - gas + left) \<le> unat (Gas c)"
    using assms(1,2) by (simp add: word_le_unat)
  moreover have "stays R evm (evm1\<lparr>returnData := d\<rparr>)" for d using assms(3) by (simp add: stays_def)
  ultimately show ?thesis using assms(4) by (simp add: finish_create_def Let_def add_gas_def)
qed

lemma create_ok:
  assumes eq: "\<And>cs pc evm scope. \<not> readOnly evm \<Longrightarrow> f E cs pc evm scope =
      bind_res (lift (args scope)) (\<lambda>(x, st).
        let gas = (if shrink then Gas (scContract scope) - Gas (scContract scope) div 64
                   else Gas (scContract scope));
            scope = use_gas (scope\<lparr>scStack := st\<rparr>) gas
        in bind_res (k cs (as_caller (scContract scope)) x gas evm)
             (\<lambda>((res, addr, returnGas, suberr), evm).
                finish_create pc scope (v res addr suberr) res returnGas suberr evm))"
    and ro: "\<And>cs pc evm scope. readOnly evm \<Longrightarrow> f E cs pc evm scope = fail_with ErrWriteProtection E cs pc evm scope"
    and good: "\<And>n cs callr x gas evm. calls_ok R n cs \<Longrightarrow> unat gas < n \<Longrightarrow> \<not> readOnly evm \<Longrightarrow>
        good_create R gas evm (k cs callr x gas evm)"
  shows "exec_ok E R no_callee f"
  unfolding exec_ok_def Let_def no_callee_def
proof (intro allI impI)
  fix n cs pc and evm :: "'s EVM" and scope :: ScopeContext
  let ?c = "scContract scope"
  assume c: "calls_ok R n cs" and b: "unat (Gas ?c) + 0 < n" "unat (Gas ?c) + 0 < 18446744073709551616"
  show "case f E cs pc evm scope of
      OutOfFuel \<Rightarrow> False
    | Panic \<Rightarrow> True
    | Ok ((ret, err), pc', evm', scope') \<Rightarrow>
        stays R evm evm' \<and> unat (Gas (scContract scope')) \<le> unat (Gas ?c) + 0 \<and>
        same_size (scMemory scope) (scMemory scope')"
  proof (cases "readOnly evm")
    case True
    then show ?thesis by (simp add: ro fail_with_def)
  next
    case False
    define gas where "gas = (if shrink then Gas ?c - Gas ?c div 64 else Gas ?c)"
    have gas: "gas \<le> Gas ?c"
      by (simp add: gas_def word_le_unat unat_sub_u64 unat_div)
    show ?thesis
    proof (cases "args scope")
      case None
      then show ?thesis using eq[OF False] by simp
    next
      case (Some r)
      obtain x st where r: "args scope = Some (x, st)" using Some by (cases r) simp
      define scope1 where "scope1 = use_gas (scope\<lparr>scStack := st\<rparr>) gas"
      have c1: "scContract scope1 = ?c\<lparr>Gas := Gas ?c - gas\<rparr>" and m1: "scMemory scope1 = scMemory scope"
        using gas by (simp_all add: scope1_def use_gas_def UseGas_def not_less[symmetric])
      let ?r = "k cs (as_caller (scContract scope1)) x gas evm"
      have g: "good_create R gas evm ?r"
        using good[OF c _ False] gas b(1) by (simp add: word_le_unat)
      have f: "f E cs pc evm scope = bind_res ?r (\<lambda>((res, addr, returnGas, suberr), evm).
          finish_create pc scope1 (v res addr suberr) res returnGas suberr evm)"
        using eq[OF False] r by (simp add: Let_def scope1_def gas_def)
      show ?thesis
      proof (cases ?r)
        case (Ok q)
        obtain res a left err evm1 where q: "q = ((res, a, left, err), evm1)" by (cases q) auto
        have "left \<le> gas" "stays R evm evm1" using g Ok q by (simp_all add: good_create_def)
        from finish_create_ok[OF this(1) gas this(2) c1]
        show ?thesis unfolding f Ok q m1 add_0_right by simp
      qed (use g f in \<open>simp_all add: good_create_def\<close>)
    qed
  qed
qed

lemma opCreate_ok: "exec_ok E R no_callee opCreate"
proof (rule create_ok)
  fix cs pc and evm :: "'s EVM" and scope assume "\<not> readOnly evm"
  then show "opCreate E cs pc evm scope =
      bind_res (lift (do {
             (val, st) \<leftarrow> pop (scStack scope);
             (offset, st) \<leftarrow> pop st;
             (sz, st) \<leftarrow> pop st;
             input \<leftarrow> GetCopy (scMemory scope) (Uint64 offset) (Uint64 sz);
             Some ((val, input), st) })) (\<lambda>(x, st).
        let gas = (if IsEIP150 (chainRules E) then Gas (scContract scope) - Gas (scContract scope) div 64
                   else Gas (scContract scope));
            scope = use_gas (scope\<lparr>scStack := st\<rparr>) gas
        in bind_res (do_Create cs (as_caller (scContract scope)) (snd x) gas (uint (fst x)) evm)
             (\<lambda>((res, addr, returnGas, suberr), evm).
                finish_create pc scope
                  (if IsHomestead (chainRules E) \<and> suberr = Some ErrCodeStoreOutOfGas then 0
                   else if suberr \<noteq> None \<and> suberr \<noteq> Some ErrCodeStoreOutOfGas then 0
                   else addr_word addr) res returnGas suberr evm))"
    by (simp add: opCreate_def Let_def lift_def split_beta split: option.split Option.bind_split)
qed (simp_all add: opCreate_def calls_ok_def)

lemma opCreate2_ok: "exec_ok E R no_callee opCreate2"
proof (rule create_ok)
  fix cs pc and evm :: "'s EVM" and scope assume "\<not> readOnly evm"
  then show "opCreate2 E cs pc evm scope =
      bind_res (lift (do {
             (endowment, st) \<leftarrow> pop (scStack scope);
             (offset, st) \<leftarrow> pop st;
             (sz, st) \<leftarrow> pop st;
             (salt, st) \<leftarrow> pop st;
             input \<leftarrow> GetCopy (scMemory scope) (Uint64 offset) (Uint64 sz);
             Some ((endowment, salt, input), st) })) (\<lambda>(x, st).
        let gas = (if True then Gas (scContract scope) - Gas (scContract scope) div 64
                   else Gas (scContract scope));
            scope = use_gas (scope\<lparr>scStack := st\<rparr>) gas
        in bind_res (do_Create2 cs (as_caller (scContract scope)) (snd (snd x)) gas (uint (fst x)) (fst (snd x)) evm)
             (\<lambda>((res, addr, returnGas, suberr), evm).
                finish_create pc scope (if suberr \<noteq> None then 0 else addr_word addr) res returnGas suberr evm))"
    by (simp add: opCreate2_def Let_def lift_def split_beta split: option.split Option.bind_split)
qed (simp_all add: opCreate2_def calls_ok_def)

end

end
