(* ===== verification/Frame_Tables.thy ===== *)
theory Frame_Tables
  imports Frame_Steps
begin

text \<open>
  Every instruction set is fit for the interpreter. An entry of a table is good when its
  instruction and its gas function keep the contract of a frame, when it charges for the memory it
  asks for, and when it makes progress: it costs gas or ends the frame. The frontier table has only
  such entries, and every fork and every single EIP keeps that, in any order.
\<close>

section \<open>Instructions that end their frame\<close>

lemma halting_instructions:
  "halting E opStop" "halting E opReturn" "halting E opRevert" "halting E opUndefined"
  "halting E opSelfdestruct"
  by (auto simp: halting_def opStop_def opReturn_def opRevert_def opUndefined_def opSelfdestruct_def
      fail_with_def bind_eq_Some Let_def)

section \<open>Gas functions that always charge\<close>

definition pos_ret :: "((error + u64) \<times> 's EVM \<times> Contract \<times> Memory) option \<Rightarrow> bool" where
  "pos_ret x \<longleftrightarrow> (\<forall>g evm c mem. x = Some (Inr g, evm, c, mem) \<longrightarrow> 0 < g)"

lemma pos_ret_intros:
  "0 < g \<Longrightarrow> pos_ret (gas_ret evm c mem w g)"
  "pos_ret (Some (Inl e, y))"
  "pos_ret x \<Longrightarrow> pos_ret x' \<Longrightarrow> pos_ret (if b then x else x')"
  "(\<And>a. m = Some a \<Longrightarrow> pos_ret (k a)) \<Longrightarrow> pos_ret (Option.bind m k)"
  by (auto simp: pos_ret_def gas_ret_def bind_eq_Some)

lemma dyn_posI: "(\<And>evm c st mem ms. pos_ret (d E evm c st mem ms)) \<Longrightarrow> dyn_pos E d"
  unfolding dyn_pos_def pos_ret_def by blast

lemma mem_then_rest: "mem_then X mem ms k = Some (Inr g, mem') \<Longrightarrow> \<exists>a. k a = Some (Inr g)"
  by (auto simp: mem_then_def bind_eq_Some split: prod.splits sum.splits)

context metered
begin

lemma add_pos: "0 < b \<Longrightarrow> unat a + unat b < 18446744073709551616 \<Longrightarrow> 0 < (a + b :: u64)"
  by (simp add: word_less_nat_alt unat_add_nowrap)

lemma gasSStore_pos: "dyn_pos E gasSStore"
  by (rule dyn_posI) (unfold gasSStore_def Let_def, intro pos_ret_intros, simp_all add: param_simps)

lemma gasSStoreEIP2200_pos: "dyn_pos E gasSStoreEIP2200"
  by (rule dyn_posI) (unfold gasSStoreEIP2200_def Let_def, intro pos_ret_intros, simp_all add: param_simps)

lemma gasSLoadEIP2929_pos: "dyn_pos E gasSLoadEIP2929"
  by (rule dyn_posI) (unfold gasSLoadEIP2929_def Let_def, intro pos_ret_intros, simp_all add: param_simps)

lemma makeGasJournal_pos: "dyn_pos E (makeGasJournal n)"
  by (simp add: dyn_pos_def makeGasJournal_def param_simps)

lemma makeGasSStoreFunc_pos: "dyn_pos E (makeGasSStoreFunc p)"
  by (rule dyn_posI)
    (unfold makeGasSStoreFunc_def Let_def split_beta, intro pos_ret_intros,
      (auto simp: param_simps split: if_splits)+)

lemma exp_gas_pos: "dyn_pos E (exp_gas p)"
  unfolding dyn_pos_def exp_gas_def mem_gas_def Let_def
  by (auto simp: bind_eq_Some safe_add_Inr param_simps intro!: add_pos)

lemma makeGasLog_pos: "dyn_pos E (makeGasLog n)"
proof -
  have *: "0 < g" if "no_ovf (SafeAdd (extern E) a (LogGas (Params (extern E)))) (\<lambda>gas.
       no_ovf (SafeAdd (extern E) gas b) (\<lambda>gas.
       no_ovf m (\<lambda>q.
       no_ovf (SafeAdd (extern E) gas q) Inr))) = Inr g" for a b m g
    using that by (auto simp: no_ovf_Inr SafeAdd param_simps word_less_nat_alt unat_add_nowrap)
  show ?thesis
    unfolding dyn_pos_def makeGasLog_def mem_gas_def
    by (auto simp: bind_eq_Some Let_def Uint64WithOverflow_def split: if_splits dest!: mem_then_rest *)
qed

end

section \<open>Good entries\<close>

text \<open>Opcodes that later gas functions charge without memory, and those that cost a constant.\<close>

definition memory_free :: "OpCode list" where
  "memory_free =
     [OP_SSTORE, OP_SLOAD, OP_EXTCODESIZE, OP_EXTCODEHASH, OP_BALANCE, OP_SELFDESTRUCT, OP_EXP]"

definition constant_cost :: "OpCode list" where
  "constant_cost =
     [OP_CREATE, OP_CREATE2, OP_SELFDESTRUCT, OP_CALL, OP_CALLCODE, OP_DELEGATECALL, OP_STATICCALL]"

definition callee_of :: "ext \<Rightarrow> OpCode \<Rightarrow> 's callee_gas" where
  "callee_of X op =
     (if op = OP_CALL \<or> op = OP_CALLCODE then value_callee X
      else if op = OP_DELEGATECALL \<or> op = OP_STATICCALL then plain_callee
      else no_callee)"

definition op_ok ::
  "'s env \<Rightarrow> (bool \<Rightarrow> 's \<Rightarrow> 's \<Rightarrow> bool) \<Rightarrow> OpCode \<Rightarrow> 's operation \<Rightarrow> bool" where
  "op_ok E R op e \<longleftrightarrow>
     exec_ok E R (callee_of (extern E) op) (execute e) \<and> mono_exec E (execute e) \<and>
     (case dynamicGas e of
        None \<Rightarrow> exec_ok E R no_callee (execute e) \<and> memorySize e = None
      | Some d \<Rightarrow> dyn_ok E R (callee_of (extern E) op) d \<and> (memorySize e \<noteq> None \<longrightarrow> dyn_mem E d)) \<and>
     (0 < constantGas e \<or> halting E (execute e) \<and> local_exec E R (execute e) \<or>
        op \<notin> set constant_cost \<and> (\<exists>d. dynamicGas e = Some d \<and> dyn_pos E d)) \<and>
     (op \<in> set memory_free \<longrightarrow> memorySize e = None)"

definition table_ok :: "'s env \<Rightarrow> (bool \<Rightarrow> 's \<Rightarrow> 's \<Rightarrow> bool) \<Rightarrow> 's JumpTable \<Rightarrow> bool" where
  "table_ok E R jt \<longleftrightarrow> (\<forall>op. op_ok E R op (jt op))"

lemma oper_simps [simp]:
  "execute (oper f c d mn mx ms) = f" "constantGas (oper f c d mn mx ms) = c"
  "dynamicGas (oper f c d mn mx ms) = d" "memorySize (oper f c d mn mx ms) = ms"
  "op_minStack (oper f c d mn mx ms) = mn" "op_maxStack (oper f c d mn mx ms) = mx"
  by (simp_all add: oper_def)

lemma entry_local:
  "local_exec E R f \<Longrightarrow> 0 < c \<or> halting E f \<Longrightarrow> op_ok E R op (oper f c None mn mx None)"
  by (auto simp: op_ok_def local_exec_ok local_exec_mono)

lemma entry_dynamic:
  fixes E :: "'s env"
  assumes "local_exec E R f" "dyn_ok E R no_callee d" "callee_of (extern E) op = (no_callee :: 's callee_gas)"
    and "0 < c \<or> halting E f \<or> op \<notin> set constant_cost \<and> dyn_pos E d"
  shows "op_ok E R op (oper f c (Some d) mn mx None)"
  using assms by (auto simp: op_ok_def local_exec_ok local_exec_mono)

lemma entry_memory:
  assumes "exec_ok E R (callee_of (extern E) op) f" "mono_exec E f" "dyn_mem E d" "dyn_ok E R (callee_of (extern E) op) d"
    and "op \<notin> set memory_free"
    and "0 < c \<or> halting E f \<and> local_exec E R f \<or> op \<notin> set constant_cost \<and> dyn_pos E d"
  shows "op_ok E R op (oper f c (Some d) mn mx (Some ms))"
  using assms by (auto simp: op_ok_def)

lemma table_ok_upd: "table_ok E R jt \<Longrightarrow> op_ok E R op e \<Longrightarrow> table_ok E R (jt(op := e))"
  by (simp add: table_ok_def)

lemma set_const_ok:
  assumes "table_ok E R jt" "0 < g"
  shows "table_ok E R (set_const op g jt)"
  unfolding set_const_def
proof (rule table_ok_upd[OF assms(1)])
  have "op_ok E R op (jt op)" using assms(1) by (simp add: table_ok_def)
  then show "op_ok E R op ((jt op)\<lparr>constantGas := g\<rparr>)"
    using assms(2) by (cases "dynamicGas (jt op)") (simp_all add: op_ok_def)
qed

lemma validate_Some: "validate jt = Some jt' \<Longrightarrow> jt' = jt"
  by (simp add: validate_def split: if_splits)

lemma set_dyn_memory_free:
  fixes E :: "'s env"
  assumes "table_ok E R jt" "op \<in> set memory_free" "dyn_ok E R no_callee d"
    and "dyn_pos E d \<and> op \<notin> set constant_cost \<or> 0 < constantGas (jt op) \<or> op \<in> set constant_cost"
  shows "table_ok E R (set_dyn op d jt)"
  unfolding set_dyn_def
proof (rule table_ok_upd[OF assms(1)])
  have "op_ok E R op (jt op)" using assms(1) by (simp add: table_ok_def)
  moreover have "callee_of (extern E) op = (no_callee :: 's callee_gas)"
    using assms(2) by (auto simp: callee_of_def memory_free_def)
  ultimately show "op_ok E R op ((jt op)\<lparr>dynamicGas := Some d\<rparr>)"
    using assms by (auto simp: op_ok_def)
qed

lemma set_both_memory_free:
  fixes E :: "'s env"
  assumes "table_ok E R jt" "op \<in> set memory_free" "dyn_ok E R no_callee d"
    and "dyn_pos E d \<and> op \<notin> set constant_cost \<or> 0 < c"
  shows "table_ok E R (set_dyn op d (set_const op c jt))"
proof -
  have "table_ok E R (set_dyn op d (set_const op 1 jt))"
    using assms by (intro set_dyn_memory_free set_const_ok) (simp_all add: set_const_def)
  then have "op_ok E R op (set_dyn op d (set_const op 1 jt) op)" unfolding table_ok_def by blast
  then have "op_ok E R op ((jt op)\<lparr>constantGas := c, dynamicGas := Some d\<rparr>)"
    using assms(4) by (auto simp: op_ok_def set_dyn_def set_const_def)
  then show ?thesis
    using table_ok_upd[OF assms(1)] by (simp add: set_dyn_def set_const_def)
qed

lemma set_dyn_memory:
  assumes "table_ok E R jt" "op \<notin> set memory_free" "dyn_mem E d" "dyn_ok E R (callee_of (extern E) op) d"
    and "0 < constantGas (jt op) \<or> op \<in> set constant_cost"
  shows "table_ok E R (set_dyn op d jt)"
  unfolding set_dyn_def
proof (rule table_ok_upd[OF assms(1)])
  have "op_ok E R op (jt op)" using assms(1) by (simp add: table_ok_def)
  then show "op_ok E R op ((jt op)\<lparr>dynamicGas := Some d\<rparr>)"
    using assms by (auto simp: op_ok_def)
qed

lemma set_both_memory:
  assumes "table_ok E R jt" "op \<notin> set memory_free" "dyn_mem E d" "dyn_ok E R (callee_of (extern E) op) d" "0 < c"
  shows "table_ok E R (set_dyn op d (set_const op c jt))"
  using assms by (intro set_dyn_memory set_const_ok) (simp_all add: set_const_def)

section \<open>The tables\<close>

lemmas step_gas = GasQuickStep_def GasFastestStep_def GasFastStep_def GasMidStep_def GasSlowStep_def
  GasExtStep_def

lemmas memory_gas = gasCallDataCopy_def gasCodeCopy_def gasMcopy_def gasExtCodeCopy_def
  gasReturnDataCopy_def gasKeccak256_def gasReturn_def gasRevert_def gasMLoad_def gasMStore8_def
  gasMStore_def gasCreate_def gasCreate2_def gasCreateEip3860_def gasCreate2Eip3860_def
  gasExpFrontier_def gasExpEIP158_def

lemmas acl_gas = gasCallEIP2929_def gasDelegateCallEIP2929_def gasStaticCallEIP2929_def
  gasCallCodeEIP2929_def gasSelfdestructEIP2929_def gasSelfdestructEIP3529_def gasSStoreEIP2929_def
  gasSStoreEIP3529_def

lemma callee_of_simps:
  "callee_of X OP_CALL = value_callee X" "callee_of X OP_CALLCODE = value_callee X"
  "callee_of X OP_DELEGATECALL = plain_callee" "callee_of X OP_STATICCALL = plain_callee"
  by (simp_all add: callee_of_def)

context metered
begin

lemmas local_entries = exec_rules[THEN local_exec_ok] exec_rules[THEN local_exec_mono] call_instructions_mono

lemmas gas_entries = memoryCopierGas_ok word_gas_ok init_code_gas_ok pureMemoryGascost_ok makeGasLog_ok
  makeGasLog_pos exp_gas_ok exp_gas_pos makeGasJournal_ok makeGasJournal_pos gasSStore_ok gasSStore_pos
  gasSelfdestruct_ok gasCall_ok[THEN call_gas_okD(1)] gasCall_ok[THEN call_gas_okD(2)]
  gasCallCode_ok[THEN call_gas_okD(1)] gasCallCode_ok[THEN call_gas_okD(2)]
  gasDelegateCall_ok[THEN call_gas_okD(1)] gasDelegateCall_ok[THEN call_gas_okD(2)]
  gasStaticCall_ok[THEN call_gas_okD(1)] gasStaticCall_ok[THEN call_gas_okD(2)]

lemmas entry_simps = param_simps step_gas memory_gas local_entries exec_rules gas_entries
  opCall_ok opCallCode_ok opDelegateCall_ok opStaticCall_ok opCreate_ok opCreate2_ok
  halting_instructions memory_free_def constant_cost_def callee_of_def

lemma frontier_entries_ok: "list_all (\<lambda>(op, e). op_ok E R op e) (frontier_entries (extern E))"
  unfolding frontier_entries_def list_all_append frontier_1_def frontier_2_def frontier_3_def
    frontier_4_def frontier_5_def frontier_6_def list.pred_inject prod.case
  by (intro conjI TrueI)
    ((rule entry_local, (simp add: entry_simps; fail)+)
     | (rule entry_dynamic, (simp add: entry_simps; fail)+)
     | (rule entry_memory, (simp add: entry_simps; fail)+))+

lemma frontier_ok: "newFrontierInstructionSet (extern E) = Some jt \<Longrightarrow> table_ok E R jt"
proof -
  have "op_ok E R op e" if "map_of (frontier_entries (extern E)) op = Some e" for op e
    using frontier_entries_ok map_of_SomeD[OF that] by (auto simp: list_all_iff)
  moreover have "op_ok E R op (undefined_op (extern E))" for op
    unfolding undefined_op_def by (rule entry_local) (simp_all add: entry_simps)
  ultimately have "table_ok E R (frontier_table (extern E))"
    unfolding table_ok_def frontier_table_def by (simp split: option.split)
  then show "newFrontierInstructionSet (extern E) = Some jt \<Longrightarrow> table_ok E R jt"
    unfolding newFrontierInstructionSet_def using validate_Some by blast
qed

text \<open>The EIPs.\<close>

lemmas table_rules = table_ok_upd set_const_ok set_dyn_memory_free set_dyn_memory

lemmas acl_entries = makeGasSStoreFunc_ok makeGasSStoreFunc_pos gasSLoadEIP2929_ok gasSLoadEIP2929_pos
  gasEip2929AccountCheck_ok makeSelfdestructGasFn_ok gasExtCodeCopyEIP2929_ok gasSStoreEIP2200_ok
  gasSStoreEIP2200_pos call_variant_ok[OF gasCall_ok] call_variant_ok[OF gasCallCode_ok]
  call_variant_ok[OF gasDelegateCall_ok] call_variant_ok[OF gasStaticCall_ok]

lemma enable_simple_ok:
  assumes "table_ok E R jt"
  shows "table_ok E R (enable1344 (extern E) jt)" "table_ok E R (enable1884 (extern E) jt)"
    "table_ok E R (enable3198 (extern E) jt)" "table_ok E R (enable1153 (extern E) jt)"
    "table_ok E R (enable3855 (extern E) jt)"
  unfolding enable1344_def enable1884_def enable3198_def enable1153_def enable3855_def Let_def
  by (intro table_ok_upd set_const_ok assms entry_local; simp add: entry_simps)+

lemma enable5656_ok: "table_ok E R jt \<Longrightarrow> table_ok E R (enable5656 (extern E) jt)"
  unfolding enable5656_def by (intro table_ok_upd entry_memory; simp add: entry_simps)

lemma enable2200_ok: "table_ok E R jt \<Longrightarrow> table_ok E R (enable2200 (extern E) jt)"
  unfolding enable2200_def
  by (intro set_dyn_memory_free set_const_ok; simp add: entry_simps acl_entries)

lemma enable3529_ok: "table_ok E R jt \<Longrightarrow> table_ok E R (enable3529 (extern E) jt)"
  unfolding enable3529_def acl_gas
  by (intro set_dyn_memory_free set_const_ok; simp add: entry_simps acl_entries)

lemma enable3860_ok: "table_ok E R jt \<Longrightarrow> table_ok E R (enable3860 (extern E) jt)"
  unfolding enable3860_def
  by (intro set_dyn_memory; simp add: entry_simps acl_entries)

lemma enable2929_ok: "table_ok E R jt \<Longrightarrow> table_ok E R (enable2929 (extern E) jt)"
  unfolding enable2929_def Let_def acl_gas
  by ((rule set_both_memory_free[rotated] set_both_memory[rotated] set_dyn_memory_free[rotated],
        (simp add: entry_simps acl_entries; fail), (simp add: entry_simps acl_entries; fail),
        (simp add: entry_simps acl_entries; fail), (simp add: entry_simps acl_entries; fail)?)
      | assumption)+

lemmas enable_ok = enable_simple_ok enable5656_ok enable2200_ok enable3529_ok enable3860_ok enable2929_ok

lemma EnableEIP_ok:
  assumes "table_ok E R jt" "EnableEIP (extern E) eip jt = Inr jt'"
  shows "table_ok E R jt'"
proof -
  have "table_ok E R (f (extern E) jt)" if "(eip, f) \<in> set activators" for f
    using that enable_ok[OF assms(1)] by (auto simp: activators_def)
  then show ?thesis
    using assms(2) by (auto simp: EnableEIP_def split: option.splits dest!: map_of_SomeD)
qed

lemma enable_eips_ok: "table_ok E R jt \<Longrightarrow> table_ok E R (fst (enable_eips (extern E) eips jt done_eips))"
  by (induction eips arbitrary: jt done_eips) (auto split: sum.split dest: EnableEIP_ok)

text \<open>The forks.\<close>

lemma homestead_ok: "newHomesteadInstructionSet (extern E) = Some jt \<Longrightarrow> table_ok E R jt"
  unfolding newHomesteadInstructionSet_def
  by (auto simp: bind_eq_Some entry_simps dest!: validate_Some frontier_ok intro!: table_ok_upd entry_memory)

lemma tangerine_ok: "newTangerineWhistleInstructionSet (extern E) = Some jt \<Longrightarrow> table_ok E R jt"
  unfolding newTangerineWhistleInstructionSet_def Let_def
  by (auto simp: bind_eq_Some entry_simps dest!: validate_Some homestead_ok intro!: set_const_ok)

lemma spurious_ok: "newSpuriousDragonInstructionSet (extern E) = Some jt \<Longrightarrow> table_ok E R jt"
  unfolding newSpuriousDragonInstructionSet_def
  by (auto simp: bind_eq_Some entry_simps dest!: validate_Some tangerine_ok intro!: set_dyn_memory_free)

lemma byzantium_ok: "newByzantiumInstructionSet (extern E) = Some jt \<Longrightarrow> table_ok E R jt"
  unfolding newByzantiumInstructionSet_def
  by (auto simp: bind_eq_Some entry_simps dest!: validate_Some spurious_ok
      intro!: table_ok_upd entry_memory entry_local)

lemma constantinople_ok: "newConstantinopleInstructionSet (extern E) = Some jt \<Longrightarrow> table_ok E R jt"
  unfolding newConstantinopleInstructionSet_def
  by (auto simp: bind_eq_Some entry_simps dest!: validate_Some byzantium_ok
      intro!: table_ok_upd entry_memory entry_local)

lemma istanbul_ok: "newIstanbulInstructionSet (extern E) = Some jt \<Longrightarrow> table_ok E R jt"
  unfolding newIstanbulInstructionSet_def Let_def
  by (auto simp: bind_eq_Some dest!: validate_Some constantinople_ok intro!: enable_ok)

lemma berlin_ok: "newBerlinInstructionSet (extern E) = Some jt \<Longrightarrow> table_ok E R jt"
  unfolding newBerlinInstructionSet_def Let_def
  by (auto simp: bind_eq_Some dest!: validate_Some istanbul_ok intro!: enable_ok)

lemma london_ok: "newLondonInstructionSet (extern E) = Some jt \<Longrightarrow> table_ok E R jt"
  unfolding newLondonInstructionSet_def Let_def
  by (auto simp: bind_eq_Some dest!: validate_Some berlin_ok intro!: enable_ok)

lemma merge_ok: "newMergeInstructionSet (extern E) = Some jt \<Longrightarrow> table_ok E R jt"
  unfolding newMergeInstructionSet_def
  by (auto simp: bind_eq_Some entry_simps dest!: validate_Some london_ok intro!: table_ok_upd entry_local)

lemma shanghai_ok: "newShanghaiInstructionSet (extern E) = Some jt \<Longrightarrow> table_ok E R jt"
  unfolding newShanghaiInstructionSet_def Let_def
  by (auto simp: bind_eq_Some dest!: validate_Some merge_ok intro!: enable_ok)

lemma cancun_ok: "newCancunInstructionSet (extern E) = Some jt \<Longrightarrow> table_ok E R jt"
  unfolding newCancunInstructionSet_def Let_def
  by (auto simp: bind_eq_Some dest!: validate_Some shanghai_ok intro!: enable_ok)

lemma instruction_set_ok: "instruction_set E = Some jt \<Longrightarrow> table_ok E R jt"
  unfolding instruction_set_def Let_def
  by (auto split: if_splits intro: frontier_ok homestead_ok tangerine_ok spurious_ok byzantium_ok
      constantinople_ok istanbul_ok berlin_ok london_ok merge_ok shanghai_ok cancun_ok)

lemma NewEVMInterpreter_ok: "NewEVMInterpreter E = Some (jt, E') \<Longrightarrow> table_ok E R jt"
proof -
  assume "NewEVMInterpreter E = Some (jt, E')"
  then obtain t where t: "instruction_set E = Some t"
    and jt: "jt = fst (enable_eips (extern E) (ExtraEips (ConfigOf E)) t [])"
    by (auto simp: NewEVMInterpreter_def bind_eq_Some Let_def copyJumpTable_def split_beta split: if_splits)
  show "table_ok E R jt" unfolding jt by (rule enable_eips_ok) (rule instruction_set_ok[OF t])
qed

end

end
