(* ===== verification/Frame_Loop.thy ===== *)
theory Frame_Loop
  imports Frame_Tables
begin

text \<open>
  The interpreter's loop and the calls under the contract of a frame. Charging pays for the gas of
  a callee and for the memory before the instruction runs; a pass of the loop that goes on leaves
  less gas than it found; so a frame with more fuel than gas never runs out of fuel, and the same
  holds for every call below it, by induction on the fuel. Callees that are not called with value
  in a read-only frame keep the world in the ways that frame allows.
\<close>

section \<open>Charging\<close>

lemma callee_of_capture [simp]:
  "no_callee (capture E ev evm) st = no_callee evm st"
  "callee_of X op (capture E ev evm) st = callee_of X op evm st"
  by (simp_all add: callee_of_def no_callee_def plain_callee_def value_callee_def capture_def)

lemma memory_size_none: "memorySize e = None \<Longrightarrow> memory_size X e st = Some (Inr ms) \<Longrightarrow> ms = 0"
  by (simp add: memory_size_def)

lemma UseGas_ok: "UseGas c g = (True, c') \<Longrightarrow> c' = c\<lparr>Gas := Gas c - g\<rparr> \<and> unat (Gas c - g) + unat g = unat (Gas c)"
  by (auto simp: UseGas_def word_le_unat unat_sub_u64 not_less split: if_splits)

lemma UseGas_no: "UseGas c g = (False, c') \<Longrightarrow> c' = c"
  by (auto simp: UseGas_def split: if_splits)

context metered
begin

lemma memory_size_words: "memory_size (extern E) e st = Some (Inr ms) \<Longrightarrow> 32 dvd unat ms"
  by (auto simp: memory_size_def bind_eq_Some no_ovf_def SafeMul unat_mult_nowrap split: option.splits if_splits)

text \<open>What is left after charging: enough has been paid for the callee, more than that unless the
  instruction ends the frame, and the memory can grow to the size asked for.\<close>

definition charged :: "'s operation \<Rightarrow> 's EVM \<Rightarrow> ScopeContext \<Rightarrow> ScopeContext \<Rightarrow> u64 \<Rightarrow> bool" where
  "charged e evm scope scope' ms \<longleftrightarrow>
     (\<exists>callee. exec_ok E R callee (execute e) \<and>
        (\<forall>ev. callee (capture E ev evm) (scStack scope) = callee evm (scStack scope)) \<and>
        (let paid = unat (Gas (scContract scope')) + callee evm (scStack scope)
         in paid \<le> unat (Gas (scContract scope)) \<and>
            (halting E (execute e) \<and> local_exec E R (execute e) \<or> paid < unat (Gas (scContract scope))))) \<and>
     mem_inv (scMemory (resize (extern E) ms scope'))"

lemma charged_memory:
  assumes "op_ok E R op e" "dynamicGas e = Some d" "mem_inv (scMemory scope)"
    and "memory_size (extern E) e (scStack scope) = Some (Inr ms)"
    and "d E evm c (scStack scope) (scMemory scope) ms = Some (Inr g, evm', c', mem')"
  shows "mem_inv (scMemory (resize (extern E) ms (scope\<lparr>scContract := c'', scMemory := mem'\<rparr>)))"
proof (cases "memorySize e")
  case None
  have "ms = 0" by (rule memory_size_none[OF None assms(4)])
  moreover have "dyn_ok E R (callee_of (extern E) op) d" using assms(1,2) by (simp add: op_ok_def)
  ultimately have "mem' = scMemory scope" using assms(3,5) unfolding dyn_ok_def by blast
  then show ?thesis using \<open>ms = 0\<close> assms(3) by (simp add: resize_def)
next
  case (Some f)
  then have "dyn_mem E d" using assms(1,2) by (simp add: op_ok_def)
  then have m: "mem' = paid (scMemory scope) ((unat ms + 31) div 32)" "unat ms \<le> 137438953440"
    using assms(3,5) unfolding dyn_mem_def by blast+
  have d: "32 dvd unat ms" by (rule memory_size_words[OF assms(4)])
  then have "(unat ms + 31) div 32 = unat ms div 32" by (auto simp: dvd_def)
  then show ?thesis
    using m mem_inv_Resize[OF assms(3) d m(2)] assms(3) by (cases "ms = 0") (simp_all add: resize_def word_gt_0)
qed

lemma charge_dynamic:
  assumes ok: "op_ok E R op e" and d: "dynamicGas e = Some d" and inv: "mem_inv (scMemory scope)"
    and k: "unat (Gas c) + unat (constantGas e) = unat (Gas (scContract scope))"
    and ms: "memory_size (extern E) e (scStack scope) = Some (Inr ms)"
    and g: "d E evm c (scStack scope) (scMemory scope) ms = Some (Inr g, evm', c', mem')"
    and u: "UseGas c' g = (True, c'')"
  shows "charged e evm' scope (scope\<lparr>scContract := c'', scMemory := mem'\<rparr>) ms"
proof -
  let ?callee = "callee_of (extern E) op :: 's callee_gas"
  have dyn: "dyn_ok E R ?callee d" and ex: "exec_ok E R ?callee (execute e)"
    using ok d by (simp_all add: op_ok_def)
  have r: "Gas c' = Gas c" "?callee evm' (scStack scope) \<le> unat g"
    using dyn g inv unfolding dyn_ok_def by blast+
  have left: "unat (Gas c'') + unat g = unat (Gas c)" using UseGas_ok[OF u] r(1) by simp
  have "halting E (execute e) \<and> local_exec E R (execute e) \<or>
      unat (Gas c'') + ?callee evm' (scStack scope) < unat (Gas (scContract scope))"
  proof (cases "0 < constantGas e")
    case True
    then show ?thesis using left r(2) k by (simp add: word_less_nat_alt)
  next
    case False
    then have "halting E (execute e) \<and> local_exec E R (execute e) \<or> op \<notin> set constant_cost \<and> dyn_pos E d" using ok d by (auto simp: op_ok_def)
    moreover have "?callee = no_callee" if "op \<notin> set constant_cost"
      using that by (auto simp: callee_of_def constant_cost_def)
    moreover have "dyn_pos E d \<Longrightarrow> 0 < g" using g unfolding dyn_pos_def by blast
    ultimately show ?thesis using left r(2) k by (auto simp: word_less_nat_alt no_callee_def)
  qed
  moreover have "mem_inv (scMemory (resize (extern E) ms (scope\<lparr>scContract := c'', scMemory := mem'\<rparr>)))"
    by (rule charged_memory[OF ok d inv ms g])
  ultimately show ?thesis
    unfolding charged_def Let_def using ex left r(2) k by (intro conjI exI[of _ ?callee]) simp_all
qed

lemma charge_ok:
  assumes ok: "op_ok E R op e" and inv: "mem_inv (scMemory scope)"
    and ch: "charge E e evm scope = Some (r, evm', scope')"
  shows "stays R evm evm' \<and> scStack scope' = scStack scope \<and>
    unat (Gas (scContract scope')) \<le> unat (Gas (scContract scope)) \<and>
    (\<forall>cost ms. r = Inr (cost, ms) \<longrightarrow> charged e evm' scope scope' ms)"
proof -
  obtain b c where u: "UseGas (scContract scope) (constantGas e) = (b, c)" by fastforce
  show ?thesis
  proof (cases b)
    case False
    then show ?thesis using ch u UseGas_no[of "scContract scope" "constantGas e" c] by (auto simp: charge_def Let_def)
  next
    case True
    have k: "unat (Gas c) + unat (constantGas e) = unat (Gas (scContract scope))"
      using UseGas_ok[of "scContract scope"] u True by fastforce
    show ?thesis
    proof (cases "dynamicGas e")
      case None
      then have "exec_ok E R no_callee (execute e)" "0 < constantGas e \<or> halting E (execute e) \<and> local_exec E R (execute e)"
        using ok by (auto simp: op_ok_def)
      then have "charged e evm scope (scope\<lparr>scContract := c\<rparr>) 0"
        unfolding charged_def Let_def using k inv
        by (intro conjI exI[of _ no_callee]) (auto simp: no_callee_def resize_def word_less_nat_alt)
      then show ?thesis using ch u True None k by (auto simp: charge_def Let_def)
    next
      case (Some d)
      have dyn: "dyn_ok E R (callee_of (extern E) op) d" using ok Some by (simp add: op_ok_def)
      obtain m where m: "memory_size (extern E) e (scStack scope) = Some m"
        using ch u True Some by (auto simp: charge_def Let_def bind_eq_Some)
      show ?thesis
      proof (cases m)
        case (Inl err)
        then show ?thesis using ch u True Some m k by (auto simp: charge_def Let_def)
      next
        case (Inr ms)
        obtain r1 evm1 c1 mem1 where
          g: "d E evm c (scStack scope) (scMemory scope) ms = Some (r1, evm1, c1, mem1)"
          using ch u True Some m Inr by (auto simp: charge_def Let_def bind_eq_Some)
        have st: "stays R evm evm1" "Gas c1 \<le> Gas c" using dyn g inv unfolding dyn_ok_def by blast+
        show ?thesis
        proof (cases r1)
          case (Inl err)
          then show ?thesis
            using ch u True Some m Inr g st k by (auto simp: charge_def Let_def word_le_unat)
        next
          case r1: (Inr dc)
          obtain b2 c2 where u2: "UseGas c1 dc = (b2, c2)" by fastforce
          have eq: "evm' = evm1" "scope' = scope\<lparr>scContract := c2, scMemory := mem1\<rparr>"
            "r = (if \<not> b2 then Inl (ErrOutOfGas, constantGas e + dc) else Inr (constantGas e + dc, ms))"
            using ch u True Some m Inr g r1 u2 by (auto simp: charge_def Let_def)
          have "unat (Gas c2) \<le> unat (Gas c1)"
            using u2 UseGas_ok[of c1 dc c2] UseGas_no[of c1 dc c2] by (cases b2) fastforce+
          then have le: "unat (Gas c2) \<le> unat (Gas (scContract scope))" using st(2) k by (simp add: word_le_unat)
          have "charged e evm1 scope (scope\<lparr>scContract := c2, scMemory := mem1\<rparr>) ms" if b2
            using charge_dynamic[OF ok Some inv k m[unfolded Inr] g[unfolded r1]] u2 that by simp
          then show ?thesis using eq le st(1) by simp
        qed
      qed
    qed
  qed
qed

end

section \<open>A pass of the loop\<close>

lemma mem_inv_same_size: "same_size mem mem' \<Longrightarrow> mem_inv mem \<Longrightarrow> mem_inv mem'"
  by (simp add: same_size_def mem_inv_def)

lemma resize_simps [simp]:
  "scStack (resize X ms scope) = scStack scope" "scContract (resize X ms scope) = scContract scope"
  by (simp_all add: resize_def)

text \<open>A pass that goes on has used gas; one that returns has not created any.\<close>

definition good_outcome ::
  "(bool \<Rightarrow> 's \<Rightarrow> 's \<Rightarrow> bool) \<Rightarrow> 's EVM \<Rightarrow> ScopeContext \<Rightarrow> 's outcome res \<Rightarrow> bool" where
  "good_outcome R evm scope out \<longleftrightarrow>
     (case out of
        OutOfFuel \<Rightarrow> False
      | Panic \<Rightarrow> True
      | Ok (Continue pc' evm' scope') \<Rightarrow>
          stays R evm evm' \<and> unat (Gas (scContract scope')) < unat (Gas (scContract scope)) \<and>
          mem_inv (scMemory scope')
      | Ok (Return ret err evm' scope') \<Rightarrow>
          stays R evm evm' \<and> unat (Gas (scContract scope')) \<le> unat (Gas (scContract scope)))"

context metered
begin

lemma execute_ok:
  assumes ch: "charged e evm scope scope' ms" and cs: "calls_ok R n cs"
    and n: "unat (Gas (scContract scope)) \<le> n" and st: "scStack scope' = scStack scope"
    and ex: "execute e E cs pc (capture E ev evm) (resize (extern E) ms scope') = r"
    and ev: "scan_event False ev [] = Some []"
  shows "case r of
      OutOfFuel \<Rightarrow> False
    | Panic \<Rightarrow> True
    | Ok ((ret, err), pc', evm', scope'') \<Rightarrow>
        stays R evm evm' \<and> unat (Gas (scContract scope'')) \<le> unat (Gas (scContract scope)) \<and>
        mem_inv (scMemory scope'') \<and>
        (err = None \<longrightarrow> unat (Gas (scContract scope'')) < unat (Gas (scContract scope)))"
proof -
  let ?scope = "resize (extern E) ms scope'" and ?evm = "capture E ev evm"
  obtain callee where c: "exec_ok E R callee (execute e)"
      "callee ?evm (scStack scope) = callee evm (scStack scope)"
    and le: "unat (Gas (scContract scope')) + callee evm (scStack scope) \<le> unat (Gas (scContract scope))"
    and lt: "halting E (execute e) \<and> local_exec E R (execute e) \<or>
      unat (Gas (scContract scope')) + callee evm (scStack scope) < unat (Gas (scContract scope))"
    and inv: "mem_inv (scMemory ?scope)"
    using ch unfolding charged_def Let_def by blast
  have stay: "stays R ?evm evm' \<Longrightarrow> stays R evm evm'" for evm'
    using stays_trans[OF stays_capture[OF ev]] .
  show ?thesis
  proof (cases "halting E (execute e) \<and> local_exec E R (execute e)")
    case True
    have "r \<noteq> OutOfFuel" using True ex unfolding local_exec_def by blast
    moreover have "stays R ?evm evm' \<and> Gas (scContract scope'') = Gas (scContract ?scope) \<and>
        same_size (scMemory ?scope) (scMemory scope'') \<and> err \<noteq> None"
      if "r = Ok ((ret, err), pc', evm', scope'')" for ret err pc' evm' scope''
    proof -
      note e = ex[unfolded that]
      have "err \<noteq> None" using True e unfolding halting_def by (cases err) blast+
      then show ?thesis using True e unfolding local_exec_def by blast
    qed
    ultimately show ?thesis
      using stay le inv by (fastforce split: res.split intro: mem_inv_same_size)
  next
    case False
    let ?b = "unat (Gas (scContract ?scope)) + callee ?evm (scStack ?scope)"
    have b: "?b < unat (Gas (scContract scope))" using lt False c(2) st by simp
    have "?b < n" "?b < 18446744073709551616" using b n unat_lt_u64[of "Gas (scContract scope)"] by simp_all
    then have "case r of
        OutOfFuel \<Rightarrow> False
      | Panic \<Rightarrow> True
      | Ok ((ret, err), pc', evm', scope'') \<Rightarrow>
          stays R ?evm evm' \<and> unat (Gas (scContract scope'')) \<le> ?b \<and>
          same_size (scMemory ?scope) (scMemory scope'')"
      using c(1) cs ex unfolding exec_ok_def Let_def by blast
    then show ?thesis
      using stay b inv by (fastforce split: res.splits intro: mem_inv_same_size)
  qed
qed

lemma step_ok:
  assumes t: "table_ok E R table" and cs: "calls_ok R n cs" and inv: "mem_inv (scMemory scope)"
    and n: "unat (Gas (scContract scope)) \<le> n"
  shows "good_outcome R evm scope (step E table cs pc evm scope)"
proof -
  let ?op = "GetOp (scContract scope) pc"
  let ?e = "table ?op"
  have ok: "op_ok E R ?op ?e" using t by (simp add: table_ok_def)
  show ?thesis
  proof (cases "stack_len (scStack scope) < op_minStack ?e \<or> op_maxStack ?e < stack_len (scStack scope)")
    case True
    then show ?thesis by (auto simp: step_def Let_def good_outcome_def)
  next
    case False
    show ?thesis
    proof (cases "charge E ?e evm scope")
      case None
      then show ?thesis using False by (simp add: step_def Let_def good_outcome_def)
    next
      case (Some q)
      obtain r evm1 scope1 where ch: "charge E ?e evm scope = Some (r, evm1, scope1)"
        using Some by (cases q) simp
      note c = charge_ok[OF ok inv ch]
      show ?thesis
      proof (cases r)
        case (Inl f)
        then show ?thesis
          using False ch c stays_trans[OF _ stays_step_event(1)] stays_trans[OF _ stays_step_event(2)]
          by (cases f) (simp add: step_def Let_def good_outcome_def)
      next
        case (Inr f)
        obtain cost ms where r: "r = Inr (cost, ms)" using Inr by (cases f) simp
        let ?ev = "CaptureState pc ?op (Gas (scContract scope)) cost scope1 (returnData evm1) (depth evm1) None (world evm1)"
        let ?x = "execute ?e E cs pc (capture E ?ev evm1) (resize (extern E) ms scope1)"
        have chd: "charged ?e evm1 scope scope1 ms" "scStack scope1 = scStack scope" "stays R evm evm1"
          using c r by simp_all
        note x = execute_ok[OF chd(1) cs n chd(2), of pc ?ev ?x, OF refl scan_event.simps(5)]
        show ?thesis
        proof (cases ?x)
          case (Ok y)
          obtain res err pc2 evm2 scope2 where y: "y = ((res, err), pc2, evm2, scope2)"
            by (cases y) auto
          have "stays R evm evm2" using x Ok y stays_trans[OF chd(3)] by simp
          then show ?thesis
            using False ch r x Ok y stays_trans[OF _ stays_step_event(1)] stays_trans[OF _ stays_step_event(2)]
            by (auto simp: step_def Let_def good_outcome_def split: option.split)
        qed (use False ch r x in \<open>simp_all add: step_def Let_def good_outcome_def\<close>)
      qed
    qed
  qed
qed

end

end
