(* ===== verification/Frame_Calls.thy ===== *)
theory Frame_Calls
  imports Frame_Loop
begin

text \<open>
  The calls under the contract of a frame, given that the frames they run keep it: every one of
  the four calls and both creations return no more gas than they got and change the world only in
  the ways the caller's mode allows; a static call changes it only in the ways a read-only frame
  may. The knot is tied by induction on the fuel.
\<close>

section \<open>Results\<close>

definition res_ok :: "('a \<Rightarrow> bool) \<Rightarrow> 'a res \<Rightarrow> bool" where
  "res_ok P r \<longleftrightarrow> (case r of OutOfFuel \<Rightarrow> False | Panic \<Rightarrow> True | Ok x \<Rightarrow> P x)"

lemma res_ok_simps [simp]: "res_ok P (Ok x) = P x" "res_ok P Panic" "\<not> res_ok P OutOfFuel"
  by (simp_all add: res_ok_def)

lemma res_ok_bind:
  assumes "res_ok P r" "\<And>x. r = Ok x \<Longrightarrow> P x \<Longrightarrow> res_ok Q (k x)"
  shows "res_ok Q (bind_res r k)"
  using assms by (cases r) simp_all

lemma res_ok_lift: "(\<And>x. m = Some x \<Longrightarrow> P x) \<Longrightarrow> res_ok P (lift m)"
  by (cases m) simp_all

text \<open>\<open>stays\<close> with the mode and the logger's scopes as arguments: those a top-level call may open,
  and those left open.\<close>

definition keeps ::
  "(bool \<Rightarrow> 's \<Rightarrow> 's \<Rightarrow> bool) \<Rightarrow> bool \<Rightarrow> bool \<Rightarrow> log_scope list \<Rightarrow> 's EVM \<Rightarrow> 's EVM \<Rightarrow> bool" where
  "keeps R b outer k evm evm' \<longleftrightarrow>
     depth evm' = depth evm \<and> readOnly evm' = readOnly evm \<and> abort evm' = abort evm \<and>
     IsExecuteJP evm' = IsExecuteJP evm \<and> R b (world evm) (world evm') \<and>
     grows (callTree (tracer evm)) (callTree (tracer evm')) \<and> emits outer k evm evm'"

lemma stays_keeps: "stays R evm evm' \<longleftrightarrow> keeps R (readOnly evm) (depth evm = 0) [] evm evm'"
  by (simp add: stays_def keeps_def)

abbreviation call_post ::
  "(bool \<Rightarrow> 's \<Rightarrow> 's \<Rightarrow> bool) \<Rightarrow> bool \<Rightarrow> bool \<Rightarrow> log_scope list \<Rightarrow> u64 \<Rightarrow> 's EVM
     \<Rightarrow> (bytes \<times> u64 \<times> error option) \<times> 's EVM \<Rightarrow> bool" where
  "call_post R b outer k gas evm \<equiv>
     (\<lambda>((ret, left, err), evm'). left \<le> gas \<and> keeps R b outer k evm evm')"

abbreviation call_done ::
  "(bool \<Rightarrow> 's \<Rightarrow> 's \<Rightarrow> bool) \<Rightarrow> bool \<Rightarrow> u64 \<Rightarrow> 's EVM \<Rightarrow> (bytes \<times> u64 \<times> error option) \<times> 's EVM \<Rightarrow> bool" where
  "call_done R b gas evm \<equiv> call_post R b (depth evm = 0) [] gas evm"

lemma good_call_keeps: "good_call R gas evm r \<longleftrightarrow> res_ok (call_done R (readOnly evm) gas evm) r"
  by (auto simp: good_call_def res_ok_def stays_keeps split: res.split)

lemma good_create_keeps:
  "good_create R gas evm r \<longleftrightarrow>
     res_ok (\<lambda>((ret, a, left, err), evm'). left \<le> gas \<and> keeps R (readOnly evm) (depth evm = 0) [] evm evm') r"
  by (auto simp: good_create_def res_ok_def stays_keeps split: res.split)

text \<open>
  A failed call leaves no trace in the world: nothing happened yet, or the state goes back to the
  snapshot the call took. Its gas is gone unless it reverted or failed before it began.
\<close>

definition undone :: "'s env \<Rightarrow> (bool \<Rightarrow> 's \<Rightarrow> 's \<Rightarrow> bool) \<Rightarrow> bool \<Rightarrow> 's EVM \<Rightarrow> 's EVM \<Rightarrow> bool" where
  "undone E R b evm evm' \<longleftrightarrow>
     world evm' = world evm \<or>
     (\<exists>w. R b (snd (Snapshot (StateDB_of E) (world evm))) w \<and>
          world evm' = RevertToSnapshot (StateDB_of E) w (fst (Snapshot (StateDB_of E) (world evm))))"

definition clean_end ::
  "'s env \<Rightarrow> (bool \<Rightarrow> 's \<Rightarrow> 's \<Rightarrow> bool) \<Rightarrow> bool \<Rightarrow> 's EVM \<Rightarrow> (bytes \<times> u64 \<times> error option) \<times> 's EVM \<Rightarrow> bool" where
  "clean_end E R b evm x \<longleftrightarrow>
     (case x of ((ret, left, err), evm') \<Rightarrow>
        err = None \<or>
        undone E R b evm evm' \<and>
        (left = 0 \<or> err = Some ErrExecutionReverted \<or> err = Some ErrDepth \<or> err = Some ErrInsufficientBalance))"

text \<open>The scope of the logger a call opens.\<close>

definition opened :: "'s env \<Rightarrow> bool \<Rightarrow> log_scope list" where
  "opened E outer = (if HasTracer (ConfigOf E) then [if outer then TopScope else InnerScope] else [])"

definition good_loop :: "(bool \<Rightarrow> 's \<Rightarrow> 's \<Rightarrow> bool) \<Rightarrow> nat \<Rightarrow> 's loop_fn \<Rightarrow> bool" where
  "good_loop R n lp \<longleftrightarrow>
     (\<forall>pc evm scope. mem_inv (scMemory scope) \<longrightarrow> unat (Gas (scContract scope)) < n \<longrightarrow>
        res_ok (\<lambda>(r, evm', scope'). stays R evm evm' \<and> Gas (scContract scope') \<le> Gas (scContract scope))
          (lp pc evm scope))"

definition good_run :: "(bool \<Rightarrow> 's \<Rightarrow> 's \<Rightarrow> bool) \<Rightarrow> nat \<Rightarrow> 's run_fn \<Rightarrow> bool" where
  "good_run R n run \<longleftrightarrow>
     (\<forall>c input ro evm. unat (Gas c) < n \<longrightarrow>
        res_ok (\<lambda>(r, c', evm'). keeps R (ro \<or> readOnly evm) False [] evm evm' \<and> Gas c' \<le> Gas c)
          (run c input ro evm))"

context state_laws
begin

lemma keeps_refl [simp, intro]: "keeps R b outer [] evm evm"
  by (simp add: keeps_def R_refl)

lemma keeps_join:
  assumes "keeps R b o1 k1 evm evm'" "keeps R b o2 k2 evm' evm''" "emits outer k evm evm''"
  shows "keeps R b outer k evm evm''"
proof -
  have "R b (world evm) (world evm'')"
    using assms R_trans[of b "world evm" "world evm'"] by (simp add: keeps_def)
  moreover have "grows (callTree (tracer evm)) (callTree (tracer evm''))"
    using assms by (auto simp: keeps_def intro: grows_trans)
  ultimately show ?thesis using assms by (simp add: keeps_def)
qed

lemma keeps_trans:
  assumes "keeps R b outer [] evm evm'" "keeps R b outer k evm' evm''"
  shows "keeps R b outer k evm evm''"
  by (rule keeps_join[OF assms]) (use assms emits_then in \<open>auto simp: keeps_def\<close>)

lemma keeps_inside:
  assumes "keeps R b outer k evm evm'" "keeps R b False [] evm' evm''"
  shows "keeps R b outer k evm evm''"
  by (rule keeps_join[OF assms]) (use assms emits_inside in \<open>auto simp: keeps_def\<close>)

lemma keeps_outer: "keeps R b False k evm evm' \<Longrightarrow> keeps R b outer k evm evm'"
  by (auto simp: keeps_def intro: emits_top)

lemma R_weaken': "R True w w' \<Longrightarrow> R b w w'"
  using R_weaken by (cases b) simp_all

lemma keeps_weaken: "keeps R True outer k evm evm' \<Longrightarrow> keeps R b outer k evm evm'"
  by (simp add: keeps_def R_weaken')

lemma keeps_world: "R b (world evm) w \<Longrightarrow> keeps R b outer [] evm (evm\<lparr>world := w\<rparr>)"
  by (simp add: keeps_def)

lemma keeps_capture:
  assumes "keeps R b outer k evm evm'" "emits outer k' evm (capture E ev evm')"
  shows "keeps R b outer k' evm (capture E ev evm')"
  using assms by (simp add: keeps_def capture_def)

lemma keeps_open:
  assumes "keeps R b outer [] evm evm'"
  shows "keeps R b outer (opened E False) evm (capture E (CaptureEnter op f t i g v) evm')"
proof -
  have "emits outer [] evm evm'" using assms by (simp add: keeps_def)
  then have "emits outer (opened E False) evm (capture E (CaptureEnter op f t i g v) evm')"
    by (rule emits_then) (simp add: opened_def emits_def capture_def)
  then show ?thesis by (rule keeps_capture[OF assms])
qed

lemma keeps_close:
  assumes "keeps R b outer (opened E False) evm evm'"
  shows "keeps R b outer [] evm (capture E (CaptureExit out used err) evm')"
proof -
  have "emits outer (opened E False) evm evm'" using assms by (simp add: keeps_def)
  then have "emits outer [] evm (capture E (CaptureExit out used err) evm')"
    by (auto simp: opened_def emits_def capture_def scan_append)
  then show ?thesis by (rule keeps_capture[OF assms])
qed

lemma keeps_enter:
  assumes "keeps R b (depth evm = 0) [] evm evm'"
  shows "keeps R b (depth evm = 0) (opened E (depth evm = 0)) evm (capture_enter E typ cr f t i g v evm')"
proof (cases "depth evm = 0")
  case True
  have "emits True [] evm evm'" using assms True by (simp add: keeps_def)
  then have "emits True (opened E True) evm (capture E (CaptureStart f t cr i g v (world evm')) evm')"
    by (rule emits_then) (simp add: opened_def emits_def capture_def)
  then show ?thesis using keeps_capture[OF assms] True assms by (simp add: capture_enter_def keeps_def)
next
  case False
  then show ?thesis using keeps_open[OF assms] assms by (simp add: capture_enter_def keeps_def)
qed

lemma keeps_leave:
  assumes "keeps R b (depth evm = 0) (opened E (depth evm = 0)) evm evm'"
  shows "keeps R b (depth evm = 0) [] evm (capture_leave E ret used err evm')"
proof (cases "depth evm = 0")
  case True
  have "emits True (opened E True) evm evm'" using assms True by (simp add: keeps_def)
  then have "emits True [] evm (capture E (CaptureEnd ret used err) evm')"
    by (auto simp: opened_def emits_def capture_def scan_append)
  then show ?thesis using keeps_capture[OF assms] True assms by (simp add: capture_leave_def keeps_def)
next
  case False
  then show ?thesis using keeps_close[of b False evm evm'] assms by (simp add: capture_leave_def keeps_def)
qed

lemma keeps_new_contract [simp]: "new_contract evm callr obj v g = (c, evm') \<Longrightarrow> keeps R b outer [] evm evm'"
  by (auto simp: new_contract_def keeps_def R_refl split: prod.splits)

lemma run_frame_ok:
  assumes "good_loop R n lp"
  shows "good_run R n (run_frame lp)"
  unfolding good_run_def
proof (intro allI impI)
  fix c :: Contract and input ro and evm :: "'s EVM" assume n: "unat (Gas c) < n"
  define set_ro where "set_ro = (ro \<and> \<not> readOnly evm)"
  define evm1 where "evm1 = (if set_ro then evm\<lparr>depth := depth evm + 1, readOnly := True\<rparr>
    else evm\<lparr>depth := depth evm + 1\<rparr>)\<lparr>returnData := []\<rparr>"
  have eq: "run_frame lp c input ro evm =
      (if Code c = [] then Ok (([], None), c, leave_frame set_ro evm1)
       else bind_res (lp 0 evm1 \<lparr>scMemory = NewMemory, scStack = newstack, scContract = c\<lparr>Input := input\<rparr>\<rparr>)
              (\<lambda>(r, evm, scope). Ok (r, scContract scope, leave_frame set_ro evm)))"
    by (simp add: run_frame_def Let_def set_ro_def evm1_def)
  have leave: "keeps R (ro \<or> readOnly evm) False [] evm (leave_frame set_ro evm2)" if "stays R evm1 evm2" for evm2
    using that by (auto simp: stays_def keeps_def leave_frame_def evm1_def set_ro_def Let_def)
  show "res_ok (\<lambda>(r, c', evm'). keeps R (ro \<or> readOnly evm) False [] evm evm' \<and> Gas c' \<le> Gas c)
      (run_frame lp c input ro evm)"
  proof (cases "Code c = []")
    case True
    then show ?thesis using leave[of evm1] by (simp add: eq)
  next
    case False
    let ?scope = "\<lparr>scMemory = NewMemory, scStack = newstack, scContract = c\<lparr>Input := input\<rparr>\<rparr>"
    have "res_ok (\<lambda>(r, evm', scope'). stays R evm1 evm' \<and> Gas (scContract scope') \<le> Gas (scContract ?scope))
        (lp 0 evm1 ?scope)"
      using assms[unfolded good_loop_def, rule_format, of ?scope evm1 0] n mem_inv_NewMemory by simp
    then show ?thesis unfolding eq using False leave by (auto intro!: res_ok_bind)
  qed
qed

end

section \<open>Settling\<close>

lemma RunPrecompiledContract_gas:
  "RunPrecompiledContract X C A p input gas h = Some ((ret, left, err), h') \<Longrightarrow> left \<le> gas"
  by (auto simp: RunPrecompiledContract_def bind_eq_Some word_le_unat unat_sub_u64 not_less split: if_splits)

lemma TransferWithRecord_shape:
  "TransferWithRecord gb tr t db a b x = Some (t', db') \<Longrightarrow> callTree t' = callTree t \<and> db' = tr db a b x"
  by (auto simp: TransferWithRecord_def Let_def bind_eq_Some)

context state_laws
begin

lemma run_precompile_ok: "res_ok (call_post R b False [] gas evm) (run_precompile E p input gas evm)"
  unfolding run_precompile_def
  by (rule res_ok_lift) (auto simp: bind_eq_Some keeps_def R_refl dest: RunPrecompiledContract_gas)

lemma run_code_ok:
  assumes "good_run R n run" "unat (Gas c) < n" "Gas c = gas"
  shows "res_ok (call_post R (ro \<or> readOnly evm) False [] gas evm) (run_code run c input ro evm)"
proof -
  have "res_ok (\<lambda>(r, c', evm'). keeps R (ro \<or> readOnly evm) False [] evm evm' \<and> Gas c' \<le> Gas c) (run c input ro evm)"
    using assms unfolding good_run_def by blast
  then show ?thesis unfolding run_code_def by (rule res_ok_bind) (auto simp: assms(3))
qed

lemma call_inside:
  assumes "keeps R b outer k evm evm'" "res_ok (call_post R b False [] gas evm') r"
  shows "res_ok (call_post R b outer k gas evm) r"
  using assms(2) keeps_inside[OF assms(1)] by (auto simp: res_ok_def split: res.splits)

text \<open>The state before the snapshot is related to the state the call leaves.\<close>

lemma settle_ok:
  assumes "take_snapshot E evm = (i, evm1)" "call_post R b outer k gas evm1 r"
  shows "call_post R b outer k gas evm (settle E i r)"
proof -
  obtain ret left err evm2 where r: "r = ((ret, left, err), evm2)" by (cases r) auto
  have w: "i = fst (Snapshot (StateDB_of E) (world evm))"
      "evm1 = evm\<lparr>world := snd (Snapshot (StateDB_of E) (world evm))\<rparr>"
    using assms(1) by (auto simp: take_snapshot_def split: prod.splits)
  have "keeps R b outer [] evm evm1" unfolding w(2) by (rule keeps_world) (rule R_snapshot)
  then have "keeps R b outer k evm evm2" using assms(2) r keeps_trans by auto
  moreover have "keeps R b outer k evm (evm2\<lparr>world := RevertToSnapshot (StateDB_of E) (world evm2) i\<rparr>)"
    using assms(2) r w R_revert[of b "world evm" "world evm2"] by (simp add: keeps_def)
  ultimately show ?thesis using assms(2) r by (simp add: settle_def)
qed

lemma settle_clean:
  assumes "take_snapshot E evm = (i, evm1)" "call_post R b outer k gas evm1 r"
  shows "clean_end E R b evm (settle E i r)"
  using assms
  by (auto simp: take_snapshot_def settle_def clean_end_def undone_def keeps_def split: prod.splits)

lemma undone_capture [simp]: "undone E R b evm (capture E ev evm') = undone E R b evm evm'"
  by (simp add: undone_def capture_def)

lemma world_leave [simp]: "world (capture_leave E ret used err evm') = world evm'"
  by (simp add: capture_leave_def capture_def)

lemma undone_leave [simp]: "undone E R b evm (capture_leave E ret used err evm') = undone E R b evm evm'"
  by (simp add: capture_leave_def)

lemma keeps_snapshot: "take_snapshot E evm = (i, evm1) \<Longrightarrow> keeps R b outer [] evm evm1"
  using R_snapshot[of b "world evm"] by (auto simp: take_snapshot_def keeps_def split: prod.splits)

lemma plain_call_ok:
  assumes run: "good_run R n run" "unat gas < n"
    and snap: "take_snapshot E evm = (i, evm1)" and pre: "keeps R (ro \<or> readOnly evm) False [] evm1 evm2"
    and mk: "\<And>evm3 c evm4. mk evm3 = Some (c, evm4) \<Longrightarrow> Gas c = gas \<and> keeps R (ro \<or> readOnly evm) False [] evm3 evm4"
  shows "res_ok (\<lambda>x. call_done R (ro \<or> readOnly evm) gas evm x \<and> clean_end E R (ro \<or> readOnly evm) evm x)
    (plain_call run E typ callr addr input gas shown ro i mk evm2)"
proof -
  let ?b = "ro \<or> readOnly evm" and ?evm3 = "capture E (CaptureEnter typ (Ref_Address callr) addr input gas shown) evm2"
  let ?k = "opened E False"
  have pre3: "keeps R ?b False ?k evm1 ?evm3" by (rule keeps_open[OF pre])
  have ro1: "readOnly evm1 = readOnly evm" using keeps_snapshot[OF snap] by (simp add: keeps_def)
  have "res_ok (call_post R ?b False ?k gas evm1)
      (case precompile E addr of
         Some p \<Rightarrow> run_precompile E p input gas ?evm3
       | None \<Rightarrow> bind_res (lift (mk ?evm3)) (\<lambda>(c, evm). run_code run (with_code E evm addr c) input ro evm))"
  proof (cases "precompile E addr")
    case (Some p)
    then show ?thesis using call_inside[OF pre3 run_precompile_ok] by simp
  next
    case None
    have "res_ok (call_post R ?b False ?k gas evm1) (run_code run (with_code E evm4 addr c) input ro evm4)"
      if "mk ?evm3 = Some (c, evm4)" for c evm4
    proof -
      have g: "Gas (with_code E evm4 addr c) = gas" and k: "keeps R ?b False ?k evm1 evm4"
        using mk[OF that] keeps_inside[OF pre3] by (auto simp: with_code_def SetCallCode_def)
      have "readOnly evm4 = readOnly evm" using k ro1 by (simp add: keeps_def)
      then have "res_ok (call_post R ?b False [] gas evm4) (run_code run (with_code E evm4 addr c) input ro evm4)"
        using run_code_ok[OF run(1) _ g, of ro evm4 input] run(2) g by simp
      then show ?thesis by (rule call_inside[OF k])
    qed
    then show ?thesis
      using None by (simp, intro res_ok_bind[of "\<lambda>(c, evm4). mk ?evm3 = Some (c, evm4)"] res_ok_lift) auto
  qed
  then show ?thesis
    unfolding plain_call_def Let_def
  proof (rule res_ok_bind)
    fix x assume x: "call_post R ?b False ?k gas evm1 x"
    show "res_ok (\<lambda>x. call_done R ?b gas evm x \<and> clean_end E R ?b evm x)
        (case settle E i x of (r, evm) \<Rightarrow>
           Ok (r, capture E (CaptureExit (fst r) (gas - fst (snd r)) (snd (snd r))) evm))"
      using settle_ok[OF snap x] settle_clean[OF snap x]
      by (auto simp: clean_end_def intro: keeps_outer[OF keeps_close])
  qed
qed

lemma new_contract_Gas: "new_contract evm callr obj v gas = (c, evm') \<Longrightarrow> Gas c = gas"
  by (auto simp: new_contract_def NewContract_def Let_def split: prod.splits ContractRef.splits)

lemma AsDelegate_Gas: "AsDelegate c = Some c' \<Longrightarrow> Gas c' = Gas c"
  by (auto simp: AsDelegate_def split: ContractRef.splits)

lemmas new_contract_ok = new_contract_Gas keeps_new_contract

lemma EVM_CallCode_clean:
  assumes "good_run R n run" "unat gas < n"
  shows "res_ok (\<lambda>x. call_done R (readOnly evm) gas evm x \<and> clean_end E R (readOnly evm) evm x)
    (EVM_CallCode run E callr addr input gas v evm)"
proof (cases "too_deep E evm \<or> \<not> CanTransfer (Context E) (world evm) (Ref_Address callr) v")
  case False
  obtain i evm1 where s: "take_snapshot E evm = (i, evm1)" by fastforce
  show ?thesis
    using plain_call_ok[OF assms s, of False evm1 "\<lambda>evm. Some (new_contract evm callr (AccountRef (Ref_Address callr)) v gas)"]
      False s
    by (simp add: EVM_CallCode_def Let_def new_contract_ok)
qed (auto simp: EVM_CallCode_def clean_end_def undone_def)

lemma EVM_DelegateCall_clean:
  assumes "good_run R n run" "unat gas < n"
  shows "res_ok (\<lambda>x. call_done R (readOnly evm) gas evm x \<and> clean_end E R (readOnly evm) evm x)
    (EVM_DelegateCall run E callr addr input gas evm)"
proof (cases "too_deep E evm")
  case False
  obtain i evm1 where s: "take_snapshot E evm = (i, evm1)" by fastforce
  let ?mk = "\<lambda>evm. let (c, evm) = new_contract evm callr (AccountRef (Ref_Address callr)) 0 gas
                         in map_option (\<lambda>c. (c, evm)) (AsDelegate c)"
  have mk: "?mk evm3 = Some (c, evm4) \<Longrightarrow> Gas c = gas \<and> keeps R b False [] evm3 evm4" for b evm3 c evm4
    by (auto simp: Let_def dest: AsDelegate_Gas new_contract_ok split: prod.splits)
  show ?thesis
    using plain_call_ok[OF assms s, of False evm1 ?mk, OF _ mk] False s
    by (cases callr) (simp_all add: EVM_DelegateCall_def Let_def)
qed (auto simp: EVM_DelegateCall_def clean_end_def undone_def)

text \<open>A static call keeps the world in the ways of a read-only frame.\<close>

lemma EVM_StaticCall_clean:
  assumes "good_run R n run" "unat gas < n"
  shows "res_ok (\<lambda>x. call_done R True gas evm x \<and> clean_end E R True evm x)
    (EVM_StaticCall run E callr addr input gas evm)"
proof (cases "too_deep E evm")
  case False
  obtain i evm1 where s: "take_snapshot E evm = (i, evm1)" by fastforce
  let ?evm2 = "evm1\<lparr>world := AddBalance (StateDB_of E) (world evm1) addr 0\<rparr>"
  have "keeps R True False [] evm1 ?evm2" by (rule keeps_world) (rule R_touch)
  then show ?thesis
    using plain_call_ok[OF assms s, of True ?evm2 "\<lambda>evm. Some (new_contract evm callr (AccountRef addr) 0 gas)"]
      False s
    by (simp add: EVM_StaticCall_def Let_def new_contract_ok)
qed (auto simp: EVM_StaticCall_def clean_end_def undone_def)

lemma res_ok_mono: "res_ok P r \<Longrightarrow> (\<And>x. P x \<Longrightarrow> Q x) \<Longrightarrow> res_ok Q r"
  by (cases r) simp_all

lemma plain_calls_ok:
  assumes "good_run R n run" "unat gas < n"
  shows "good_call R gas evm (EVM_CallCode run E callr addr input gas v evm)"
    "good_call R gas evm (EVM_DelegateCall run E callr addr input gas evm)"
    "good_call R gas evm (EVM_StaticCall run E callr addr input gas evm)"
  unfolding good_call_keeps
  by (rule res_ok_mono[OF EVM_CallCode_clean[OF assms]] res_ok_mono[OF EVM_DelegateCall_clean[OF assms]]
      res_ok_mono[OF EVM_StaticCall_clean[OF assms]], auto intro: keeps_weaken)+

end

section \<open>Calls with aspects\<close>

text \<open>No aspect before a call refuses it. A refused call returns without going back to the snapshot.\<close>

definition willing :: "'s env \<Rightarrow> 's EVM \<Rightarrow> bool" where
  "willing E evm \<longleftrightarrow> (IsExecuteJP evm \<longrightarrow> (\<forall>c w h. snd (snd (fst (PreContractCall E c w h))) = None))"

lemma willing_keeps: "keeps R b outer k evm evm' \<Longrightarrow> willing E evm' = willing E evm"
  by (simp add: willing_def keeps_def)

text \<open>The record of a call in the call tree.\<close>

definition recorded :: "'s EVM \<Rightarrow> address \<Rightarrow> address option \<Rightarrow> bytes \<Rightarrow> int \<Rightarrow> u64
    \<Rightarrow> u64 \<Rightarrow> bytes \<Rightarrow> error option \<Rightarrow> 's EVM \<Rightarrow> bool" where
  "recorded evm from' to' input v gas left ret err evm' \<longleftrightarrow>
     (\<exists>inner. callTree (tracer evm') =
        run_trace (callTree (tracer evm))
          (CallTrace from' to' input (word_of_int v) (SetUint64 gas) inner left ret err))"

lemma recordedI:
  assumes "grows (ct_add (callTree (tracer evm)) a to' input (word_of_int v) (SetUint64 gas)) (callTree (tracer evm2))"
  shows "recorded evm a to' input v gas left ret err (evm2\<lparr>tracer := ExitCall (tracer evm2) left ret err\<rparr>)"
proof -
  obtain inner where "callTree (tracer evm2) =
      run_traces (ct_add (callTree (tracer evm)) a to' input (word_of_int v) (SetUint64 gas)) inner"
    using assms by (auto simp: grows_def)
  then show ?thesis unfolding recorded_def by (intro exI[of _ inner]) (simp add: ExitCall_def)
qed

lemma recorded_grows:
  "recorded evm a to' input v gas left ret err evm' \<Longrightarrow> grows (callTree (tracer evm)) (callTree (tracer evm'))"
  unfolding recorded_def grows_def by (metis run_trace.simps run_traces.simps)

context metered
begin

lemma pre_aspect_ok:
  "pre_aspect E callr addr input gas v idx evm = ((ret, g, err), evm') \<Longrightarrow> g \<le> gas \<and> keeps R b False [] evm evm'"
  using pre_gas[of "aspect_call E evm callr addr input gas v idx [] []" "world evm" "aspectCtx evm"]
    R_pre[of b "world evm" "aspect_call E evm callr addr input gas v idx [] []" "aspectCtx evm"]
  by (auto simp: pre_aspect_def aspect_call_def keeps_def R_refl split: if_splits prod.splits)

lemma post_aspect_ok:
  assumes "call_post R b False [] gas evm r"
  shows "call_post R b False [] gas evm (post_aspect E callr addr input v idx r)"
proof -
  obtain ret left err evm1 where r: "r = ((ret, left, err), evm1)" by (cases r) auto
  let ?c = "aspect_call E evm1 callr addr input left v idx ret (case err of None \<Rightarrow> [] | Some e \<Rightarrow> error_text e)"
  obtain pret pgas perr w h where p: "PostContractCall E ?c (world evm1) (aspectCtx evm1) = ((pret, pgas, perr), w, h)"
    by (metis prod_cases3 surj_pair)
  have "pgas \<le> gas"
    using post_gas[of ?c "world evm1" "aspectCtx evm1"] p assms r
    by (auto simp: aspect_call_def intro: order_trans)
  moreover have "keeps R b False [] evm1 (evm1\<lparr>world := w, aspectCtx := h\<rparr>)"
    using R_post[of b "world evm1" ?c "aspectCtx evm1"] p by (simp add: keeps_def)
  then have "keeps R b False [] evm (evm1\<lparr>world := w, aspectCtx := h\<rparr>)" using assms r keeps_trans by auto
  ultimately show ?thesis
    using assms r p by (auto simp: post_aspect_def Let_def split: option.split)
qed

abbreviation code_post ::
  "u64 \<Rightarrow> 's EVM \<Rightarrow> bool \<times> (bytes \<times> u64 \<times> error option) \<times> 's EVM \<Rightarrow> bool" where
  "code_post gas evm \<equiv>
     (\<lambda>(early, r). call_post R (readOnly evm) False [] gas evm r \<and> (willing E evm \<longrightarrow> \<not> early))"

lemma willing_pre:
  "willing E evm \<Longrightarrow> pre_aspect E callr addr input gas v idx evm = ((ret, g, err), evm') \<Longrightarrow> err = None"
  by (auto simp: willing_def pre_aspect_def split_beta split: if_splits)

lemma call_code_ok:
  assumes run: "good_run R n run" and n: "unat gas < n"
  shows "res_ok (code_post gas evm) (call_code run E callr addr input gas v evm)"
proof -
  define idx where "idx = CurrentCallIndex (callTree (tracer evm))"
  obtain pret g perr evm1 where p: "pre_aspect E callr addr input gas v idx evm = ((pret, g, perr), evm1)"
    by (metis prod_cases3 surj_pair)
  have g: "g \<le> gas" and k: "keeps R (readOnly evm) False [] evm evm1" using pre_aspect_ok[OF p] by blast+
  obtain c evm2 where nc: "new_contract evm1 callr (AccountRef addr) v g = (c, evm2)" by fastforce
  have k2: "keeps R (readOnly evm) False [] evm evm2" using keeps_trans[OF k keeps_new_contract[OF nc]] .
  define c2 where "c2 = SetCallCode c (Some addr) (GetCodeHash (StateDB_of E) (world evm2) addr) (GetCode (StateDB_of E) (world evm) addr)"
  have gc: "Gas c2 = g" using new_contract_Gas[OF nc] by (simp add: c2_def SetCallCode_def)
  have "readOnly evm2 = readOnly evm" using k2 by (simp add: keeps_def)
  moreover have "unat g < n" using g n by (simp add: word_le_unat)
  ultimately have "res_ok (call_post R (readOnly evm) False [] g evm2) (run_code run c2 input False evm2)"
    using run_code_ok[OF run _ gc, of False evm2 input] gc by simp
  then have "res_ok (code_post gas evm) (bind_res (run_code run c2 input False evm2) (\<lambda>r.
      let (r, evm) = post_aspect E callr addr input v idx r in Ok (False, r, evm)))"
  proof (rule res_ok_bind)
    fix r assume "call_post R (readOnly evm) False [] g evm2 r"
    then have "call_post R (readOnly evm) False [] gas evm r" using g keeps_trans[OF k2] by auto
    from post_aspect_ok[OF this, of callr addr input v idx]
    show "res_ok (code_post gas evm) (let (r, evm) = post_aspect E callr addr input v idx r in Ok (False, r, evm))"
      by (auto simp: Let_def)
  qed
  then show ?thesis
    using p nc g k willing_pre[of evm callr addr input gas v idx] by (auto simp: call_code_def Let_def idx_def c2_def)
qed

lemma call_body_ok:
  assumes run: "good_run R n run" and n: "unat gas < n"
    and snap: "take_snapshot E evm = (i, evm1)" and pre: "keeps R (readOnly evm) False [] evm1 evm2"
  shows "res_ok (\<lambda>x. call_done R (readOnly evm) gas evm x \<and> (willing E evm \<longrightarrow> clean_end E R (readOnly evm) evm x))
    (call_body run E callr addr input gas v i evm2)"
proof -
  let ?b = "readOnly evm" and ?evm3 = "capture_enter E OP_CALL False (Ref_Address callr) addr input gas v evm2"
  let ?o = "depth evm = 0" let ?k = "opened E ?o"
  note sn = keeps_snapshot[OF snap, of ?b ?o]
  have d: "depth evm1 = depth evm" using sn by (simp add: keeps_def)
  have pre3: "keeps R ?b ?o ?k evm1 ?evm3"
    using keeps_enter[OF keeps_outer[OF pre]] unfolding d .
  have ro: "readOnly ?evm3 = ?b" using pre3 sn by (simp add: keeps_def)
  have will: "willing E ?evm3 = willing E evm"
    using willing_keeps[OF pre3] willing_keeps[OF sn] by simp
  have "res_ok (\<lambda>(early, r). call_post R ?b False [] gas ?evm3 r \<and> (willing E evm \<longrightarrow> \<not> early))
      (case precompile E addr of
         Some p \<Rightarrow>
           bind_res (run_precompile E
              (CloneWithCtx p \<lparr>ec_from = Ref_Address callr, ec_to = addr, ec_gas = gas, ec_value = v\<rparr>)
              input gas ?evm3) (\<lambda>(r, evm). Ok (False, r, evm))
       | None \<Rightarrow> call_code run E callr addr input gas v ?evm3)"
  proof (cases "precompile E addr")
    case (Some p)
    then show ?thesis by (simp, intro res_ok_bind[OF run_precompile_ok]) auto
  next
    case None
    then show ?thesis using call_code_ok[OF run n, of ?evm3 callr addr input v] ro will by simp
  qed
  then show ?thesis
    unfolding call_body_def Let_def
  proof (rule res_ok_bind)
    fix x :: "bool \<times> (bytes \<times> u64 \<times> error option) \<times> 's EVM"
    assume x: "case x of (early, r) \<Rightarrow> call_post R ?b False [] gas ?evm3 r \<and> (willing E evm \<longrightarrow> \<not> early)"
    obtain early r evm4 where [simp]: "x = (early, r, evm4)" by (cases x) auto
    have c1: "call_post R ?b ?o ?k gas evm1 (r, evm4)" using x keeps_inside[OF pre3] by auto
    have c0: "call_post R ?b ?o ?k gas evm (r, evm4)" using c1 keeps_trans[OF sn] by auto
    show "res_ok (\<lambda>x. call_done R ?b gas evm x \<and> (willing E evm \<longrightarrow> clean_end E R ?b evm x))
        (case x of (early, r, evm) \<Rightarrow>
           if early then Ok (r, capture_leave E (fst r) 0 (snd (snd r)) evm)
           else case settle E i (r, evm) of
             (r, evm) \<Rightarrow> Ok (r, capture_leave E (fst r) (gas - fst (snd r)) (snd (snd r)) evm))"
      using x c0 settle_ok[OF snap c1] settle_clean[OF snap c1]
      by (auto simp: clean_end_def intro: keeps_leave)
  qed
qed

lemma transfer_ok:
  assumes "TransferWithRecord (GetBalance db) (Transfer (Context E)) (tracer evm) w a b v = Some (t, w')"
    and "R ro (world evm) w" "ro \<longrightarrow> v = 0"
  shows "keeps R ro outer [] evm (evm\<lparr>tracer := t, world := w'\<rparr>)"
proof -
  have "R ro w w'"
    using TransferWithRecord_shape[OF assms(1)] assms(3) R_no_transfer R_transfer by (cases ro) auto
  then show ?thesis
    using assms(2) TransferWithRecord_shape[OF assms(1)] R_trans by (auto simp: keeps_def)
qed

lemma call_guarded_ok:
  assumes run: "good_run R n run" and n: "unat gas < n" and v: "readOnly evm \<longrightarrow> v = 0"
  shows "res_ok (\<lambda>x. call_done R (readOnly evm) gas evm x \<and> (willing E evm \<longrightarrow> clean_end E R (readOnly evm) evm x))
    (call_guarded run E callr addr input gas v evm)"
proof (cases "too_deep E evm \<or> v \<noteq> 0 \<and> \<not> CanTransfer (Context E) (world evm) (Ref_Address callr) v")
  case True
  then show ?thesis by (auto simp: call_guarded_def Let_def clean_end_def undone_def)
next
  case False
  obtain i evm1 where s: "take_snapshot E evm = (i, evm1)" by fastforce
  let ?db = "StateDB_of E" and ?b = "readOnly evm"
  let ?w = "if \<not> Exist ?db (world evm1) addr then CreateAccount ?db (world evm1) addr else world evm1"
  let ?quiet = "\<not> Exist ?db (world evm1) addr \<and> precompile E addr = None \<and> IsEIP158 (chainRules E) \<and> v = 0"
  have k: "keeps R ?b (depth evm = 0) [] evm evm1" by (rule keeps_snapshot[OF s])
  have w: "R ?b (world evm1) ?w" using R_refl R_new_account by simp
  show ?thesis
  proof (cases ?quiet)
    case True
    have "keeps R ?b (depth evm = 0) [] evm (capture_leave E [] 0 None (capture_enter E OP_CALL False (Ref_Address callr) addr input gas v evm1))"
      by (rule keeps_leave[OF keeps_enter[OF k]])
    then show ?thesis using False True s by (auto simp: call_guarded_def Let_def clean_end_def)
  next
    case nq: False
    have "res_ok (\<lambda>x. call_done R ?b gas evm x \<and> (willing E evm \<longrightarrow> clean_end E R ?b evm x)) (bind_res
        (lift (TransferWithRecord (GetBalance ?db) (Transfer (Context E)) (tracer evm1) ?w (Ref_Address callr) addr v))
        (\<lambda>(t, w). call_body run E callr addr input gas v i (evm1\<lparr>tracer := t, world := w\<rparr>)))"
      (is "res_ok _ (bind_res (lift ?t) _)")
      using call_body_ok[OF run n s transfer_ok[OF _ w v]]
      by (intro res_ok_bind[of "\<lambda>(t, w). ?t = Some (t, w)"] res_ok_lift) auto
    moreover have "call_guarded run E callr addr input gas v evm = bind_res (lift ?t)
        (\<lambda>(t, w). call_body run E callr addr input gas v i (evm1\<lparr>tracer := t, world := w\<rparr>))"
      using False nq s by (auto simp: call_guarded_def Let_def)
    ultimately show ?thesis by simp
  qed
qed

lemma EVM_Call_clean:
  assumes run: "good_run R n run" and n: "unat gas < n" and v: "readOnly evm \<longrightarrow> v = 0"
  shows "res_ok (\<lambda>x. call_done R (readOnly evm) gas evm x \<and>
      (willing E evm \<longrightarrow> clean_end E R (readOnly evm) evm x) \<and>
      (case x of ((ret, left, err), evm') \<Rightarrow>
         recorded evm (Ref_Address callr) (Some addr) input v gas left ret err evm'))
    (EVM_Call run E callr addr input gas v evm)" (is "res_ok ?P _")
  unfolding EVM_Call_def
proof (intro res_ok_bind[OF res_ok_lift[of _ "\<lambda>x. MustFromBig v = Some x"]])
  fix x assume "MustFromBig v = Some x"
  then have x: "x = word_of_int v" by (auto simp: MustFromBig_def split: if_splits)
  let ?evm1 = "evm\<lparr>tracer := SaveCall (tracer evm) (Ref_Address callr) (Some addr) input x (SetUint64 gas)\<rparr>"
  have post: "?P ((ret, left, err), evm2\<lparr>tracer := ExitCall (tracer evm2) left ret err\<rparr>)"
    if "call_done R (readOnly evm) gas ?evm1 ((ret, left, err), evm2) \<and>
      (willing E ?evm1 \<longrightarrow> clean_end E R (readOnly evm) ?evm1 ((ret, left, err), evm2))" for ret left err evm2
  proof -
    let ?evm3 = "evm2\<lparr>tracer := ExitCall (tracer evm2) left ret err\<rparr>"
    have rec: "recorded evm (Ref_Address callr) (Some addr) input v gas left ret err ?evm3"
      using that x by (intro recordedI) (simp add: keeps_def SaveCall_def)
    then show ?thesis
      using that recorded_grows[OF rec] by (auto simp: keeps_def clean_end_def undone_def willing_def)
  qed
  have "res_ok (\<lambda>x. call_done R (readOnly evm) gas ?evm1 x \<and>
      (willing E ?evm1 \<longrightarrow> clean_end E R (readOnly evm) ?evm1 x)) (call_guarded run E callr addr input gas v ?evm1)"
    using call_guarded_ok[OF run n, of ?evm1 v] v by simp
  then show "res_ok ?P
      (let evm = ?evm1 in
       bind_res (call_guarded run E callr addr input gas v evm) (\<lambda>((ret, leftOverGas, err), evm).
         Ok ((ret, leftOverGas, err), evm\<lparr>tracer := ExitCall (tracer evm) leftOverGas ret err\<rparr>)))"
    unfolding Let_def by (rule res_ok_bind) (use post in auto)
qed simp

lemma EVM_Call_ok:
  assumes "good_run R n run" "unat gas < n" "readOnly evm \<longrightarrow> v = 0"
  shows "good_call R gas evm (EVM_Call run E callr addr input gas v evm)"
  unfolding good_call_keeps by (rule res_ok_mono[OF EVM_Call_clean[OF assms]]) simp

end

section \<open>Creation\<close>

abbreviation create_post ::
  "(bool \<Rightarrow> 's \<Rightarrow> 's \<Rightarrow> bool) \<Rightarrow> u64 \<Rightarrow> 's EVM \<Rightarrow> (bytes \<times> address \<times> u64 \<times> error option) \<times> 's EVM \<Rightarrow> bool" where
  "create_post R gas evm \<equiv> (\<lambda>((ret, a, left, err), evm'). left \<le> gas \<and> keeps R False (depth evm = 0) [] evm evm')"

text \<open>
  A creation counts the caller's nonce up and warms the new address before it takes its snapshot.
  When it fails later, the world goes back to that point; before Homestead the code of a creation
  that cannot pay for storing it is dropped without an undo.
\<close>

definition bumped :: "'s env \<Rightarrow> 's \<Rightarrow> address \<Rightarrow> address \<Rightarrow> 's" where
  "bumped E w from' addr =
     (let w = SetNonce (StateDB_of E) w from' (GetNonce (StateDB_of E) w from' + 1)
      in if IsBerlin (chainRules E) then AddAddressToAccessList (StateDB_of E) w addr else w)"

definition create_undone ::
  "'s env \<Rightarrow> (bool \<Rightarrow> 's \<Rightarrow> 's \<Rightarrow> bool) \<Rightarrow> 's EVM \<Rightarrow> 's EVM \<Rightarrow> error option \<Rightarrow> 's EVM \<Rightarrow> bool" where
  "create_undone E R evm evm2 err evm' \<longleftrightarrow>
     err = None \<or> err = Some ErrCodeStoreOutOfGas \<and> \<not> IsHomestead (chainRules E) \<or>
     world evm' = world evm \<or> undone E R False evm2 evm'"

context state_laws
begin

lemma store_code_ok:
  assumes "store_code E addr ret err c evm = (err', c', evm')"
  shows "Gas c' \<le> Gas c \<and> keeps R False False [] evm evm'"
  using assms R_code
  by (auto simp: store_code_def Let_def UseGas_def word_le_unat unat_sub_u64 not_less keeps_def R_refl
      split: if_splits)

lemma settle_create_ok:
  assumes "take_snapshot E evm = (i, evm1)" "keeps R False outer k evm1 evm2"
    and "settle_create E i err c evm2 = (c', evm3)"
  shows "Gas c' \<le> Gas c \<and> keeps R False outer k evm evm3 \<and> create_undone E R evm evm err evm3"
proof -
  have w: "i = fst (Snapshot (StateDB_of E) (world evm))"
      "evm1 = evm\<lparr>world := snd (Snapshot (StateDB_of E) (world evm))\<rparr>"
    using assms(1) by (auto simp: take_snapshot_def split: prod.splits)
  have "keeps R False outer k evm evm2" using keeps_trans[OF keeps_snapshot[OF assms(1)] assms(2)] .
  moreover have "keeps R False outer k evm (evm2\<lparr>world := RevertToSnapshot (StateDB_of E) (world evm2) i\<rparr>)"
    using assms(2) w R_revert[of False "world evm" "world evm2"] by (simp add: keeps_def)
  moreover have "undone E R False evm (evm2\<lparr>world := RevertToSnapshot (StateDB_of E) (world evm2) i\<rparr>)"
    using assms(2) w by (auto simp: undone_def keeps_def)
  ultimately show ?thesis
    using assms(3) by (auto simp: settle_create_def UseGas_def create_undone_def split: if_splits)
qed

lemma create_body_ok:
  assumes run: "good_run R n run" and n: "unat gas < n" and ro: "\<not> readOnly evm"
    and snap: "take_snapshot E evm = (i, evm1)" and pre: "keeps R False False [] evm1 evm2"
  shows "res_ok (\<lambda>x. create_post R gas evm x \<and> (case x of ((ret, a, left, err), evm') \<Rightarrow> create_undone E R evm evm err evm'))
    (create_body run E callr ch gas v addr typ i evm2)"
proof -
  obtain c evm3 where nc: "new_contract evm2 callr (AccountRef addr) v gas = (c, evm3)" by fastforce
  let ?c = "SetCodeOptionalHash c (Some addr) ch"
  let ?evm4 = "capture_enter E typ True (Ref_Address callr) addr (fst ch) gas v evm3"
  let ?o = "depth evm = 0" let ?k = "opened E ?o"
  note sn = keeps_snapshot[OF snap, of False ?o]
  have d: "depth evm1 = depth evm" using sn by (simp add: keeps_def)
  have k: "keeps R False ?o ?k evm1 ?evm4"
    using keeps_enter[OF keeps_outer[OF keeps_trans[OF pre keeps_new_contract[OF nc]]]] unfolding d .
  have g: "Gas ?c = gas" using new_contract_Gas[OF nc] by (simp add: SetCodeOptionalHash_def)
  have "\<not> readOnly ?evm4" using k sn ro by (simp add: keeps_def)
  then have "res_ok (\<lambda>(r, c', evm'). keeps R False False [] ?evm4 evm' \<and> Gas c' \<le> Gas ?c) (run ?c [] False ?evm4)"
    using run[unfolded good_run_def, rule_format, of ?c False ?evm4 "[]"] g n by simp
  then show ?thesis
    unfolding create_body_def Let_def nc prod.case
  proof (rule res_ok_bind)
    fix x :: "(bytes \<times> error option) \<times> Contract \<times> 's EVM"
    assume x: "case x of (r, c', evm') \<Rightarrow> keeps R False False [] ?evm4 evm' \<and> Gas c' \<le> Gas ?c"
    obtain ret err c5 evm5 where [simp]: "x = ((ret, err), c5, evm5)" by (cases x) auto
    obtain err6 c6 evm6 where s: "store_code E addr ret (check_code E ret err) c5 evm5 = (err6, c6, evm6)"
      by (metis prod_cases3)
    obtain c7 evm7 where t: "settle_create E i err6 c6 evm6 = (c7, evm7)" by fastforce
    have "keeps R False ?o ?k evm1 evm6" using x store_code_ok[OF s] keeps_inside[OF keeps_inside[OF k]] by auto
    then have "Gas c7 \<le> Gas c6 \<and> keeps R False ?o ?k evm evm7 \<and> create_undone E R evm evm err6 evm7"
      by (rule settle_create_ok[OF snap _ t])
    then show "res_ok (\<lambda>x. create_post R gas evm x \<and> (case x of ((ret, a, left, err), evm') \<Rightarrow> create_undone E R evm evm err evm'))
        (case x of (x, xa) \<Rightarrow> (case x of (ret, err) \<Rightarrow> \<lambda>(contract, evm).
           case store_code E addr ret (check_code E ret err) contract evm of (err, contract, evm) \<Rightarrow>
             case settle_create E i err contract evm of (contract, evm) \<Rightarrow>
               Ok ((ret, addr, Gas contract, err), capture_leave E ret (gas - Gas contract) err evm)) xa)"
      using x store_code_ok[OF s] s t g by (auto simp: create_undone_def intro: keeps_leave)
  qed
qed

end

context metered
begin

abbreviation created ::
  "u64 \<Rightarrow> 's EVM \<Rightarrow> address \<Rightarrow> address \<Rightarrow> (bytes \<times> address \<times> u64 \<times> error option) \<times> 's EVM \<Rightarrow> bool" where
  "created gas evm from' addr \<equiv> (\<lambda>x. create_post R gas evm x \<and>
     (case x of ((ret, a, left, err), evm') \<Rightarrow>
        create_undone E R evm (evm\<lparr>world := bumped E (world evm) from' addr\<rparr>) err evm'))"

lemma create_guarded_ok:
  assumes run: "good_run R n run" and n: "unat gas < n" and ro: "\<not> readOnly evm"
  shows "res_ok (created gas evm (Ref_Address callr) addr) (create_guarded run E callr ch gas v addr typ evm)"
proof -
  let ?db = "StateDB_of E" and ?from = "Ref_Address callr"
  let ?nonce = "GetNonce ?db (world evm) ?from"
  let ?w2 = "bumped E (world evm) ?from addr"
  let ?evm2 = "evm\<lparr>world := ?w2\<rparr>"
  let ?bad = "too_deep E evm \<or> \<not> CanTransfer (Context E) (world evm) ?from v \<or> ?nonce + 1 < ?nonce"
  have k2: "keeps R False outer [] evm ?evm2" for outer
    by (rule keeps_world) (simp add: bumped_def Let_def R_nonce R_trans[OF R_nonce R_address])
  obtain i evm3 where s: "take_snapshot E ?evm2 = (i, evm3)" by fastforce
  let ?w4 = "CreateAccount ?db (world evm3) addr"
  let ?w5 = "if IsEIP158 (chainRules E) then SetNonce ?db ?w4 addr 1 else ?w4"
  have w: "R False (world evm3) ?w5" by (simp add: R_create R_trans[OF R_create R_nonce])
  show ?thesis
  proof (cases "?bad \<or> collides E ?w2 addr")
    case True
    then show ?thesis
      using k2 by (auto simp: create_guarded_def Let_def bumped_def create_undone_def undone_def)
  next
    case False
    have "res_ok (created gas evm ?from addr) (bind_res
        (lift (TransferWithRecord (GetBalance ?db) (Transfer (Context E)) (tracer evm3) ?w5 ?from addr v))
        (\<lambda>(t, w). create_body run E callr ch gas v addr typ i (evm3\<lparr>tracer := t, world := w\<rparr>)))"
      (is "res_ok _ (bind_res (lift ?t) ?k)")
    proof (rule res_ok_bind[OF res_ok_lift[of _ "\<lambda>x. ?t = Some x"]])
      fix x assume "?t = Some x"
      then obtain t w' where t: "?t = Some (t, w')" and x: "x = (t, w')" by (cases x) auto
      have "res_ok (\<lambda>x. create_post R gas ?evm2 x \<and>
          (case x of ((ret, a, left, err), evm') \<Rightarrow> create_undone E R ?evm2 ?evm2 err evm'))
          (create_body run E callr ch gas v addr typ i (evm3\<lparr>tracer := t, world := w'\<rparr>))"
        by (rule create_body_ok[OF run n _ s transfer_ok[OF t w]]) (simp_all add: ro)
      then show "res_ok (created gas evm ?from addr) (?k x)"
        unfolding x prod.case
        by (rule res_ok_mono) (auto simp: create_undone_def undone_def intro: keeps_trans[OF k2])
    qed
    moreover have "create_guarded run E callr ch gas v addr typ evm = bind_res (lift ?t) ?k"
      using False s by (auto simp: create_guarded_def Let_def bumped_def)
    ultimately show ?thesis by simp
  qed
qed

lemma EVM_create_clean:
  assumes run: "good_run R n run" and n: "unat gas < n" and ro: "\<not> readOnly evm"
  shows "res_ok (\<lambda>x. created gas evm (Ref_Address callr) addr x \<and>
      (case x of ((ret, a, left, err), evm') \<Rightarrow>
         recorded evm (Ref_Address callr) None (fst ch) v gas left ret err evm'))
    (EVM_create run E callr ch gas v addr typ evm)" (is "res_ok ?P _")
  unfolding EVM_create_def Let_def
proof (intro res_ok_bind[OF res_ok_lift[of _ "\<lambda>x. MustFromBig v = Some x"]])
  fix x assume "MustFromBig v = Some x"
  then have x: "x = word_of_int v" by (auto simp: MustFromBig_def split: if_splits)
  let ?evm1 = "evm\<lparr>tracer := SaveCall (tracer evm) (Ref_Address callr) None (fst ch) x (SetUint64 gas)\<rparr>"
  have post: "?P ((ret, a, left, err), evm2\<lparr>tracer := ExitCall (tracer evm2) left ret err\<rparr>)"
    if "created gas ?evm1 (Ref_Address callr) addr ((ret, a, left, err), evm2)" for ret a left err evm2
  proof -
    let ?evm3 = "evm2\<lparr>tracer := ExitCall (tracer evm2) left ret err\<rparr>"
    have rec: "recorded evm (Ref_Address callr) None (fst ch) v gas left ret err ?evm3"
      using that x by (intro recordedI) (simp add: keeps_def SaveCall_def)
    then show ?thesis
      using that recorded_grows[OF rec] by (auto simp: keeps_def create_undone_def undone_def)
  qed
  have "res_ok (created gas ?evm1 (Ref_Address callr) addr) (create_guarded run E callr ch gas v addr typ ?evm1)"
    by (rule create_guarded_ok[OF run n]) (simp add: ro)
  then show "res_ok ?P
      (bind_res (create_guarded run E callr ch gas v addr typ ?evm1)
       (\<lambda>((ret, a, leftoverGas, err), evm).
          Ok ((ret, a, leftoverGas, err), evm\<lparr>tracer := ExitCall (tracer evm) leftoverGas ret err\<rparr>)))"
    by (rule res_ok_bind) (use post in auto)
qed simp

lemma EVM_create_ok:
  assumes "good_run R n run" "unat gas < n" "\<not> readOnly evm"
  shows "good_create R gas evm (EVM_create run E callr ch gas v addr typ evm)"
  unfolding good_create_keeps by (rule res_ok_mono[OF EVM_create_clean[OF assms]]) (use assms(3) in auto)

end

section \<open>Tying the knot\<close>

context metered
begin

lemma mk_calls_ok: "good_run R n run \<Longrightarrow> calls_ok R n (mk_calls E run)"
  unfolding calls_ok_def mk_calls_def
  by (auto simp: EVM_Create_def EVM_Create2_def Let_def
      intro: EVM_Call_ok plain_calls_ok EVM_create_ok)

lemma loop_ok:
  assumes "table_ok E R table"
  shows "good_loop R n (loop n E table)"
proof (induction n)
  case 0
  show ?case by (simp add: good_loop_def)
next
  case (Suc n)
  have calls: "calls_ok R n (mk_calls E (run_frame (loop n E table)))"
    by (rule mk_calls_ok[OF run_frame_ok[OF Suc.IH]])
  show ?case
    unfolding good_loop_def
  proof (intro allI impI)
    fix pc evm and scope :: ScopeContext
    assume inv: "mem_inv (scMemory scope)" and n: "unat (Gas (scContract scope)) < Suc n"
    let ?s = "step E table (mk_calls E (run_frame (loop n E table))) pc evm scope"
    have st: "good_outcome R evm scope ?s" using step_ok[OF assms calls inv] n by simp
    show "res_ok (\<lambda>(r, evm', scope'). stays R evm evm' \<and> Gas (scContract scope') \<le> Gas (scContract scope))
        (loop (Suc n) E table pc evm scope)"
    proof (cases ?s)
      case (Ok out)
      show ?thesis
      proof (cases out)
        case (Continue pc' evm' scope')
        have k: "stays R evm evm'" "unat (Gas (scContract scope')) < unat (Gas (scContract scope))"
            "mem_inv (scMemory scope')"
          using st Ok Continue by (simp_all add: good_outcome_def)
        have "res_ok (\<lambda>(r, evm'', scope''). stays R evm' evm'' \<and> Gas (scContract scope'') \<le> Gas (scContract scope'))
            (loop n E table pc' evm' scope')"
          using Suc.IH[unfolded good_loop_def, rule_format, of scope' evm' pc'] k n by simp
        then show ?thesis
          using Ok Continue k stays_trans[OF k(1)]
          by (auto simp: res_ok_def word_le_unat split: res.splits)
      qed (use Ok st in \<open>simp add: good_outcome_def word_le_unat\<close>)
    qed (use st in \<open>simp_all add: good_outcome_def\<close>)
  qed
qed

lemma Run_ok: "table_ok E R table \<Longrightarrow> good_run R n (Run n E table)"
  unfolding Run_def by (intro run_frame_ok loop_ok)

end

end
