(* ===== verification/Frame_Fuel.thy ===== *)
theory Frame_Fuel
  imports Frame_Calls
begin

text \<open>
  Fuel only bounds the recursion: a frame that ends with some fuel ends in the same way with more.
  Every call and the loop are monotone in the way frames are run.
\<close>

definition run_le :: "'s run_fn \<Rightarrow> 's run_fn \<Rightarrow> bool" where
  "run_le run run' \<longleftrightarrow> (\<forall>c input ro evm. res_le (run c input ro evm) (run' c input ro evm))"

definition loop_le :: "'s loop_fn \<Rightarrow> 's loop_fn \<Rightarrow> bool" where
  "loop_le lp lp' \<longleftrightarrow> (\<forall>pc evm scope. res_le (lp pc evm scope) (lp' pc evm scope))"

lemma run_frame_mono: "loop_le lp lp' \<Longrightarrow> run_le (run_frame lp) (run_frame lp')"
  unfolding run_le_def run_frame_def Let_def
  by (intro allI res_le_if res_le_bind res_le_refl; simp add: loop_le_def)

lemma res_le_option:
  "(m = None \<Longrightarrow> res_le r r') \<Longrightarrow> (\<And>x. m = Some x \<Longrightarrow> res_le (k x) (k' x)) \<Longrightarrow>
    res_le (case m of None \<Rightarrow> r | Some x \<Rightarrow> k x) (case m of None \<Rightarrow> r' | Some x \<Rightarrow> k' x)"
  by (cases m) simp_all

lemma run_code_mono: "run_le run run' \<Longrightarrow> res_le (run_code run c input ro evm) (run_code run' c input ro evm)"
  unfolding run_code_def by (intro res_le_bind res_le_refl) (simp add: run_le_def)

lemmas mono_rules = res_le_if res_le_bind res_le_case_prod res_le_option run_code_mono res_le_refl

lemma call_code_mono:
  "run_le run run' \<Longrightarrow>
    res_le (call_code run E callr addr input gas v evm) (call_code run' E callr addr input gas v evm)"
  unfolding call_code_def Let_def split_beta by (intro mono_rules)

lemma EVM_Call_mono:
  "run_le run run' \<Longrightarrow>
    res_le (EVM_Call run E callr addr input gas v evm) (EVM_Call run' E callr addr input gas v evm)"
  unfolding EVM_Call_def call_guarded_def call_body_def Let_def split_beta by (intro mono_rules call_code_mono)

lemma plain_call_mono:
  "run_le run run' \<Longrightarrow>
    res_le (plain_call run E typ callr addr input gas shown ro i mk evm)
           (plain_call run' E typ callr addr input gas shown ro i mk evm)"
  unfolding plain_call_def Let_def by (intro mono_rules)

lemma plain_calls_mono:
  assumes "run_le run run'"
  shows "res_le (EVM_CallCode run E callr addr input gas v evm) (EVM_CallCode run' E callr addr input gas v evm)"
    "res_le (EVM_DelegateCall run E callr addr input gas evm) (EVM_DelegateCall run' E callr addr input gas evm)"
    "res_le (EVM_StaticCall run E callr addr input gas evm) (EVM_StaticCall run' E callr addr input gas evm)"
proof -
  note rules = mono_rules plain_call_mono assms
  show "res_le (EVM_CallCode run E callr addr input gas v evm) (EVM_CallCode run' E callr addr input gas v evm)"
    unfolding EVM_CallCode_def Let_def by (intro rules)
  show "res_le (EVM_StaticCall run E callr addr input gas evm) (EVM_StaticCall run' E callr addr input gas evm)"
    unfolding EVM_StaticCall_def Let_def by (intro rules)
  show "res_le (EVM_DelegateCall run E callr addr input gas evm) (EVM_DelegateCall run' E callr addr input gas evm)"
    unfolding EVM_DelegateCall_def Let_def by (cases callr; simp; intro rules impI)
qed

lemma EVM_create_mono:
  assumes "run_le run run'"
  shows "res_le (EVM_create run E callr ch gas v addr typ evm) (EVM_create run' E callr ch gas v addr typ evm)"
proof -
  have "res_le (run c input ro evm') (run' c input ro evm')" for c input ro evm'
    using assms by (simp add: run_le_def)
  then show ?thesis
    unfolding EVM_create_def create_guarded_def create_body_def Let_def split_beta by (intro mono_rules)
qed

lemma mk_calls_mono: "run_le run run' \<Longrightarrow> calls_le (mk_calls E run) (mk_calls E run')"
  by (simp add: calls_le_def mk_calls_def EVM_Create_def EVM_Create2_def Let_def
      EVM_Call_mono plain_calls_mono EVM_create_mono)

definition mono_table :: "'s env \<Rightarrow> 's JumpTable \<Rightarrow> bool" where
  "mono_table E table \<longleftrightarrow> (\<forall>op. mono_exec E (execute (table op)))"

lemma table_ok_mono: "table_ok E R table \<Longrightarrow> mono_table E table"
  by (simp add: table_ok_def op_ok_def mono_table_def)

lemma step_mono:
  assumes "mono_table E table" "calls_le cs cs'"
  shows "res_le (step E table cs pc evm scope) (step E table cs' pc evm scope)"
proof -
  have x: "res_le (execute (table op) E cs pc evm' scope') (execute (table op) E cs' pc evm' scope')"
    for op evm' scope'
    using assms unfolding mono_table_def mono_exec_def by blast
  show ?thesis
    unfolding step_def Let_def
    by (intro res_le_if res_le_bind res_le_case_prod res_le_refl) (auto split: sum.split intro!: res_le_bind x)
qed

lemma loop_Suc:
  assumes "mono_table E table"
  shows "loop_le (loop n E table) (loop (Suc n) E table)"
proof (induction n)
  case 0
  show ?case by (simp add: loop_le_def res_le_def)
next
  case (Suc n)
  have "calls_le (mk_calls E (run_frame (loop n E table))) (mk_calls E (run_frame (loop (Suc n) E table)))"
    by (rule mk_calls_mono[OF run_frame_mono[OF Suc.IH]])
  then show ?case
    unfolding loop_le_def loop.simps(2)[of n] loop.simps(2)[of "Suc n"]
    using Suc.IH by (auto intro!: res_le_bind step_mono[OF assms] simp: loop_le_def split: outcome.split)
qed

lemma Run_mono:
  assumes "mono_table E table" "Run n E table c input ro evm \<noteq> OutOfFuel"
  shows "Run (n + k) E table c input ro evm = Run n E table c input ro evm"
proof (induction k)
  case (Suc k)
  have "res_le (Run (n + k) E table c input ro evm) (Run (Suc (n + k)) E table c input ro evm)"
    using run_frame_mono[OF loop_Suc[OF assms(1), of "n + k"]] unfolding run_le_def Run_def by blast
  then show ?case using Suc assms(2) by (simp add: res_le_def)
qed simp

end
