(* ===== verification/Core.thy ===== *)
theory Core
  imports Interpreter
begin

text \<open>
  The contexts a chain gives to the machine (\<open>src/core/evm.go\<close>): transfers over the state
  database, the block context of a header, the transaction context of a message, and the search
  for the hash of an ancestor. That search is a closure with a cache; here the cache is passed in
  and out. The loop follows the headers the chain returns, so it is a partial function: \<open>None\<close> is a
  search that never ends. For a chain that returns under a number only headers with that number
  it ends, and no cache it fills changes an answer.
\<close>

section \<open>Transfers\<close>

definition core_CanTransfer :: "'s StateDB \<Rightarrow> 's \<Rightarrow> address \<Rightarrow> int \<Rightarrow> bool" where
  "core_CanTransfer db w addr amount \<longleftrightarrow> amount \<le> GetBalance db w addr"

definition core_Transfer :: "'s StateDB \<Rightarrow> 's \<Rightarrow> address \<Rightarrow> address \<Rightarrow> int \<Rightarrow> 's" where
  "core_Transfer db w sender recipient amount =
     AddBalance db (SubBalance db w sender amount) recipient amount"

section \<open>The hash of an ancestor\<close>

record Header =
  hdr_ParentHash :: hash
  hdr_Number :: int
  hdr_Time :: u64
  hdr_Difficulty :: int
  hdr_GasLimit :: u64
  hdr_BaseFee :: "int option"
  hdr_MixDigest :: hash

record ChainContext =
  Author :: "Header \<Rightarrow> address"
  GetHeader :: "hash \<Rightarrow> u64 \<Rightarrow> Header option"

definition number64 :: "Header \<Rightarrow> u64" where
  "number64 h = word_of_int (hdr_Number h)"

text \<open>The loop from the last known hash on; the result is the hash and the extended cache.\<close>

partial_function (option) search_hash ::
  "ChainContext \<Rightarrow> u64 \<Rightarrow> hash list \<Rightarrow> hash \<Rightarrow> u64 \<Rightarrow> (hash \<times> hash list) option" where
  "search_hash chain n cache lastKnownHash lastKnownNumber =
     (case GetHeader chain lastKnownHash lastKnownNumber of
        None \<Rightarrow> Some (0, cache)
      | Some header \<Rightarrow>
          (let cache = cache @ [hdr_ParentHash header];
               lastKnownHash = hdr_ParentHash header;
               lastKnownNumber = number64 header - 1
           in if n = lastKnownNumber then Some (lastKnownHash, cache)
              else search_hash chain n cache lastKnownHash lastKnownNumber))"

definition GetHashFn ::
  "Header \<Rightarrow> ChainContext \<Rightarrow> hash list \<Rightarrow> u64 \<Rightarrow> (hash \<times> hash list) option" where
  "GetHashFn ref chain cache n =
     (if number64 ref \<le> n then Some (0, cache)
      else
        let cache = (if length cache = 0 then [hdr_ParentHash ref] else cache);
            idx = number64 ref - n - 1
        in if unat idx < length cache then Some (cache ! unat idx, cache)
           else search_hash chain n cache (last cache) (number64 ref - of_nat (length cache)))"

section \<open>Contexts\<close>

definition NewEVMBlockContext ::
  "'s StateDB \<Rightarrow> Header \<Rightarrow> ChainContext \<Rightarrow> address option \<Rightarrow> 's BlockContext" where
  "NewEVMBlockContext db header chain author =
     \<lparr>CanTransfer = core_CanTransfer db,
      Transfer = core_Transfer db,
      GetHash = (\<lambda>n. case GetHashFn header chain [] n of None \<Rightarrow> 0 | Some (h, _) \<Rightarrow> h),
      Coinbase = (case author of None \<Rightarrow> Author chain header | Some a \<Rightarrow> a),
      GasLimit = hdr_GasLimit header,
      BlockNumber = hdr_Number header,
      Time = hdr_Time header,
      Difficulty = hdr_Difficulty header,
      BaseFee = hdr_BaseFee header,
      Random = (if hdr_Difficulty header = 0 then Some (hdr_MixDigest header) else None)\<rparr>"

text \<open>A message without a price panics.\<close>

definition NewEVMTxContext :: "Message \<Rightarrow> TxContext option" where
  "NewEVMTxContext msg = do {
     price \<leftarrow> msg_GasPrice msg;
     Some \<lparr>Origin = msg_From msg, GasPrice = price, tx_Message = Some msg\<rparr> }"

section \<open>What the search finds\<close>

primrec ancestor :: "ChainContext \<Rightarrow> hash \<Rightarrow> u64 \<Rightarrow> nat \<Rightarrow> hash option" where
  "ancestor chain h k 0 = Some h"
| "ancestor chain h k (Suc d) =
     (case GetHeader chain h k of
        None \<Rightarrow> None
      | Some header \<Rightarrow> ancestor chain (hdr_ParentHash header) (k - 1) d)"

text \<open>The hash of block \<open>n\<close> as seen from \<open>ref\<close>: the parent's hash, followed back block by block.\<close>

definition block_hash :: "Header \<Rightarrow> ChainContext \<Rightarrow> u64 \<Rightarrow> hash" where
  "block_hash ref chain n =
     (if number64 ref \<le> n then 0
      else case ancestor chain (hdr_ParentHash ref) (number64 ref - 1) (unat (number64 ref) - 1 - unat n) of
             None \<Rightarrow> 0 | Some h \<Rightarrow> h)"

definition coherent :: "ChainContext \<Rightarrow> bool" where
  "coherent chain \<longleftrightarrow> (\<forall>h k header. GetHeader chain h k = Some header \<longrightarrow> number64 header = k)"

definition cache_ok :: "Header \<Rightarrow> ChainContext \<Rightarrow> hash list \<Rightarrow> bool" where
  "cache_ok ref chain cache \<longleftrightarrow>
     length cache \<le> unat (number64 ref) \<and>
     (\<forall>i < length cache. ancestor chain (hdr_ParentHash ref) (number64 ref - 1) i = Some (cache ! i))"

lemma ancestor_next:
  "ancestor chain h k d = Some h' \<Longrightarrow>
   ancestor chain h k (Suc d) = (case GetHeader chain h' (k - of_nat d) of
      None \<Rightarrow> None | Some header \<Rightarrow> Some (hdr_ParentHash header))"
proof (induction d arbitrary: h k)
  case (Suc d)
  then obtain hd where hd: "GetHeader chain h k = Some hd"
    and a: "ancestor chain (hdr_ParentHash hd) (k - 1) d = Some h'"
    by (auto split: option.splits)
  then show ?case
    using Suc.IH[OF a] by (simp add: algebra_simps)
qed (simp split: option.split)

lemma ancestor_none: "ancestor chain h k d = None \<Longrightarrow> ancestor chain h k (d + j) = None"
  by (induction d arbitrary: h k) (auto split: option.splits)

lemma cache_ok_next:
  assumes "cache_ok ref chain cache" "cache \<noteq> []"
  shows "ancestor chain (hdr_ParentHash ref) (number64 ref - 1) (length cache) =
    (case GetHeader chain (last cache) (number64 ref - of_nat (length cache)) of
       None \<Rightarrow> None | Some header \<Rightarrow> Some (hdr_ParentHash header))"
proof -
  let ?l = "length cache"
  have l: "Suc (?l - 1) = ?l" using assms(2) by (cases cache) simp_all
  have "ancestor chain (hdr_ParentHash ref) (number64 ref - 1) (?l - 1) = Some (last cache)"
    using assms(1) l unfolding cache_ok_def by (simp add: last_conv_nth[OF assms(2)])
  note a = ancestor_next[OF this]
  have k: "number64 ref - 1 - of_nat (?l - 1) = number64 ref - of_nat ?l"
    by (subst (2) l[symmetric]) (simp add: algebra_simps)
  show ?thesis using a unfolding l k .
qed

lemma cache_ok_extend:
  assumes "cache_ok ref chain cache" "cache \<noteq> []"
    and "GetHeader chain (last cache) (number64 ref - of_nat (length cache)) = Some header"
    and "length cache < unat (number64 ref)"
  shows "cache_ok ref chain (cache @ [hdr_ParentHash header])"
  using cache_ok_next[OF assms(1,2)] assms(1,3,4) by (auto simp: cache_ok_def nth_append less_Suc_eq)

lemma search_hash_ok:
  assumes "coherent chain" "cache_ok ref chain cache" "cache \<noteq> []"
    and "unat n + length cache < unat (number64 ref)"
  shows "\<exists>cache'. search_hash chain n cache (last cache) (number64 ref - of_nat (length cache)) =
    Some (block_hash ref chain n, cache') \<and> cache_ok ref chain cache'"
  using assms(2-4)
proof (induction "unat (number64 ref) - length cache - unat n" arbitrary: cache)
  case 0
  then show ?case by simp
next
  case (Suc d)
  let ?l = "length cache" and ?N = "unat (number64 ref)"
  let ?k = "number64 ref - of_nat ?l"
  have k: "unat ?k = ?N - ?l"
    using Suc.prems(3) unat_lt_u64[of "number64 ref"]
    by (subst unat_sub_u64) (simp_all add: word_le_unat unat_of_nat)
  show ?case
  proof (cases "GetHeader chain (last cache) ?k")
    case None
    have "ancestor chain (hdr_ParentHash ref) (number64 ref - 1) (?l + (?N - 1 - unat n - ?l)) = None"
      using cache_ok_next[OF Suc.prems(1,2)] None by (intro ancestor_none) simp
    moreover have "?l + (?N - 1 - unat n - ?l) = ?N - 1 - unat n" using Suc.prems(3) by simp
    ultimately have "block_hash ref chain n = 0" by (simp add: block_hash_def)
    then show ?thesis using None Suc.prems(1) by (subst search_hash.simps) simp
  next
    case (Some header)
    let ?c = "cache @ [hdr_ParentHash header]"
    have num: "number64 header = ?k" using assms(1) Some by (auto simp: coherent_def)
    have ok: "cache_ok ref chain ?c"
      by (rule cache_ok_extend[OF Suc.prems(1,2) Some]) (use Suc.prems(3) in simp)
    have k1: "unat (?k - 1) = ?N - ?l - 1"
      using k Suc.prems(3) by (subst unat_sub_u64) (simp_all add: word_le_unat)
    have hash: "ancestor chain (hdr_ParentHash ref) (number64 ref - 1) ?l = Some (hdr_ParentHash header)"
      using cache_ok_next[OF Suc.prems(1,2)] Some by simp
    show ?thesis
    proof (cases "n = ?k - 1")
      case True
      then have "?N - 1 - unat n = ?l" "\<not> number64 ref \<le> n"
        using k1 Suc.prems(3) by (simp_all add: word_le_unat)
      then have "block_hash ref chain n = hdr_ParentHash header" using hash by (simp add: block_hash_def)
      then show ?thesis using Some True num ok by (subst search_hash.simps) simp
    next
      case False
      then have "unat n \<noteq> ?N - ?l - 1" using k1 by (auto simp: word_unat_eq_iff)
      then have lt: "unat n + length ?c < ?N" using Suc.prems(3) by simp
      have next': "number64 ref - of_nat (length ?c) = ?k - 1" by (simp add: algebra_simps)
      have "d = ?N - length ?c - unat n" using Suc.hyps(2) by simp
      from Suc.hyps(1)[OF this ok _ lt]
      show ?thesis unfolding next' using Some False num by (subst search_hash.simps) simp
    qed
  qed
qed

lemma GetHashFn_ok:
  assumes "coherent chain" "cache_ok ref chain cache"
  shows "\<exists>cache'. GetHashFn ref chain cache n = Some (block_hash ref chain n, cache') \<and> cache_ok ref chain cache'"
proof (cases "number64 ref \<le> n")
  case True
  then show ?thesis using assms(2) by (simp add: GetHashFn_def block_hash_def)
next
  case False
  then have lt: "unat n < unat (number64 ref)" by (simp add: word_le_unat)
  let ?c = "if length cache = 0 then [hdr_ParentHash ref] else cache"
  let ?idx = "number64 ref - n - 1"
  have c: "cache_ok ref chain ?c" "?c \<noteq> []" using assms(2) lt by (auto simp: cache_ok_def)
  have nn: "unat (number64 ref - n) = unat (number64 ref) - unat n"
    using lt by (intro unat_sub_u64) (simp add: word_le_unat)
  have idx: "unat ?idx = unat (number64 ref) - 1 - unat n"
    using lt nn by (subst unat_sub_u64) (simp_all add: word_le_unat)
  show ?thesis
  proof (cases "unat ?idx < length ?c")
    case True
    then have "ancestor chain (hdr_ParentHash ref) (number64 ref - 1) (unat ?idx) = Some (?c ! unat ?idx)"
      using c(1) unfolding cache_ok_def by blast
    then have "block_hash ref chain n = ?c ! unat ?idx" using False idx by (simp add: block_hash_def)
    moreover have "GetHashFn ref chain cache n = Some (?c ! unat ?idx, ?c)"
      using False True unfolding GetHashFn_def Let_def by (simp only: if_False if_True)
    ultimately show ?thesis using c(1) by simp
  next
    case nc: False
    then have "unat n + length ?c < unat (number64 ref)" using idx lt by linarith
    moreover have "GetHashFn ref chain cache n =
        search_hash chain n ?c (last ?c) (number64 ref - of_nat (length ?c))"
      using False nc unfolding GetHashFn_def Let_def by (simp only: if_False)
    ultimately show ?thesis using search_hash_ok[OF assms(1) c] by simp
  qed
qed

text \<open>A sequence of questions to one closure.\<close>

primrec ask :: "Header \<Rightarrow> ChainContext \<Rightarrow> hash list \<Rightarrow> u64 list \<Rightarrow> hash list option" where
  "ask ref chain cache [] = Some []"
| "ask ref chain cache (n # ns) = do {
     (h, cache) \<leftarrow> GetHashFn ref chain cache n;
     hs \<leftarrow> ask ref chain cache ns;
     Some (h # hs) }"

lemma ask_ok:
  assumes "coherent chain" "cache_ok ref chain cache"
  shows "ask ref chain cache ns = Some (map (block_hash ref chain) ns)"
  using assms(2)
proof (induction ns arbitrary: cache)
  case (Cons n ns)
  obtain cache' where "GetHashFn ref chain cache n = Some (block_hash ref chain n, cache')" "cache_ok ref chain cache'"
    using GetHashFn_ok[OF assms(1) Cons.prems] by blast
  then show ?case using Cons.IH by simp
qed simp

text \<open>C22: The hash function of a block context ends and is right, whatever was asked before: for a chain
  that returns under a number only headers with that number, every question of a sequence is answered
  with the hash found by following the parents from the reference block, and with the zero hash for
  blocks that are not older or not known.\<close>

theorem GetHashFn_answers:
  assumes "coherent chain"
  shows "ask ref chain [] ns = Some (map (block_hash ref chain) ns)"
  by (rule ask_ok[OF assms]) (simp add: cache_ok_def)

end
