(* ===== verification/Runtime.thy ===== *)
theory Runtime
  imports Core
begin

text \<open>
  The stand-alone runner (\<open>src/vm/runtime/runtime.go\<close>, \<open>src/vm/runtime/env.go\<close>): defaults of a
  configuration, the machine it describes, and running code, a creation or a call in it. The state
  package of go-ethereum and the rules of a chain configuration are parameters. Fuel is the fuel of
  the interpreter.
\<close>

record ChainConfig =
  cc_ChainID :: int
  cc_HomesteadBlock :: "int option"
  cc_DAOForkBlock :: "int option"
  cc_DAOForkSupport :: bool
  cc_EIP150Block :: "int option"
  cc_EIP155Block :: "int option"
  cc_EIP158Block :: "int option"
  cc_ByzantiumBlock :: "int option"
  cc_ConstantinopleBlock :: "int option"
  cc_PetersburgBlock :: "int option"
  cc_IstanbulBlock :: "int option"
  cc_MuirGlacierBlock :: "int option"
  cc_BerlinBlock :: "int option"
  cc_LondonBlock :: "int option"

record 's rtConfig =
  rt_ChainConfig :: "ChainConfig option"
  rt_Difficulty :: "int option"
  rt_Origin :: address
  rt_Coinbase :: address
  rt_BlockNumber :: "int option"
  rt_Time :: u64
  rt_GasLimit :: u64
  rt_GasPrice :: "int option"
  rt_Value :: "int option"
  rt_Debug :: bool
  rt_EVMConfig :: Config
  rt_BaseFee :: "int option"
  rt_State :: "'s option"
  rt_GetHashFn :: "(u64 \<Rightarrow> hash) option"

text \<open>The code outside the repository: the state package, the rules of a chain configuration, the
  initial base fee, and in \<open>base\<close> what every machine takes from outside.\<close>

record 's state_pkg =
  new_state :: 's
  Prepare :: "'s \<Rightarrow> Rules \<Rightarrow> address \<Rightarrow> address \<Rightarrow> address option \<Rightarrow> address list \<Rightarrow> 's"
  GetOrNewStateObject :: "'s \<Rightarrow> address \<Rightarrow> 's"
  rules_of :: "ChainConfig \<Rightarrow> int \<Rightarrow> bool \<Rightarrow> u64 \<Rightarrow> Rules"
  InitialBaseFee :: int
  base :: "'s env"

section \<open>Defaults\<close>

definition zeroConfig :: "'s rtConfig" where
  "zeroConfig =
     \<lparr>rt_ChainConfig = None, rt_Difficulty = None, rt_Origin = 0, rt_Coinbase = 0,
      rt_BlockNumber = None, rt_Time = 0, rt_GasLimit = 0, rt_GasPrice = None, rt_Value = None,
      rt_Debug = False,
      rt_EVMConfig = \<lparr>HasTracer = False, NoBaseFee = False, EnablePreimageRecording = False, ExtraEips = []\<rparr>,
      rt_BaseFee = None, rt_State = None, rt_GetHashFn = None\<rparr>"

definition defaultChainConfig :: ChainConfig where
  "defaultChainConfig =
     \<lparr>cc_ChainID = 1, cc_HomesteadBlock = Some 0, cc_DAOForkBlock = Some 0, cc_DAOForkSupport = False,
      cc_EIP150Block = Some 0, cc_EIP155Block = Some 0, cc_EIP158Block = Some 0,
      cc_ByzantiumBlock = Some 0, cc_ConstantinopleBlock = Some 0, cc_PetersburgBlock = Some 0,
      cc_IstanbulBlock = Some 0, cc_MuirGlacierBlock = Some 0, cc_BerlinBlock = Some 0,
      cc_LondonBlock = Some 0\<rparr>"

text \<open>A pointer that is set stays, one that is nil gets the default.\<close>

definition or_default :: "'a option \<Rightarrow> 'a \<Rightarrow> 'a option" where
  "or_default p d = (case p of None \<Rightarrow> Some d | Some x \<Rightarrow> Some x)"

definition setDefaults :: "'s state_pkg \<Rightarrow> 's rtConfig \<Rightarrow> 's rtConfig" where
  "setDefaults pkg cfg =
     cfg\<lparr>rt_ChainConfig := or_default (rt_ChainConfig cfg) defaultChainConfig,
         rt_Difficulty := or_default (rt_Difficulty cfg) 0,
         rt_GasLimit := (if rt_GasLimit cfg = 0 then 0xFFFFFFFFFFFFFFFF else rt_GasLimit cfg),
         rt_GasPrice := or_default (rt_GasPrice cfg) 0,
         rt_Value := or_default (rt_Value cfg) 0,
         rt_BlockNumber := or_default (rt_BlockNumber cfg) 0,
         rt_GetHashFn := or_default (rt_GetHashFn cfg)
           (\<lambda>n. Keccak256Hash (extern (base pkg)) (map (\<lambda>c. of_nat (of_char c)) (decimal (unat n)))),
         rt_BaseFee := or_default (rt_BaseFee cfg) (InitialBaseFee pkg)\<rparr>"

section \<open>The machine of a configuration\<close>

text \<open>\<open>None\<close> for a nil pointer; after the defaults none is left.\<close>

definition NewEnv :: "'s state_pkg \<Rightarrow> 's rtConfig \<Rightarrow> ('s JumpTable \<times> 's env \<times> 's EVM) option" where
  "NewEnv pkg cfg = do {
     price \<leftarrow> rt_GasPrice cfg;
     getHash \<leftarrow> rt_GetHashFn cfg;
     number \<leftarrow> rt_BlockNumber cfg;
     difficulty \<leftarrow> rt_Difficulty cfg;
     chain \<leftarrow> rt_ChainConfig cfg;
     w \<leftarrow> rt_State cfg;
     let db = StateDB_of (base pkg);
     let txContext = \<lparr>Origin = rt_Origin cfg, GasPrice = price, tx_Message = None\<rparr>;
     let blockContext =
       \<lparr>CanTransfer = core_CanTransfer db, Transfer = core_Transfer db, GetHash = getHash,
        Coinbase = rt_Coinbase cfg, GasLimit = rt_GasLimit cfg, BlockNumber = number,
        Time = rt_Time cfg, Difficulty = difficulty, BaseFee = rt_BaseFee cfg, Random = None\<rparr>;
     NewEVM ((base pkg)\<lparr>chainConfig_Rules := rules_of pkg chain\<rparr>) blockContext txContext w (rt_EVMConfig cfg) }"

definition with_state :: "'s state_pkg \<Rightarrow> 's rtConfig \<Rightarrow> 's rtConfig" where
  "with_state pkg cfg = cfg\<lparr>rt_State := or_default (rt_State cfg) (new_state pkg)\<rparr>"

text \<open>The rules of the machine's block, computed again for the preparation of the state.\<close>

definition block_rules :: "'s env \<Rightarrow> Rules" where
  "block_rules E =
     chainConfig_Rules E (BlockNumber (Context E)) (Random (Context E) \<noteq> None) (Time (Context E))"

definition contract_address :: address where
  "contract_address = ucast (SetBytes (map (\<lambda>c. of_nat (of_char c)) ''contract''))"

section \<open>Running\<close>

definition Execute ::
  "nat \<Rightarrow> 's state_pkg \<Rightarrow> bytes \<Rightarrow> bytes \<Rightarrow> 's rtConfig option \<Rightarrow> (bytes \<times> 's \<times> error option) res" where
  "Execute n pkg code input cfg =
     (let cfg = (case cfg of None \<Rightarrow> zeroConfig | Some c \<Rightarrow> c);
          cfg = with_state pkg (setDefaults pkg cfg);
          db = StateDB_of (base pkg)
      in bind_res (lift (NewEnv pkg cfg)) (\<lambda>(table, E, evm).
         let rules = block_rules E;
             w = Prepare pkg (world evm) rules (rt_Origin cfg) (rt_Coinbase cfg) (Some contract_address)
                   (ActivePrecompiles rules);
             w = CreateAccount db w contract_address;
             w = SetCode db w contract_address code
         in bind_res (lift (rt_Value cfg)) (\<lambda>v.
            bind_res (EVM_Call (Run n E table) E (AccountRef (rt_Origin cfg)) contract_address input
                        (rt_GasLimit cfg) v (evm\<lparr>world := w\<rparr>))
              (\<lambda>((ret, _, err), evm). Ok (ret, world evm, err)))))"

definition rt_Create ::
  "nat \<Rightarrow> 's state_pkg \<Rightarrow> bytes \<Rightarrow> 's rtConfig option \<Rightarrow> (bytes \<times> address \<times> u64 \<times> error option) res" where
  "rt_Create n pkg input cfg =
     (let cfg = (case cfg of None \<Rightarrow> zeroConfig | Some c \<Rightarrow> c);
          cfg = with_state pkg (setDefaults pkg cfg)
      in bind_res (lift (NewEnv pkg cfg)) (\<lambda>(table, E, evm).
         let rules = block_rules E;
             w = Prepare pkg (world evm) rules (rt_Origin cfg) (rt_Coinbase cfg) None (ActivePrecompiles rules)
         in bind_res (lift (rt_Value cfg)) (\<lambda>v.
            bind_res (EVM_Create (Run n E table) E (AccountRef (rt_Origin cfg)) input (rt_GasLimit cfg) v
                        (evm\<lparr>world := w\<rparr>))
              (\<lambda>(r, evm). Ok r))))"

text \<open>A call needs the state; the caller is the state object of the origin, made when missing.\<close>

definition rt_Call ::
  "nat \<Rightarrow> 's state_pkg \<Rightarrow> address \<Rightarrow> bytes \<Rightarrow> 's rtConfig \<Rightarrow> (bytes \<times> u64 \<times> error option) res" where
  "rt_Call n pkg addr input cfg =
     (let cfg = setDefaults pkg cfg
      in bind_res (lift (NewEnv pkg cfg)) (\<lambda>(table, E, evm).
         let w = GetOrNewStateObject pkg (world evm) (rt_Origin cfg);
             rules = block_rules E;
             w = Prepare pkg w rules (rt_Origin cfg) (rt_Coinbase cfg) (Some addr) (ActivePrecompiles rules)
         in bind_res (lift (rt_Value cfg)) (\<lambda>v.
            bind_res (EVM_Call (Run n E table) E (AccountRef (rt_Origin cfg)) addr input (rt_GasLimit cfg) v
                        (evm\<lparr>world := w\<rparr>))
              (\<lambda>(r, evm). Ok r))))"

end
