(* ===== verification/Sample_World.thy ===== *)
theory Sample_World
  imports Runtime
begin

text \<open>
  A concrete environment for the parameters of the model, so that hypotheses about them can be
  met: a state database with accounts, storage, refund, access list, logs and transient storage,
  whose snapshots are copies of the state; simple total functions for the cryptography, about which
  nothing is assumed; aspects that pass their gas on. Transfers are those of \<open>Core\<close>.
\<close>

record account =
  ac_nonce :: u64
  ac_balance :: int
  ac_code :: bytes
  ac_storage :: "(hash \<times> hash) list"
  ac_committed :: "(hash \<times> hash) list"
  ac_suicided :: bool

record state =
  st_accounts :: "(address \<times> account) list"
  st_refund :: u64
  st_addresses :: "address list"
  st_slots :: "(address \<times> hash) list"
  st_transient :: "((address \<times> hash) \<times> hash) list"
  st_logs :: "Log list"
  st_preimages :: "(hash \<times> bytes) list"

record journaled =
  cur :: state
  snaps :: "state list"

definition new_account :: account where
  "new_account = \<lparr>ac_nonce = 0, ac_balance = 0, ac_code = [], ac_storage = [], ac_committed = [], ac_suicided = False\<rparr>"

definition lookup :: "('k \<times> 'v) list \<Rightarrow> 'k \<Rightarrow> 'v \<Rightarrow> 'v" where
  "lookup m k d = (case map_of m k of None \<Rightarrow> d | Some v \<Rightarrow> v)"

definition acct :: "journaled \<Rightarrow> address \<Rightarrow> account" where
  "acct w a = lookup (st_accounts (cur w)) a new_account"

definition upd_state :: "(state \<Rightarrow> state) \<Rightarrow> journaled \<Rightarrow> journaled" where
  "upd_state f w = w\<lparr>cur := f (cur w)\<rparr>"

definition upd_acct :: "journaled \<Rightarrow> address \<Rightarrow> (account \<Rightarrow> account) \<Rightarrow> journaled" where
  "upd_acct w a f = upd_state (\<lambda>s. s\<lparr>st_accounts := (a, f (acct w a)) # st_accounts s\<rparr>) w"

definition empty_account :: "account \<Rightarrow> bool" where
  "empty_account a \<longleftrightarrow> ac_nonce a = 0 \<and> ac_balance a = 0 \<and> ac_code a = []"

definition sample_db :: "journaled StateDB" where
  "sample_db =
    \<lparr>CreateAccount = (\<lambda>w a. upd_acct w a (\<lambda>x. new_account\<lparr>ac_balance := ac_balance x\<rparr>)),
     SubBalance = (\<lambda>w a v. upd_acct w a (\<lambda>x. x\<lparr>ac_balance := ac_balance x - v\<rparr>)),
     AddBalance = (\<lambda>w a v. upd_acct w a (\<lambda>x. x\<lparr>ac_balance := ac_balance x + v\<rparr>)),
     GetBalance = (\<lambda>w a. ac_balance (acct w a)),
     GetNonce = (\<lambda>w a. ac_nonce (acct w a)),
     SetNonce = (\<lambda>w a n. upd_acct w a (\<lambda>x. x\<lparr>ac_nonce := n\<rparr>)),
     GetCodeHash = (\<lambda>w a. if map_of (st_accounts (cur w)) a = None then 0
                          else Keccak256Hash eth_ext (ac_code (acct w a))),
     GetCode = (\<lambda>w a. ac_code (acct w a)),
     SetCode = (\<lambda>w a c. upd_acct w a (\<lambda>x. x\<lparr>ac_code := c\<rparr>)),
     GetCodeSize = (\<lambda>w a. length (ac_code (acct w a))),
     AddRefund = (\<lambda>w g. upd_state (\<lambda>s. s\<lparr>st_refund := st_refund s + g\<rparr>) w),
     SubRefund = (\<lambda>w g. upd_state (\<lambda>s. s\<lparr>st_refund := st_refund s - g\<rparr>) w),
     GetRefund = (\<lambda>w. st_refund (cur w)),
     GetCommittedState = (\<lambda>w a k. lookup (ac_committed (acct w a)) k 0),
     GetState = (\<lambda>w a k. lookup (ac_storage (acct w a)) k 0),
     SetState = (\<lambda>w a k v. upd_acct w a (\<lambda>x. x\<lparr>ac_storage := (k, v) # ac_storage x\<rparr>)),
     GetTransientState = (\<lambda>w a k. lookup (st_transient (cur w)) (a, k) 0),
     SetTransientState = (\<lambda>w a k v. upd_state (\<lambda>s. s\<lparr>st_transient := ((a, k), v) # st_transient s\<rparr>) w),
     Suicide = (\<lambda>w a. (True, upd_acct w a (\<lambda>x. x\<lparr>ac_balance := 0, ac_suicided := True\<rparr>))),
     HasSuicided = (\<lambda>w a. ac_suicided (acct w a)),
     Exist = (\<lambda>w a. map_of (st_accounts (cur w)) a \<noteq> None),
     Empty = (\<lambda>w a. empty_account (acct w a)),
     AddressInAccessList = (\<lambda>w a. a \<in> set (st_addresses (cur w))),
     SlotInAccessList = (\<lambda>w a k. (a \<in> set (st_addresses (cur w)), (a, k) \<in> set (st_slots (cur w)))),
     AddAddressToAccessList = (\<lambda>w a. upd_state (\<lambda>s. s\<lparr>st_addresses := a # st_addresses s\<rparr>) w),
     AddSlotToAccessList = (\<lambda>w a k. upd_state (\<lambda>s. s\<lparr>st_addresses := a # st_addresses s,
                                                       st_slots := (a, k) # st_slots s\<rparr>) w),
     RevertToSnapshot = (\<lambda>w i. if i < length (snaps w)
                               then w\<lparr>cur := snaps w ! i, snaps := take i (snaps w)\<rparr> else w),
     Snapshot = (\<lambda>w. (length (snaps w), w\<lparr>snaps := snaps w @ [cur w]\<rparr>)),
     AddLog = (\<lambda>w l. upd_state (\<lambda>s. s\<lparr>st_logs := l # st_logs s\<rparr>) w),
     AddPreimage = (\<lambda>w h bs. upd_state (\<lambda>s. s\<lparr>st_preimages := (h, bs) # st_preimages s\<rparr>) w)\<rparr>"

definition sample_crypto :: crypto where
  "sample_crypto =
    \<lparr>ValidateSignatureValues = (\<lambda>v r s h. True),
     Ecrecover = (\<lambda>h sig. Inr (replicate 65 0)),
     Ripemd160 = (\<lambda>bs. replicate 20 0),
     bn_Unmarshal1 = (\<lambda>bs. Inr (map uint bs)), bn_Unmarshal2 = (\<lambda>bs. Inr (map uint bs)), bn_Marshal1 = (\<lambda>p. map word_of_int p),
     bn_Add = (\<lambda>p q. p), bn_ScalarMult = (\<lambda>p k. p), bn_PairingCheck = (\<lambda>ps qs. True),
     blake2b_F = (\<lambda>h m t f r. h),
     g1_DecodePoint = (\<lambda>bs. Inr (map uint bs)), g1_EncodePoint = (\<lambda>p. map word_of_int p), g1_Add = (\<lambda>p q. p),
     g1_MulScalar = (\<lambda>p k. p), g1_MultiExp = (\<lambda>ps ks. ([], None)), g1_MapToCurve = (\<lambda>bs. Inr (map uint bs)),
     g1_InCorrectSubgroup = (\<lambda>p. True),
     g2_DecodePoint = (\<lambda>bs. Inr (map uint bs)), g2_EncodePoint = (\<lambda>p. map word_of_int p), g2_Add = (\<lambda>p q. p),
     g2_MulScalar = (\<lambda>p k. p), g2_MultiExp = (\<lambda>ps ks. ([], None)), g2_MapToCurve = (\<lambda>bs. Inr (map uint bs)),
     g2_InCorrectSubgroup = (\<lambda>p. True),
     bls_Check = (\<lambda>ps. True)\<rparr>"

definition sample_aspects :: aspect_runtime where
  "sample_aspects =
    \<lparr>GetAspectContext = (\<lambda>h a k. Inr (lookup (map (\<lambda>(a, k, v). ((a, k), v)) (rev h)) (a, k) [])),
     SetAspectContext = (\<lambda>h a k v. None),
     JITSenderAspectByContext = (\<lambda>h k. Inr 0)\<rparr>"

definition sample_rules :: Rules where
  "sample_rules =
    \<lparr>ChainID = 1, IsHomestead = True, IsEIP150 = True, IsEIP158 = True, IsByzantium = True,
     IsConstantinople = True, IsPetersburg = True, IsIstanbul = True, IsBerlin = True,
     IsLondon = True, IsMerge = False, IsShanghai = False, IsCancun = False, IsPrague = False\<rparr>"

definition quiet_aspect :: "journaled aspect" where
  "quiet_aspect c w h = (([], asp_Gas c, None), w, h)"

definition sample_header :: Header where
  "sample_header =
    \<lparr>hdr_ParentHash = 7, hdr_Number = 3, hdr_Time = 12, hdr_Difficulty = 1, hdr_GasLimit = 30000000,
     hdr_BaseFee = Some 1, hdr_MixDigest = 0\<rparr>"

definition sample_chain :: ChainContext where
  "sample_chain =
    \<lparr>Author = (\<lambda>h. 0),
     GetHeader = (\<lambda>h k. if h = 7 \<and> k = 2 then Some (sample_header\<lparr>hdr_Number := 2, hdr_ParentHash := 6\<rparr>)
                        else if h = 6 \<and> k = 1 then Some (sample_header\<lparr>hdr_Number := 1, hdr_ParentHash := 5\<rparr>)
                        else None)\<rparr>"

definition sample_env :: "journaled env" where
  "sample_env =
    \<lparr>extern = eth_ext, StateDB_of = sample_db,
     Context = NewEVMBlockContext sample_db sample_header sample_chain None,
     Tx = \<lparr>Origin = 1, GasPrice = 1, tx_Message = None\<rparr>,
     chainConfig_Rules = (\<lambda>n m t. sample_rules), chainRules = sample_rules,
     ConfigOf = \<lparr>HasTracer = True, NoBaseFee = False, EnablePreimageRecording = False, ExtraEips = []\<rparr>,
     crypto_of = sample_crypto, aspects_of = sample_aspects,
     PreContractCall = quiet_aspect, PostContractCall = quiet_aspect\<rparr>"

definition empty_world :: journaled where
  "empty_world =
    \<lparr>cur = \<lparr>st_accounts = [], st_refund = 0, st_addresses = [], st_slots = [], st_transient = [],
            st_logs = [], st_preimages = []\<rparr>,
     snaps = []\<rparr>"

text \<open>Account 1 is rich, account 0x42 has code.\<close>

definition sample_world :: "bytes \<Rightarrow> journaled" where
  "sample_world code =
     AddBalance sample_db (SetCode sample_db empty_world 0x42 code) 1 1000"

definition sample_pkg :: "journaled state_pkg" where
  "sample_pkg =
    \<lparr>new_state = empty_world, Prepare = (\<lambda>w r o' c d p. w), GetOrNewStateObject = (\<lambda>w a. w),
     rules_of = (\<lambda>c n m t. sample_rules), InitialBaseFee = 1000000000, base = sample_env\<rparr>"

lemma ancestor_numeral [simp]:
  "ancestor chain h k (numeral n) =
     (case GetHeader chain h k of
        None \<Rightarrow> None
      | Some header \<Rightarrow> ancestor chain (hdr_ParentHash header) (k - 1) (pred_numeral n))"
  by (simp add: numeral_eq_Suc)

theorem GetHashFn_answers_witness:
  "ask sample_header sample_chain [] [0, 2, 1, 9] = Some [5, 7, 6, 0]"
proof -
  have "coherent sample_chain"
    by (simp add: coherent_def sample_chain_def sample_header_def number64_def)
  note this [THEN GetHashFn_answers, of sample_header "[0, 2, 1, 9]"]
  also have "map (block_hash sample_header sample_chain) [0, 2, 1, 9] = [5, 7, 6, 0]"
    by (simp add: block_hash_def number64_def sample_header_def sample_chain_def word_le_unat)
  finally show ?thesis .
qed

end
