(* ===== verification/Jump_Table_Laws.thy ===== *)
theory Jump_Table_Laws
  imports Interpreter
begin

text \<open>
  Facts about the instruction sets as data: every fork's table passes its validation, and so does
  every table the single EIPs make of it, so setting up an interpreter never panics.
\<close>

definition valid_op :: "'s operation \<Rightarrow> bool" where
  "valid_op e \<longleftrightarrow> (dynamicGas e = None \<longrightarrow> memorySize e = None)"

definition valid_table :: "'s JumpTable \<Rightarrow> bool" where
  "valid_table jt \<longleftrightarrow> (\<forall>op. valid_op (jt op))"

lemma validate_valid: "valid_table jt \<Longrightarrow> validate jt = Some jt"
  by (auto simp: validate_def valid_table_def valid_op_def list_all_iff)

lemma valid_oper [simp]: "valid_op (oper f c d mn mx ms) \<longleftrightarrow> (d = None \<longrightarrow> ms = None)"
  by (simp add: valid_op_def oper_def)

lemma valid_upd: "valid_table jt \<Longrightarrow> valid_op e \<Longrightarrow> valid_table (jt(op := e))"
  by (simp add: valid_table_def)

lemma valid_set_const: "valid_table jt \<Longrightarrow> valid_table (set_const op g jt)"
  by (simp add: valid_table_def valid_op_def set_const_def)

lemma valid_set_dyn: "valid_table jt \<Longrightarrow> valid_table (set_dyn op g jt)"
  by (simp add: valid_table_def valid_op_def set_dyn_def)

lemmas valid_rules = valid_upd valid_set_const valid_set_dyn

lemma frontier_valid: "valid_table (frontier_table X)"
proof -
  have "list_all (\<lambda>(op, e). valid_op e) (frontier_entries X)"
    by (simp add: frontier_entries_def frontier_1_def frontier_2_def frontier_3_def frontier_4_def
        frontier_5_def frontier_6_def)
  then show ?thesis
    by (auto simp: valid_table_def frontier_table_def undefined_op_def list_all_iff
        split: option.split dest!: map_of_SomeD)
qed

lemma enable_valid:
  assumes "valid_table jt"
  shows "valid_table (enable1884 X jt)" "valid_table (enable1344 X jt)" "valid_table (enable2200 X jt)"
    "valid_table (enable2929 X jt)" "valid_table (enable3529 X jt)" "valid_table (enable3198 X jt)"
    "valid_table (enable1153 X jt)" "valid_table (enable3855 X jt)" "valid_table (enable3860 X jt)"
    "valid_table (enable5656 X jt)"
  unfolding enable1884_def enable1344_def enable2200_def enable2929_def enable3529_def enable3198_def
    enable1153_def enable3855_def enable3860_def enable5656_def Let_def
  by (intro valid_rules assms; simp)+

text \<open>The table of each fork, given the one before.\<close>

definition makes :: "'s JumpTable option \<Rightarrow> bool" where
  "makes r \<longleftrightarrow> (\<exists>jt. r = Some jt \<and> valid_table jt)"

lemma makes_validate: "valid_table jt \<Longrightarrow> makes (validate jt)"
  by (simp add: makes_def validate_valid)

lemma makes_bind: "makes r \<Longrightarrow> (\<And>jt. valid_table jt \<Longrightarrow> makes (k jt)) \<Longrightarrow> makes (Option.bind r k)"
  by (auto simp: makes_def)

lemmas fork_rules = makes_bind makes_validate valid_rules enable_valid

lemma forks_valid:
  shows frontier_makes: "makes (newFrontierInstructionSet X)"
    and homestead_makes: "makes (newHomesteadInstructionSet X)"
    and tangerine_makes: "makes (newTangerineWhistleInstructionSet X)"
    and spurious_makes: "makes (newSpuriousDragonInstructionSet X)"
    and byzantium_makes: "makes (newByzantiumInstructionSet X)"
    and constantinople_makes: "makes (newConstantinopleInstructionSet X)"
    and istanbul_makes: "makes (newIstanbulInstructionSet X)"
    and berlin_makes: "makes (newBerlinInstructionSet X)"
    and london_makes: "makes (newLondonInstructionSet X)"
    and merge_makes: "makes (newMergeInstructionSet X)"
    and shanghai_makes: "makes (newShanghaiInstructionSet X)"
    and cancun_makes: "makes (newCancunInstructionSet X)"
proof -
  show 1: "makes (newFrontierInstructionSet X)"
    unfolding newFrontierInstructionSet_def by (intro fork_rules frontier_valid)
  show 2: "makes (newHomesteadInstructionSet X)"
    unfolding newHomesteadInstructionSet_def by (intro fork_rules 1; simp)
  show 3: "makes (newTangerineWhistleInstructionSet X)"
    unfolding newTangerineWhistleInstructionSet_def Let_def by (intro fork_rules 2; simp)
  show 4: "makes (newSpuriousDragonInstructionSet X)"
    unfolding newSpuriousDragonInstructionSet_def by (intro fork_rules 3; simp)
  show 5: "makes (newByzantiumInstructionSet X)"
    unfolding newByzantiumInstructionSet_def by (intro fork_rules 4; simp)
  show 6: "makes (newConstantinopleInstructionSet X)"
    unfolding newConstantinopleInstructionSet_def by (intro fork_rules 5; simp)
  show 7: "makes (newIstanbulInstructionSet X)"
    unfolding newIstanbulInstructionSet_def Let_def by (intro fork_rules 6; simp)
  show 8: "makes (newBerlinInstructionSet X)"
    unfolding newBerlinInstructionSet_def by (intro fork_rules 7; simp)
  show 9: "makes (newLondonInstructionSet X)"
    unfolding newLondonInstructionSet_def Let_def by (intro fork_rules 8; simp)
  show 10: "makes (newMergeInstructionSet X)"
    unfolding newMergeInstructionSet_def by (intro fork_rules 9; simp)
  show 11: "makes (newShanghaiInstructionSet X)"
    unfolding newShanghaiInstructionSet_def Let_def by (intro fork_rules 10; simp)
  show 12: "makes (newCancunInstructionSet X)"
    unfolding newCancunInstructionSet_def Let_def by (intro fork_rules 11; simp)
qed

lemma instruction_set_makes: "makes (instruction_set E)"
  by (simp add: instruction_set_def Let_def forks_valid)

lemma EnableEIP_valid: "valid_table jt \<Longrightarrow> EnableEIP X eip jt = Inr jt' \<Longrightarrow> valid_table jt'"
  by (auto simp: EnableEIP_def activators_def enable_valid split: option.splits if_splits)

lemma enable_eips_valid: "valid_table jt \<Longrightarrow> valid_table (fst (enable_eips X eips jt ds))"
  by (induction eips arbitrary: jt ds) (auto split: sum.split dest: EnableEIP_valid)

text \<open>The EIPs that were enabled are the known ones of the configuration, in its order.\<close>

lemma enable_eips_list: "snd (enable_eips X eips jt ds) = ds @ filter ValidEip eips"
proof (induction eips arbitrary: jt ds)
  case (Cons eip eips)
  have "(\<exists>jt'. EnableEIP X eip jt = Inr jt') \<longleftrightarrow> ValidEip eip"
    by (auto simp: EnableEIP_def ValidEip_def activators_def split: option.split if_splits)
  then show ?case using Cons.IH by (auto split: sum.split)
qed simp

lemma interpreter_made:
  "\<exists>table. NewEVMInterpreter E =
     Some (table, E\<lparr>ConfigOf := (ConfigOf E)\<lparr>ExtraEips := filter ValidEip (ExtraEips (ConfigOf E))\<rparr>\<rparr>) \<and>
   valid_table table"
proof -
  obtain jt where jt: "instruction_set E = Some jt" "valid_table jt"
    using instruction_set_makes[of E] by (auto simp: makes_def)
  let ?r = "enable_eips (extern E) (ExtraEips (ConfigOf E)) jt []"
  have "NewEVMInterpreter E = Some (fst ?r, E\<lparr>ConfigOf := (ConfigOf E)\<lparr>ExtraEips := snd ?r\<rparr>\<rparr>)"
    using jt(1) by (simp add: NewEVMInterpreter_def copyJumpTable_def split_beta Let_def)
  then show ?thesis using enable_eips_list enable_eips_valid[OF jt(2)] by (metis append_Nil)
qed


end
