(* ===== verification/Execution.thy ===== *)
theory Execution
  imports Frame_Fuel Sample_World Jump_Table_Laws "HOL-Library.Sublist"
begin

text \<open>
  What the contract of a frame says about the machine as a whole. The ways the world may change are
  the closure of the state database operations the code uses: \<open>evolves\<close> for a frame that may write,
  \<open>touches\<close> for a read-only one. Both satisfy the laws of a frame for every environment, so the
  lemmas of a frame hold for every run on every instruction set, with any extra EIPs. Hypotheses on
  code outside the repository are the locale \<open>priced\<close> (the protocol constants, the rule of EIP-150
  and aspects that do not create gas) and, where it is needed, that going back to a snapshot
  restores the state.
\<close>

section \<open>Ways the world may change\<close>

inductive touches :: "'s env \<Rightarrow> 's \<Rightarrow> 's \<Rightarrow> bool" for E where
  touch_none: "touches E w w"
| touch_trans: "touches E w w' \<Longrightarrow> touches E w' w'' \<Longrightarrow> touches E w w''"
| touch_address: "touches E w (AddAddressToAccessList (StateDB_of E) w a)"
| touch_slot: "touches E w (AddSlotToAccessList (StateDB_of E) w a k)"
| touch_add_refund: "touches E w (AddRefund (StateDB_of E) w g)"
| touch_sub_refund: "touches E w (SubRefund (StateDB_of E) w g)"
| touch_preimage: "touches E w (AddPreimage (StateDB_of E) w h bs)"
| touch_balance: "touches E w (AddBalance (StateDB_of E) w a 0)"
| touch_account: "\<not> Exist (StateDB_of E) w a \<Longrightarrow> touches E w (CreateAccount (StateDB_of E) w a)"
| touch_transfer: "touches E w (Transfer (Context E) w a b 0)"
| touch_snapshot: "touches E w (snd (Snapshot (StateDB_of E) w))"
| touch_revert: "touches E (snd (Snapshot (StateDB_of E) w)) w' \<Longrightarrow>
    touches E w (RevertToSnapshot (StateDB_of E) w' (fst (Snapshot (StateDB_of E) w)))"
| touch_pre: "touches E w (fst (snd (PreContractCall E c w h)))"
| touch_post: "touches E w (fst (snd (PostContractCall E c w h)))"

inductive evolves :: "'s env \<Rightarrow> 's \<Rightarrow> 's \<Rightarrow> bool" for E where
  evolve_touch: "touches E w w' \<Longrightarrow> evolves E w w'"
| evolve_trans: "evolves E w w' \<Longrightarrow> evolves E w' w'' \<Longrightarrow> evolves E w w''"
| evolve_state: "evolves E w (SetState (StateDB_of E) w a k v)"
| evolve_transient: "evolves E w (SetTransientState (StateDB_of E) w a k v)"
| evolve_log: "evolves E w (AddLog (StateDB_of E) w l)"
| evolve_suicide: "evolves E w (snd (Suicide (StateDB_of E) w a))"
| evolve_balance: "evolves E w (AddBalance (StateDB_of E) w a x)"
| evolve_nonce: "evolves E w (SetNonce (StateDB_of E) w a n)"
| evolve_code: "evolves E w (SetCode (StateDB_of E) w a bs)"
| evolve_account: "evolves E w (CreateAccount (StateDB_of E) w a)"
| evolve_transfer: "evolves E w (Transfer (Context E) w a b x)"
| evolve_revert: "evolves E (snd (Snapshot (StateDB_of E) w)) w' \<Longrightarrow>
    evolves E w (RevertToSnapshot (StateDB_of E) w' (fst (Snapshot (StateDB_of E) w)))"

definition changes :: "'s env \<Rightarrow> bool \<Rightarrow> 's \<Rightarrow> 's \<Rightarrow> bool" where
  "changes E b = (if b then touches E else evolves E)"

lemma changes_simps [simp]: "changes E True = touches E" "changes E False = evolves E"
  by (simp_all add: changes_def)

interpretation world_steps: state_laws E "changes E" for E :: "'s env"
proof unfold_locales
  fix ro w w' w''
  show "changes E ro w w' \<Longrightarrow> changes E ro w' w'' \<Longrightarrow> changes E ro w w''"
    by (cases ro) (auto intro: touch_trans evolve_trans)
next
  fix ro w w'
  show "changes E ro (snd (Snapshot (StateDB_of E) w)) w' \<Longrightarrow>
      changes E ro w (RevertToSnapshot (StateDB_of E) w' (fst (Snapshot (StateDB_of E) w)))"
    by (cases ro) (auto intro: touch_revert evolve_revert)
qed (auto simp: changes_def intro: touches.intros evolves.intros)

section \<open>Hypotheses on the environment\<close>

locale priced = protocol "extern E" for E :: "'s env" +
  assumes eip150: "IsEIP150 (chainRules E)"
    and pre_gas: "fst (snd (fst (PreContractCall E c w h))) \<le> asp_Gas c"
    and post_gas: "fst (snd (fst (PostContractCall E c w h))) \<le> asp_Gas c"

sublocale priced \<subseteq> frame: metered E "changes E"
  by unfold_locales (rule eip150 pre_gas post_gas)+

text \<open>An observation of the world that going back to a snapshot restores.\<close>

definition restores :: "'s env \<Rightarrow> ('s \<Rightarrow> 'v) \<Rightarrow> bool" where
  "restores E view \<longleftrightarrow>
     (\<forall>w w'. evolves E (snd (Snapshot (StateDB_of E) w)) w' \<longrightarrow>
        view (RevertToSnapshot (StateDB_of E) w' (fst (Snapshot (StateDB_of E) w))) = view w)"

text \<open>An observation that the bookkeeping of a read-only frame does not change.\<close>

definition untouched :: "'s env \<Rightarrow> ('s \<Rightarrow> 'v) \<Rightarrow> bool" where
  "untouched E view \<longleftrightarrow> (\<forall>w w'. touches E w w' \<longrightarrow> view w' = view w)"

lemma undone_view:
  assumes "restores E view" "undone E (changes E) b evm evm'"
  shows "view (world evm') = view (world evm)"
proof -
  have "changes E b w w' \<Longrightarrow> evolves E w w'" for w w'
    by (cases b) (auto intro: evolve_touch)
  then show ?thesis using assms unfolding undone_def restores_def by auto
qed

context priced
begin

lemma interpreter_run:
  assumes "NewEVMInterpreter E0 = Some (table, E)"
  shows "table_ok E (changes E) table" "good_run (changes E) n (Run n E table)"
proof -
  have "extern E = extern E0" "chainRules E = chainRules E0"
    using assms by (auto simp: NewEVMInterpreter_def bind_eq_Some Let_def split_beta)
  then show t: "table_ok E (changes E) table"
    using assms frame.instruction_set_ok frame.enable_eips_ok
    by (auto simp: NewEVMInterpreter_def bind_eq_Some Let_def split_beta copyJumpTable_def instruction_set_def)
  show "good_run (changes E) n (Run n E table)" by (rule frame.Run_ok[OF t])
qed

text \<open>The results of the calls, from the contract of a frame.\<close>

lemma Call_result:
  assumes "NewEVMInterpreter E0 = Some (table, E)" "unat gas < n" "readOnly evm \<longrightarrow> v = 0"
    and "EVM_Call (Run n E table) E callr addr input gas v evm = Ok ((ret, left, err), evm')"
  shows "left \<le> gas \<and> keeps (changes E) (readOnly evm) (depth evm = 0) [] evm evm' \<and>
    (willing E evm \<longrightarrow> clean_end E (changes E) (readOnly evm) evm ((ret, left, err), evm')) \<and>
    recorded evm (Ref_Address callr) (Some addr) input v gas left ret err evm'"
  using frame.EVM_Call_clean[OF interpreter_run(2)[OF assms(1)] assms(2,3), of callr addr input] assms(4) by simp

lemma plain_results:
  assumes "NewEVMInterpreter E0 = Some (table, E)" "unat gas < n"
  shows "EVM_CallCode (Run n E table) E callr addr input gas v evm = Ok ((ret, left, err), evm') \<Longrightarrow>
      left \<le> gas \<and> keeps (changes E) (readOnly evm) (depth evm = 0) [] evm evm' \<and>
      clean_end E (changes E) (readOnly evm) evm ((ret, left, err), evm')"
    "EVM_DelegateCall (Run n E table) E callr addr input gas evm = Ok ((ret, left, err), evm') \<Longrightarrow>
      left \<le> gas \<and> keeps (changes E) (readOnly evm) (depth evm = 0) [] evm evm' \<and>
      clean_end E (changes E) (readOnly evm) evm ((ret, left, err), evm')"
    "EVM_StaticCall (Run n E table) E callr addr input gas evm = Ok ((ret, left, err), evm') \<Longrightarrow>
      left \<le> gas \<and> keeps (changes E) True (depth evm = 0) [] evm evm' \<and>
      clean_end E (changes E) True evm ((ret, left, err), evm')"
  using frame.EVM_CallCode_clean[OF interpreter_run(2)[OF assms(1)] assms(2), of evm callr addr input v]
    frame.EVM_DelegateCall_clean[OF interpreter_run(2)[OF assms(1)] assms(2), of evm callr addr input]
    frame.EVM_StaticCall_clean[OF interpreter_run(2)[OF assms(1)] assms(2), of evm callr addr input]
  by simp_all

lemma create_result:
  assumes "NewEVMInterpreter E0 = Some (table, E)" "unat gas < n" "\<not> readOnly evm"
    and "EVM_create (Run n E table) E callr ch gas v addr typ evm = Ok ((ret, a, left, err), evm')"
  shows "left \<le> gas \<and> keeps (changes E) False (depth evm = 0) [] evm evm' \<and>
    create_undone E (changes E) evm (evm\<lparr>world := bumped E (world evm) (Ref_Address callr) addr\<rparr>) err evm' \<and>
    recorded evm (Ref_Address callr) None (fst ch) v gas left ret err evm'"
  using frame.EVM_create_clean[OF interpreter_run(2)[OF assms(1)] assms(2,3), of callr addr ch v "typ"] assms(4) by simp

end

section \<open>The sample environment\<close>

interpretation sample_priced: priced sample_env
proof -
  have "protocol (extern sample_env)" using eth.protocol_axioms by (simp add: sample_env_def)
  then show "priced sample_env"
    by (rule priced.intro) (simp add: priced_axioms_def sample_env_def sample_rules_def quiet_aspect_def)
qed

definition sample_table :: "journaled JumpTable" where
  "sample_table = fst (the (NewEVMInterpreter sample_env))"

lemma sample_interpreter: "NewEVMInterpreter sample_env = Some (sample_table, sample_env)"
proof -
  have "sample_env\<lparr>ConfigOf := (ConfigOf sample_env)\<lparr>ExtraEips := filter ValidEip (ExtraEips (ConfigOf sample_env))\<rparr>\<rparr> = sample_env"
    by (simp add: sample_env_def)
  then show ?thesis using interpreter_made[of sample_env] by (auto simp: sample_table_def)
qed

lemmas sample_defs = sample_env_def sample_db_def NewEVMBlockContext_def core_Transfer_def

lemma snaps_upd [simp]: "snaps (upd_state f w) = snaps w" "snaps (upd_acct w a g) = snaps w"
  by (simp_all add: upd_state_def upd_acct_def)

lemma prefix_revert:
  "prefix (snaps (snd (Snapshot sample_db w))) (snaps w') \<Longrightarrow>
    RevertToSnapshot sample_db w' (fst (Snapshot sample_db w)) = w'\<lparr>cur := cur w, snaps := snaps w\<rparr>"
  by (auto simp: sample_db_def prefix_def)

lemma touches_snaps: "touches sample_env w w' \<Longrightarrow> prefix (snaps w) (snaps w')"
proof (induction rule: touches.induct)
  case (touch_revert w w')
  then show ?case using prefix_revert[of w w'] by (simp add: sample_env_def)
qed (auto simp: sample_defs quiet_aspect_def)

lemma evolves_snaps: "evolves sample_env w w' \<Longrightarrow> prefix (snaps w) (snaps w')"
proof (induction rule: evolves.induct)
  case (evolve_revert w w')
  then show ?case using prefix_revert[of w w'] by (simp add: sample_env_def)
next
  case (evolve_touch w w')
  then show ?case by (rule touches_snaps)
qed (auto simp: sample_defs)

lemma sample_restores: "restores sample_env cur"
  unfolding restores_def
proof (intro allI impI)
  fix w w' assume "evolves sample_env (snd (Snapshot (StateDB_of sample_env) w)) w'"
  then have "prefix (snaps (snd (Snapshot sample_db w))) (snaps w')"
    using evolves_snaps by (fastforce simp: sample_env_def)
  then show "cur (RevertToSnapshot (StateDB_of sample_env) w' (fst (Snapshot (StateDB_of sample_env) w))) = cur w"
    by (simp add: sample_env_def prefix_revert)
qed

text \<open>What a transaction can see of the world: the accounts, the logs and the transient storage.\<close>

definition seen :: "journaled \<Rightarrow> (address \<Rightarrow> account) \<times> Log list \<times> ((address \<times> hash) \<times> hash) list" where
  "seen w = (acct w, st_logs (cur w), st_transient (cur w))"

lemma seen_acct: "f (acct w a) = acct w a \<Longrightarrow> seen (upd_acct w a f) = seen w"
  by (auto simp: seen_def upd_acct_def upd_state_def acct_def lookup_def fun_eq_iff)

lemma seen_state:
  "(\<And>s. st_accounts (f s) = st_accounts s) \<Longrightarrow> (\<And>s. st_logs (f s) = st_logs s) \<Longrightarrow>
    (\<And>s. st_transient (f s) = st_transient s) \<Longrightarrow> seen (upd_state f w) = seen w"
  by (auto simp: seen_def upd_state_def acct_def fun_eq_iff)

lemma sample_untouched: "untouched sample_env seen"
  unfolding untouched_def
proof (intro allI impI)
  fix w w' assume "touches sample_env w w'"
  then show "seen w' = seen w"
  proof (induction rule: touches.induct)
    case (touch_revert w w')
    have "prefix (snaps (snd (Snapshot sample_db w))) (snaps w')"
      using touches_snaps[OF touch_revert.hyps] by (simp add: sample_env_def)
    then show ?case by (simp add: sample_env_def prefix_revert seen_def acct_def fun_eq_iff)
  next
    case (touch_account w a)
    then have "acct w a = new_account" by (simp add: sample_env_def sample_db_def acct_def lookup_def)
    then show ?case by (simp add: sample_env_def sample_db_def seen_acct new_account_def)
  next
    case (touch_snapshot w)
    show ?case by (simp add: sample_env_def sample_db_def seen_def acct_def fun_eq_iff)
  qed (simp_all add: sample_defs quiet_aspect_def seen_acct seen_state)
qed

text \<open>Calls in the sample environment are evaluated with the definitions of the calls; account 1 has
  1000, account 0x42 has code, 0x1234 does not exist.\<close>

definition sample_evm :: "journaled EVM" where
  "sample_evm = fresh_EVM (sample_world [0xFE])"

lemmas sample_eval = EVM_Call_def call_guarded_def call_body_def call_code_def MustFromBig_def
  sample_evm_def too_deep_def fresh_EVM_def sample_world_def empty_world_def sample_env_def sample_db_def
  NewEVMBlockContext_def core_CanTransfer_def core_Transfer_def take_snapshot_def upd_acct_def
  upd_state_def acct_def lookup_def new_account_def TransferWithRecord_def record_balance_def
  precompile_def sample_rules_def PrecompiledContractsBerlin_def Let_def capture_enter_def
  capture_leave_def capture_def settle_def eth_ext_def eth_params_def sample_header_def

section \<open>Termination\<close>


definition sample_contract :: "bytes \<Rightarrow> u64 \<Rightarrow> Contract" where
  "sample_contract code gas =
     SetCallCode (fst (NewContract [] (AccountRef 1) (AccountRef 0x42) 0 gas)) (Some 0x42) 0 code"


section \<open>Gas, depth and the call tree\<close>

text \<open>C3: A call never returns more gas than it was given, it leaves the depth and the read-only mode
  as they were, and the call tree has grown by exactly one call: the caller, the address, the input,
  the value and the gas it got, the calls made inside, and the gas, the data and the error it
  returned.\<close>

theorem Call_accounts:
  assumes "priced E" "NewEVMInterpreter E0 = Some (table, E)" "unat gas < n" "readOnly evm \<longrightarrow> v = 0"
    and "EVM_Call (Run n E table) E callr addr input gas v evm = Ok ((ret, left, err), evm')"
  shows "left \<le> gas \<and> depth evm' = depth evm \<and> readOnly evm' = readOnly evm \<and>
    (\<exists>inner. callTree (tracer evm') = run_trace (callTree (tracer evm))
       (CallTrace (Ref_Address callr) (Some addr) input (word_of_int v) (SetUint64 gas) inner left ret err))"
  using priced.Call_result[OF assms] by (simp add: keeps_def recorded_def)

lemma sample_transfer:
  "\<exists>r. EVM_Call (Run 1000 sample_env sample_table) sample_env (AccountRef 1) 0x1234 [] 900 5 sample_evm = Ok r"
  by (simp add: sample_eval)

theorem Call_accounts_witness:
  "\<exists>ret left err evm'.
     EVM_Call (Run 1000 sample_env sample_table) sample_env (AccountRef 1) 0x1234 [] 900 5 sample_evm =
       Ok ((ret, left, err), evm') \<and>
     left \<le> 900 \<and> depth evm' = depth sample_evm \<and> readOnly evm' = readOnly sample_evm \<and>
     (\<exists>inner. callTree (tracer evm') = run_trace (callTree (tracer sample_evm))
        (CallTrace (Ref_Address (AccountRef 1)) (Some 0x1234) [] (word_of_int 5) (SetUint64 900) inner left ret err))"
proof -
  obtain ret left err evm' where
    "EVM_Call (Run 1000 sample_env sample_table) sample_env (AccountRef 1) 0x1234 [] 900 5 sample_evm =
       Ok ((ret, left, err), evm')"
    using sample_transfer by (auto simp del: One_nat_def)
  with Call_accounts[OF sample_priced.priced_axioms sample_interpreter _ _ this]
  show ?thesis by (auto simp: sample_evm_def fresh_EVM_def)
qed

section \<open>The logger\<close>

lemma Call_scan:
  assumes "priced E" "NewEVMInterpreter E0 = Some (table, E)" "unat gas < n" "readOnly evm \<longrightarrow> v = 0"
    and "EVM_Call (Run n E table) E callr addr input gas v evm = Ok ((ret, left, err), evm')"
  shows "\<exists>evs. events evm' = events evm @ evs \<and> scan (depth evm = 0) evs [] = Some []"
  using priced.Call_result[OF assms] by (simp add: keeps_def emits_def)

text \<open>C1: The calls of the logger nest. Whatever code runs, the events of a call open and close scopes
  in a properly nested way: every frame that is entered is left, before the frame around it is, and
  \<open>CaptureStart\<close> and \<open>CaptureEnd\<close> are used by a call from outside and only around everything
  else.\<close>

theorem Call_events_nest:
  assumes "priced E" "NewEVMInterpreter E0 = Some (table, E)" "unat gas < n" "readOnly evm \<longrightarrow> v = 0"
    and "EVM_Call (Run n E table) E callr addr input gas v evm = Ok ((ret, left, err), evm')"
  shows "\<exists>evs. events evm' = events evm @ evs \<and> scan (depth evm = 0) evs [] = Some []"
  by (rule Call_scan[OF assms])

theorem Call_events_nest_witness:
  "\<exists>ret left err evm' evs.
     EVM_Call (Run 1000 sample_env sample_table) sample_env (AccountRef 1) 0x1234 [] 900 5 sample_evm =
       Ok ((ret, left, err), evm') \<and>
     events evm' = events sample_evm @ evs \<and> scan (depth sample_evm = 0) evs [] = Some []"
proof -
  obtain ret left err evm' where
    "EVM_Call (Run 1000 sample_env sample_table) sample_env (AccountRef 1) 0x1234 [] 900 5 sample_evm =
       Ok ((ret, left, err), evm')"
    using sample_transfer by (auto simp del: One_nat_def)
  with Call_events_nest[OF sample_priced.priced_axioms sample_interpreter _ _ this]
  show ?thesis by (auto simp: sample_evm_def fresh_EVM_def)
qed

section \<open>Failed calls\<close>


lemma sample_failing:
  "\<exists>evm'. EVM_Call (Run 1000 sample_env sample_table) sample_env (AccountRef 1) 4 [1] 10 5 sample_evm =
     Ok (([], 0, Some ErrOutOfGas), evm')"
  by (simp add: sample_eval run_precompile_def RunPrecompiledContract_def dataCopy_RequiredGas_def per_word_def)

lemma sample_willing: "willing sample_env evm"
  by (simp add: willing_def sample_env_def quiet_aspect_def)


text \<open>C6: The same for the other calls: a failed CALLCODE, DELEGATECALL or STATICCALL leaves no trace and
  keeps no gas, with the same exceptions.\<close>

theorem plain_calls_failure_undone:
  assumes "priced E" "NewEVMInterpreter E0 = Some (table, E)" "unat gas < n" "restores E view"
    and "EVM_CallCode (Run n E table) E callr addr input gas v evm = Ok ((ret, left, Some err), evm') \<or>
         EVM_DelegateCall (Run n E table) E callr addr input gas evm = Ok ((ret, left, Some err), evm') \<or>
         EVM_StaticCall (Run n E table) E callr addr input gas evm = Ok ((ret, left, Some err), evm')"
  shows "view (world evm') = view (world evm) \<and>
    (left = 0 \<or> err = ErrExecutionReverted \<or> err = ErrDepth \<or> err = ErrInsufficientBalance)"
proof -
  have "\<exists>b. clean_end E (changes E) b evm ((ret, left, Some err), evm')"
    using assms(5) priced.plain_results(1)[OF assms(1-3), of callr addr input v evm ret left "Some err" evm']
      priced.plain_results(2,3)[OF assms(1-3), of callr addr input evm ret left "Some err" evm'] by auto
  then show ?thesis using undone_view[OF assms(4)] by (auto simp: clean_end_def)
qed

lemma sample_failing_static:
  "\<exists>evm'. EVM_StaticCall (Run 1000 sample_env sample_table) sample_env (AccountRef 1) 4 [1] 10 sample_evm =
     Ok (([], 0, Some ErrOutOfGas), evm')"
  by (simp add: sample_eval EVM_StaticCall_def plain_call_def run_precompile_def RunPrecompiledContract_def dataCopy_RequiredGas_def per_word_def)

theorem plain_calls_failure_undone_witness:
  "\<exists>evm'. EVM_StaticCall (Run 1000 sample_env sample_table) sample_env (AccountRef 1) 4 [1] 10 sample_evm =
     Ok (([], 0, Some ErrOutOfGas), evm') \<and> cur (world evm') = cur (world sample_evm)"
proof -
  obtain evm' where "EVM_StaticCall (Run 1000 sample_env sample_table) sample_env (AccountRef 1) 4 [1] 10 sample_evm =
     Ok (([], 0, Some ErrOutOfGas), evm')"
    using sample_failing_static by blast
  with plain_calls_failure_undone[OF sample_priced.priced_axioms sample_interpreter _ sample_restores disjI2[OF disjI2[OF this]]]
  show ?thesis by auto
qed

text \<open>C4: A static call changes nothing a read-only frame may not change: any observation of the state
  that access lists, refunds, preimages, touched accounts and snapshots do not affect is the same
  after it, however deep the calls inside go; gas, depth and mode are accounted for as in a call.\<close>

theorem StaticCall_untouched:
  assumes "priced E" "NewEVMInterpreter E0 = Some (table, E)" "unat gas < n" "untouched E view"
    and "EVM_StaticCall (Run n E table) E callr addr input gas evm = Ok ((ret, left, err), evm')"
  shows "view (world evm') = view (world evm) \<and> left \<le> gas \<and> depth evm' = depth evm \<and>
    readOnly evm' = readOnly evm"
  using priced.plain_results(3)[OF assms(1-3,5)] assms(4) by (auto simp: keeps_def untouched_def)

theorem StaticCall_untouched_witness:
  "\<exists>evm'. EVM_StaticCall (Run 1000 sample_env sample_table) sample_env (AccountRef 1) 4 [1] 10 sample_evm =
     Ok (([], 0, Some ErrOutOfGas), evm') \<and> seen (world evm') = seen (world sample_evm)"
proof -
  obtain evm' where "EVM_StaticCall (Run 1000 sample_env sample_table) sample_env (AccountRef 1) 4 [1] 10 sample_evm =
     Ok (([], 0, Some ErrOutOfGas), evm')"
    using sample_failing_static by blast
  with StaticCall_untouched[OF sample_priced.priced_axioms sample_interpreter _ sample_untouched this]
  show ?thesis by auto
qed

section \<open>Creations\<close>


lemma sample_collision:
  "\<exists>evm'. EVM_create (Run 1000 sample_env sample_table) sample_env (AccountRef 1) ([], 0) 900 5 0x42 OP_CREATE sample_evm =
     Ok (([], 0, 0, Some ErrContractAddressCollision), evm')"
  by (simp add: sample_eval EVM_create_def create_guarded_def collides_def emptyCodeHash_def SetBytes_def)


section \<open>Refused calls\<close>

text \<open>C21: An aspect that refuses a call ends it early: the call returns the aspect's data, gas and error,
  but unlike any other failure the value stays transferred and the gas the aspect left is kept, since
  the call does not go back to its snapshot.\<close>

theorem refused_call_not_undone:
  assumes "\<not> too_deep E evm" "v \<noteq> 0" "\<bar>v\<bar> < 2 ^ 256" "CanTransfer (Context E) (world evm) (Ref_Address callr) v"
    and "Snapshot (StateDB_of E) (world evm) = (i, w1)" "Exist (StateDB_of E) w1 addr" "precompile E addr = None"
    and "TransferWithRecord (GetBalance (StateDB_of E)) (Transfer (Context E))
           (SaveCall (tracer evm) (Ref_Address callr) (Some addr) input (word_of_int v) (SetUint64 gas))
           w1 (Ref_Address callr) addr v = Some (t, w2)"
    and "GetCode (StateDB_of E) w2 addr \<noteq> []" "IsExecuteJP evm"
    and "\<forall>c h. PreContractCall E c w2 h = ((pret, left, Some e), w2, h)" "\<not> is_oog e"
  shows "\<exists>evm'. EVM_Call run E callr addr input gas v evm = Ok ((pret, left, Some e), evm') \<and> world evm' = w2"
proof -
  have "w2 = Transfer (Context E) w1 (Ref_Address callr) addr v" using TransferWithRecord_shape[OF assms(8)] by simp
  then show ?thesis
    using assms
    by (simp add: EVM_Call_def MustFromBig_def call_guarded_def Let_def take_snapshot_def call_body_def
        call_code_def pre_aspect_def capture_enter_def capture_leave_def capture_def too_deep_def split_beta)
qed

definition refusing_env :: "journaled env" where
  "refusing_env = sample_env\<lparr>PreContractCall := (\<lambda>c w h. (([7], 77, Some (ErrMsg ''refused'')), w, h))\<rparr>"

theorem refused_call_not_undone_witness:
  "\<exists>evm'. EVM_Call (Run 1000 refusing_env sample_table) refusing_env (AccountRef 1) 0x42 [] 900 5 sample_evm =
     Ok (([7], 77, Some (ErrMsg ''refused'')), evm') \<and> GetBalance sample_db (world evm') 0x42 = 5"
proof -
  let ?t = "TransferWithRecord (GetBalance (StateDB_of refusing_env)) (Transfer (Context refusing_env))
      (SaveCall (tracer sample_evm) (Ref_Address (AccountRef 1)) (Some 0x42) [] (word_of_int 5) (SetUint64 900))
      (snd (Snapshot (StateDB_of refusing_env) (world sample_evm))) (Ref_Address (AccountRef 1)) 0x42 5"
  have "\<exists>t w2. ?t = Some (t, w2) \<and> GetCode (StateDB_of refusing_env) w2 0x42 \<noteq> [] \<and> GetBalance sample_db w2 0x42 = 5"
    by (simp add: refusing_env_def sample_eval)
  then obtain t w2 where t: "?t = Some (t, w2)"
    and w2: "GetCode (StateDB_of refusing_env) w2 0x42 \<noteq> []" "GetBalance sample_db w2 0x42 = 5" by blast
  have "\<exists>evm'. EVM_Call (Run 1000 refusing_env sample_table) refusing_env (AccountRef 1) 0x42 [] 900 5 sample_evm =
     Ok (([7], 77, Some (ErrMsg ''refused'')), evm') \<and> world evm' = w2"
    by (rule refused_call_not_undone[OF _ _ _ _ prod.collapse[symmetric] _ _ t w2(1)])
      (simp_all add: refusing_env_def sample_eval is_oog_def)
  then show ?thesis using w2(2) by auto
qed

end
