(* ===== verification/Tracers.thy ===== *)
theory Tracers
  imports Interpreter "HOL-Library.AList"
begin

text \<open>
  The common part of the tracers (\<open>src/tracers/tracers.go\<close>): the context of a traced transaction,
  the directory of tracers by name, and the padded copy of memory they take; and the tracer that
  does nothing (\<open>src/tracers/native/noop.go\<close>). A tracer is what its constructor returns; the
  evaluator of user code is a parameter.
\<close>

section \<open>Context and directory\<close>

record tracer_Context =
  tc_BlockHash :: hash
  tc_BlockNumber :: "int option"
  tc_TxIndex :: int
  tc_TxHash :: hash

type_synonym 't ctorFn = "tracer_Context option \<Rightarrow> string option \<Rightarrow> error + 't"
type_synonym 't jsCtorFn = "string \<Rightarrow> tracer_Context option \<Rightarrow> string option \<Rightarrow> error + 't"

record 't elem =
  elem_ctor :: "'t ctorFn"
  elem_isJS :: bool

record 't directory =
  dir_elems :: "(string \<times> 't elem) list"
  dir_jsEval :: "'t jsCtorFn option"

definition DefaultDirectory :: "'t directory" where
  "DefaultDirectory = \<lparr>dir_elems = [], dir_jsEval = None\<rparr>"

definition dir_Register :: "'t directory \<Rightarrow> string \<Rightarrow> 't ctorFn \<Rightarrow> bool \<Rightarrow> 't directory" where
  "dir_Register d name f isJS =
     d\<lparr>dir_elems := AList.update name \<lparr>elem_ctor = f, elem_isJS = isJS\<rparr> (dir_elems d)\<rparr>"

definition dir_RegisterJSEval :: "'t directory \<Rightarrow> 't jsCtorFn \<Rightarrow> 't directory" where
  "dir_RegisterJSEval d f = d\<lparr>dir_jsEval := Some f\<rparr>"

text \<open>Without an evaluator an unknown name panics (\<open>None\<close>).\<close>

definition dir_New ::
  "'t directory \<Rightarrow> string \<Rightarrow> tracer_Context option \<Rightarrow> string option \<Rightarrow> (error + 't) option" where
  "dir_New d name ctx cfg =
     (case map_of (dir_elems d) name of
        Some e \<Rightarrow> Some (elem_ctor e ctx cfg)
      | None \<Rightarrow> do { f \<leftarrow> dir_jsEval d; Some (f name ctx cfg) })"

definition dir_IsJS :: "'t directory \<Rightarrow> string \<Rightarrow> bool" where
  "dir_IsJS d name = (case map_of (dir_elems d) name of Some e \<Rightarrow> elem_isJS e | None \<Rightarrow> True)"

section \<open>Memory copies\<close>

definition memoryPadLimit :: int where
  "memoryPadLimit = 1024 * 1024"

text \<open>\<open>offset\<close> and \<open>sz\<close> are signed 64-bit numbers.\<close>

definition GetMemoryCopyPadded :: "Memory \<Rightarrow> u64 \<Rightarrow> u64 \<Rightarrow> (error + bytes) option" where
  "GetMemoryCopyPadded m offset sz =
     (if sint offset < 0 \<or> sint sz < 0
      then Some (Inl (ErrMsg ''offset or size must not be negative''))
      else if sint (offset + sz) < int (Mem_Len m)
      then map_option Inr (GetCopy m offset sz)
      else
        let paddingNeeded = sint (offset + sz) - int (Mem_Len m) in
        if memoryPadLimit < paddingNeeded
        then Some (Inl (ErrMsg (''reached limit for padding memory slice: '' @ decimal (nat paddingNeeded))))
        else
          let cpy = replicate (nat (sint sz)) 0;
              overlap = of_nat (Mem_Len m) - offset
          in if 0 < sint overlap
             then do {
               p \<leftarrow> GetPtr m offset overlap;
               Some (Inr (take (length cpy) p @ drop (length p) cpy)) }
             else Some (Inr cpy))"

lemma sint_sub_small:
  fixes x y :: u64
  assumes "unat x < 9223372036854775808" "unat y < 9223372036854775808"
  shows "sint (x - y) = int (unat x) - int (unat y)"
proof -
  have "sint (x - y) = signed_take_bit 63 (sint x - sint y)"
    by (simp add: sint_word_ariths)
  also have "\<dots> = sint x - sint y"
    using assms by (subst signed_take_bit_int_eq_self_iff) (simp add: sint_small del: of_nat_unat)
  finally show ?thesis using assms by (simp only: sint_small)
qed

text \<open>C1: Within the padding limit a padded copy is the bytes asked for, with zeros where the memory
  ends: exactly \<open>sz\<close> bytes, whatever part of the range lies outside.\<close>

theorem GetMemoryCopyPadded_pads:
  assumes "wf_memory m" "Mem_Len m < 9223372036854775808"
    and "unat offset + unat sz < 9223372036854775808"
    and "int (unat offset + unat sz) \<le> int (Mem_Len m) + memoryPadLimit"
  shows "GetMemoryCopyPadded m offset sz =
    Some (Inr (take (unat sz) (drop (unat offset) (store m @ replicate (unat offset + unat sz) 0))))"
proof -
  let ?o = "unat offset" and ?s = "unat sz" and ?l = "Mem_Len m"
  have sum: "unat (offset + sz) = ?o + ?s" using assms(3) by (subst unat_add_nowrap) simp_all
  have si: "sint offset = int ?o" "sint sz = int ?s" "sint (offset + sz) = int (?o + ?s)"
    using assms(3) sum by (simp_all add: sint_small del: of_nat_add of_nat_unat)
  have ul: "unat (of_nat ?l :: u64) = ?l" using assms(2) by (simp add: unat_of_nat)
  have so: "sint (of_nat ?l - offset) = int ?l - int ?o"
    using sint_sub_small[of "of_nat ?l" offset] assms(2,3) ul by simp
  show ?thesis
  proof (cases "?o + ?s < ?l")
    case True
    then show ?thesis
      using si GetCopy_in_range[of offset sz m] assms(1,2)
      by (simp add: GetMemoryCopyPadded_def Mem_Len_def del: of_nat_unat)
  next
    case False
    show ?thesis
    proof (cases "?o < ?l")
      case True
      have ov: "unat (of_nat ?l - offset) = ?l - ?o"
        using True ul by (subst unat_sub_u64) (simp_all add: word_le_nat_alt)
      have ptr: "GetPtr m offset (of_nat ?l - offset) = Some (drop ?o (store m))"
        using GetCopy_in_range[of offset "of_nat ?l - offset" m] True ov assms(1,2)
        by (simp add: GetPtr_GetCopy Mem_Len_def)
      have "GetMemoryCopyPadded m offset sz =
          Some (Inr (take ?s (drop ?o (store m)) @ drop (?l - ?o) (replicate ?s 0)))"
        using si so ptr False True assms(4)
        by (simp add: GetMemoryCopyPadded_def Let_def Mem_Len_def del: of_nat_unat)
      then show ?thesis using True False by (simp add: Mem_Len_def min_def)
    next
      case nt: False
      then show ?thesis
        using si so False nt assms(4)
        by (simp add: GetMemoryCopyPadded_def Let_def Mem_Len_def min_def del: of_nat_unat)
    qed
  qed
qed

lemma GetMemoryCopyPadded_pads_witness:
  "GetMemoryCopyPadded \<lparr>store = replicate 32 7, store_cap = 32, lastGasCost = 0\<rparr> 31 2 = Some (Inr [7, 0])"
  using GetMemoryCopyPadded_pads[of "\<lparr>store = replicate 32 7, store_cap = 32, lastGasCost = 0\<rparr>" 31 2]
  by (simp add: wf_memory_def Mem_Len_def memoryPadLimit_def)

section \<open>The tracer that does nothing\<close>

datatype noopTracer = NoopTracer

definition newNoopTracer :: "noopTracer ctorFn" where
  "newNoopTracer ctx cfg = Inr NoopTracer"

definition noop_capture :: "'s log_event \<Rightarrow> noopTracer \<Rightarrow> noopTracer" where
  "noop_capture ev t = t"

definition noop_GetResult :: "noopTracer \<Rightarrow> error + string" where
  "noop_GetResult t = Inr ''{}''"

end
