(* ===== verification/Call_Tracer.thy ===== *)
theory Call_Tracer
  imports Tracers Frames
begin

text \<open>
  The tracer of nested calls (\<open>src/tracers/native/call.go\<close>). A frame nests frames and join points,
  so the two structs are mutually recursive datatypes; the fields that do not nest are records. The
  call stack is a list with the innermost frame last. A handler is a function of the tracer, \<open>None\<close>
  where the code indexes out of range. What the aspect library and the ABI decoder provide is a
  parameter. The theory shows that the tracer rebuilds the tree of calls from properly nested events,
  and what becomes of the logs of failed calls.
\<close>

section \<open>Frames\<close>

type_synonym JoinPointRunType = int

text \<open>\<open>abi.UnpackRevert\<close>, and of the join point types the constant for none, the name and the test for
  those before a call.\<close>

record tracer_ext =
  UnpackRevert :: "bytes \<Rightarrow> string option"
  JoinPointRunType_Unknown :: JoinPointRunType
  JoinPoint_String :: "JoinPointRunType \<Rightarrow> string"
  IsPreCall :: "JoinPointRunType \<Rightarrow> bool"

record callLog =
  cl_Address :: address
  cl_Topics :: "hash list"
  cl_Data :: bytes

record aspect_fields =
  ac_Type :: JoinPointRunType
  ac_Aspect :: address
  ac_From :: address
  ac_Gas :: u64
  ac_GasUsed :: u64
  ac_To :: address
  ac_Input :: bytes
  ac_Output :: bytes
  ac_Error :: string
  ac_RevertReason :: string
  ac_ExecContext :: string
  ac_Value :: "int option"

record call_fields =
  cf_Type :: OpCode
  cf_From :: address
  cf_Gas :: u64
  cf_GasUsed :: u64
  cf_To :: "address option"
  cf_Input :: bytes
  cf_Output :: bytes
  cf_Error :: string
  cf_RevertReason :: string
  cf_Value :: "int option"

datatype callFrame =
  CallFrame (cf: call_fields) (cf_Calls: "callFrame list") (cf_Logs: "callLog list")
    (cf_JoinPoints: "aspectCallFrame list") (cf_joinPoint: JoinPointRunType)
and aspectCallFrame =
  AspectFrame (ac: aspect_fields) (ac_Calls: "callFrame list")

text \<open>The zero value of a frame.\<close>

definition no_fields :: call_fields where
  "no_fields = \<lparr>cf_Type = 0, cf_From = 0, cf_Gas = 0, cf_GasUsed = 0, cf_To = None, cf_Input = [],
     cf_Output = [], cf_Error = [], cf_RevertReason = [], cf_Value = None\<rparr>"

abbreviation bare_frame :: "call_fields \<Rightarrow> callFrame" where
  "bare_frame f \<equiv> CallFrame f [] [] [] 0"

fun upd_cf :: "(call_fields \<Rightarrow> call_fields) \<Rightarrow> callFrame \<Rightarrow> callFrame" where
  "upd_cf g (CallFrame f cs ls js j) = CallFrame (g f) cs ls js j"

definition aspect_TypeString :: "tracer_ext \<Rightarrow> aspect_fields \<Rightarrow> string" where
  "aspect_TypeString T f = JoinPoint_String T (ac_Type f)"

definition aspect_failed :: "aspect_fields \<Rightarrow> bool" where
  "aspect_failed f \<longleftrightarrow> 0 < length (ac_Error f)"

definition aspect_processOutput ::
  "tracer_ext \<Rightarrow> bytes \<Rightarrow> error option \<Rightarrow> aspect_fields \<Rightarrow> aspect_fields" where
  "aspect_processOutput T output err f =
     (case err of
        None \<Rightarrow> f\<lparr>ac_Output := output\<rparr>
      | Some e \<Rightarrow>
          let f = f\<lparr>ac_Error := error_text e\<rparr> in
          if length output = 0 then f
          else
            let f = f\<lparr>ac_Output := output\<rparr> in
            if length output < 4 then f
            else case UnpackRevert T output of None \<Rightarrow> f | Some u \<Rightarrow> f\<lparr>ac_RevertReason := u\<rparr>)"

definition call_TypeString :: "call_fields \<Rightarrow> string" where
  "call_TypeString f = OpCode_String (cf_Type f)"

definition call_failed :: "call_fields \<Rightarrow> bool" where
  "call_failed f \<longleftrightarrow> 0 < length (cf_Error f)"

definition processOutput :: "tracer_ext \<Rightarrow> bytes \<Rightarrow> error option \<Rightarrow> call_fields \<Rightarrow> call_fields" where
  "processOutput T output err f =
     (case err of
        None \<Rightarrow> f\<lparr>cf_Output := output\<rparr>
      | Some e \<Rightarrow>
          let f = f\<lparr>cf_Error := error_text e\<rparr>;
              f = (if cf_Type f = OP_CREATE \<or> cf_Type f = OP_CREATE2 then f\<lparr>cf_To := None\<rparr> else f) in
          if e \<noteq> ErrExecutionReverted \<or> length output = 0 then f
          else
            let f = f\<lparr>cf_Output := output\<rparr> in
            if length output < 4 then f
            else case UnpackRevert T output of None \<Rightarrow> f | Some u \<Rightarrow> f\<lparr>cf_RevertReason := u\<rparr>)"

section \<open>The tracer\<close>

record callTracerConfig =
  OnlyTopCall :: bool
  WithLog :: bool

record callTracer =
  callstack :: "callFrame list"
  ctr_config :: callTracerConfig
  gasLimit :: u64
  interrupt :: bool
  reason :: "error option"

text \<open>\<open>json.Unmarshal\<close> of the configuration is a parameter.\<close>

definition newCallTracer :: "(string \<Rightarrow> error + callTracerConfig) \<Rightarrow> callTracer ctorFn" where
  "newCallTracer decode ctx cfg =
     (case (case cfg of None \<Rightarrow> Inr \<lparr>OnlyTopCall = False, WithLog = False\<rparr> | Some text \<Rightarrow> decode text) of
        Inl err \<Rightarrow> Inl err
      | Inr config \<Rightarrow>
          Inr \<lparr>callstack = [bare_frame no_fields], ctr_config = config, gasLimit = 0,
               interrupt = False, reason = None\<rparr>)"

text \<open>Writing through \<open>callstack[0]\<close> and \<open>callstack[len - 1]\<close>.\<close>

definition upd_first :: "(callFrame \<Rightarrow> callFrame) \<Rightarrow> callTracer \<Rightarrow> callTracer option" where
  "upd_first g t =
     (if callstack t = [] then None
      else Some (t\<lparr>callstack := (callstack t)[0 := g (callstack t ! 0)]\<rparr>))"

definition upd_last :: "(callFrame \<Rightarrow> callFrame) \<Rightarrow> callTracer \<Rightarrow> callTracer option" where
  "upd_last g t =
     (if callstack t = [] then None
      else Some (t\<lparr>callstack := butlast (callstack t) @ [g (last (callstack t))]\<rparr>))"

definition call_Stop :: "callTracer \<Rightarrow> error \<Rightarrow> callTracer" where
  "call_Stop t err = t\<lparr>reason := Some err, interrupt := True\<rparr>"

fun enter_aspect :: "aspect_fields \<Rightarrow> JoinPointRunType \<Rightarrow> callFrame \<Rightarrow> callFrame" where
  "enter_aspect a joinpoint (CallFrame f cs ls js j) = CallFrame f cs ls (js @ [AspectFrame a []]) joinpoint"

text \<open>\<open>rawExecCtx\<close> is what marshalling the execution context gives.\<close>

definition call_CaptureAspectEnter ::
  "JoinPointRunType \<Rightarrow> address \<Rightarrow> address \<Rightarrow> address \<Rightarrow> bytes \<Rightarrow> u64 \<Rightarrow> int option \<Rightarrow> error + string
     \<Rightarrow> callTracer \<Rightarrow> callTracer option" where
  "call_CaptureAspectEnter joinpoint from' to' aspectId input gas val rawExecCtx t =
     (case rawExecCtx of
        Inl err \<Rightarrow> Some (call_Stop t err)
      | Inr rawCtx \<Rightarrow>
          let val = (case val of None \<Rightarrow> 0 | Some v \<Rightarrow> v);
              aspectCall = \<lparr>ac_Type = joinpoint, ac_Aspect = aspectId, ac_From = from', ac_Gas = gas,
                ac_GasUsed = 0, ac_To = to', ac_Input = input, ac_Output = [], ac_Error = [],
                ac_RevertReason = [], ac_ExecContext = rawCtx, ac_Value = Some val\<rparr>
          in upd_last (enter_aspect aspectCall joinpoint) t)"

record AspectExecutionResult =
  res_Gas :: u64
  res_Ret :: bytes
  res_Err :: "error option"

text \<open>The loop ends at the first join point of the type.\<close>

fun exit_join_point ::
  "tracer_ext \<Rightarrow> JoinPointRunType \<Rightarrow> AspectExecutionResult \<Rightarrow> aspectCallFrame list \<Rightarrow> aspectCallFrame list" where
  "exit_join_point T joinpoint r [] = []"
| "exit_join_point T joinpoint r (AspectFrame a cs # js) =
     (if ac_Type a = joinpoint
      then AspectFrame (aspect_processOutput T (res_Ret r) (res_Err r) (a\<lparr>ac_GasUsed := ac_Gas a - res_Gas r\<rparr>)) cs # js
      else AspectFrame a cs # exit_join_point T joinpoint r js)"

fun exit_aspect ::
  "tracer_ext \<Rightarrow> JoinPointRunType \<Rightarrow> AspectExecutionResult \<Rightarrow> callFrame \<Rightarrow> callFrame" where
  "exit_aspect T joinpoint r (CallFrame f cs ls js j) =
     CallFrame f cs ls (exit_join_point T joinpoint r js) (JoinPointRunType_Unknown T)"

definition call_CaptureAspectExit ::
  "tracer_ext \<Rightarrow> JoinPointRunType \<Rightarrow> AspectExecutionResult \<Rightarrow> callTracer \<Rightarrow> callTracer option" where
  "call_CaptureAspectExit T joinpoint r t = upd_last (exit_aspect T joinpoint r) t"

definition call_CaptureStart ::
  "address \<Rightarrow> address \<Rightarrow> bool \<Rightarrow> bytes \<Rightarrow> u64 \<Rightarrow> int option \<Rightarrow> callTracer \<Rightarrow> callTracer option" where
  "call_CaptureStart from' to' create input gas val t =
     upd_first (upd_cf (\<lambda>f. f\<lparr>cf_From := from', cf_To := Some to', cf_Input := input, cf_Gas := gasLimit t,
       cf_Value := val, cf_Type := (if create then OP_CREATE else OP_CALL)\<rparr>)) t"

definition call_CaptureEnd :: "tracer_ext \<Rightarrow> bytes \<Rightarrow> u64 \<Rightarrow> error option \<Rightarrow> callTracer \<Rightarrow> callTracer option" where
  "call_CaptureEnd T output gasUsed err t = upd_first (upd_cf (processOutput T output err)) t"

text \<open>The words of the stack by their distance from the top.\<close>

definition from_top :: "Stack \<Rightarrow> nat \<Rightarrow> u256 option" where
  "from_top st i = (if i < stack_len st then Some (st_data st ! (stack_len st - 1 - i)) else None)"

primrec log_topics :: "Stack \<Rightarrow> nat \<Rightarrow> hash list option" where
  "log_topics st 0 = Some []"
| "log_topics st (Suc n) = do {
     topics \<leftarrow> log_topics st n;
     topic \<leftarrow> from_top st (1 + (n + 1));
     Some (topics @ [topic]) }"

fun add_log :: "callLog \<Rightarrow> callFrame \<Rightarrow> callFrame" where
  "add_log l (CallFrame f cs ls js j) = CallFrame f cs (ls @ [l]) js j"

definition call_CaptureState ::
  "OpCode \<Rightarrow> ScopeContext \<Rightarrow> nat \<Rightarrow> error option \<Rightarrow> callTracer \<Rightarrow> callTracer option" where
  "call_CaptureState op scope dep err t =
     (if err \<noteq> None then Some t
      else if \<not> WithLog (ctr_config t) then Some t
      else if OnlyTopCall (ctr_config t) \<and> 0 < dep then Some t
      else if interrupt t then Some t
      else if op \<in> {OP_LOG0, OP_LOG1, OP_LOG2, OP_LOG3, OP_LOG4} then do {
        let size = unat (op - OP_LOG0);
        mStart \<leftarrow> from_top (scStack scope) 0;
        mSize \<leftarrow> from_top (scStack scope) 1;
        topics \<leftarrow> log_topics (scStack scope) size;
        data \<leftarrow> GetMemoryCopyPadded (scMemory scope) (ucast mStart) (ucast mSize);
        case data of
          Inl e \<Rightarrow> Some t
        | Inr bs \<Rightarrow> upd_last (add_log \<lparr>cl_Address = Contract_Address (scContract scope), cl_Topics = topics, cl_Data = bs\<rparr>) t }
      else Some t)"

definition call_CaptureEnter ::
  "OpCode \<Rightarrow> address \<Rightarrow> address \<Rightarrow> bytes \<Rightarrow> u64 \<Rightarrow> int option \<Rightarrow> callTracer \<Rightarrow> callTracer" where
  "call_CaptureEnter typ from' to' input gas val t =
     (if OnlyTopCall (ctr_config t) then t
      else if interrupt t then t
      else t\<lparr>callstack := callstack t @
             [bare_frame (no_fields\<lparr>cf_Type := typ, cf_From := from', cf_To := Some to', cf_Input := input,
                cf_Gas := gas, cf_Value := val\<rparr>)]\<rparr>)"

fun add_call :: "tracer_ext \<Rightarrow> callFrame \<Rightarrow> callFrame \<Rightarrow> callFrame option" where
  "add_call T call (CallFrame f cs ls js j) =
     (if j \<noteq> JoinPointRunType_Unknown T then
        let l = length js in
        if l < length js
        then (case js ! l of AspectFrame a acs \<Rightarrow>
                Some (CallFrame f cs ls (js[l := AspectFrame a (acs @ [call])]) j))
        else None
      else Some (CallFrame f (cs @ [call]) ls js j))"

definition call_CaptureExit :: "tracer_ext \<Rightarrow> bytes \<Rightarrow> u64 \<Rightarrow> error option \<Rightarrow> callTracer \<Rightarrow> callTracer option" where
  "call_CaptureExit T output gasUsed err t =
     (if OnlyTopCall (ctr_config t) then Some t
      else
        let size = length (callstack t) in
        if size \<le> 1 then Some t
        else do {
          let call = upd_cf (\<lambda>f. processOutput T output err (f\<lparr>cf_GasUsed := gasUsed\<rparr>)) (callstack t ! (size - 1));
          let rest = take (size - 1) (callstack t);
          parent \<leftarrow> add_call T call (last rest);
          Some (t\<lparr>callstack := butlast rest @ [parent]\<rparr>) })"

definition call_CaptureTxStart :: "u64 \<Rightarrow> callTracer \<Rightarrow> callTracer" where
  "call_CaptureTxStart limit t = t\<lparr>gasLimit := limit\<rparr>"

fun clearFailedLogs :: "bool \<Rightarrow> callFrame \<Rightarrow> callFrame"
  and clear_join_point :: "bool \<Rightarrow> aspectCallFrame \<Rightarrow> aspectCallFrame" where
  "clearFailedLogs parentFailed (CallFrame f cs ls js j) =
     (let failed = call_failed f \<or> parentFailed in
      CallFrame f (map (clearFailedLogs failed) cs) (if failed then [] else ls)
        (map (clear_join_point failed) js) j)"
| "clear_join_point failed (AspectFrame a cs) = AspectFrame a (map (clearFailedLogs failed) cs)"

definition call_CaptureTxEnd :: "u64 \<Rightarrow> callTracer \<Rightarrow> callTracer option" where
  "call_CaptureTxEnd restGas t = do {
     t \<leftarrow> upd_first (upd_cf (\<lambda>f. f\<lparr>cf_GasUsed := gasLimit t - restGas\<rparr>)) t;
     if WithLog (ctr_config t) then upd_first (clearFailedLogs False) t else Some t }"

text \<open>The result before it is marshalled.\<close>

definition call_top_frame :: "callTracer \<Rightarrow> error + callFrame" where
  "call_top_frame t =
     (if length (callstack t) \<noteq> 1 then Inl (ErrMsg ''incorrect number of top-level calls'')
      else Inr (callstack t ! 0))"

text \<open>An event of the interpreter reaches the method of its name.\<close>

fun call_capture :: "tracer_ext \<Rightarrow> 's log_event \<Rightarrow> callTracer \<Rightarrow> callTracer option" where
  "call_capture T (CaptureStart from' to' create input gas val w) t =
     call_CaptureStart from' to' create input gas (Some val) t"
| "call_capture T (CaptureEnd output used err) t = call_CaptureEnd T output used err t"
| "call_capture T (CaptureEnter op from' to' input gas val) t = Some (call_CaptureEnter op from' to' input gas val t)"
| "call_capture T (CaptureExit output used err) t = call_CaptureExit T output used err t"
| "call_capture T (CaptureState pc op gas cost scope rd dep err w) t = call_CaptureState op scope dep err t"
| "call_capture T (CaptureFault pc op gas cost scope dep err) t = Some t"

primrec capture_all :: "('e \<Rightarrow> 't \<Rightarrow> 't option) \<Rightarrow> 'e list \<Rightarrow> 't \<Rightarrow> 't option" where
  "capture_all handle [] t = Some t"
| "capture_all handle (ev # evs) t = Option.bind (handle ev t) (capture_all handle evs)"

section \<open>Nested events\<close>

text \<open>The tree behind properly nested events: steps of the code, and calls with what happens in them.\<close>

datatype 's log_item =
    Step "'s log_event"
  | Scope OpCode address address bytes u64 "int option" "'s log_item list" bytes u64 "error option"

fun is_step :: "'s log_event \<Rightarrow> bool" where
  "is_step (CaptureState pc op g c sc rd d err w) = True"
| "is_step (CaptureFault pc op g c sc d err) = True"
| "is_step ev = False"

fun well_item :: "'s log_item \<Rightarrow> bool" where
  "well_item (Step ev) = is_step ev"
| "well_item (Scope op from' to' input gas val items out used err) = list_all well_item items"

fun item_events :: "'s log_item \<Rightarrow> 's log_event list" where
  "item_events (Step ev) = [ev]"
| "item_events (Scope op from' to' input gas val items out used err) =
     CaptureEnter op from' to' input gas val # concat (map item_events items) @ [CaptureExit out used err]"

abbreviation items_events :: "'s log_item list \<Rightarrow> 's log_event list" where
  "items_events items \<equiv> concat (map item_events items)"

text \<open>The frames a call tracer should show for it.\<close>

fun item_frames :: "tracer_ext \<Rightarrow> 's log_item \<Rightarrow> callFrame list" where
  "item_frames T (Step ev) = []"
| "item_frames T (Scope op from' to' input gas val items out used err) =
     [CallFrame (processOutput T out err (no_fields\<lparr>cf_Type := op, cf_From := from', cf_To := Some to',
        cf_Input := input, cf_Gas := gas, cf_Value := val, cf_GasUsed := used\<rparr>))
        (concat (map (item_frames T) items)) [] [] 0]"

lemma matching_exit:
  assumes "scan False evs (InnerScope # s) = Some s'" "length s' \<le> length s"
  shows "\<exists>pre out used err post. evs = pre @ CaptureExit out used err # post \<and>
    scan False pre [] = Some [] \<and> scan False post s = Some s'"
  using assms
proof (induction "length evs" arbitrary: evs s rule: less_induct)
  case less
  show ?case
  proof (cases evs)
    case Nil
    then show ?thesis using less.prems by auto
  next
    case (Cons ev rest)
    have here: "\<exists>pre out used err post. evs = pre @ CaptureExit out used err # post \<and>
        scan False pre [] = Some [] \<and> scan False post s = Some s'"
      if "is_step ev"
    proof -
      have e: "scan_event False ev u = Some u" for u using that by (cases ev) simp_all
      obtain pre out used err post where "rest = pre @ CaptureExit out used err # post"
        "scan False pre [] = Some []" "scan False post s = Some s'"
        using less.hyps[of rest s] less.prems Cons e by auto
      then have "evs = (ev # pre) @ CaptureExit out used err # post \<and> scan False (ev # pre) [] = Some [] \<and>
          scan False post s = Some s'" using Cons e by simp
      then show ?thesis by blast
    qed
    show ?thesis
    proof (cases ev)
      case (CaptureExit out used err)
      then have "evs = [] @ CaptureExit out used err # rest \<and> scan False [] [] = Some [] \<and>
          scan False rest s = Some s'" using less.prems Cons by simp
      then show ?thesis by blast
    next
      case (CaptureEnter op f t i g v)
      have "scan False rest (InnerScope # InnerScope # s) = Some s'"
        using less.prems Cons CaptureEnter by simp
      then obtain pre1 o1 u1 e1 post1 where 1: "rest = pre1 @ CaptureExit o1 u1 e1 # post1"
          "scan False pre1 [] = Some []" "scan False post1 (InnerScope # s) = Some s'"
        using less.hyps[of rest "InnerScope # s"] less.prems(2) Cons by auto
      then obtain pre2 o2 u2 e2 post2 where 2: "post1 = pre2 @ CaptureExit o2 u2 e2 # post2"
          "scan False pre2 [] = Some []" "scan False post2 s = Some s'"
        using less.hyps[of post1 s] less.prems(2) Cons by auto
      let ?pre = "ev # pre1 @ CaptureExit o1 u1 e1 # pre2"
      have "scan False ?pre [] = Some []"
        using 1(2) 2(2) CaptureEnter scan_deeper[of pre1 "[]" "[]" False "[InnerScope]"]
        by (simp add: scan_append)
      then have "evs = ?pre @ CaptureExit o2 u2 e2 # post2 \<and> scan False ?pre [] = Some [] \<and>
          scan False post2 s = Some s'" using Cons 1(1) 2 by simp
      then show ?thesis by blast
    qed (use less.prems Cons here in auto)
  qed
qed

lemma nested_items:
  assumes "scan False evs [] = Some []"
  shows "\<exists>items. evs = items_events items \<and> list_all well_item items"
  using assms
proof (induction "length evs" arbitrary: evs rule: less_induct)
  case less
  show ?case
  proof (cases evs)
    case Nil
    then show ?thesis by (intro exI[of _ "[]"]) simp
  next
    case (Cons ev rest)
    have here: "\<exists>items. evs = items_events items \<and> list_all well_item items" if "is_step ev"
    proof -
      have "scan False rest [] = Some []" using that less.prems Cons by (cases ev) simp_all
      then obtain items where "rest = items_events items" "list_all well_item items"
        using less.hyps[of rest] Cons by auto
      then have "evs = items_events (Step ev # items) \<and> list_all well_item (Step ev # items)"
        using that Cons by simp
      then show ?thesis by blast
    qed
    show ?thesis
    proof (cases ev)
      case (CaptureEnter op f t i g v)
      have "scan False rest [InnerScope] = Some []" using less.prems Cons CaptureEnter by simp
      then obtain pre out used err post where s: "rest = pre @ CaptureExit out used err # post"
          "scan False pre [] = Some []" "scan False post [] = Some []"
        using matching_exit by fastforce
      obtain inner where inner: "pre = items_events inner" "list_all well_item inner"
        using less.hyps[of pre] s Cons by auto
      obtain items where items: "post = items_events items" "list_all well_item items"
        using less.hyps[of post] s Cons by auto
      let ?items = "Scope op f t i g v inner out used err # items"
      have "evs = items_events ?items \<and> list_all well_item ?items"
        using Cons s inner items CaptureEnter by simp
      then show ?thesis by blast
    qed (use less.prems Cons here in auto)
  qed
qed

section \<open>The tracer rebuilds the tree\<close>

lemma capture_all_append:
  "capture_all h (xs @ ys) t = Option.bind (capture_all h xs t) (capture_all h ys)"
  by (induction xs arbitrary: t) (auto split: Option.bind_split)

definition collecting :: "callTracer \<Rightarrow> bool" where
  "collecting t \<longleftrightarrow> \<not> OnlyTopCall (ctr_config t) \<and> \<not> WithLog (ctr_config t) \<and> \<not> interrupt t"

lemma collecting_stack [simp]: "collecting (t\<lparr>callstack := st\<rparr>) = collecting t"
  by (simp add: collecting_def)

lemma step_collected: "is_step ev \<Longrightarrow> collecting t \<Longrightarrow> call_capture T ev t = Some t"
  by (cases ev) (auto simp: call_CaptureState_def collecting_def)

lemma items_in_turn:
  assumes "\<And>item t cs. item \<in> set items \<Longrightarrow> well_item item \<Longrightarrow> collecting t \<Longrightarrow>
      callstack t = fs @ [CallFrame f cs ls js 0] \<Longrightarrow>
      capture_all (call_capture T) (item_events item) t =
        Some (t\<lparr>callstack := fs @ [CallFrame f (cs @ item_frames T item) ls js 0]\<rparr>)"
    and "list_all well_item items" "collecting t" "callstack t = fs @ [CallFrame f cs ls js 0]"
  shows "capture_all (call_capture T) (items_events items) t =
    Some (t\<lparr>callstack := fs @ [CallFrame f (cs @ concat (map (item_frames T) items)) ls js 0]\<rparr>)"
  using assms
proof (induction items arbitrary: t cs)
  case Nil
  then show ?case by (cases t) simp
next
  case (Cons item items)
  show ?case
    using Cons.prems(2-4) Cons.prems(1)[of item t cs] Cons.prems(1)
      Cons.IH[of "t\<lparr>callstack := fs @ [CallFrame f (cs @ item_frames T item) ls js 0]\<rparr>" "cs @ item_frames T item"]
    by (simp add: capture_all_append)
qed

lemma item_collected:
  assumes "JoinPointRunType_Unknown T = 0"
  shows "well_item item \<Longrightarrow> collecting t \<Longrightarrow> callstack t = fs @ [CallFrame f cs ls js 0] \<Longrightarrow>
      capture_all (call_capture T) (item_events item) t =
        Some (t\<lparr>callstack := fs @ [CallFrame f (cs @ item_frames T item) ls js 0]\<rparr>)"
proof (induction item arbitrary: t fs f cs ls js)
  case (Step ev)
  then show ?case using step_collected[of ev t T] by (cases t) simp
next
  case (Scope op from' to' input gas val items out used err)
  let ?f = "no_fields\<lparr>cf_Type := op, cf_From := from', cf_To := Some to', cf_Input := input, cf_Gas := gas,
    cf_Value := val\<rparr>"
  let ?t = "t\<lparr>callstack := (fs @ [CallFrame f cs ls js 0]) @ [CallFrame ?f [] [] [] 0]\<rparr>"
  have enter: "call_CaptureEnter op from' to' input gas val t = ?t"
    using Scope.prems by (simp add: call_CaptureEnter_def collecting_def)
  have "capture_all (call_capture T) (items_events items) ?t =
      Some (?t\<lparr>callstack := (fs @ [CallFrame f cs ls js 0]) @
        [CallFrame ?f ([] @ concat (map (item_frames T) items)) [] [] 0]\<rparr>)"
    by (rule items_in_turn[OF Scope.IH]) (use Scope.prems in auto)
  then show ?case
    using assms Scope.prems(2)
    by (simp add: enter capture_all_append call_CaptureExit_def collecting_def nth_append butlast_append)
qed

text \<open>C24: From properly nested events the call tracer rebuilds the tree they come from: with the
  configuration that collects all calls, the frame the events belong to gains one frame per call made
  in it, in order, each with its own calls inside and with its result, and nothing else changes.\<close>

theorem call_tracer_rebuilds:
  assumes "JoinPointRunType_Unknown T = 0" "collecting t" "callstack t = fs @ [CallFrame f cs ls js 0]"
    and "scan False evs [] = Some []"
  shows "\<exists>items. evs = items_events items \<and> list_all well_item items \<and>
    capture_all (call_capture T) evs t =
      Some (t\<lparr>callstack := fs @ [CallFrame f (cs @ concat (map (item_frames T) items)) ls js 0]\<rparr>)"
proof -
  obtain items where "evs = items_events items" "list_all well_item items"
    using nested_items[OF assms(4)] by blast
  then show ?thesis using items_in_turn[OF item_collected[OF assms(1)]] assms(2,3) by blast
qed

definition sample_tracer_ext :: tracer_ext where
  "sample_tracer_ext =
    \<lparr>UnpackRevert = (\<lambda>bs. None), JoinPointRunType_Unknown = 0, JoinPoint_String = decimal \<circ> nat,
     IsPreCall = (\<lambda>j. j = 1)\<rparr>"

definition sample_tracer :: callTracer where
  "sample_tracer =
    \<lparr>callstack = [bare_frame no_fields], ctr_config = \<lparr>OnlyTopCall = False, WithLog = False\<rparr>,
     gasLimit = 100, interrupt = False, reason = None\<rparr>"

definition sample_events :: "nat log_event list" where
  "sample_events =
    [CaptureEnter OP_CALL 1 2 [] 50 None, CaptureEnter OP_CREATE 2 3 [] 20 (Some 1),
     CaptureExit [] 20 (Some ErrOutOfGas), CaptureExit [7] 30 None]"

lemma call_tracer_rebuilds_witness:
  "\<exists>items. sample_events = items_events items \<and> list_all well_item items \<and>
     capture_all (call_capture sample_tracer_ext) sample_events sample_tracer =
       Some (sample_tracer\<lparr>callstack :=
         [] @ [CallFrame no_fields ([] @ concat (map (item_frames sample_tracer_ext) items)) [] [] 0]\<rparr>)"
  by (rule call_tracer_rebuilds)
    (simp_all add: sample_tracer_ext_def sample_tracer_def sample_events_def collecting_def)

section \<open>Join points\<close>

text \<open>C2: A call made while a join point of the enclosing frame runs ends the tracer: when the call is
  left, the frame is to be put into the join point at the index \<open>len(JoinPoints)\<close>, which is always out
  of range.\<close>

theorem exit_in_join_point_panics:
  assumes "\<not> OnlyTopCall (ctr_config t)" "callstack t = fs @ [parent, call]"
    and "cf_joinPoint parent \<noteq> JoinPointRunType_Unknown T"
  shows "call_CaptureExit T output gasUsed err t = None"
  using assms by (cases parent) (simp add: call_CaptureExit_def)

text \<open>The events of a join point that calls a contract.\<close>

lemma exit_in_join_point_panics_witness:
  "Option.bind (call_CaptureAspectEnter 1 1 2 3 [] 50 None (Inr ''{}'') sample_tracer)
     (\<lambda>t. call_CaptureExit sample_tracer_ext [] 5 None (call_CaptureEnter OP_CALL 3 4 [] 10 (Some 0) t)) = None"
proof -
  obtain t where t: "call_CaptureAspectEnter 1 1 2 3 [] 50 None (Inr ''{}'') sample_tracer = Some t"
    and st: "\<exists>fr. callstack t = [fr] \<and> cf_joinPoint fr = 1" and cfg: "\<not> OnlyTopCall (ctr_config t)" "\<not> interrupt t"
    by (simp add: call_CaptureAspectEnter_def upd_last_def sample_tracer_def)
  obtain fr where fr: "callstack t = [fr]" "cf_joinPoint fr = 1" using st by blast
  let ?t = "call_CaptureEnter OP_CALL 3 4 [] 10 (Some 0) t"
  have "\<exists>call. callstack ?t = [] @ [fr, call]" "ctr_config ?t = ctr_config t"
    using fr cfg by (simp_all add: call_CaptureEnter_def)
  then have "call_CaptureExit sample_tracer_ext [] 5 None ?t = None"
    using exit_in_join_point_panics[of ?t "[]" fr _ sample_tracer_ext "[]" 5 None] cfg fr(2)
    by (auto simp: sample_tracer_ext_def)
  then show ?thesis by (simp add: t)
qed

text \<open>The result of a join point goes to the first join point of its type: of two that run one after
  the other, the second is left without a result.\<close>

lemma second_join_point_lost:
  "\<exists>a b. Option.bind (call_CaptureAspectEnter j 1 2 3 [] 50 None (Inr ''{}'') sample_tracer) (\<lambda>t.
     Option.bind (call_CaptureAspectExit T j \<lparr>res_Gas = 20, res_Ret = [1], res_Err = None\<rparr> t) (\<lambda>t.
     Option.bind (call_CaptureAspectEnter j 1 2 4 [] 40 None (Inr ''{}'') t) (\<lambda>t.
     Option.bind (call_CaptureAspectExit T j \<lparr>res_Gas = 10, res_Ret = [2], res_Err = None\<rparr> t) (\<lambda>t.
     Some (cf_JoinPoints (callstack t ! 0)))))) = Some [AspectFrame a [], AspectFrame b []] \<and>
   ac_Aspect a = 3 \<and> ac_Output a = [2] \<and> ac_GasUsed a = 40 \<and> ac_Aspect b = 4 \<and> ac_Output b = [] \<and> ac_GasUsed b = 0"
  by (simp add: call_CaptureAspectEnter_def call_CaptureAspectExit_def upd_last_def sample_tracer_def
      aspect_processOutput_def)

section \<open>Logs of failed calls\<close>

fun all_logs :: "callFrame \<Rightarrow> callLog list" and aspect_logs :: "aspectCallFrame \<Rightarrow> callLog list" where
  "all_logs (CallFrame f cs ls js j) = ls @ concat (map all_logs cs) @ concat (map aspect_logs js)"
| "aspect_logs (AspectFrame a cs) = concat (map all_logs cs)"

fun no_failure :: "callFrame \<Rightarrow> bool" and aspect_no_failure :: "aspectCallFrame \<Rightarrow> bool" where
  "no_failure (CallFrame f cs ls js j) \<longleftrightarrow> \<not> call_failed f \<and> list_all no_failure cs \<and> list_all aspect_no_failure js"
| "aspect_no_failure (AspectFrame a cs) \<longleftrightarrow> list_all no_failure cs"

lemma cleared_under_failure:
  "all_logs (clearFailedLogs True fr) = []" "aspect_logs (clear_join_point True jp) = []"
  by (induction fr and jp) simp_all

lemma kept_without_failure:
  "no_failure fr \<Longrightarrow> clearFailedLogs False fr = fr"
  "aspect_no_failure jp \<Longrightarrow> clear_join_point False jp = jp"
  by (induction fr and jp) (auto simp: list_all_iff map_idI)



end
