(* ===== verification/Prestate_Tracer.thy ===== *)
theory Prestate_Tracer
  imports Call_Tracer Sample_World
begin

text \<open>
  The tracer of the state before a transaction (\<open>src/tracers/native/prestate.go\<close>). The maps of accounts
  and slots are association lists without repeated keys: the loops over them write only the entry at
  hand, so the order of the iteration does not matter. The tracer reads the state database when an
  event reaches it; the world is an argument of the handlers. \<open>None\<close> is a nil dereference or a slice
  out of range. The theory shows that the first value seen is the one kept, that the balances and the
  nonce before the transaction are recovered at its start, and what the difference mode reports.
\<close>

section \<open>Accounts\<close>

record pre_account =
  pa_Balance :: "int option"
  pa_Code :: bytes
  pa_Nonce :: u64
  pa_Storage :: "(hash \<times> hash) list"

type_synonym pre_state = "(address \<times> pre_account) list"

definition pre_exists :: "pre_account \<Rightarrow> bool" where
  "pre_exists a \<longleftrightarrow>
     0 < pa_Nonce a \<or> 0 < length (pa_Code a) \<or> 0 < length (pa_Storage a) \<or>
     (case pa_Balance a of None \<Rightarrow> False | Some b \<Rightarrow> sgn b \<noteq> 0)"

record prestateTracerConfig =
  DiffMode :: bool

text \<open>\<open>pt_env\<close> tells whether the pointer to the machine is set.\<close>

record prestateTracer =
  pt_env :: bool
  pt_pre :: pre_state
  pt_post :: pre_state
  pt_create :: bool
  pt_to :: address
  pt_gasLimit :: u64
  pt_config :: prestateTracerConfig
  pt_interrupt :: bool
  pt_reason :: "error option"
  pt_created :: "address list"
  pt_deleted :: "address list"

definition newPrestateTracer :: "(string \<Rightarrow> error + prestateTracerConfig) \<Rightarrow> prestateTracer ctorFn" where
  "newPrestateTracer decode ctx cfg =
     (case (case cfg of None \<Rightarrow> Inr \<lparr>DiffMode = False\<rparr> | Some text \<Rightarrow> decode text) of
        Inl err \<Rightarrow> Inl err
      | Inr config \<Rightarrow>
          Inr \<lparr>pt_env = False, pt_pre = [], pt_post = [], pt_create = False, pt_to = 0, pt_gasLimit = 0,
               pt_config = config, pt_interrupt = False, pt_reason = None, pt_created = [], pt_deleted = []\<rparr>)"

section \<open>Looking up\<close>

definition lookupAccount :: "'s StateDB \<Rightarrow> 's \<Rightarrow> address \<Rightarrow> prestateTracer \<Rightarrow> prestateTracer option" where
  "lookupAccount db w addr t =
     (if map_of (pt_pre t) addr \<noteq> None then Some t
      else if \<not> pt_env t then None
      else Some (t\<lparr>pt_pre := AList.update addr
             \<lparr>pa_Balance = Some (GetBalance db w addr), pa_Code = GetCode db w addr,
              pa_Nonce = GetNonce db w addr, pa_Storage = []\<rparr> (pt_pre t)\<rparr>))"

definition lookupStorage :: "'s StateDB \<Rightarrow> 's \<Rightarrow> address \<Rightarrow> hash \<Rightarrow> prestateTracer \<Rightarrow> prestateTracer option" where
  "lookupStorage db w addr key t = do {
     a \<leftarrow> map_of (pt_pre t) addr;
     if map_of (pa_Storage a) key \<noteq> None then Some t
     else if \<not> pt_env t then None
     else Some (t\<lparr>pt_pre := AList.update addr
            (a\<lparr>pa_Storage := AList.update key (GetState db w addr key) (pa_Storage a)\<rparr>) (pt_pre t)\<rparr>) }"

section \<open>Events\<close>

text \<open>Writing through the pointer \<open>pre[addr]\<close>.\<close>

definition upd_pre ::
  "address \<Rightarrow> (pre_account \<Rightarrow> pre_account option) \<Rightarrow> prestateTracer \<Rightarrow> prestateTracer option" where
  "upd_pre addr g t = do {
     a \<leftarrow> map_of (pt_pre t) addr;
     a \<leftarrow> g a;
     Some (t\<lparr>pt_pre := AList.update addr a (pt_pre t)\<rparr>) }"

definition pre_CaptureStart ::
  "'s env \<Rightarrow> 's \<Rightarrow> address \<Rightarrow> address \<Rightarrow> bool \<Rightarrow> int \<Rightarrow> prestateTracer \<Rightarrow> prestateTracer option" where
  "pre_CaptureStart E w from' to' create val t = do {
     let db = StateDB_of E;
     let t = t\<lparr>pt_env := True, pt_create := create, pt_to := to'\<rparr>;
     t \<leftarrow> lookupAccount db w from' t;
     t \<leftarrow> lookupAccount db w to' t;
     t \<leftarrow> lookupAccount db w (Coinbase (Context E)) t;
     t \<leftarrow> upd_pre to' (\<lambda>a. map_option (\<lambda>toBal. a\<lparr>pa_Balance := Some (toBal - val)\<rparr>) (pa_Balance a)) t;
     let consumedGas = GasPrice (Tx E) * uint (pt_gasLimit t);
     t \<leftarrow> upd_pre from' (\<lambda>a. map_option (\<lambda>fromBal. a\<lparr>pa_Balance := Some (fromBal + (val + consumedGas)),
            pa_Nonce := pa_Nonce a - 1\<rparr>) (pa_Balance a)) t;
     Some (if create \<and> DiffMode (pt_config t) then t\<lparr>pt_created := List.insert to' (pt_created t)\<rparr> else t) }"

definition pre_CaptureEnd :: "prestateTracer \<Rightarrow> prestateTracer" where
  "pre_CaptureEnd t =
     (if DiffMode (pt_config t) then t
      else if pt_create t then
        (case map_of (pt_pre t) (pt_to t) of
           None \<Rightarrow> t
         | Some s \<Rightarrow> if \<not> pre_exists s then t\<lparr>pt_pre := AList.delete (pt_to t) (pt_pre t)\<rparr> else t)
      else t)"

definition pre_CaptureState ::
  "'s env \<Rightarrow> 's \<Rightarrow> OpCode \<Rightarrow> ScopeContext \<Rightarrow> error option \<Rightarrow> prestateTracer \<Rightarrow> prestateTracer option" where
  "pre_CaptureState E w op scope err t =
     (if err \<noteq> None then Some t
      else if pt_interrupt t then Some t
      else
        let db = StateDB_of E; st = scStack scope; n = stack_len st;
            callr = Contract_Address (scContract scope)
        in
        if 1 \<le> n \<and> op \<in> {OP_SLOAD, OP_SSTORE} then do {
          slot \<leftarrow> from_top st 0;
          lookupStorage db w callr slot t }
        else if 1 \<le> n \<and> op \<in> {OP_EXTCODECOPY, OP_EXTCODEHASH, OP_EXTCODESIZE, OP_BALANCE, OP_SELFDESTRUCT} then do {
          x \<leftarrow> from_top st 0;
          t \<leftarrow> lookupAccount db w (Bytes20 x) t;
          Some (if op = OP_SELFDESTRUCT then t\<lparr>pt_deleted := List.insert callr (pt_deleted t)\<rparr> else t) }
        else if 5 \<le> n \<and> op \<in> {OP_DELEGATECALL, OP_CALL, OP_STATICCALL, OP_CALLCODE} then do {
          x \<leftarrow> from_top st 1;
          lookupAccount db w (Bytes20 x) t }
        else if op = OP_CREATE then
          if \<not> pt_env t then None
          else do {
            let addr = CreateAddress (extern E) callr (GetNonce db w callr);
            t \<leftarrow> lookupAccount db w addr t;
            Some (t\<lparr>pt_created := List.insert addr (pt_created t)\<rparr>) }
        else if 4 \<le> n \<and> op = OP_CREATE2 then do {
          offset \<leftarrow> from_top st 1;
          size \<leftarrow> from_top st 2;
          init \<leftarrow> GetCopy (scMemory scope) (ucast offset) (ucast size);
          salt \<leftarrow> from_top st 3;
          let addr = CreateAddress2 (extern E) callr salt (Keccak256Hash (extern E) init);
          t \<leftarrow> lookupAccount db w addr t;
          Some (t\<lparr>pt_created := List.insert addr (pt_created t)\<rparr>) }
        else Some t)"

definition pre_CaptureTxStart :: "u64 \<Rightarrow> prestateTracer \<Rightarrow> prestateTracer" where
  "pre_CaptureTxStart limit t = t\<lparr>pt_gasLimit := limit\<rparr>"

text \<open>The inner loop: over the slots looked up, with whether something was modified, the slots that stay
  before and the slots after.\<close>

fun diff_slots ::
  "'s StateDB \<Rightarrow> 's \<Rightarrow> address \<Rightarrow> (hash \<times> hash) list \<Rightarrow> bool \<times> (hash \<times> hash) list \<times> (hash \<times> hash) list
     \<Rightarrow> bool \<times> (hash \<times> hash) list \<times> (hash \<times> hash) list" where
  "diff_slots db w addr [] r = r"
| "diff_slots db w addr ((key, val) # kvs) (modified, before, after) =
     (let before = (if val = 0 then AList.delete key before else before);
          newVal = GetState db w addr key
      in if val = newVal then diff_slots db w addr kvs (modified, AList.delete key before, after)
         else diff_slots db w addr kvs
                (True, before, if newVal \<noteq> 0 then AList.update key newVal after else after))"

text \<open>The body of the outer loop.\<close>

definition diff_account ::
  "'s StateDB \<Rightarrow> 's \<Rightarrow> address \<times> pre_account \<Rightarrow> prestateTracer \<Rightarrow> prestateTracer option" where
  "diff_account db w e t =
     (case e of (addr, a) \<Rightarrow>
        if addr \<in> set (pt_deleted t) then Some t
        else if \<not> pt_env t then None
        else do {
          balance \<leftarrow> pa_Balance a;
          let newBalance = GetBalance db w addr;
          let newNonce = GetNonce db w addr;
          let newCode = GetCode db w addr;
          let p = \<lparr>pa_Balance = (if newBalance \<noteq> balance then Some newBalance else None),
                   pa_Code = (if newCode \<noteq> pa_Code a then newCode else []),
                   pa_Nonce = (if newNonce \<noteq> pa_Nonce a then newNonce else 0), pa_Storage = []\<rparr>;
          let modified = (newBalance \<noteq> balance \<or> newNonce \<noteq> pa_Nonce a \<or> newCode \<noteq> pa_Code a);
          let (modified, before, after) = diff_slots db w addr (pa_Storage a) (modified, pa_Storage a, []);
          Some (if modified
                then t\<lparr>pt_pre := AList.update addr (a\<lparr>pa_Storage := before\<rparr>) (pt_pre t),
                       pt_post := AList.update addr (p\<lparr>pa_Storage := after\<rparr>) (pt_post t)\<rparr>
                else t\<lparr>pt_pre := AList.delete addr (pt_pre t)\<rparr>) })"

definition drop_created :: "address \<Rightarrow> prestateTracer \<Rightarrow> prestateTracer" where
  "drop_created a t =
     (case map_of (pt_pre t) a of
        None \<Rightarrow> t
      | Some s \<Rightarrow> if \<not> pre_exists s then t\<lparr>pt_pre := AList.delete a (pt_pre t)\<rparr> else t)"

definition pre_CaptureTxEnd :: "'s StateDB \<Rightarrow> 's \<Rightarrow> prestateTracer \<Rightarrow> prestateTracer option" where
  "pre_CaptureTxEnd db w t =
     (if \<not> DiffMode (pt_config t) then Some t
      else do {
        t \<leftarrow> capture_all (diff_account db w) (pt_pre t) t;
        Some (fold drop_created (pt_created t) t) })"

definition pre_Stop :: "prestateTracer \<Rightarrow> error \<Rightarrow> prestateTracer" where
  "pre_Stop t err = t\<lparr>pt_reason := Some err, pt_interrupt := True\<rparr>"

fun pre_capture :: "'s env \<Rightarrow> 's log_event \<Rightarrow> prestateTracer \<Rightarrow> prestateTracer option" where
  "pre_capture E (CaptureStart from' to' create input gas val w) t = pre_CaptureStart E w from' to' create val t"
| "pre_capture E (CaptureEnd output used err) t = Some (pre_CaptureEnd t)"
| "pre_capture E (CaptureEnter op from' to' input gas val) t = Some t"
| "pre_capture E (CaptureExit output used err) t = Some t"
| "pre_capture E (CaptureState pc op gas cost scope rd dep err w) t = pre_CaptureState E w op scope err t"
| "pre_capture E (CaptureFault pc op gas cost scope dep err) t = Some t"

section \<open>Well-formed tracers\<close>

definition wf_prestate :: "prestateTracer \<Rightarrow> bool" where
  "wf_prestate t \<longleftrightarrow>
     distinct (map fst (pt_pre t)) \<and> pt_post t = [] \<and> (pt_pre t \<noteq> [] \<longrightarrow> pt_env t) \<and>
     (\<forall>(addr, a) \<in> set (pt_pre t). pa_Balance a \<noteq> None \<and> distinct (map fst (pa_Storage a)))"

lemma set_update_subset: "set (AList.update k v al) \<subseteq> insert (k, v) (set al)"
  by (induction al) auto

lemma set_delete_subset: "set (AList.delete k al) \<subseteq> set al"
  by (auto simp: AList.delete_eq)

lemma wf_update:
  assumes "wf_prestate t" "pa_Balance a \<noteq> None" "distinct (map fst (pa_Storage a))" "pt_env t"
  shows "wf_prestate (t\<lparr>pt_pre := AList.update addr a (pt_pre t)\<rparr>)"
  using assms set_update_subset[of addr a "pt_pre t"]
  by (fastforce simp: wf_prestate_def AList.distinct_update)

lemma wf_delete: "wf_prestate t \<Longrightarrow> wf_prestate (t\<lparr>pt_pre := AList.delete addr (pt_pre t)\<rparr>)"
  using set_delete_subset[of addr "pt_pre t"]
  by (fastforce simp: wf_prestate_def AList.distinct_delete)

lemma wf_frame [simp]:
  "wf_prestate (t\<lparr>pt_created := c\<rparr>) = wf_prestate t" "wf_prestate (t\<lparr>pt_deleted := d\<rparr>) = wf_prestate t"
  "wf_prestate (t\<lparr>pt_gasLimit := g\<rparr>) = wf_prestate t"
  by (simp_all add: wf_prestate_def)

lemma wf_entry:
  "wf_prestate t \<Longrightarrow> map_of (pt_pre t) addr = Some a \<Longrightarrow>
    pa_Balance a \<noteq> None \<and> distinct (map fst (pa_Storage a)) \<and> pt_env t"
  by (auto simp: wf_prestate_def dest: map_of_SomeD)

lemma wf_lookupAccount: "lookupAccount db w addr t = Some t' \<Longrightarrow> wf_prestate t \<Longrightarrow> wf_prestate t'"
  by (auto simp: lookupAccount_def intro: wf_update split: if_splits)

lemma wf_lookupStorage: "lookupStorage db w addr k t = Some t' \<Longrightarrow> wf_prestate t \<Longrightarrow> wf_prestate t'"
  using wf_entry[of t addr]
  by (auto simp: lookupStorage_def bind_eq_Some AList.distinct_update intro!: wf_update split: if_splits)

lemma lookupAccount_config:
  "lookupAccount db w addr t = Some t' \<Longrightarrow> pt_config t' = pt_config t \<and> pt_gasLimit t' = pt_gasLimit t \<and> pt_env t' = pt_env t"
  by (auto simp: lookupAccount_def split: if_splits)

lemma wf_upd_pre:
  assumes "upd_pre addr g t = Some t'" "wf_prestate t"
    and "\<And>a a'. g a = Some a' \<Longrightarrow> pa_Balance a' \<noteq> None \<and> pa_Storage a' = pa_Storage a"
  shows "wf_prestate t'"
  using assms wf_entry[OF assms(2), of addr] by (auto simp: upd_pre_def bind_eq_Some intro!: wf_update)

lemma wf_CaptureStart:
  assumes r: "pre_CaptureStart E w a b create v t = Some t'" and wf: "wf_prestate t"
  shows "wf_prestate t'"
proof -
  have "wf_prestate (t\<lparr>pt_env := True, pt_create := create, pt_to := b\<rparr>)" using wf by (simp add: wf_prestate_def)
  then show ?thesis
    using r unfolding pre_CaptureStart_def Let_def
    by (auto simp: bind_eq_Some dest!: wf_lookupAccount split: if_splits elim!: wf_upd_pre)
qed

lemma wf_capture: "pre_capture E ev t = Some t' \<Longrightarrow> wf_prestate t \<Longrightarrow> wf_prestate t'"
proof (cases ev)
  case (CaptureStart f to' c i g v w)
  then show "pre_capture E ev t = Some t' \<Longrightarrow> wf_prestate t \<Longrightarrow> wf_prestate t'" by (simp add: wf_CaptureStart)
next
  case (CaptureState pc op g c sc rd d err w)
  then show "pre_capture E ev t = Some t' \<Longrightarrow> wf_prestate t \<Longrightarrow> wf_prestate t'"
    by (auto simp: pre_CaptureState_def Let_def bind_eq_Some
        dest: wf_lookupAccount wf_lookupStorage split: if_splits)
qed (auto simp: pre_CaptureEnd_def wf_delete split: option.splits if_splits)

lemma wf_capture_all:
  "capture_all (pre_capture E) evs t = Some t' \<Longrightarrow> wf_prestate t \<Longrightarrow> wf_prestate t'"
  by (induction evs arbitrary: t) (auto simp: bind_eq_Some dest: wf_capture)

lemma wf_new: "newPrestateTracer decode ctx cfg = Inr t \<Longrightarrow> wf_prestate t"
  by (auto simp: newPrestateTracer_def wf_prestate_def split: sum.splits option.splits)

section \<open>The first value is kept\<close>

text \<open>The entries the tracer has stay as they are, apart from slots that are added.\<close>

definition pre_grows :: "prestateTracer \<Rightarrow> prestateTracer \<Rightarrow> bool" where
  "pre_grows t t' \<longleftrightarrow>
     (\<forall>addr a. map_of (pt_pre t) addr = Some a \<longrightarrow>
        (\<exists>a'. map_of (pt_pre t') addr = Some a' \<and> pa_Balance a' = pa_Balance a \<and> pa_Nonce a' = pa_Nonce a \<and>
           pa_Code a' = pa_Code a \<and> map_of (pa_Storage a) \<subseteq>\<^sub>m map_of (pa_Storage a')))"

definition slot_of :: "prestateTracer \<Rightarrow> address \<Rightarrow> hash \<Rightarrow> hash option" where
  "slot_of t addr k = Option.bind (map_of (pt_pre t) addr) (\<lambda>a. map_of (pa_Storage a) k)"

text \<open>What is new was read from one of the worlds.\<close>

definition read_from :: "'s StateDB \<Rightarrow> 's set \<Rightarrow> prestateTracer \<Rightarrow> prestateTracer \<Rightarrow> bool" where
  "read_from db W t t' \<longleftrightarrow>
     (\<forall>addr a'. map_of (pt_pre t) addr = None \<longrightarrow> map_of (pt_pre t') addr = Some a' \<longrightarrow>
        (\<exists>w \<in> W. pa_Balance a' = Some (GetBalance db w addr) \<and> pa_Nonce a' = GetNonce db w addr \<and>
           pa_Code a' = GetCode db w addr)) \<and>
     (\<forall>addr k v. slot_of t addr k = None \<longrightarrow> slot_of t' addr k = Some v \<longrightarrow> (\<exists>w \<in> W. v = GetState db w addr k))"

lemma pre_grows_refl [simp]: "pre_grows t t"
  by (auto simp: pre_grows_def)

lemma pre_grows_trans:
  assumes "pre_grows t t'" "pre_grows t' t''"
  shows "pre_grows t t''"
  unfolding pre_grows_def
proof (intro allI impI)
  fix addr a assume "map_of (pt_pre t) addr = Some a"
  then obtain a' where a': "map_of (pt_pre t') addr = Some a'" "pa_Balance a' = pa_Balance a" "pa_Nonce a' = pa_Nonce a"
      "pa_Code a' = pa_Code a" "map_of (pa_Storage a) \<subseteq>\<^sub>m map_of (pa_Storage a')"
    using assms(1) unfolding pre_grows_def by blast
  then obtain a'' where "map_of (pt_pre t'') addr = Some a''" "pa_Balance a'' = pa_Balance a'" "pa_Nonce a'' = pa_Nonce a'"
      "pa_Code a'' = pa_Code a'" "map_of (pa_Storage a') \<subseteq>\<^sub>m map_of (pa_Storage a'')"
    using assms(2) unfolding pre_grows_def by blast
  then show "\<exists>a'. map_of (pt_pre t'') addr = Some a' \<and> pa_Balance a' = pa_Balance a \<and> pa_Nonce a' = pa_Nonce a \<and>
      pa_Code a' = pa_Code a \<and> map_of (pa_Storage a) \<subseteq>\<^sub>m map_of (pa_Storage a')"
    using a' map_le_trans[OF a'(5)] by simp
qed

lemma pre_grows_same [simp]: "pt_pre t' = pt_pre t \<Longrightarrow> pre_grows t t'"
  by (auto simp: pre_grows_def)

lemma read_from_same [simp]: "pt_pre t' = pt_pre t \<Longrightarrow> read_from db W t t'"
  by (auto simp: read_from_def slot_of_def)

lemma pre_grows_slot:
  assumes "pre_grows t t'" "slot_of t addr k = Some v"
  shows "slot_of t' addr k = Some v"
proof -
  obtain a where a: "map_of (pt_pre t) addr = Some a" "map_of (pa_Storage a) k = Some v"
    using assms(2) by (auto simp: slot_of_def bind_eq_Some)
  obtain a' where a': "map_of (pt_pre t') addr = Some a'" "map_of (pa_Storage a) \<subseteq>\<^sub>m map_of (pa_Storage a')"
    using assms(1) a(1) unfolding pre_grows_def by blast
  then have "map_of (pa_Storage a') k = Some v" using a(2) by (metis domI map_le_def)
  then show ?thesis using a'(1) by (simp add: slot_of_def)
qed

lemma read_from_trans:
  assumes "read_from db W t t'" "pre_grows t' t''" "read_from db W' t' t''"
  shows "read_from db (W \<union> W') t t''"
  unfolding read_from_def
proof (intro conjI allI impI)
  fix addr a' assume n: "map_of (pt_pre t) addr = None" and s: "map_of (pt_pre t'') addr = Some a'"
  show "\<exists>w \<in> W \<union> W'. pa_Balance a' = Some (GetBalance db w addr) \<and> pa_Nonce a' = GetNonce db w addr \<and>
      pa_Code a' = GetCode db w addr"
  proof (cases "map_of (pt_pre t') addr")
    case None
    then show ?thesis using assms(3) s unfolding read_from_def by blast
  next
    case (Some a)
    then obtain w where "w \<in> W" "pa_Balance a = Some (GetBalance db w addr)" "pa_Nonce a = GetNonce db w addr"
        "pa_Code a = GetCode db w addr"
      using assms(1) n unfolding read_from_def by blast
    then show ?thesis using assms(2) Some s unfolding pre_grows_def by fastforce
  qed
next
  fix addr k v assume n: "slot_of t addr k = None" and s: "slot_of t'' addr k = Some v"
  show "\<exists>w \<in> W \<union> W'. v = GetState db w addr k"
  proof (cases "slot_of t' addr k")
    case None
    then show ?thesis using assms(3) s unfolding read_from_def by blast
  next
    case (Some u)
    then have "u = v" using pre_grows_slot[OF assms(2) Some] s by simp
    then show ?thesis using assms(1) n Some unfolding read_from_def by blast
  qed
qed

lemma read_from_mono: "read_from db W t t' \<Longrightarrow> W \<subseteq> W' \<Longrightarrow> read_from db W' t t'"
  unfolding read_from_def by blast

lemma lookupAccount_first:
  "lookupAccount db w addr t = Some t' \<Longrightarrow> pre_grows t t' \<and> read_from db {w} t t'"
  by (auto simp: lookupAccount_def pre_grows_def read_from_def slot_of_def AList.update_conv' bind_eq_Some split: if_splits)

lemma lookupStorage_first:
  assumes "lookupStorage db w addr k t = Some t'"
  shows "pre_grows t t' \<and> read_from db {w} t t'"
proof -
  obtain a where a: "map_of (pt_pre t) addr = Some a" using assms by (auto simp: lookupStorage_def bind_eq_Some)
  show ?thesis
  proof (cases "map_of (pa_Storage a) k")
    case (Some v)
    then show ?thesis using assms a by (simp add: lookupStorage_def)
  next
    case None
    have t': "t' = t\<lparr>pt_pre := AList.update addr
        (a\<lparr>pa_Storage := AList.update k (GetState db w addr k) (pa_Storage a)\<rparr>) (pt_pre t)\<rparr>"
      using assms a None by (auto simp: lookupStorage_def split: if_splits)
    have "map_of (pa_Storage a) \<subseteq>\<^sub>m (map_of (pa_Storage a))(k \<mapsto> v)" for v
      using None by (auto simp: map_le_def)
    then show ?thesis
      unfolding t' using a
      by (auto simp: pre_grows_def read_from_def slot_of_def AList.update_conv' bind_eq_Some split: if_splits)
  qed
qed

definition first_ret :: "'s StateDB \<Rightarrow> 's \<Rightarrow> prestateTracer \<Rightarrow> prestateTracer option \<Rightarrow> bool" where
  "first_ret db w t r \<longleftrightarrow> (\<forall>t'. r = Some t' \<longrightarrow> pre_grows t t' \<and> read_from db {w} t t')"

lemma first_ret_intros:
  "first_ret db w t (Some t)"
  "first_ret db w t None"
  "first_ret db w t (lookupAccount db w addr t)"
  "first_ret db w t (lookupStorage db w addr k t)"
  "first_ret db w t r \<Longrightarrow> (\<And>t'. pt_pre (g t') = pt_pre t') \<Longrightarrow> first_ret db w t (Option.bind r (\<lambda>t'. Some (g t')))"
  "(\<And>x. first_ret db w t (f x)) \<Longrightarrow> first_ret db w t (Option.bind m f)"
  "first_ret db w t r \<Longrightarrow> first_ret db w t r' \<Longrightarrow> first_ret db w t (if b then r else r')"
proof -
  show "first_ret db w t (Option.bind r (\<lambda>t'. Some (g t')))"
    if "first_ret db w t r" "\<And>t'. pt_pre (g t') = pt_pre t'"
    using that by (auto simp: first_ret_def bind_eq_Some pre_grows_def read_from_def slot_of_def)
qed (auto simp: first_ret_def bind_eq_Some dest: lookupAccount_first lookupStorage_first)

lemma pre_step_first:
  assumes "pre_CaptureState E w op scope err t = Some t'"
  shows "pre_grows t t' \<and> read_from (StateDB_of E) {w} t t'"
proof -
  have "first_ret (StateDB_of E) w t (pre_CaptureState E w op scope err t)"
    unfolding pre_CaptureState_def Let_def by (intro first_ret_intros) simp_all
  then show ?thesis using assms by (simp add: first_ret_def)
qed

primrec step_worlds :: "'s log_event list \<Rightarrow> 's set" where
  "step_worlds [] = {}"
| "step_worlds (ev # evs) = (case ev of CaptureState pc op g c sc rd d err w \<Rightarrow> {w} | _ \<Rightarrow> {}) \<union> step_worlds evs"

fun is_inner :: "'s log_event \<Rightarrow> bool" where
  "is_inner (CaptureStart f t c i g v w) = False"
| "is_inner (CaptureEnd out used err) = False"
| "is_inner ev = True"


definition sample_prestate :: prestateTracer where
  "sample_prestate = \<lparr>pt_env = True, pt_pre = [], pt_post = [], pt_create = False, pt_to = 0, pt_gasLimit = 10,
     pt_config = \<lparr>DiffMode = True\<rparr>, pt_interrupt = False, pt_reason = None, pt_created = [], pt_deleted = []\<rparr>"

definition sample_scope :: "u256 list \<Rightarrow> Memory \<Rightarrow> ScopeContext" where
  "sample_scope st mem =
    \<lparr>scMemory = mem, scStack = \<lparr>st_data = st\<rparr>,
     scContract = fst (NewContract [] (AccountRef 1) (AccountRef 0x42) 0 100)\<rparr>"

definition sample_steps :: "journaled log_event list" where
  "sample_steps =
    [CaptureState 0 OP_BALANCE 50 3 (sample_scope [0x42] NewMemory) [] 1 None (sample_world [1]),
     CaptureState 1 OP_SLOAD 47 3 (sample_scope [7] NewMemory) [] 1 None (sample_world [1])]"


section \<open>The start of a transaction\<close>

definition entry_of :: "'s StateDB \<Rightarrow> 's \<Rightarrow> address \<Rightarrow> pre_account" where
  "entry_of db w addr = \<lparr>pa_Balance = Some (GetBalance db w addr), pa_Code = GetCode db w addr,
     pa_Nonce = GetNonce db w addr, pa_Storage = []\<rparr>"

definition all_from :: "'s StateDB \<Rightarrow> 's \<Rightarrow> u64 \<Rightarrow> prestateTracer \<Rightarrow> bool" where
  "all_from db w limit t \<longleftrightarrow> pt_env t \<and> pt_gasLimit t = limit \<and>
     (\<forall>x a. map_of (pt_pre t) x = Some a \<longrightarrow> a = entry_of db w x)"

lemma lookupAccount_from:
  assumes "all_from db w limit t"
  shows "\<exists>t'. lookupAccount db w addr t = Some t' \<and> all_from db w limit t' \<and>
    map_of (pt_pre t') addr = Some (entry_of db w addr) \<and>
    (\<forall>x. map_of (pt_pre t) x \<noteq> None \<longrightarrow> map_of (pt_pre t') x \<noteq> None)"
  using assms by (auto simp: lookupAccount_def all_from_def entry_of_def AList.update_conv')

lemma start_lookups:
  assumes "all_from db w limit t"
  shows "\<exists>t1 t2 t3. lookupAccount db w a t = Some t1 \<and> lookupAccount db w b t1 = Some t2 \<and>
    lookupAccount db w c t2 = Some t3 \<and> pt_gasLimit t3 = limit \<and>
    map_of (pt_pre t3) a = Some (entry_of db w a) \<and> map_of (pt_pre t3) b = Some (entry_of db w b)"
proof -
  obtain t1 where 1: "lookupAccount db w a t = Some t1" "all_from db w limit t1"
      "map_of (pt_pre t1) a = Some (entry_of db w a)"
    using lookupAccount_from[OF assms] by blast
  obtain t2 where 2: "lookupAccount db w b t1 = Some t2" "all_from db w limit t2"
      "map_of (pt_pre t2) b = Some (entry_of db w b)" "map_of (pt_pre t2) a \<noteq> None"
    using lookupAccount_from[OF 1(2), of b] 1(3) by auto
  obtain t3 where 3: "lookupAccount db w c t2 = Some t3" "all_from db w limit t3"
      "map_of (pt_pre t3) a \<noteq> None" "map_of (pt_pre t3) b \<noteq> None"
    using lookupAccount_from[OF 2(2), of c] 2(3,4) by (metis option.distinct(1))
  have "map_of (pt_pre t3) a = Some (entry_of db w a)" "map_of (pt_pre t3) b = Some (entry_of db w b)" "pt_gasLimit t3 = limit"
    using 3(2-4) by (auto simp: all_from_def)
  then show ?thesis using 1(1) 2(1) 3(1) by blast
qed

lemma start_succeeds:
  assumes "pt_pre t = []"
  shows "\<exists>t'. pre_CaptureStart E w from' to' create v t = Some t'"
proof -
  let ?db = "StateDB_of E" and ?t = "t\<lparr>pt_env := True, pt_create := create, pt_to := to'\<rparr>"
  have "all_from ?db w (pt_gasLimit t) ?t" using assms(1) by (simp add: all_from_def)
  from start_lookups[OF this, of from' to' "Coinbase (Context E)"]
  show ?thesis by (auto simp: pre_CaptureStart_def Let_def upd_pre_def AList.update_conv' entry_of_def)
qed

lemma start_config:
  assumes "pre_CaptureStart E w from' to' create v t = Some t'"
  shows "pt_config t' = pt_config t"
proof -
  let ?t = "t\<lparr>pt_env := True, pt_create := create, pt_to := to'\<rparr>"
  obtain t1 t2 t3 where l: "lookupAccount (StateDB_of E) w from' ?t = Some t1"
      "lookupAccount (StateDB_of E) w to' t1 = Some t2" "lookupAccount (StateDB_of E) w (Coinbase (Context E)) t2 = Some t3"
      "pt_config t' = pt_config t3"
    using assms by (auto simp: pre_CaptureStart_def Let_def upd_pre_def bind_eq_Some split: if_splits)
  then show ?thesis using l(1-3)[THEN lookupAccount_config] by simp
qed

text \<open>C29: At the start of a transaction the tracer recovers the state before it: when the sender has paid
  for the gas, the value has been moved and the nonce counted up, the recorded balances of both sides
  and the recorded nonce are those from before; also for a transaction to oneself.\<close>

theorem start_recovers_state:
  assumes "pt_pre t = []"
    and "GetBalance (StateDB_of E) w from' =
      bal from' - GasPrice (Tx E) * uint (pt_gasLimit t) - (if from' = to' then 0 else v)"
    and "from' \<noteq> to' \<longrightarrow> GetBalance (StateDB_of E) w to' = bal to' + v"
    and "GetNonce (StateDB_of E) w from' = nonce + 1"
  shows "\<exists>t' a b. pre_CaptureStart E w from' to' create v t = Some t' \<and>
    map_of (pt_pre t') from' = Some a \<and> pa_Balance a = Some (bal from') \<and> pa_Nonce a = nonce \<and>
    map_of (pt_pre t') to' = Some b \<and> pa_Balance b = Some (bal to')"
proof -
  let ?db = "StateDB_of E" and ?t = "t\<lparr>pt_env := True, pt_create := create, pt_to := to'\<rparr>"
  have "all_from ?db w (pt_gasLimit t) ?t" using assms(1) by (simp add: all_from_def)
  from start_lookups[OF this, of from' to' "Coinbase (Context E)"]
  obtain t1 t2 t3 where l: "lookupAccount ?db w from' ?t = Some t1" "lookupAccount ?db w to' t1 = Some t2"
      "lookupAccount ?db w (Coinbase (Context E)) t2 = Some t3" "pt_gasLimit t3 = pt_gasLimit t"
      "map_of (pt_pre t3) from' = Some (entry_of ?db w from')" "map_of (pt_pre t3) to' = Some (entry_of ?db w to')"
    by blast
  show ?thesis
    using l assms(2-4)
    by (cases "from' = to'")
      (simp_all add: pre_CaptureStart_def Let_def upd_pre_def AList.update_conv' entry_of_def)
qed

lemma start_recovers_state_witness:
  "\<exists>t' a b. pre_CaptureStart sample_env (sample_world []) 1 0x42 False 5 sample_prestate = Some t' \<and>
    map_of (pt_pre t') 1 = Some a \<and> pa_Balance a = Some 1015 \<and> pa_Nonce a = -1 \<and>
    map_of (pt_pre t') 0x42 = Some b \<and> pa_Balance b = Some (-5)"
proof -
  have "GetBalance (StateDB_of sample_env) (sample_world []) 1 = 1000"
    "GetBalance (StateDB_of sample_env) (sample_world []) 0x42 = 0"
    "GetNonce (StateDB_of sample_env) (sample_world []) 1 = 0" "GasPrice (Tx sample_env) = 1"
    by (simp_all add: sample_env_def sample_db_def sample_world_def empty_world_def upd_acct_def upd_state_def
        acct_def lookup_def new_account_def)
  then show ?thesis
    using start_recovers_state[of sample_prestate sample_env "sample_world []" 1
        "(\<lambda>a. if a = 1 then 1015 else -5)" "0x42" 5 "-1" False]
    by (simp add: sample_prestate_def)
qed

section \<open>Creation before memory grows\<close>

text \<open>C3: A step reaches the tracer before the memory grows to what the instruction needs, and the tracer
  copies the initialisation code without padding: a \<open>CREATE2\<close> whose code begins inside the memory and
  ends behind its capacity ends the tracer.\<close>

theorem create2_unexpanded_panics:
  assumes "\<not> pt_interrupt t" "st_data (scStack scope) = rest @ [salt, sz, offset, endowment]"
    and "unat (ucast offset :: u64) < Mem_Len (scMemory scope)" "Mem_Len (scMemory scope) < 9223372036854775808"
    and "store_cap (scMemory scope) < unat (ucast offset :: u64) + unat (ucast sz :: u64)"
    and "unat (ucast offset :: u64) + unat (ucast sz :: u64) < 9223372036854775808" "(ucast sz :: u64) \<noteq> 0"
  shows "pre_CaptureState E w OP_CREATE2 scope None t = None"
proof -
  let ?o = "ucast offset :: u64" and ?s = "ucast sz :: u64" and ?m = "scMemory scope"
  have top: "from_top (scStack scope) 1 = Some offset" "from_top (scStack scope) 2 = Some sz"
    "4 \<le> stack_len (scStack scope)"
    using assms(2) by (simp_all add: from_top_def stack_len_def nth_append)
  have "unat (?o + ?s) = unat ?o + unat ?s" using assms(6) by (subst unat_add_nowrap) simp_all
  then have "sint (?o + ?s) = int (unat ?o + unat ?s)" "sint ?o = int (unat ?o)"
    using assms(6) by (simp_all add: sint_small del: of_nat_add of_nat_unat)
  then have "GetCopy ?m ?o ?s = None"
    using assms(3,5,7) by (simp add: GetCopy_def go_slice_def del: of_nat_unat)
  then show ?thesis using assms(1) top by (simp add: pre_CaptureState_def Let_def)
qed

definition sample_mem :: Memory where
  "sample_mem = \<lparr>store = replicate 32 0, store_cap = 32, lastGasCost = 0\<rparr>"

lemma create2_unexpanded_panics_witness:
  "pre_CaptureState sample_env (sample_world []) OP_CREATE2 (sample_scope [9, 64, 0, 0] sample_mem) None sample_prestate = None"
  by (rule create2_unexpanded_panics[where rest = "[]" and salt = 9 and sz = 64 and offset = 0 and endowment = 0])
    (simp_all add: sample_scope_def sample_mem_def sample_prestate_def Mem_Len_def)

section \<open>The difference\<close>

text \<open>What the difference mode should say of an account that was looked up as \<open>a\<close>.\<close>

definition slot_changed :: "'s StateDB \<Rightarrow> 's \<Rightarrow> address \<Rightarrow> pre_account \<Rightarrow> hash \<Rightarrow> bool" where
  "slot_changed db w addr a k \<longleftrightarrow> (\<exists>v. map_of (pa_Storage a) k = Some v \<and> v \<noteq> GetState db w addr k)"

definition account_changed :: "'s StateDB \<Rightarrow> 's \<Rightarrow> address \<Rightarrow> pre_account \<Rightarrow> bool" where
  "account_changed db w addr a \<longleftrightarrow>
     pa_Balance a \<noteq> Some (GetBalance db w addr) \<or> pa_Nonce a \<noteq> GetNonce db w addr \<or>
     pa_Code a \<noteq> GetCode db w addr \<or> (\<exists>k. slot_changed db w addr a k)"

definition reports_change :: "'s StateDB \<Rightarrow> 's \<Rightarrow> address \<Rightarrow> pre_account \<Rightarrow> pre_account \<Rightarrow> bool" where
  "reports_change db w addr a p \<longleftrightarrow>
     pa_Balance p = (if pa_Balance a = Some (GetBalance db w addr) then None else Some (GetBalance db w addr)) \<and>
     pa_Nonce p = (if pa_Nonce a = GetNonce db w addr then 0 else GetNonce db w addr) \<and>
     pa_Code p = (if pa_Code a = GetCode db w addr then [] else GetCode db w addr) \<and>
     (\<forall>k. map_of (pa_Storage p) k =
        (if slot_changed db w addr a k \<and> GetState db w addr k \<noteq> 0 then Some (GetState db w addr k) else None))"

definition diff_told ::
  "'s StateDB \<Rightarrow> 's \<Rightarrow> address list \<Rightarrow> address \<Rightarrow> pre_account \<Rightarrow> pre_account option \<Rightarrow> bool" where
  "diff_told db w deleted addr a r \<longleftrightarrow>
     (case r of
        None \<Rightarrow> addr \<in> set deleted \<or> \<not> account_changed db w addr a
      | Some p \<Rightarrow> addr \<notin> set deleted \<and> account_changed db w addr a \<and> reports_change db w addr a p)"

lemma diff_slots_spec:
  assumes "distinct (map fst kvs)" "diff_slots db w addr kvs (m, before, after) = (m', before', after')"
  shows "(m' \<longleftrightarrow> m \<or> (\<exists>(k, v) \<in> set kvs. v \<noteq> GetState db w addr k)) \<and>
    (\<forall>k. map_of after' k = (case map_of kvs k of
        Some v \<Rightarrow> if v \<noteq> GetState db w addr k \<and> GetState db w addr k \<noteq> 0 then Some (GetState db w addr k)
                  else map_of after k
      | None \<Rightarrow> map_of after k))"
  using assms
proof (induction kvs arbitrary: m before after)
  case Nil
  then show ?case by simp
next
  case (Cons kv kvs)
  obtain k v where kv: "kv = (k, v)" by fastforce
  have no: "map_of kvs k = None" using Cons.prems(1) kv by (simp add: map_of_eq_None_iff)
  show ?case
  proof (cases "v = GetState db w addr k")
    case True
    have "diff_slots db w addr kvs (m, AList.delete k (if v = 0 then AList.delete k before else before), after) = (m', before', after')"
      using Cons.prems(2) True by (simp add: kv Let_def)
    note ih = Cons.IH[OF _ this]
    show ?thesis using ih Cons.prems(1) True no by (auto simp: kv split: option.split)
  next
    case False
    have "diff_slots db w addr kvs (True, if v = 0 then AList.delete k before else before,
        if GetState db w addr k \<noteq> 0 then AList.update k (GetState db w addr k) after else after) = (m', before', after')"
      using Cons.prems(2) False by (simp add: kv Let_def)
    note ih = Cons.IH[OF _ this]
    show ?thesis using ih Cons.prems(1) False no by (auto simp: kv AList.update_conv' split: option.split)
  qed
qed

lemma diff_account_spec:
  assumes "pt_env t" "pa_Balance a \<noteq> None" "distinct (map fst (pa_Storage a))" "map_of (pt_post t) addr = None"
  shows "\<exists>t'. diff_account db w (addr, a) t = Some t' \<and>
    pt_env t' = pt_env t \<and> pt_deleted t' = pt_deleted t \<and> pt_created t' = pt_created t \<and>
    (\<forall>x. x \<noteq> addr \<longrightarrow> map_of (pt_post t') x = map_of (pt_post t) x) \<and>
    diff_told db w (pt_deleted t) addr a (map_of (pt_post t') addr)"
proof (cases "addr \<in> set (pt_deleted t)")
  case True
  then show ?thesis using assms by (simp add: diff_account_def diff_told_def)
next
  case False
  obtain bal where bal: "pa_Balance a = Some bal" using assms(2) by blast
  let ?m = "GetBalance db w addr \<noteq> bal \<or> GetNonce db w addr \<noteq> pa_Nonce a \<or> GetCode db w addr \<noteq> pa_Code a"
  obtain m before after where d: "diff_slots db w addr (pa_Storage a) (?m, pa_Storage a, []) = (m, before, after)"
    by (metis prod_cases3)
  note spec = diff_slots_spec[OF assms(3) d]
  have m: "m \<longleftrightarrow> account_changed db w addr a"
    using spec bal assms(3) by (auto simp: account_changed_def slot_changed_def)
  have after: "map_of after k = (if slot_changed db w addr a k \<and> GetState db w addr k \<noteq> 0
      then Some (GetState db w addr k) else None)" for k
    using spec by (auto simp: slot_changed_def split: option.split)
  show ?thesis
    using False assms(1,4) bal d m after
    by (auto simp: diff_account_def Let_def AList.update_conv' reports_change_def diff_told_def)
qed

lemma diff_all_spec:
  assumes "pt_env t \<or> es = []" "distinct (map fst es)" "\<forall>(addr, a) \<in> set es. pa_Balance a \<noteq> None \<and> distinct (map fst (pa_Storage a))"
    and "\<forall>(addr, a) \<in> set es. map_of (pt_post t) addr = None"
  shows "\<exists>t'. capture_all (diff_account db w) es t = Some t' \<and> pt_deleted t' = pt_deleted t \<and>
    (\<forall>x. map_of es x = None \<longrightarrow> map_of (pt_post t') x = map_of (pt_post t) x) \<and>
    (\<forall>addr a. map_of es addr = Some a \<longrightarrow> diff_told db w (pt_deleted t) addr a (map_of (pt_post t') addr))"
  using assms
proof (induction es arbitrary: t)
  case Nil
  then show ?case by simp
next
  case (Cons e es)
  obtain addr a where e: "e = (addr, a)" by fastforce
  have env: "pt_env t" and a: "pa_Balance a \<noteq> None" "distinct (map fst (pa_Storage a))" "map_of (pt_post t) addr = None"
    using Cons.prems e by auto
  have no: "map_of es addr = None" using Cons.prems(2) e by (simp add: map_of_eq_None_iff)
  obtain u where u: "diff_account db w (addr, a) t = Some u" "pt_env u = pt_env t" "pt_deleted u = pt_deleted t"
      "\<And>x. x \<noteq> addr \<Longrightarrow> map_of (pt_post u) x = map_of (pt_post t) x"
      "diff_told db w (pt_deleted t) addr a (map_of (pt_post u) addr)"
    using diff_account_spec[OF env a, of db w] by blast
  have post: "\<forall>(x, b) \<in> set es. map_of (pt_post u) x = None"
  proof clarify
    fix x b assume x: "(x, b) \<in> set es"
    then have "x \<noteq> addr" using Cons.prems(2) e by force
    then show "map_of (pt_post u) x = None" using u(4) Cons.prems(4) x by auto
  qed
  obtain t' where t': "capture_all (diff_account db w) es u = Some t'" "pt_deleted t' = pt_deleted u"
      "\<forall>x. map_of es x = None \<longrightarrow> map_of (pt_post t') x = map_of (pt_post u) x"
      "\<forall>addr a. map_of es addr = Some a \<longrightarrow> diff_told db w (pt_deleted u) addr a (map_of (pt_post t') addr)"
    using Cons.IH[of u] env u(2) Cons.prems(2,3) post by auto
  have "map_of (pt_post t') addr = map_of (pt_post u) addr" using t'(3) no by simp
  then show ?case
    using u t' no by (intro exI[of _ t']) (auto simp: e)
qed

lemma drop_created_post: "pt_post (fold drop_created cs t) = pt_post t"
  by (induction cs arbitrary: t) (simp_all add: drop_created_def split: option.split)

lemma diff_end:
  assumes "wf_prestate t" "DiffMode (pt_config t)"
  shows "\<exists>t'. pre_CaptureTxEnd db w t = Some t' \<and>
    (\<forall>addr. case map_of (pt_pre t) addr of
       None \<Rightarrow> map_of (pt_post t') addr = None
     | Some a \<Rightarrow> diff_told db w (pt_deleted t) addr a (map_of (pt_post t') addr))"
proof -
  have "\<exists>t'. capture_all (diff_account db w) (pt_pre t) t = Some t' \<and> pt_deleted t' = pt_deleted t \<and>
      (\<forall>x. map_of (pt_pre t) x = None \<longrightarrow> map_of (pt_post t') x = map_of (pt_post t) x) \<and>
      (\<forall>addr a. map_of (pt_pre t) addr = Some a \<longrightarrow> diff_told db w (pt_deleted t) addr a (map_of (pt_post t') addr))"
    by (rule diff_all_spec) (use assms(1) in \<open>auto simp: wf_prestate_def\<close>)
  then show ?thesis
    using assms by (auto simp: pre_CaptureTxEnd_def wf_prestate_def drop_created_post split: option.split)
qed


definition diff_decode :: "string \<Rightarrow> error + prestateTracerConfig" where
  "diff_decode text = Inr \<lparr>DiffMode = True\<rparr>"

definition sample_start :: "journaled log_event list" where
  "sample_start = [CaptureStart 1 0x42 False [] 100 5 (sample_world [])]"


end
