(* ===== verification/Flat_Tracer.thy ===== *)
theory Flat_Tracer
  imports Call_Tracer "HOL-Library.Sublist"
begin

text \<open>
  The tracer of calls in a flat format (\<open>src/tracers/native/call_flat.go\<close>): a call tracer inside, and
  the walk that turns its tree of frames into a list with trace addresses. The theory shows that the
  list is the preorder of the tree and that the trace addresses number the children of every frame
  without a gap, when the join points before the call come first.
\<close>

section \<open>Frames\<close>

record flatCallAction =
  fa_Author :: "address option"
  fa_RewardType :: string
  fa_SelfDestructed :: "address option"
  fa_Balance :: "int option"
  fa_CallType :: string
  fa_CreationMethod :: string
  fa_From :: "address option"
  fa_Aspect :: "address option"
  fa_Gas :: "u64 option"
  fa_Init :: "bytes option"
  fa_Input :: "bytes option"
  fa_RefundAddress :: "address option"
  fa_To :: "address option"
  fa_Value :: "int option"
  fa_ExecContext :: string

record flatCallResult =
  fr_Address :: "address option"
  fr_Code :: "bytes option"
  fr_GasUsed :: "u64 option"
  fr_Output :: "bytes option"

record flatCallFrame =
  ff_Action :: flatCallAction
  ff_BlockHash :: "hash option"
  ff_BlockNumber :: u64
  ff_Error :: string
  ff_Result :: "flatCallResult option"
  ff_Subtraces :: nat
  ff_TraceAddress :: "nat list"
  ff_TransactionHash :: "hash option"
  ff_TransactionPosition :: u64
  ff_Type :: string

record flatCallTracerConfig =
  ConvertParityErrors :: bool
  IncludePrecompiles :: bool

record flatCallTracer =
  fl_tracer :: callTracer
  fl_config :: flatCallTracerConfig
  fl_ctx :: "tracer_Context option"
  fl_reason :: "error option"
  activePrecompiles :: "address list"

definition parityErrorMapping :: "(string \<times> string) list" where
  "parityErrorMapping =
    [(''contract creation code storage out of gas'', ''Out of gas''),
     (''out of gas'', ''Out of gas''),
     (''gas uint64 overflow'', ''Out of gas''),
     (''max code size exceeded'', ''Out of gas''),
     (''invalid jump destination'', ''Bad jump destination''),
     (''execution reverted'', ''Reverted''),
     (''return data out of bounds'', ''Out of bounds''),
     (''stack limit reached 1024 (1023)'', ''Out of stack''),
     (''precompiled failed'', ''Built-in failed''),
     (''invalid input length'', ''Built-in failed'')]"

definition parityErrorMappingStartingWith :: "(string \<times> string) list" where
  "parityErrorMappingStartingWith =
    [(''invalid opcode:'', ''Bad instruction''), (''stack underflow'', ''Stack underflow'')]"

definition no_action :: flatCallAction where
  "no_action = \<lparr>fa_Author = None, fa_RewardType = [], fa_SelfDestructed = None, fa_Balance = None,
     fa_CallType = [], fa_CreationMethod = [], fa_From = None, fa_Aspect = None, fa_Gas = None,
     fa_Init = None, fa_Input = None, fa_RefundAddress = None, fa_To = None, fa_Value = None,
     fa_ExecContext = []\<rparr>"

definition no_result :: flatCallResult where
  "no_result = \<lparr>fr_Address = None, fr_Code = None, fr_GasUsed = None, fr_Output = None\<rparr>"

definition flat_frame :: "string \<Rightarrow> flatCallAction \<Rightarrow> flatCallResult option \<Rightarrow> flatCallFrame" where
  "flat_frame t action res =
    \<lparr>ff_Action = action, ff_BlockHash = None, ff_BlockNumber = 0, ff_Error = [], ff_Result = res,
     ff_Subtraces = 0, ff_TraceAddress = [], ff_TransactionHash = None, ff_TransactionPosition = 0,
     ff_Type = t\<rparr>"

text \<open>\<open>strings.ToLower\<close> on the bytes of ASCII text.\<close>

definition lower_char :: "char \<Rightarrow> char" where
  "lower_char c = (let n = of_char c :: nat in if 65 \<le> n \<and> n \<le> 90 then char_of (n + 32) else c)"

definition ToLower :: "string \<Rightarrow> string" where
  "ToLower = map lower_char"

definition newFlatCreate :: "call_fields \<Rightarrow> flatCallFrame" where
  "newFlatCreate f =
     flat_frame (ToLower (OpCode_String OP_CREATE))
       (no_action\<lparr>fa_From := Some (cf_From f), fa_Gas := Some (cf_Gas f), fa_Value := cf_Value f,
          fa_Init := Some (cf_Input f)\<rparr>)
       (Some (no_result\<lparr>fr_GasUsed := Some (cf_GasUsed f), fr_Address := cf_To f, fr_Code := Some (cf_Output f)\<rparr>))"

definition newFlatJoinPoint :: "tracer_ext \<Rightarrow> aspect_fields \<Rightarrow> flatCallFrame" where
  "newFlatJoinPoint T f =
     flat_frame (ToLower (OpCode_String OP_CALL))
       (no_action\<lparr>fa_From := Some (ac_From f), fa_To := Some (ac_To f), fa_Aspect := Some (ac_Aspect f),
          fa_Gas := Some (ac_Gas f), fa_Value := ac_Value f,
          fa_CallType := ToLower (JoinPoint_String T (ac_Type f)), fa_Input := Some (ac_Input f),
          fa_ExecContext := ac_ExecContext f\<rparr>)
       (Some (no_result\<lparr>fr_GasUsed := Some (ac_GasUsed f), fr_Output := Some (ac_Output f)\<rparr>))"

definition newFlatCall :: "call_fields \<Rightarrow> flatCallFrame" where
  "newFlatCall f =
     flat_frame (ToLower (OpCode_String OP_CALL))
       (no_action\<lparr>fa_From := Some (cf_From f), fa_To := cf_To f, fa_Gas := Some (cf_Gas f),
          fa_Value := cf_Value f, fa_CallType := ToLower (OpCode_String (cf_Type f)),
          fa_Input := Some (cf_Input f)\<rparr>)
       (Some (no_result\<lparr>fr_GasUsed := Some (cf_GasUsed f), fr_Output := Some (cf_Output f)\<rparr>))"

definition newFlatSuicide :: "call_fields \<Rightarrow> flatCallFrame" where
  "newFlatSuicide f =
     flat_frame ''suicide''
       (no_action\<lparr>fa_SelfDestructed := Some (cf_From f), fa_Balance := cf_Value f, fa_RefundAddress := cf_To f\<rparr>)
       None"

definition fillCallFrameFromContext :: "tracer_Context option \<Rightarrow> flatCallFrame \<Rightarrow> flatCallFrame" where
  "fillCallFrameFromContext ctx fr =
     (case ctx of
        None \<Rightarrow> fr
      | Some c \<Rightarrow>
          let fr = (if tc_BlockHash c \<noteq> 0 then fr\<lparr>ff_BlockHash := Some (tc_BlockHash c)\<rparr> else fr);
              fr = (case tc_BlockNumber c of None \<Rightarrow> fr | Some n \<Rightarrow> fr\<lparr>ff_BlockNumber := word_of_int \<bar>n\<bar>\<rparr>);
              fr = (if tc_TxHash c \<noteq> 0 then fr\<lparr>ff_TransactionHash := Some (tc_TxHash c)\<rparr> else fr)
          in fr\<lparr>ff_TransactionPosition := word_of_int (tc_TxIndex c)\<rparr>)"

text \<open>The order of the entries does not matter: no text has both prefixes, and none of the new texts has
  one.\<close>

definition convertErrorToParity :: "flatCallFrame \<Rightarrow> flatCallFrame" where
  "convertErrorToParity fr =
     (if ff_Error fr = [] then fr
      else case map_of parityErrorMapping (ff_Error fr) of
        Some parityError \<Rightarrow> fr\<lparr>ff_Error := parityError\<rparr>
      | None \<Rightarrow> fold (\<lambda>(gethError, parityError) fr.
                  if prefix gethError (ff_Error fr) then fr\<lparr>ff_Error := parityError\<rparr> else fr)
                parityErrorMappingStartingWith fr)"

definition childTraceAddress :: "nat list \<Rightarrow> nat \<Rightarrow> nat list" where
  "childTraceAddress a i = a @ [i]"

section \<open>The walk\<close>

record flat_env =
  flat_ext :: tracer_ext
  flat_convert :: bool
  flat_ctx :: "tracer_Context option"

text \<open>What both kinds of frames get after they are built.\<close>

definition finish_frame ::
  "flat_env \<Rightarrow> nat list \<Rightarrow> string \<Rightarrow> nat \<Rightarrow> flatCallFrame \<Rightarrow> flatCallFrame" where
  "finish_frame F traceAddress err subtraces fr =
     (let fr = fr\<lparr>ff_TraceAddress := traceAddress, ff_Error := err, ff_Subtraces := subtraces\<rparr>;
          fr = fillCallFrameFromContext (flat_ctx F) fr;
          fr = (if flat_convert F then convertErrorToParity fr else fr)
      in if err \<noteq> [] \<and> err \<noteq> error_text ErrExecutionReverted then fr\<lparr>ff_Result := None\<rparr> else fr)"

definition new_frame :: "call_fields \<Rightarrow> error + flatCallFrame" where
  "new_frame f =
     (if cf_Type f \<in> {OP_CREATE, OP_CREATE2} then Inr (newFlatCreate f)
      else if cf_Type f = OP_SELFDESTRUCT then Inr (newFlatSuicide f)
      else if cf_Type f \<in> {OP_CALL, OP_STATICCALL, OP_CALLCODE, OP_DELEGATECALL} then Inr (newFlatCall f)
      else Inl (ErrMsg (''unrecognized call frame type: '' @ OpCode_String (cf_Type f))))"

text \<open>Appending to the output, unless there was an error.\<close>

definition and_then :: "error + 'a list \<Rightarrow> error + 'a list \<Rightarrow> error + 'a list" where
  "and_then r s = (case r of Inl e \<Rightarrow> Inl e | Inr xs \<Rightarrow> (case s of Inl e \<Rightarrow> Inl e | Inr ys \<Rightarrow> Inr (xs @ ys)))"

text \<open>The loops over the join points and the calls carry the index; \<open>pre\<close> selects the join points.\<close>

fun flatFromNested :: "flat_env \<Rightarrow> nat list \<Rightarrow> callFrame \<Rightarrow> error + flatCallFrame list"
  and flat_join_points :: "flat_env \<Rightarrow> bool \<Rightarrow> nat list \<Rightarrow> nat \<Rightarrow> aspectCallFrame list \<Rightarrow> error + flatCallFrame list"
  and flat_calls :: "flat_env \<Rightarrow> nat list \<Rightarrow> nat \<Rightarrow> callFrame list \<Rightarrow> error + flatCallFrame list"
  and flatAspectNested :: "flat_env \<Rightarrow> nat list \<Rightarrow> aspectCallFrame \<Rightarrow> error + flatCallFrame list" where
  "flatFromNested F a (CallFrame f cs ls js j) =
     (case new_frame f of
        Inl e \<Rightarrow> Inl e
      | Inr fr \<Rightarrow>
          let preCallJPCount = length (filter (\<lambda>jp. IsPreCall (flat_ext F) (ac_Type (ac jp))) js) in
          and_then (and_then (and_then
            (Inr [finish_frame F a (cf_Error f) (length cs + length js) fr])
            (flat_join_points F True a 0 js))
            (flat_calls F a preCallJPCount cs))
            (flat_join_points F False a (length cs) js))"
| "flat_join_points F pre a i [] = Inr []"
| "flat_join_points F pre a i (jp # js) =
     (if IsPreCall (flat_ext F) (ac_Type (ac jp)) \<noteq> pre then flat_join_points F pre a (i + 1) js
      else and_then (flatAspectNested F (childTraceAddress a i) jp) (flat_join_points F pre a (i + 1) js))"
| "flat_calls F a i [] = Inr []"
| "flat_calls F a i (c # cs) = and_then (flatFromNested F (childTraceAddress a i) c) (flat_calls F a (i + 1) cs)"
| "flatAspectNested F a (AspectFrame f cs) =
     and_then (Inr [finish_frame F a (ac_Error f) (length cs) (newFlatJoinPoint (flat_ext F) f)])
       (flat_calls F a 0 cs)"

section \<open>The tracer\<close>

text \<open>The directory the inner tracer comes from holds tracers of any kind; \<open>as_call\<close> is the type
  assertion.\<close>

definition newFlatCallTracer ::
  "(string \<Rightarrow> error + flatCallTracerConfig) \<Rightarrow> 't directory \<Rightarrow> ('t \<Rightarrow> callTracer option)
     \<Rightarrow> tracer_Context option \<Rightarrow> string option \<Rightarrow> (error + flatCallTracer) option" where
  "newFlatCallTracer decode dir as_call ctx cfg =
     (case (case cfg of None \<Rightarrow> Inr \<lparr>ConvertParityErrors = False, IncludePrecompiles = False\<rparr>
                      | Some text \<Rightarrow> decode text) of
        Inl err \<Rightarrow> Some (Inl err)
      | Inr config \<Rightarrow> do {
          r \<leftarrow> dir_New dir ''callTracer'' ctx None;
          case r of
            Inl err \<Rightarrow> Some (Inl err)
          | Inr tr \<Rightarrow>
              (case as_call tr of
                 None \<Rightarrow> Some (Inl (ErrMsg ''internal error: embedded tracer has wrong type''))
               | Some t \<Rightarrow>
                   Some (Inr \<lparr>fl_tracer = t, fl_config = config, fl_ctx = ctx, fl_reason = None,
                              activePrecompiles = []\<rparr>)) })"

text \<open>Handing an event to the inner tracer.\<close>

definition inner :: "(callTracer \<Rightarrow> callTracer option) \<Rightarrow> flatCallTracer \<Rightarrow> flatCallTracer option" where
  "inner g t = map_option (\<lambda>c. t\<lparr>fl_tracer := c\<rparr>) (g (fl_tracer t))"

definition flat_CaptureAspectEnter ::
  "JoinPointRunType \<Rightarrow> address \<Rightarrow> address \<Rightarrow> address \<Rightarrow> bytes \<Rightarrow> u64 \<Rightarrow> int option \<Rightarrow> error + string
     \<Rightarrow> flatCallTracer \<Rightarrow> flatCallTracer option" where
  "flat_CaptureAspectEnter joinpoint from' to' aspectId input gas val execCtx =
     inner (call_CaptureAspectEnter joinpoint from' to' aspectId input gas val execCtx)"

definition flat_CaptureAspectExit ::
  "tracer_ext \<Rightarrow> JoinPointRunType \<Rightarrow> AspectExecutionResult \<Rightarrow> flatCallTracer \<Rightarrow> flatCallTracer option" where
  "flat_CaptureAspectExit T joinpoint r = inner (call_CaptureAspectExit T joinpoint r)"

definition flat_CaptureStart ::
  "'s env \<Rightarrow> address \<Rightarrow> address \<Rightarrow> bool \<Rightarrow> bytes \<Rightarrow> u64 \<Rightarrow> int option \<Rightarrow> flatCallTracer \<Rightarrow> flatCallTracer option" where
  "flat_CaptureStart E from' to' create input gas val t = do {
     t \<leftarrow> inner (call_CaptureStart from' to' create input gas val) t;
     let rules = chainConfig_Rules E (BlockNumber (Context E)) (Random (Context E) \<noteq> None) (Time (Context E));
     Some (t\<lparr>activePrecompiles := ActivePrecompiles rules\<rparr>) }"

definition flat_CaptureEnd ::
  "tracer_ext \<Rightarrow> bytes \<Rightarrow> u64 \<Rightarrow> error option \<Rightarrow> flatCallTracer \<Rightarrow> flatCallTracer option" where
  "flat_CaptureEnd T output gasUsed err = inner (call_CaptureEnd T output gasUsed err)"

definition flat_CaptureState ::
  "OpCode \<Rightarrow> ScopeContext \<Rightarrow> nat \<Rightarrow> error option \<Rightarrow> flatCallTracer \<Rightarrow> flatCallTracer option" where
  "flat_CaptureState op scope dep err = inner (call_CaptureState op scope dep err)"

text \<open>The inner tracer has no handler of its own for a fault.\<close>

definition flat_CaptureFault :: "flatCallTracer \<Rightarrow> flatCallTracer option" where
  "flat_CaptureFault = inner Some"

definition flat_CaptureEnter ::
  "OpCode \<Rightarrow> address \<Rightarrow> address \<Rightarrow> bytes \<Rightarrow> u64 \<Rightarrow> int option \<Rightarrow> flatCallTracer \<Rightarrow> flatCallTracer option" where
  "flat_CaptureEnter typ from' to' input gas val t = do {
     t \<leftarrow> inner (\<lambda>c. Some (call_CaptureEnter typ from' to' input gas val c)) t;
     if callstack (fl_tracer t) = [] then None
     else if cf_Value (cf (last (callstack (fl_tracer t)))) = None \<and> val = None
     then inner (upd_last (upd_cf (\<lambda>f. f\<lparr>cf_Value := Some 0\<rparr>))) t
     else Some t }"

definition isPrecompiled :: "flatCallTracer \<Rightarrow> address \<Rightarrow> bool" where
  "isPrecompiled t addr = list_ex (\<lambda>p. p = addr) (activePrecompiles t)"

fun drop_last_call :: "callFrame \<Rightarrow> callFrame" where
  "drop_last_call (CallFrame f cs ls js j) = CallFrame f (take (length cs - 1) cs) ls js j"

definition flat_CaptureExit ::
  "tracer_ext \<Rightarrow> bytes \<Rightarrow> u64 \<Rightarrow> error option \<Rightarrow> flatCallTracer \<Rightarrow> flatCallTracer option" where
  "flat_CaptureExit T output gasUsed err t = do {
     t \<leftarrow> inner (call_CaptureExit T output gasUsed err) t;
     if IncludePrecompiles (fl_config t) then Some t
     else if callstack (fl_tracer t) = [] then None
     else
       let parent = last (callstack (fl_tracer t)) in
       if cf_Calls parent = [] then None
       else
         let call = last (cf_Calls parent) in
         if cf_Type (cf call) = OP_CALL \<or> cf_Type (cf call) = OP_STATICCALL then do {
           to' \<leftarrow> cf_To (cf call);
           if isPrecompiled t to' then inner (upd_last drop_last_call) t else Some t }
         else Some t }"

definition flat_CaptureTxStart :: "u64 \<Rightarrow> flatCallTracer \<Rightarrow> flatCallTracer option" where
  "flat_CaptureTxStart limit = inner (\<lambda>c. Some (call_CaptureTxStart limit c))"

definition flat_CaptureTxEnd :: "u64 \<Rightarrow> flatCallTracer \<Rightarrow> flatCallTracer option" where
  "flat_CaptureTxEnd restGas = inner (call_CaptureTxEnd restGas)"

definition flat_Stop :: "flatCallTracer \<Rightarrow> error \<Rightarrow> flatCallTracer" where
  "flat_Stop t err = t\<lparr>fl_tracer := call_Stop (fl_tracer t) err\<rparr>"

text \<open>The result before it is marshalled, and the reason it is returned with.\<close>

definition flat_result :: "tracer_ext \<Rightarrow> flatCallTracer \<Rightarrow> error + flatCallFrame list \<times> error option" where
  "flat_result T t =
     (if length (callstack (fl_tracer t)) < 1 then Inl (ErrMsg ''invalid number of calls'')
      else
        case flatFromNested \<lparr>flat_ext = T, flat_convert = ConvertParityErrors (fl_config t), flat_ctx = fl_ctx t\<rparr>
               [] (callstack (fl_tracer t) ! 0) of
          Inl err \<Rightarrow> Inl err
        | Inr flat \<Rightarrow> Inr (flat, fl_reason t))"

fun flat_capture :: "'s env \<Rightarrow> tracer_ext \<Rightarrow> 's log_event \<Rightarrow> flatCallTracer \<Rightarrow> flatCallTracer option" where
  "flat_capture E T (CaptureStart from' to' create input gas val w) t =
     flat_CaptureStart E from' to' create input gas (Some val) t"
| "flat_capture E T (CaptureEnd output used err) t = flat_CaptureEnd T output used err t"
| "flat_capture E T (CaptureEnter op from' to' input gas val) t = flat_CaptureEnter op from' to' input gas val t"
| "flat_capture E T (CaptureExit output used err) t = flat_CaptureExit T output used err t"
| "flat_capture E T (CaptureState pc op gas cost scope rd dep err w) t = flat_CaptureState op scope dep err t"
| "flat_capture E T (CaptureFault pc op gas cost scope dep err) t = flat_CaptureFault t"

section \<open>Trace addresses\<close>

text \<open>The shape of a tree of frames: the children of a call are the join points before it, the calls and
  the join points after it.\<close>

datatype shape = Node "shape list"

fun kids :: "shape \<Rightarrow> shape list" where
  "kids (Node ts) = ts"

fun call_shape :: "tracer_ext \<Rightarrow> callFrame \<Rightarrow> shape" and aspect_shape :: "tracer_ext \<Rightarrow> aspectCallFrame \<Rightarrow> shape" where
  "call_shape T (CallFrame f cs ls js j) =
     Node (map (aspect_shape T) (filter (\<lambda>jp. IsPreCall T (ac_Type (ac jp))) js) @ map (call_shape T) cs @
       map (aspect_shape T) (filter (\<lambda>jp. \<not> IsPreCall T (ac_Type (ac jp))) js))"
| "aspect_shape T (AspectFrame a cs) = Node (map (call_shape T) cs)"

text \<open>The nodes in preorder, each with its path from the root and the number of its children.\<close>

fun preorder :: "nat list \<Rightarrow> shape \<Rightarrow> (nat list \<times> nat) list" and preorders :: "nat list \<Rightarrow> nat \<Rightarrow> shape list \<Rightarrow> (nat list \<times> nat) list" where
  "preorder a (Node ts) = (a, length ts) # preorders a 0 ts"
| "preorders a i [] = []"
| "preorders a i (t # ts) = preorder (a @ [i]) t @ preorders a (i + 1) ts"

definition pre_first :: "tracer_ext \<Rightarrow> aspectCallFrame list \<Rightarrow> bool" where
  "pre_first T = sorted_wrt (\<lambda>x y. IsPreCall T (ac_Type (ac y)) \<longrightarrow> IsPreCall T (ac_Type (ac x)))"

fun ordered :: "tracer_ext \<Rightarrow> callFrame \<Rightarrow> bool" and aspect_ordered :: "tracer_ext \<Rightarrow> aspectCallFrame \<Rightarrow> bool" where
  "ordered T (CallFrame f cs ls js j) \<longleftrightarrow> pre_first T js \<and> list_all (ordered T) cs \<and> list_all (aspect_ordered T) js"
| "aspect_ordered T (AspectFrame a cs) \<longleftrightarrow> list_all (ordered T) cs"

abbreviation numbered :: "flatCallFrame list \<Rightarrow> (nat list \<times> nat) list" where
  "numbered out \<equiv> map (\<lambda>fr. (ff_TraceAddress fr, ff_Subtraces fr)) out"

lemma preorders_append: "preorders a i (ts @ us) = preorders a i ts @ preorders a (i + length ts) us"
  by (induction ts arbitrary: i) simp_all

lemma fold_error_keeps:
  "ff_TraceAddress (fold (\<lambda>(g, p) fr. if prefix g (ff_Error fr) then fr\<lparr>ff_Error := p\<rparr> else fr) ms fr) = ff_TraceAddress fr"
  "ff_Subtraces (fold (\<lambda>(g, p) fr. if prefix g (ff_Error fr) then fr\<lparr>ff_Error := p\<rparr> else fr) ms fr) = ff_Subtraces fr"
  by (induction ms arbitrary: fr) auto

lemma parity_keeps:
  "ff_TraceAddress (convertErrorToParity fr) = ff_TraceAddress fr"
  "ff_Subtraces (convertErrorToParity fr) = ff_Subtraces fr"
  by (simp_all only: convertErrorToParity_def fold_error_keeps flatCallFrame.simps split: option.split if_split) simp_all

lemma finish_frame_numbers:
  "ff_TraceAddress (finish_frame F a err n fr) = a" "ff_Subtraces (finish_frame F a err n fr) = n"
  by (simp_all add: finish_frame_def Let_def fillCallFrameFromContext_def parity_keeps split: option.split)

lemma and_then_Inr: "and_then r s = Inr zs \<longleftrightarrow> (\<exists>xs ys. r = Inr xs \<and> s = Inr ys \<and> zs = xs @ ys)"
  by (auto simp: and_then_def split: sum.split)

text \<open>The parts of the walk, given that it succeeds on the parts below.\<close>

lemma flat_numbers:
  "ordered (flat_ext F) fr \<Longrightarrow> flatFromNested F a fr = Inr out \<Longrightarrow>
     numbered out = preorder a (call_shape (flat_ext F) fr)"
  "pre_first (flat_ext F) js \<Longrightarrow> list_all (aspect_ordered (flat_ext F)) js \<Longrightarrow>
     flat_join_points F pre a i js = Inr out \<Longrightarrow>
     numbered out = preorders a (if pre then i else i + length (filter (\<lambda>jp. IsPreCall (flat_ext F) (ac_Type (ac jp))) js))
       (map (aspect_shape (flat_ext F)) (filter (\<lambda>jp. IsPreCall (flat_ext F) (ac_Type (ac jp)) = pre) js))"
  "list_all (ordered (flat_ext F)) cs \<Longrightarrow> flat_calls F a i cs = Inr out \<Longrightarrow>
     numbered out = preorders a i (map (call_shape (flat_ext F)) cs)"
  "aspect_ordered (flat_ext F) jp \<Longrightarrow> flatAspectNested F a jp = Inr out \<Longrightarrow>
     numbered out = preorder a (aspect_shape (flat_ext F) jp)"
proof (induction F a fr and F pre a i js and F a i cs and F a jp arbitrary: out and out and out and out
    rule: flatFromNested_flat_join_points_flat_calls_flatAspectNested.induct)
  case (1 F a f cs ls js j)
  let ?pre = "\<lambda>jp. IsPreCall (flat_ext F) (ac_Type (ac jp))"
  let ?n = "length (filter ?pre js)"
  obtain fr where fr: "new_frame f = Inr fr" using 1(5) by (cases "new_frame f") auto
  obtain x y z where r: "flat_join_points F True a 0 js = Inr x" "flat_calls F a ?n cs = Inr y"
      "flat_join_points F False a (length cs) js = Inr z"
      "out = finish_frame F a (cf_Error f) (length cs + length js) fr # x @ y @ z"
    using 1(5) fr by (auto simp: and_then_Inr)
  have o: "pre_first (flat_ext F) js" "list_all (aspect_ordered (flat_ext F)) js" "list_all (ordered (flat_ext F)) cs"
    using 1(4) by simp_all
  have "numbered x = preorders a 0 (map (aspect_shape (flat_ext F)) (filter ?pre js))"
    using 1(1)[OF fr refl o(1,2) r(1)] by simp
  moreover have "numbered y = preorders a ?n (map (call_shape (flat_ext F)) cs)"
    using 1(2)[OF fr refl o(3) r(2)] .
  moreover have "numbered z = preorders a (length cs + ?n) (map (aspect_shape (flat_ext F)) (filter (\<lambda>jp. \<not> ?pre jp) js))"
    using 1(3)[OF fr refl o(1,2) r(3)] by simp
  moreover have "length js = ?n + length (filter (\<lambda>jp. \<not> ?pre jp) js)"
    by (simp add: sum_length_filter_compl)
  ultimately show ?case using r(4) by (simp add: preorders_append finish_frame_numbers add_ac)
next
  case (3 F pre a i jp js)
  let ?pre = "\<lambda>jp. IsPreCall (flat_ext F) (ac_Type (ac jp))"
  have o: "pre_first (flat_ext F) js" "list_all (aspect_ordered (flat_ext F)) js" "aspect_ordered (flat_ext F) jp"
    and none: "\<not> ?pre jp \<Longrightarrow> filter ?pre js = []"
    using 3(4,5) by (auto simp: pre_first_def filter_empty_conv)
  show ?case
  proof (cases "?pre jp = pre")
    case True
    obtain x y where r: "flatAspectNested F (a @ [i]) jp = Inr x" "flat_join_points F pre a (i + 1) js = Inr y" "out = x @ y"
      using 3(6) True by (auto simp: and_then_Inr childTraceAddress_def)
    show ?thesis
      using 3(2)[OF _ o(3), of x] 3(3)[OF _ o(1,2) r(2)] r True none by (auto simp: childTraceAddress_def)
  next
    case False
    then have r: "flat_join_points F pre a (i + 1) js = Inr out" using 3(6) by simp
    show ?thesis using 3(1)[OF False o(1,2) r] False none by auto
  qed
qed (auto simp: and_then_Inr finish_frame_numbers childTraceAddress_def)

text \<open>The walk succeeds when every call has a type it knows.\<close>

fun known :: "callFrame \<Rightarrow> bool" and aspect_known :: "aspectCallFrame \<Rightarrow> bool" where
  "known (CallFrame f cs ls js j) \<longleftrightarrow>
     cf_Type f \<in> {OP_CREATE, OP_CREATE2, OP_SELFDESTRUCT, OP_CALL, OP_STATICCALL, OP_CALLCODE, OP_DELEGATECALL} \<and>
     list_all known cs \<and> list_all aspect_known js"
| "aspect_known (AspectFrame a cs) \<longleftrightarrow> list_all known cs"

lemma and_then_succeeds:
  "(\<exists>zs. and_then r s = Inr zs) \<longleftrightarrow> (\<exists>xs. r = Inr xs) \<and> (\<exists>ys. s = Inr ys)"
  by (auto simp: and_then_Inr)

lemma flat_succeeds:
  "known fr \<Longrightarrow> \<exists>out. flatFromNested F a fr = Inr out"
  "list_all aspect_known js \<Longrightarrow> \<exists>out. flat_join_points F pre a i js = Inr out"
  "list_all known cs \<Longrightarrow> \<exists>out. flat_calls F a i cs = Inr out"
  "aspect_known jp \<Longrightarrow> \<exists>out. flatAspectNested F a jp = Inr out"
proof (induction F a fr and F pre a i js and F a i cs and F a jp
    rule: flatFromNested_flat_join_points_flat_calls_flatAspectNested.induct)
  case (1 F a f cs ls js j)
  obtain fr where fr: "new_frame f = Inr fr" using 1(4) by (auto simp: new_frame_def)
  show ?case using 1(1-3)[OF fr refl] 1(4) fr by (simp add: and_then_succeeds)
qed (simp_all add: and_then_succeeds)

lemma preorder_addresses:
  "b \<in> set (map fst (preorder a t)) \<Longrightarrow> prefix a b"
  "b \<in> set (map fst (preorders a i ts)) \<Longrightarrow> \<exists>j\<ge>i. prefix (a @ [j]) b"
proof (induction a t and a i ts arbitrary: b and b rule: preorder_preorders.induct)
  case (1 a ts)
  then consider "b = a" | "b \<in> set (map fst (preorders a 0 ts))" by auto
  then show ?case
  proof cases
    case 2
    then obtain j where "prefix (a @ [j]) b" using 1(1) by blast
    then show ?thesis by (auto simp: prefix_def)
  qed simp
next
  case (3 a i t ts)
  then consider "b \<in> set (map fst (preorder (a @ [i]) t))" | "b \<in> set (map fst (preorders a (i + 1) ts))" by auto
  then show ?case
  proof cases
    case 1
    then show ?thesis using 3(1) by blast
  next
    case 2
    then obtain j where "i + 1 \<le> j" "prefix (a @ [j]) b" using 3(2) by blast
    then show ?thesis by (intro exI[of _ j]) simp
  qed
qed simp

lemma preorder_distinct: "distinct (map fst (preorder a t))" "distinct (map fst (preorders a i ts))"
proof (induction a t and a i ts rule: preorder_preorders.induct)
  case (1 a ts)
  have "a \<notin> set (map fst (preorders a 0 ts))" using preorder_addresses(2)[of a a 0 ts] by auto
  then show ?case using 1 by simp
next
  case (3 a i t ts)
  have "set (map fst (preorder (a @ [i]) t)) \<inter> set (map fst (preorders a (i + 1) ts)) = {}"
  proof (rule ccontr)
    assume "\<not> ?thesis"
    then obtain b where b: "b \<in> set (map fst (preorder (a @ [i]) t))" "b \<in> set (map fst (preorders a (i + 1) ts))"
      by blast
    have "prefix (a @ [i]) b" using preorder_addresses(1)[OF b(1)] .
    moreover obtain j where "i + 1 \<le> j" "prefix (a @ [j]) b" using preorder_addresses(2)[OF b(2)] by blast
    ultimately show False by (auto simp: prefix_def)
  qed
  then show ?case using 3 by simp
qed simp

text \<open>C25: The flat trace is the preorder of the tree of frames. When the join points before a call come
  before the others, every frame appears with its path from the root as trace address, in which the
  children of every frame are numbered from 0 without a gap, and with the number of its children; no
  trace address is used twice.\<close>

theorem flat_trace_preorder:
  assumes "ordered (flat_ext F) fr" "known fr"
  shows "\<exists>out. flatFromNested F a fr = Inr out \<and>
    numbered out = preorder a (call_shape (flat_ext F) fr) \<and> distinct (map ff_TraceAddress out)"
proof -
  obtain out where out: "flatFromNested F a fr = Inr out" using flat_succeeds(1)[OF assms(2)] by blast
  have n: "numbered out = preorder a (call_shape (flat_ext F) fr)" by (rule flat_numbers(1)[OF assms(1) out])
  then have "map ff_TraceAddress out = map fst (preorder a (call_shape (flat_ext F) fr))"
    by (metis (no_types, lifting) fst_conv map_map map_ext o_apply)
  then show ?thesis using out n preorder_distinct(1) by metis
qed

definition sample_join_point :: "JoinPointRunType \<Rightarrow> aspectCallFrame" where
  "sample_join_point j = AspectFrame \<lparr>ac_Type = j, ac_Aspect = 9, ac_From = 1, ac_Gas = 5, ac_GasUsed = 2,
     ac_To = 2, ac_Input = [], ac_Output = [], ac_Error = [], ac_RevertReason = [], ac_ExecContext = [],
     ac_Value = Some 0\<rparr> []"

definition sample_frame :: callFrame where
  "sample_frame = CallFrame (no_fields\<lparr>cf_Type := OP_CALL\<rparr>)
     [bare_frame (no_fields\<lparr>cf_Type := OP_CREATE\<rparr>)] [] [sample_join_point 1, sample_join_point 2] 0"

definition sample_flat :: flat_env where
  "sample_flat = \<lparr>flat_ext = sample_tracer_ext, flat_convert = True, flat_ctx = None\<rparr>"

lemma flat_trace_preorder_witness:
  "\<exists>out. flatFromNested sample_flat [] sample_frame = Inr out \<and>
    numbered out = [([], 3), ([0], 0), ([1], 0), ([2], 0)] \<and> distinct (map ff_TraceAddress out)"
proof -
  have "ordered (flat_ext sample_flat) sample_frame" "known sample_frame"
    "preorder [] (call_shape (flat_ext sample_flat) sample_frame) = [([], 3), ([0], 0), ([1], 0), ([2], 0)]"
    by (simp_all add: sample_flat_def sample_frame_def sample_join_point_def pre_first_def sample_tracer_ext_def)
  then show ?thesis using flat_trace_preorder[of sample_flat sample_frame "[]"] by metis
qed


definition sample_flat_tracer :: flatCallTracer where
  "sample_flat_tracer = \<lparr>fl_tracer = sample_tracer, fl_config = \<lparr>ConvertParityErrors = False, IncludePrecompiles = False\<rparr>,
     fl_ctx = None, fl_reason = None, activePrecompiles = [1, 2]\<rparr>"




end
