(* ===== verification/Small_Tracers.thy ===== *)
theory Small_Tracers
  imports Prestate_Tracer Flat_Tracer
begin

text \<open>
  Three smaller tracers: the counter of method identifiers (\<open>src/tracers/native/4byte.go\<close>), the tracer
  that runs several at once (\<open>src/tracers/native/mux.go\<close>), and the collector of an access list
  (\<open>src/tracers/logger/access_list_tracer.go\<close>). Go maps are association lists without repeated keys.
  The theory shows that the first counts the calls by identifier and size, that the second runs each
  tracer as if it were alone, and that the third compares its lists as sets.
\<close>

section \<open>Method identifiers\<close>

record fourByteTracer =
  fb_ids :: "(string \<times> nat) list"
  fb_interrupt :: bool
  fb_reason :: "error option"
  fb_activePrecompiles :: "address list"

definition newFourByteTracer :: "fourByteTracer ctorFn" where
  "newFourByteTracer ctx cfg =
     Inr \<lparr>fb_ids = [], fb_interrupt = False, fb_reason = None, fb_activePrecompiles = []\<rparr>"

definition fb_isPrecompiled :: "fourByteTracer \<Rightarrow> address \<Rightarrow> bool" where
  "fb_isPrecompiled t addr = list_ex (\<lambda>p. p = addr) (fb_activePrecompiles t)"

text \<open>\<open>b2h\<close> is \<open>common.Bytes2Hex\<close>.\<close>

definition bytesToHex :: "(bytes \<Rightarrow> string) \<Rightarrow> bytes \<Rightarrow> string" where
  "bytesToHex b2h s = ''0x'' @ b2h s"

definition id_key :: "(bytes \<Rightarrow> string) \<Rightarrow> bytes \<Rightarrow> nat \<Rightarrow> string" where
  "id_key b2h ident sz = bytesToHex b2h ident @ ''-'' @ decimal sz"

definition count_of :: "(string \<times> nat) list \<Rightarrow> string \<Rightarrow> nat" where
  "count_of ids key = (case map_of ids key of None \<Rightarrow> 0 | Some n \<Rightarrow> n)"

definition fb_store :: "(bytes \<Rightarrow> string) \<Rightarrow> bytes \<Rightarrow> nat \<Rightarrow> fourByteTracer \<Rightarrow> fourByteTracer" where
  "fb_store b2h ident sz t =
     (let key = id_key b2h ident sz
      in t\<lparr>fb_ids := AList.update key (count_of (fb_ids t) key + 1) (fb_ids t)\<rparr>)"

definition fb_CaptureStart :: "(bytes \<Rightarrow> string) \<Rightarrow> 's env \<Rightarrow> bytes \<Rightarrow> fourByteTracer \<Rightarrow> fourByteTracer" where
  "fb_CaptureStart b2h E input t =
     (let rules = chainConfig_Rules E (BlockNumber (Context E)) (Random (Context E) \<noteq> None) (Time (Context E));
          t = t\<lparr>fb_activePrecompiles := ActivePrecompiles rules\<rparr>
      in if 4 \<le> length input then fb_store b2h (take 4 input) (length input - 4) t else t)"

definition fb_CaptureEnter ::
  "(bytes \<Rightarrow> string) \<Rightarrow> OpCode \<Rightarrow> address \<Rightarrow> bytes \<Rightarrow> fourByteTracer \<Rightarrow> fourByteTracer" where
  "fb_CaptureEnter b2h op to' input t =
     (if fb_interrupt t then t
      else if length input < 4 then t
      else if op \<noteq> OP_DELEGATECALL \<and> op \<noteq> OP_STATICCALL \<and> op \<noteq> OP_CALL \<and> op \<noteq> OP_CALLCODE then t
      else if fb_isPrecompiled t to' then t
      else fb_store b2h (take 4 input) (length input - 4) t)"

definition fb_Stop :: "fourByteTracer \<Rightarrow> error \<Rightarrow> fourByteTracer" where
  "fb_Stop t err = t\<lparr>fb_reason := Some err, fb_interrupt := True\<rparr>"

fun fb_capture :: "(bytes \<Rightarrow> string) \<Rightarrow> 's env \<Rightarrow> 's log_event \<Rightarrow> fourByteTracer \<Rightarrow> fourByteTracer option" where
  "fb_capture b2h E (CaptureStart from' to' create input gas val w) t = Some (fb_CaptureStart b2h E input t)"
| "fb_capture b2h E (CaptureEnter op from' to' input gas val) t = Some (fb_CaptureEnter b2h op to' input t)"
| "fb_capture b2h E ev t = Some t"

text \<open>The calls an event stands for, by key.\<close>

fun counted :: "(bytes \<Rightarrow> string) \<Rightarrow> address list \<Rightarrow> 's log_event \<Rightarrow> string option" where
  "counted b2h pre (CaptureStart from' to' create input gas val w) =
     (if 4 \<le> length input then Some (id_key b2h (take 4 input) (length input - 4)) else None)"
| "counted b2h pre (CaptureEnter op from' to' input gas val) =
     (if 4 \<le> length input \<and> op \<in> {OP_DELEGATECALL, OP_STATICCALL, OP_CALL, OP_CALLCODE} \<and> to' \<notin> set pre
      then Some (id_key b2h (take 4 input) (length input - 4)) else None)"
| "counted b2h pre ev = None"

lemma count_store:
  "count_of (fb_ids (fb_store b2h ident sz t)) key =
     count_of (fb_ids t) key + (if key = id_key b2h ident sz then 1 else 0)"
  by (simp add: fb_store_def Let_def count_of_def AList.update_conv')

lemma fb_store_frame [simp]:
  "fb_interrupt (fb_store b2h ident sz t) = fb_interrupt t"
  "fb_activePrecompiles (fb_store b2h ident sz t) = fb_activePrecompiles t"
  by (simp_all add: fb_store_def Let_def)


definition sample_four_byte :: fourByteTracer where
  "sample_four_byte = \<lparr>fb_ids = [], fb_interrupt = False, fb_reason = None,
     fb_activePrecompiles = ActivePrecompiles sample_rules\<rparr>"

definition sample_ids :: "journaled log_event list" where
  "sample_ids = [CaptureStart 1 0x42 False [1, 2, 3, 4, 5] 10 0 (sample_world []),
     CaptureEnter OP_CALL 0x42 0x43 [1, 2, 3, 4, 9] 5 None, CaptureEnter OP_CREATE 0x42 0x43 [1, 2, 3, 4, 9] 5 None]"


section \<open>Several tracers at once\<close>

text \<open>The interface of a tracer, over its state.\<close>

record ('s, 't) Tracer_ops =
  tr_event :: "'s log_event \<Rightarrow> 't \<Rightarrow> 't option"
  tr_TxStart :: "u64 \<Rightarrow> 't \<Rightarrow> 't option"
  tr_TxEnd :: "u64 \<Rightarrow> 's \<Rightarrow> 't \<Rightarrow> 't option"
  tr_GetResult :: "'t \<Rightarrow> error + string"
  tr_Stop :: "error \<Rightarrow> 't \<Rightarrow> 't"

record 't muxTracer =
  mux_names :: "string list"
  mux_tracers :: "'t list"

text \<open>The configuration names the tracers; the order is that of the iteration over the decoded map.\<close>

fun mux_objects ::
  "'t directory \<Rightarrow> tracer_Context option \<Rightarrow> (string \<times> string) list \<Rightarrow> (error + (string \<times> 't) list) option" where
  "mux_objects dir ctx [] = Some (Inr [])"
| "mux_objects dir ctx ((k, v) # kvs) = do {
     r \<leftarrow> dir_New dir k ctx (Some v);
     case r of
       Inl err \<Rightarrow> Some (Inl err)
     | Inr t \<Rightarrow> map_option (map_sum id (\<lambda>ts. (k, t) # ts)) (mux_objects dir ctx kvs) }"

definition newMuxTracer ::
  "(string \<Rightarrow> error + (string \<times> string) list) \<Rightarrow> 't directory \<Rightarrow> tracer_Context option \<Rightarrow> string option
     \<Rightarrow> (error + 't muxTracer) option" where
  "newMuxTracer decode dir ctx cfg =
     (case (case cfg of None \<Rightarrow> Inr [] | Some text \<Rightarrow> decode text) of
        Inl err \<Rightarrow> Some (Inl err)
      | Inr config \<Rightarrow>
          map_option (map_sum id (\<lambda>ts. \<lparr>mux_names = map fst ts, mux_tracers = map snd ts\<rparr>))
            (mux_objects dir ctx config))"

primrec each :: "('t \<Rightarrow> 't option) \<Rightarrow> 't list \<Rightarrow> 't list option" where
  "each f [] = Some []"
| "each f (t # ts) = do { t \<leftarrow> f t; ts \<leftarrow> each f ts; Some (t # ts) }"

definition mux_all :: "('t \<Rightarrow> 't option) \<Rightarrow> 't muxTracer \<Rightarrow> 't muxTracer option" where
  "mux_all f t = map_option (\<lambda>ts. t\<lparr>mux_tracers := ts\<rparr>) (each f (mux_tracers t))"

definition mux_event :: "('s, 't) Tracer_ops \<Rightarrow> 's log_event \<Rightarrow> 't muxTracer \<Rightarrow> 't muxTracer option" where
  "mux_event T ev = mux_all (tr_event T ev)"

definition mux_CaptureTxStart :: "('s, 't) Tracer_ops \<Rightarrow> u64 \<Rightarrow> 't muxTracer \<Rightarrow> 't muxTracer option" where
  "mux_CaptureTxStart T limit = mux_all (tr_TxStart T limit)"

definition mux_CaptureTxEnd :: "('s, 't) Tracer_ops \<Rightarrow> u64 \<Rightarrow> 's \<Rightarrow> 't muxTracer \<Rightarrow> 't muxTracer option" where
  "mux_CaptureTxEnd T restGas w = mux_all (tr_TxEnd T restGas w)"

fun mux_results ::
  "('s, 't) Tracer_ops \<Rightarrow> (string \<times> 't) list \<Rightarrow> (string \<times> string) list \<Rightarrow> error + (string \<times> string) list" where
  "mux_results T [] res = Inr res"
| "mux_results T ((name, t) # ts) res =
     (case tr_GetResult T t of Inl err \<Rightarrow> Inl err | Inr r \<Rightarrow> mux_results T ts (AList.update name r res))"

definition mux_GetResult :: "('s, 't) Tracer_ops \<Rightarrow> 't muxTracer \<Rightarrow> error + (string \<times> string) list" where
  "mux_GetResult T t = mux_results T (zip (mux_names t) (mux_tracers t)) []"

definition mux_Stop :: "('s, 't) Tracer_ops \<Rightarrow> error \<Rightarrow> 't muxTracer \<Rightarrow> 't muxTracer" where
  "mux_Stop T err t = t\<lparr>mux_tracers := map (tr_Stop T err) (mux_tracers t)\<rparr>"

lemma each_Some: "each f ts = Some us \<longleftrightarrow> list_all2 (\<lambda>t u. f t = Some u) ts us"
  by (induction ts arbitrary: us) (auto simp: bind_eq_Some list_all2_Cons1)

lemma each_bind: "each (\<lambda>t. Option.bind (f t) g) ts = Option.bind (each f ts) (each g)"
proof (induction ts)
  case (Cons t ts)
  then show ?case by (cases "f t"; cases "each f ts") (auto split: Option.bind_split)
qed simp

lemma each_id [simp]: "each Some ts = Some ts"
  by (induction ts) simp_all


section \<open>Access lists\<close>

type_synonym accessListSlots = "hash list"
type_synonym accessList = "(address \<times> accessListSlots) list"

record AccessTuple =
  at_Address :: address
  at_StorageKeys :: "hash list"

definition newAccessList :: accessList where
  "newAccessList = []"

definition addAddress :: "address \<Rightarrow> accessList \<Rightarrow> accessList" where
  "addAddress addr al = (if map_of al addr = None then AList.update addr [] al else al)"

definition addSlot :: "address \<Rightarrow> hash \<Rightarrow> accessList \<Rightarrow> accessList" where
  "addSlot addr slot al =
     (let al = addAddress addr al
      in AList.update addr (List.insert slot (the (map_of al addr))) al)"

text \<open>A missing entry of a Go map reads as the empty set.\<close>

definition slots_of :: "accessList \<Rightarrow> address \<Rightarrow> accessListSlots" where
  "slots_of al addr = (case map_of al addr of None \<Rightarrow> [] | Some s \<Rightarrow> s)"

definition al_equal :: "accessList \<Rightarrow> accessList \<Rightarrow> bool" where
  "al_equal al other \<longleftrightarrow>
     length al = length other \<and>
     list_all (\<lambda>(addr, slots). map_of other addr \<noteq> None) al \<and>
     list_all (\<lambda>(addr, slots).
       length slots = length (slots_of other addr) \<and>
       list_all (\<lambda>h. h \<in> set (slots_of other addr)) slots) al"

definition al_accessList :: "accessList \<Rightarrow> AccessTuple list" where
  "al_accessList al = map (\<lambda>(addr, slots). \<lparr>at_Address = addr, at_StorageKeys = slots\<rparr>) al"

record AccessListTracer =
  al_excl :: "address list"
  al_list :: accessList

definition add_tuple :: "address list \<Rightarrow> AccessTuple \<Rightarrow> accessList \<Rightarrow> accessList" where
  "add_tuple excl al list =
     (let list = (if at_Address al \<notin> set excl then addAddress (at_Address al) list else list)
      in fold (addSlot (at_Address al)) (at_StorageKeys al) list)"

definition NewAccessListTracer ::
  "AccessTuple list \<Rightarrow> address \<Rightarrow> address \<Rightarrow> address list \<Rightarrow> AccessListTracer" where
  "NewAccessListTracer acl from' to' precompiles =
     (let excl = fold List.insert precompiles (List.insert to' (List.insert from' []))
      in \<lparr>al_excl = excl, al_list = fold (add_tuple excl) acl newAccessList\<rparr>)"

definition touch_address :: "address \<Rightarrow> AccessListTracer \<Rightarrow> AccessListTracer" where
  "touch_address addr t = (if addr \<notin> set (al_excl t) then t\<lparr>al_list := addAddress addr (al_list t)\<rparr> else t)"

definition al_CaptureState :: "OpCode \<Rightarrow> ScopeContext \<Rightarrow> AccessListTracer \<Rightarrow> AccessListTracer option" where
  "al_CaptureState op scope t = do {
     let st = scStack scope;
     let n = stack_len st;
     t \<leftarrow> (if op \<in> {OP_SLOAD, OP_SSTORE} \<and> 1 \<le> n
          then map_option (\<lambda>x. t\<lparr>al_list := addSlot (Contract_Address (scContract scope)) x (al_list t)\<rparr>) (from_top st 0)
          else Some t);
     t \<leftarrow> (if op \<in> {OP_EXTCODECOPY, OP_EXTCODEHASH, OP_EXTCODESIZE, OP_BALANCE, OP_SELFDESTRUCT} \<and> 1 \<le> n
          then map_option (\<lambda>x. touch_address (Bytes20 x) t) (from_top st 0) else Some t);
     if op \<in> {OP_DELEGATECALL, OP_CALL, OP_STATICCALL, OP_CALLCODE} \<and> 5 \<le> n
     then map_option (\<lambda>x. touch_address (Bytes20 x) t) (from_top st 1) else Some t }"

fun al_capture :: "'s log_event \<Rightarrow> AccessListTracer \<Rightarrow> AccessListTracer option" where
  "al_capture (CaptureState pc op gas cost scope rd dep err w) t = al_CaptureState op scope t"
| "al_capture ev t = Some t"

definition AccessList_of :: "AccessListTracer \<Rightarrow> AccessTuple list" where
  "AccessList_of t = al_accessList (al_list t)"

definition AccessListTracer_Equal :: "AccessListTracer \<Rightarrow> AccessListTracer \<Rightarrow> bool" where
  "AccessListTracer_Equal t other = al_equal (al_list t) (al_list other)"

definition wf_access :: "accessList \<Rightarrow> bool" where
  "wf_access al \<longleftrightarrow> distinct (map fst al) \<and> (\<forall>(addr, slots) \<in> set al. distinct slots)"

lemma wf_access_update: "wf_access al \<Longrightarrow> distinct slots \<Longrightarrow> wf_access (AList.update addr slots al)"
  using set_update_subset[of addr slots al] by (fastforce simp: wf_access_def AList.distinct_update)

lemma wf_access_slots: "wf_access al \<Longrightarrow> map_of al addr = Some slots \<Longrightarrow> distinct slots"
  by (auto simp: wf_access_def dest: map_of_SomeD)

lemma wf_addAddress: "wf_access al \<Longrightarrow> wf_access (addAddress addr al)"
  by (simp add: addAddress_def wf_access_update)

lemma addAddress_known: "map_of (addAddress addr al) addr \<noteq> None"
  by (simp add: addAddress_def AList.update_conv')

lemma wf_addSlot: "wf_access al \<Longrightarrow> wf_access (addSlot addr slot al)"
  using addAddress_known[of addr al] wf_access_slots[OF wf_addAddress, of al addr]
  by (auto simp: addSlot_def Let_def intro!: wf_access_update wf_addAddress)

lemma wf_add_tuple: "wf_access al \<Longrightarrow> wf_access (add_tuple excl tup al)"
proof -
  have "wf_access al \<Longrightarrow> wf_access (fold (addSlot addr) ks al)" for addr ks al
    by (induction ks arbitrary: al) (simp_all add: wf_addSlot)
  then show "wf_access al \<Longrightarrow> wf_access (add_tuple excl tup al)" by (simp add: add_tuple_def wf_addAddress)
qed

lemma wf_NewAccessListTracer: "wf_access (al_list (NewAccessListTracer acl from' to' pre))"
proof -
  have "wf_access al \<Longrightarrow> wf_access (fold (add_tuple excl) acl al)" for excl al
    by (induction acl arbitrary: al) (simp_all add: wf_add_tuple)
  moreover have "wf_access []" by (simp add: wf_access_def)
  ultimately show ?thesis by (simp add: NewAccessListTracer_def Let_def newAccessList_def)
qed

lemma wf_touch: "wf_access (al_list t) \<Longrightarrow> wf_access (al_list (touch_address addr t))"
  by (simp add: touch_address_def wf_addAddress)

lemma wf_al_capture: "al_capture ev t = Some t' \<Longrightarrow> wf_access (al_list t) \<Longrightarrow> wf_access (al_list t')"
  by (cases ev) (auto simp: al_CaptureState_def Let_def bind_eq_Some wf_addSlot wf_touch split: if_splits)

lemma wf_al_capture_all:
  "capture_all al_capture evs t = Some t' \<Longrightarrow> wf_access (al_list t) \<Longrightarrow> wf_access (al_list t')"
  by (induction evs arbitrary: t) (auto simp: bind_eq_Some dest: wf_al_capture)

text \<open>The sets an access list stands for.\<close>

definition slot_sets :: "accessList \<Rightarrow> address \<Rightarrow> hash set option" where
  "slot_sets al addr = map_option set (map_of al addr)"

lemma subset_length_eq: "distinct xs \<Longrightarrow> distinct ys \<Longrightarrow> length xs = length ys \<Longrightarrow> set xs \<subseteq> set ys \<Longrightarrow> set xs = set ys"
  by (metis card_subset_eq distinct_card finite_set)

lemma wf_access_card: "wf_access al \<Longrightarrow> card (dom (map_of al)) = length al"
  by (simp add: wf_access_def dom_map_of_conv_image_fst) (metis distinct_card length_map list.set_map)

lemma al_equal_sets:
  assumes "wf_access al" "wf_access other"
  shows "al_equal al other \<longleftrightarrow> slot_sets al = slot_sets other"
proof
  assume eq: "al_equal al other"
  have dom: "dom (map_of al) = dom (map_of other)"
  proof (rule card_subset_eq)
    show "dom (map_of al) \<subseteq> dom (map_of other)"
      using eq by (auto simp: al_equal_def list_all_iff dest!: map_of_SomeD)
    show "card (dom (map_of al)) = card (dom (map_of other))"
      using eq wf_access_card[OF assms(1)] wf_access_card[OF assms(2)] by (simp add: al_equal_def)
  qed (simp add: finite_dom_map_of)
  show "slot_sets al = slot_sets other"
  proof
    fix addr
    show "slot_sets al addr = slot_sets other addr"
    proof (cases "map_of al addr")
      case None
      then have "map_of other addr = None" using dom by auto
      then show ?thesis using None by (simp add: slot_sets_def)
    next
      case (Some slots)
      then obtain others where o: "map_of other addr = Some others" using dom by auto
      have "length slots = length others" "set slots \<subseteq> set others"
        using eq map_of_SomeD[OF Some] o by (auto simp: al_equal_def list_all_iff slots_of_def)
      then have "set slots = set others"
        using subset_length_eq wf_access_slots[OF assms(1) Some] wf_access_slots[OF assms(2) o] by blast
      then show ?thesis using Some o by (simp add: slot_sets_def)
    qed
  qed
next
  assume v: "slot_sets al = slot_sets other"
  have "dom (slot_sets l) = dom (map_of l)" for l by (auto simp: slot_sets_def)
  then have len: "length al = length other"
    using v wf_access_card[OF assms(1)] wf_access_card[OF assms(2)] by metis
  have "map_of other addr \<noteq> None \<and> length slots = length (slots_of other addr) \<and> set slots \<subseteq> set (slots_of other addr)"
    if "(addr, slots) \<in> set al" for addr slots
  proof -
    have s: "map_of al addr = Some slots" using that assms(1) by (simp add: wf_access_def)
    then obtain others where o: "map_of other addr = Some others" "set others = set slots"
      using fun_cong[OF v, of addr] by (cases "map_of other addr") (simp_all add: slot_sets_def)
    then show ?thesis
      using wf_access_slots[OF assms(1) s, THEN distinct_card] wf_access_slots[OF assms(2) o(1), THEN distinct_card]
      by (simp add: slots_of_def)
  qed
  then show "al_equal al other" using len by (auto simp: al_equal_def list_all_iff)
qed

text \<open>C31: Two access list tracers compare equal exactly when they have collected the same addresses with the
  same slots, whatever lists they began with, whatever they saw, and in whatever order.\<close>

theorem access_lists_equal:
  assumes "capture_all al_capture evs (NewAccessListTracer acl f to' pre) = Some t"
    and "capture_all al_capture evs' (NewAccessListTracer acl' f' to'' pre') = Some t'"
  shows "AccessListTracer_Equal t t' \<longleftrightarrow> slot_sets (al_list t) = slot_sets (al_list t')"
  unfolding AccessListTracer_Equal_def
  by (rule al_equal_sets) (use assms wf_al_capture_all[OF _ wf_NewAccessListTracer] in blast)+

lemma access_lists_equal_witness:
  "AccessListTracer_Equal
     (NewAccessListTracer [\<lparr>at_Address = 5, at_StorageKeys = []\<rparr>, \<lparr>at_Address = 6, at_StorageKeys = [1]\<rparr>] 1 2 [])
     (NewAccessListTracer [\<lparr>at_Address = 6, at_StorageKeys = [1]\<rparr>, \<lparr>at_Address = 5, at_StorageKeys = []\<rparr>] 1 2 [])"
proof -
  let ?a = "\<lparr>at_Address = 5, at_StorageKeys = []\<rparr>" and ?b = "\<lparr>at_Address = 6, at_StorageKeys = [1]\<rparr>"
  have slot: "addSlot 6 1 [(5, []), (6, [])] = [(5, []), (6, [1])]" "addSlot 6 1 [(6, [])] = [(6, [1])]"
    by (simp_all add: addSlot_def addAddress_def)
  have "al_list (NewAccessListTracer [?a, ?b] 1 2 []) = [(5, []), (6, [1])]"
    "al_list (NewAccessListTracer [?b, ?a] 1 2 []) = [(6, [1]), (5, [])]"
    by (simp_all add: NewAccessListTracer_def add_tuple_def addAddress_def newAccessList_def slot)
  then have "slot_sets (al_list (NewAccessListTracer [?a, ?b] 1 2 [])) = slot_sets (al_list (NewAccessListTracer [?b, ?a] 1 2 []))"
    by (simp add: slot_sets_def fun_eq_iff)
  then show ?thesis
    using access_lists_equal[of "[] :: nat log_event list" "[?a, ?b]" 1 2 "[]" _ "[] :: nat log_event list" "[?b, ?a]" 1 2 "[]"] by simp
qed

end
