(* ===== verification/Struct_Logger.thy ===== *)
theory Struct_Logger
  imports Prestate_Tracer
begin

text \<open>
  The loggers of single steps: the structured logger, the writers of traces and logs and the markdown
  logger (\<open>src/tracers/logger/logger.go\<close>), and the JSON logger (\<open>src/tracers/logger/logger_json.go\<close>). A
  writer is the text written so far; the formats of package \<open>fmt\<close> that are used are functions on
  strings. A slice or map that may be \<open>nil\<close> is an option. The theory shows that the structured logger
  keeps one faithful entry per step, up to its limit, and what the entries say about storage.
\<close>

section \<open>Formats\<close>

text \<open>What other packages print: \<open>uint256.Int.Hex\<close>, \<open>common.Address.String\<close>, and addresses and hashes under
  the verb \<open>%x\<close>.\<close>

record log_fmt =
  u256_Hex :: "u256 \<Rightarrow> string"
  addr_String :: "address \<Rightarrow> string"
  addr_hex :: "address \<Rightarrow> string"
  hash_hex :: "hash \<Rightarrow> string"

definition nl :: string where
  "nl = [CHR 0x0A]"

definition pad_left :: "char \<Rightarrow> nat \<Rightarrow> string \<Rightarrow> string" where
  "pad_left c n s = replicate (n - length s) c @ s"

definition pad_right :: "nat \<Rightarrow> string \<Rightarrow> string" where
  "pad_right n s = s @ replicate (n - length s) (CHR '' '')"

definition hex_bytes :: "bytes \<Rightarrow> string" where
  "hex_bytes bs = concat (map (\<lambda>b. [hex_digit (unat b div 16), hex_digit (unat b)]) bs)"

text \<open>The verb \<open>%#x\<close> prints nothing for an empty slice.\<close>

definition hex_prefixed :: "bytes \<Rightarrow> string" where
  "hex_prefixed bs = (if bs = [] then [] else ''0x'' @ hex_bytes bs)"

definition signed_decimal :: "int \<Rightarrow> string" where
  "signed_decimal i = (if i < 0 then ''-'' @ decimal (nat (- i)) else decimal (nat i))"

definition error_or_nil :: "error option \<Rightarrow> string" where
  "error_or_nil err = (case err of None \<Rightarrow> ''<nil>'' | Some e \<Rightarrow> error_text e)"

text \<open>\<open>hex.Dump\<close>: sixteen bytes a line, with the offset before and the printable characters behind.\<close>

definition dump_cell :: "bytes \<Rightarrow> nat \<Rightarrow> string" where
  "dump_cell bs i =
     (if i < length bs then hex_bytes [bs ! i] else ''  '') @ '' '' @
     (if i = 7 then '' '' else if i = 15 then '' |'' else [])"

definition dump_char :: "byte \<Rightarrow> char" where
  "dump_char b = (if unat b < 32 \<or> 126 < unat b then CHR ''.'' else char_of (unat b))"

definition dump_line :: "nat \<Rightarrow> bytes \<Rightarrow> string" where
  "dump_line off bs =
     pad_left (CHR ''0'') 8 (hex off) @ ''  '' @ concat (map (dump_cell bs) [0..<16]) @
     map dump_char bs @ ''|'' @ nl"

function dump_from :: "nat \<Rightarrow> bytes \<Rightarrow> string" where
  "dump_from off bs = (if bs = [] then [] else dump_line off (take 16 bs) @ dump_from (off + 16) (drop 16 bs))"
  by auto
termination by (relation "measure (\<lambda>(off, bs). length bs)") auto

declare dump_from.simps [simp del]

definition hex_Dump :: "bytes \<Rightarrow> string" where
  "hex_Dump bs = dump_from 0 bs"

section \<open>Structured logs\<close>

type_synonym Storage = "(hash \<times> hash) list"

definition Storage_Copy :: "Storage \<Rightarrow> Storage" where
  "Storage_Copy s = fold (\<lambda>(key, value) cpy. AList.update key value cpy) s []"

record log_Config =
  EnableMemory :: bool
  DisableStack :: bool
  DisableStorage :: bool
  EnableReturnData :: bool
  log_Debug :: bool
  Limit :: int

definition no_config :: log_Config where
  "no_config = \<lparr>EnableMemory = False, DisableStack = False, DisableStorage = False,
     EnableReturnData = False, log_Debug = False, Limit = 0\<rparr>"

record StructLog =
  sg_Pc :: u64
  sg_Op :: OpCode
  sg_Gas :: u64
  sg_GasCost :: u64
  sg_Memory :: "bytes option"
  sg_MemorySize :: nat
  sg_Stack :: "u256 list option"
  sg_ReturnData :: "bytes option"
  sg_Storage :: "Storage option"
  sg_Depth :: nat
  sg_RefundCounter :: u64
  sg_Err :: "error option"

definition OpName :: "StructLog \<Rightarrow> string" where
  "OpName s = OpCode_String (sg_Op s)"

definition ErrorString :: "StructLog \<Rightarrow> string" where
  "ErrorString s = (case sg_Err s of None \<Rightarrow> [] | Some e \<Rightarrow> error_text e)"

text \<open>\<open>sl_env\<close> tells whether the pointer to the machine is set, \<open>sl_stdout\<close> is what was printed.\<close>

record StructLogger =
  sl_cfg :: log_Config
  sl_env :: bool
  sl_storage :: "(address \<times> Storage) list"
  sl_logs :: "StructLog list"
  sl_output :: bytes
  sl_err :: "error option"
  sl_gasLimit :: u64
  sl_usedGas :: u64
  sl_interrupt :: bool
  sl_reason :: "error option"
  sl_stdout :: string

definition NewStructLogger :: "log_Config option \<Rightarrow> StructLogger" where
  "NewStructLogger cfg =
     \<lparr>sl_cfg = (case cfg of None \<Rightarrow> no_config | Some c \<Rightarrow> c), sl_env = False, sl_storage = [], sl_logs = [],
      sl_output = [], sl_err = None, sl_gasLimit = 0, sl_usedGas = 0, sl_interrupt = False,
      sl_reason = None, sl_stdout = []\<rparr>"

definition sl_Reset :: "StructLogger \<Rightarrow> StructLogger" where
  "sl_Reset l = l\<lparr>sl_storage := [], sl_output := [], sl_logs := [], sl_err := None\<rparr>"

definition sl_CaptureStart :: "StructLogger \<Rightarrow> StructLogger" where
  "sl_CaptureStart l = l\<lparr>sl_env := True\<rparr>"

text \<open>The storage of a step: the storage kept for the contract, with the slot read or written.\<close>

definition capture_storage ::
  "'s StateDB \<Rightarrow> 's \<Rightarrow> OpCode \<Rightarrow> ScopeContext \<Rightarrow> StructLogger \<Rightarrow> (Storage option \<times> StructLogger) option" where
  "capture_storage db w op scope l =
     (if \<not> DisableStorage (sl_cfg l) \<and> (op = OP_SLOAD \<or> op = OP_SSTORE) then
        let addr = Contract_Address (scContract scope); st = scStack scope;
            l = (if map_of (sl_storage l) addr = None then l\<lparr>sl_storage := AList.update addr [] (sl_storage l)\<rparr> else l);
            kept = the (map_of (sl_storage l) addr)
        in
        if op = OP_SLOAD \<and> 1 \<le> stack_len st then do {
          slot \<leftarrow> from_top st 0;
          if \<not> sl_env l then None
          else
            let kept = AList.update slot (GetState db w addr slot) kept
            in Some (Some (Storage_Copy kept), l\<lparr>sl_storage := AList.update addr kept (sl_storage l)\<rparr>) }
        else if op = OP_SSTORE \<and> 2 \<le> stack_len st then do {
          val \<leftarrow> from_top st 1;
          slot \<leftarrow> from_top st 0;
          let kept = AList.update slot val kept;
          Some (Some (Storage_Copy kept), l\<lparr>sl_storage := AList.update addr kept (sl_storage l)\<rparr>) }
        else Some (None, l)
      else Some (None, l))"

definition sl_CaptureState ::
  "'s StateDB \<Rightarrow> 's \<Rightarrow> u64 \<Rightarrow> OpCode \<Rightarrow> u64 \<Rightarrow> u64 \<Rightarrow> ScopeContext \<Rightarrow> bytes \<Rightarrow> nat \<Rightarrow> error option
     \<Rightarrow> StructLogger \<Rightarrow> StructLogger option" where
  "sl_CaptureState db w pc op gas cost scope rData dep err l =
     (if sl_interrupt l then Some l
      else if Limit (sl_cfg l) \<noteq> 0 \<and> Limit (sl_cfg l) \<le> int (length (sl_logs l)) then Some l
      else do {
        let cfg = sl_cfg l;
        let mem = (if EnableMemory cfg then Some (store (scMemory scope)) else None);
        let stck = (if \<not> DisableStack cfg then Some (st_data (scStack scope)) else None);
        (storage, l) \<leftarrow> capture_storage db w op scope l;
        let rdata = (if EnableReturnData cfg then Some rData else None);
        if \<not> sl_env l then None
        else Some (l\<lparr>sl_logs := sl_logs l @
               [\<lparr>sg_Pc = pc, sg_Op = op, sg_Gas = gas, sg_GasCost = cost, sg_Memory = mem,
                 sg_MemorySize = Mem_Len (scMemory scope), sg_Stack = stck, sg_ReturnData = rdata,
                 sg_Storage = storage, sg_Depth = dep, sg_RefundCounter = GetRefund db w, sg_Err = err\<rparr>]\<rparr>) })"

definition sl_CaptureEnd :: "bytes \<Rightarrow> error option \<Rightarrow> StructLogger \<Rightarrow> StructLogger" where
  "sl_CaptureEnd output err l =
     (let l = l\<lparr>sl_output := output, sl_err := err\<rparr>
      in if log_Debug (sl_cfg l)
         then l\<lparr>sl_stdout := sl_stdout l @ hex_prefixed output @ nl @
                (case err of None \<Rightarrow> [] | Some e \<Rightarrow> '' error: '' @ error_text e @ nl)\<rparr>
         else l)"

definition sl_Stop :: "StructLogger \<Rightarrow> error \<Rightarrow> StructLogger" where
  "sl_Stop l err = l\<lparr>sl_reason := Some err, sl_interrupt := True\<rparr>"

definition sl_CaptureTxStart :: "u64 \<Rightarrow> StructLogger \<Rightarrow> StructLogger" where
  "sl_CaptureTxStart limit l = l\<lparr>sl_gasLimit := limit\<rparr>"

definition sl_CaptureTxEnd :: "u64 \<Rightarrow> StructLogger \<Rightarrow> StructLogger" where
  "sl_CaptureTxEnd restGas l = l\<lparr>sl_usedGas := sl_gasLimit l - restGas\<rparr>"

definition StructLogs :: "StructLogger \<Rightarrow> StructLog list" where
  "StructLogs l = sl_logs l"

definition sl_Error :: "StructLogger \<Rightarrow> error option" where
  "sl_Error l = sl_err l"

definition sl_Output :: "StructLogger \<Rightarrow> bytes" where
  "sl_Output l = sl_output l"

fun sl_capture :: "'s StateDB \<Rightarrow> 's log_event \<Rightarrow> StructLogger \<Rightarrow> StructLogger option" where
  "sl_capture db (CaptureStart from' to' create input gas val w) l = Some (sl_CaptureStart l)"
| "sl_capture db (CaptureEnd output used err) l = Some (sl_CaptureEnd output err l)"
| "sl_capture db (CaptureState pc op gas cost scope rd dep err w) l =
     sl_CaptureState db w pc op gas cost scope rd dep err l"
| "sl_capture db ev l = Some l"

section \<open>Results\<close>

record StructLogRes =
  rs_Pc :: u64
  rs_Op :: string
  rs_Gas :: u64
  rs_GasCost :: u64
  rs_Depth :: nat
  rs_Error :: string
  rs_Stack :: "string list option"
  rs_Memory :: "string list option"
  rs_Storage :: "(string \<times> string) list option"
  rs_RefundCounter :: u64

record ExecutionResult =
  er_Gas :: u64
  er_Failed :: bool
  er_ReturnValue :: string
  er_StructLogs :: "StructLogRes list"

text \<open>The loop over the memory: \<open>i\<close> is a multiple of 32.\<close>

function memory_words :: "nat \<Rightarrow> bytes \<Rightarrow> string list" where
  "memory_words i mem =
     (if i + 32 \<le> length mem then hex_bytes (take 32 (drop i mem)) # memory_words (i + 32) mem else [])"
  by auto
termination by (relation "measure (\<lambda>(i, mem). length mem - i)") auto

declare memory_words.simps [simp del]

definition format_log :: "log_fmt \<Rightarrow> StructLog \<Rightarrow> StructLogRes" where
  "format_log P trace =
     \<lparr>rs_Pc = sg_Pc trace, rs_Op = OpCode_String (sg_Op trace), rs_Gas = sg_Gas trace,
      rs_GasCost = sg_GasCost trace, rs_Depth = sg_Depth trace, rs_Error = ErrorString trace,
      rs_Stack = map_option (map (u256_Hex P)) (sg_Stack trace),
      rs_Memory = map_option (memory_words 0) (sg_Memory trace),
      rs_Storage = map_option (\<lambda>s. fold (\<lambda>(k, v) m. AList.update (hash_hex P k) (hash_hex P v) m) s []) (sg_Storage trace),
      rs_RefundCounter = sg_RefundCounter trace\<rparr>"

definition formatLogs :: "log_fmt \<Rightarrow> StructLog list \<Rightarrow> StructLogRes list" where
  "formatLogs P logs = map (format_log P) logs"

text \<open>The result before it is marshalled.\<close>

definition sl_GetResult :: "log_fmt \<Rightarrow> StructLogger \<Rightarrow> error + ExecutionResult" where
  "sl_GetResult P l =
     (case sl_reason l of
        Some err \<Rightarrow> Inl err
      | None \<Rightarrow>
          let failed = (sl_err l \<noteq> None);
              returnVal = hex_bytes (sl_output l);
              returnVal = (if failed \<and> sl_err l \<noteq> Some ErrExecutionReverted then [] else returnVal)
          in Inr \<lparr>er_Gas = sl_usedGas l, er_Failed = failed, er_ReturnValue = returnVal,
                  er_StructLogs = formatLogs P (StructLogs l)\<rparr>)"

section \<open>Writers\<close>

text \<open>The stack is written from its top, numbered from 0.\<close>

definition trace_stack :: "log_fmt \<Rightarrow> u256 list \<Rightarrow> string" where
  "trace_stack P st =
     concat (map (\<lambda>i. pad_left (CHR ''0'') 8 (decimal (length st - i - 1)) @ ''  '' @ u256_Hex P (st ! i) @ nl)
       (rev [0..<length st]))"

definition trace_entry :: "log_fmt \<Rightarrow> StructLog \<Rightarrow> string" where
  "trace_entry P log =
     pad_right 16 (OpCode_String (sg_Op log)) @ ''pc='' @ pad_left (CHR ''0'') 8 (decimal (unat (sg_Pc log))) @
     '' gas='' @ decimal (unat (sg_Gas log)) @ '' cost='' @ decimal (unat (sg_GasCost log)) @
     (case sg_Err log of None \<Rightarrow> [] | Some e \<Rightarrow> '' ERROR: '' @ error_text e) @ nl @
     (case sg_Stack log of Some (x # xs) \<Rightarrow> ''Stack:'' @ nl @ trace_stack P (x # xs) | _ \<Rightarrow> []) @
     (case sg_Memory log of Some (x # xs) \<Rightarrow> ''Memory:'' @ nl @ hex_Dump (x # xs) | _ \<Rightarrow> []) @
     (case sg_Storage log of
        Some (x # xs) \<Rightarrow> ''Storage:'' @ nl @ concat (map (\<lambda>(h, item). hash_hex P h @ '': '' @ hash_hex P item @ nl) (x # xs))
      | _ \<Rightarrow> []) @
     (case sg_ReturnData log of Some (x # xs) \<Rightarrow> ''ReturnData:'' @ nl @ hex_Dump (x # xs) | _ \<Rightarrow> []) @ nl"

definition WriteTrace :: "log_fmt \<Rightarrow> StructLog list \<Rightarrow> string \<Rightarrow> string" where
  "WriteTrace P logs out = out @ concat (map (trace_entry P) logs)"

record tx_Log = Log +
  log_TxIndex :: nat

definition log_entry :: "log_fmt \<Rightarrow> tx_Log \<Rightarrow> string" where
  "log_entry P log =
     ''LOG'' @ decimal (length (log_Topics log)) @ '': '' @ addr_hex P (log_Address log) @ '' bn='' @
     decimal (unat (log_BlockNumber log)) @ '' txi='' @ hex (log_TxIndex log) @ nl @
     concat (map (\<lambda>i. pad_left (CHR ''0'') 8 (decimal i) @ ''  '' @ hash_hex P (log_Topics log ! i) @ nl)
       [0..<length (log_Topics log)]) @
     hex_Dump (log_Data log) @ nl"

definition WriteLogs :: "log_fmt \<Rightarrow> tx_Log list \<Rightarrow> string \<Rightarrow> string" where
  "WriteLogs P logs out = out @ concat (map (log_entry P) logs)"

section \<open>The markdown logger\<close>

record mdLogger =
  md_out :: string
  md_cfg :: log_Config
  md_env :: bool

definition NewMarkdownLogger :: "log_Config option \<Rightarrow> string \<Rightarrow> mdLogger" where
  "NewMarkdownLogger cfg writer =
     \<lparr>md_out = writer, md_cfg = (case cfg of None \<Rightarrow> no_config | Some c \<Rightarrow> c), md_env = False\<rparr>"

definition md_write :: "string \<Rightarrow> mdLogger \<Rightarrow> mdLogger" where
  "md_write text t = t\<lparr>md_out := md_out t @ text\<rparr>"

definition md_header :: string where
  "md_header =
     nl @ ''|  Pc   |      Op     | Cost |   Stack   |   RStack  |  Refund |'' @
     nl @ ''|-------|-------------|------|-----------|-----------|---------|'' @ nl"

definition md_CaptureStart ::
  "log_fmt \<Rightarrow> address \<Rightarrow> address \<Rightarrow> bool \<Rightarrow> bytes \<Rightarrow> u64 \<Rightarrow> int \<Rightarrow> mdLogger \<Rightarrow> mdLogger" where
  "md_CaptureStart P from' to' create input gas val t =
     md_write (''From: `'' @ addr_String P from' @ ''`'' @ nl @
            (if \<not> create then ''To: `'' else ''Create at: `'') @ addr_String P to' @ ''`'' @ nl @
            ''Data: `'' @ hex_prefixed input @ ''`'' @ nl @ ''Gas: `'' @ decimal (unat gas) @ ''`'' @ nl @
            ''Value `'' @ signed_decimal val @ ''` wei'' @ nl @ md_header)
       (t\<lparr>md_env := True\<rparr>)"

primrec join :: "string list \<Rightarrow> string" where
  "join [] = []"
| "join (x # xs) = (case xs of [] \<Rightarrow> x | _ \<Rightarrow> x @ '','' @ join xs)"

definition md_CaptureState ::
  "log_fmt \<Rightarrow> 's StateDB \<Rightarrow> 's \<Rightarrow> u64 \<Rightarrow> OpCode \<Rightarrow> u64 \<Rightarrow> ScopeContext \<Rightarrow> error option
     \<Rightarrow> mdLogger \<Rightarrow> mdLogger option" where
  "md_CaptureState P db w pc op cost scope err t =
     (if \<not> md_env t then None
      else Some (md_write
        (''| '' @ pad_left (CHR '' '') 4 (decimal (unat pc)) @ ''  | '' @
         pad_left (CHR '' '') 10 (OpCode_String op) @ ''  |  '' @
         pad_left (CHR '' '') 3 (decimal (unat cost)) @ '' |'' @
         (if \<not> DisableStack (md_cfg t)
          then pad_left (CHR '' '') 10 (''['' @ join (map (u256_Hex P) (st_data (scStack scope))) @ '']'') @ '' |''
          else []) @
         pad_left (CHR '' '') 10 (decimal (unat (GetRefund db w))) @ '' |'' @ nl @
         (case err of None \<Rightarrow> [] | Some e \<Rightarrow> ''Error: '' @ error_text e @ nl)) t))"

definition md_CaptureFault :: "u64 \<Rightarrow> OpCode \<Rightarrow> error option \<Rightarrow> mdLogger \<Rightarrow> mdLogger" where
  "md_CaptureFault pc op err t =
     md_write (nl @ ''Error: at pc='' @ decimal (unat pc) @ '', op='' @ OpCode_String op @ '': '' @ error_or_nil err @ nl) t"

definition md_CaptureEnd :: "bytes \<Rightarrow> u64 \<Rightarrow> error option \<Rightarrow> mdLogger \<Rightarrow> mdLogger" where
  "md_CaptureEnd output gasUsed err t =
     md_write (nl @ ''Output: `'' @ hex_prefixed output @ ''`'' @ nl @ ''Consumed gas: `'' @ decimal (unat gasUsed) @
            ''`'' @ nl @ ''Error: `'' @ error_or_nil err @ ''`'' @ nl) t"

section \<open>The JSON logger\<close>

text \<open>The values handed to the encoder, in order.\<close>

datatype json_line =
    StateLine StructLog
  | EndLine string u64 string

record JSONLogger =
  jl_out :: "json_line list"
  jl_cfg :: log_Config
  jl_env :: bool

definition NewJSONLogger :: "log_Config option \<Rightarrow> JSONLogger" where
  "NewJSONLogger cfg = \<lparr>jl_out = [], jl_cfg = (case cfg of None \<Rightarrow> no_config | Some c \<Rightarrow> c), jl_env = False\<rparr>"

definition jl_CaptureStart :: "JSONLogger \<Rightarrow> JSONLogger" where
  "jl_CaptureStart l = l\<lparr>jl_env := True\<rparr>"

definition jl_CaptureState ::
  "'s StateDB \<Rightarrow> 's \<Rightarrow> u64 \<Rightarrow> OpCode \<Rightarrow> u64 \<Rightarrow> u64 \<Rightarrow> ScopeContext \<Rightarrow> bytes option \<Rightarrow> nat \<Rightarrow> error option
     \<Rightarrow> JSONLogger \<Rightarrow> JSONLogger option" where
  "jl_CaptureState db w pc op gas cost scope rData dep err l =
     (if \<not> jl_env l then None
      else Some (l\<lparr>jl_out := jl_out l @ [StateLine
        \<lparr>sg_Pc = pc, sg_Op = op, sg_Gas = gas, sg_GasCost = cost,
         sg_Memory = (if EnableMemory (jl_cfg l) then Some (store (scMemory scope)) else None),
         sg_MemorySize = Mem_Len (scMemory scope),
         sg_Stack = (if \<not> DisableStack (jl_cfg l) then Some (st_data (scStack scope)) else None),
         sg_ReturnData = (if EnableReturnData (jl_cfg l) then rData else None),
         sg_Storage = None, sg_Depth = dep, sg_RefundCounter = GetRefund db w, sg_Err = err\<rparr>]\<rparr>))"

definition jl_CaptureFault ::
  "'s StateDB \<Rightarrow> 's \<Rightarrow> u64 \<Rightarrow> OpCode \<Rightarrow> u64 \<Rightarrow> u64 \<Rightarrow> ScopeContext \<Rightarrow> nat \<Rightarrow> error option
     \<Rightarrow> JSONLogger \<Rightarrow> JSONLogger option" where
  "jl_CaptureFault db w pc op gas cost scope dep err l =
     jl_CaptureState db w pc op gas cost scope None dep err l"

text \<open>\<open>b2h\<close> is \<open>common.Bytes2Hex\<close>.\<close>

definition jl_CaptureEnd :: "(bytes \<Rightarrow> string) \<Rightarrow> bytes \<Rightarrow> u64 \<Rightarrow> error option \<Rightarrow> JSONLogger \<Rightarrow> JSONLogger" where
  "jl_CaptureEnd b2h output gasUsed err l =
     (let errMsg = (case err of None \<Rightarrow> [] | Some e \<Rightarrow> error_text e)
      in l\<lparr>jl_out := jl_out l @ [EndLine (b2h output) gasUsed errMsg]\<rparr>)"

section \<open>One entry per step\<close>

text \<open>What an entry says of its step.\<close>

fun step_line :: "log_Config \<Rightarrow> 's StateDB \<Rightarrow> 's log_event \<Rightarrow> StructLog list" where
  "step_line cfg db (CaptureState pc op gas cost scope rd dep err w) =
     [\<lparr>sg_Pc = pc, sg_Op = op, sg_Gas = gas, sg_GasCost = cost,
       sg_Memory = (if EnableMemory cfg then Some (store (scMemory scope)) else None),
       sg_MemorySize = Mem_Len (scMemory scope),
       sg_Stack = (if DisableStack cfg then None else Some (st_data (scStack scope))),
       sg_ReturnData = (if EnableReturnData cfg then Some rd else None),
       sg_Storage = None, sg_Depth = dep, sg_RefundCounter = GetRefund db w, sg_Err = err\<rparr>]"
| "step_line cfg db ev = []"

definition limited :: "int \<Rightarrow> 'a list \<Rightarrow> 'a list" where
  "limited n xs = (if n = 0 then xs else take (nat n) xs)"

definition but_storage :: "StructLog \<Rightarrow> StructLog" where
  "but_storage g = g\<lparr>sg_Storage := None\<rparr>"

lemma capture_storage_frame:
  assumes "sl_env l"
  shows "\<exists>s l'. capture_storage db w op scope l = Some (s, l') \<and> sl_logs l' = sl_logs l \<and> sl_env l' \<and>
    sl_cfg l' = sl_cfg l \<and> sl_interrupt l' = sl_interrupt l"
  using assms by (auto simp: capture_storage_def Let_def from_top_def)

text \<open>An event seen with \<open>n\<close> entries left adds its entry, if there is room.\<close>

lemma sl_capture_logs:
  assumes "sl_env l" "\<not> sl_interrupt l"
  shows "\<exists>l'. sl_capture db ev l = Some l' \<and> sl_env l' \<and> \<not> sl_interrupt l' \<and> sl_cfg l' = sl_cfg l \<and>
    map but_storage (sl_logs l') = map but_storage (sl_logs l) @
      (if Limit (sl_cfg l) \<noteq> 0 \<and> Limit (sl_cfg l) \<le> int (length (sl_logs l)) then [] else step_line (sl_cfg l) db ev)"
proof (cases ev)
  case (CaptureState pc op gas cost scope rd dep err w)
  let ?full = "Limit (sl_cfg l) \<noteq> 0 \<and> Limit (sl_cfg l) \<le> int (length (sl_logs l))"
  show ?thesis
  proof (cases ?full)
    case True
    then have "sl_capture db ev l = Some l" using assms(2) CaptureState by (simp add: sl_CaptureState_def)
    then show ?thesis using True assms by (intro exI[of _ l]) simp
  next
    case False
    obtain s l1 where l1: "capture_storage db w op scope l = Some (s, l1)" "sl_logs l1 = sl_logs l" "sl_env l1"
        "sl_cfg l1 = sl_cfg l" "sl_interrupt l1 = sl_interrupt l"
      using capture_storage_frame[OF assms(1), of db w op scope] by blast
    define g where "g = (hd (step_line (sl_cfg l) db ev))\<lparr>sg_Storage := s\<rparr>"
    have g: "but_storage g = hd (step_line (sl_cfg l) db ev)"
        "sl_capture db ev l = Some (l1\<lparr>sl_logs := sl_logs l @ [g]\<rparr>)"
      using False assms(2) l1 CaptureState by (auto simp: sl_CaptureState_def but_storage_def g_def)
    have "map but_storage (sl_logs (l1\<lparr>sl_logs := sl_logs l @ [g]\<rparr>)) = map but_storage (sl_logs l) @ step_line (sl_cfg l) db ev"
      using g(1) CaptureState by simp
    then show ?thesis using g(2) l1(3-5) assms False by (intro exI[of _ "l1\<lparr>sl_logs := sl_logs l @ [g]\<rparr>"]) auto
  qed
next
  case (CaptureEnd out used err)
  then show ?thesis using assms by (cases "log_Debug (sl_cfg l)") (simp_all add: sl_CaptureEnd_def Let_def)
qed (use assms in \<open>simp_all add: sl_CaptureStart_def\<close>)

text \<open>C30: The structured logger keeps one entry per step, in order, up to its limit: with the program
  counter, the instruction, the gas and its cost, the depth, the error and the refund counter of the
  step, and with copies of the stack, the memory and the return data where the configuration asks for
  them. No other event adds an entry, and nothing panics once the logger has started.\<close>

theorem one_entry_per_step:
  assumes "sl_env l" "\<not> sl_interrupt l" "sl_logs l = []" "0 \<le> Limit (sl_cfg l)"
  shows "\<exists>l'. capture_all (sl_capture db) evs l = Some l' \<and>
    map but_storage (sl_logs l') = limited (Limit (sl_cfg l)) (concat (map (step_line (sl_cfg l) db) evs))"
proof -
  have line: "length (step_line cfg db ev) \<le> 1" for cfg ev by (cases ev) simp_all
  have "\<exists>l'. capture_all (sl_capture db) evs l = Some l' \<and>
      map but_storage (sl_logs l') =
        limited (Limit (sl_cfg l)) (map but_storage (sl_logs l) @ concat (map (step_line (sl_cfg l) db) evs))"
    if "sl_env l" "\<not> sl_interrupt l" "Limit (sl_cfg l) \<noteq> 0 \<longrightarrow> int (length (sl_logs l)) \<le> Limit (sl_cfg l)" "0 \<le> Limit (sl_cfg l)" for l
    using that
  proof (induction evs arbitrary: l)
    case Nil
    then show ?case by (auto simp: limited_def)
  next
    case (Cons ev evs)
    obtain u where u: "sl_capture db ev l = Some u" "sl_env u" "\<not> sl_interrupt u" "sl_cfg u = sl_cfg l"
        "map but_storage (sl_logs u) = map but_storage (sl_logs l) @
          (if Limit (sl_cfg l) \<noteq> 0 \<and> Limit (sl_cfg l) \<le> int (length (sl_logs l)) then [] else step_line (sl_cfg l) db ev)"
      using sl_capture_logs[OF Cons.prems(1,2)] by blast
    have len: "length (sl_logs u) = length (sl_logs l) +
        (if Limit (sl_cfg l) \<noteq> 0 \<and> Limit (sl_cfg l) \<le> int (length (sl_logs l)) then 0 else length (step_line (sl_cfg l) db ev))"
      using arg_cong[OF u(5), of length] by simp
    have bound: "Limit (sl_cfg u) \<noteq> 0 \<longrightarrow> int (length (sl_logs u)) \<le> Limit (sl_cfg u)"
      using Cons.prems(3) len line[of "sl_cfg l" ev] u(4) by (auto split: if_splits)
    show ?case
      using Cons.IH[OF u(2,3) bound] u(1,4,5) Cons.prems(3,4) by (auto simp: limited_def)
  qed
  from this[OF assms(1,2) _ assms(4)] show ?thesis using assms(3,4) by simp
qed

definition sample_logger :: StructLogger where
  "sample_logger = (NewStructLogger (Some (no_config\<lparr>Limit := 1\<rparr>)))\<lparr>sl_env := True\<rparr>"

lemma one_entry_per_step_witness:
  "\<exists>l'. capture_all (sl_capture (StateDB_of sample_env)) sample_steps sample_logger = Some l' \<and>
     map but_storage (sl_logs l') = step_line (no_config\<lparr>Limit := 1\<rparr>) (StateDB_of sample_env) (hd sample_steps)"
  using one_entry_per_step[of sample_logger "StateDB_of sample_env" sample_steps]
  by (simp add: sample_logger_def NewStructLogger_def sample_steps_def limited_def no_config_def)

section \<open>Storage\<close>

lemma Storage_Copy_map:
  assumes "distinct (map fst s)"
  shows "map_of (Storage_Copy s) = map_of s"
proof -
  have "map_of (fold (\<lambda>(key, value) cpy. AList.update key value cpy) s acc) = map_of acc ++ map_of s"
    if "distinct (map fst s)" for acc s :: Storage
    using that
  proof (induction s arbitrary: acc)
    case (Cons e s)
    obtain k v where e: "e = (k, v)" by fastforce
    have "map_of s k = None" using Cons.prems e by (simp add: map_of_eq_None_iff)
    then have "(map_of acc)(k \<mapsto> v) ++ map_of s = map_of acc ++ map_of (e # s)"
      by (auto simp: e fun_eq_iff map_add_def split: option.split)
    moreover have "map_of (fold (\<lambda>(key, value) cpy. AList.update key value cpy) s (AList.update k v acc)) =
        (map_of acc)(k \<mapsto> v) ++ map_of s"
      using Cons.IH[of "AList.update k v acc"] Cons.prems by (simp add: AList.update_conv' fun_upd_def)
    ultimately show ?case by (simp only: e fold_Cons o_apply prod.case)
  qed simp
  then show ?thesis using assms by (simp add: Storage_Copy_def)
qed

text \<open>The entry of a read shows the value read, the entry of a write the value to be written, next to what
  was seen of the contract before.\<close>

lemma capture_storage_slot:
  assumes "sl_env l" "\<not> DisableStorage (sl_cfg l)" "op = OP_SLOAD \<and> st_data (scStack scope) = st @ [slot] \<and> v = GetState db w addr slot \<or>
      op = OP_SSTORE \<and> st_data (scStack scope) = st @ [v, slot]"
    and "addr = Contract_Address (scContract scope)"
    and "distinct (map fst (case map_of (sl_storage l) addr of None \<Rightarrow> [] | Some s \<Rightarrow> s))"
  shows "\<exists>s l'. capture_storage db w op scope l = Some (Some s, l') \<and>
    map_of s = (map_of (case map_of (sl_storage l) addr of None \<Rightarrow> [] | Some s \<Rightarrow> s))(slot \<mapsto> v)"
proof -
  let ?s = "case map_of (sl_storage l) addr of None \<Rightarrow> [] | Some s \<Rightarrow> s"
  have copy: "map_of (Storage_Copy (AList.update slot v ?s)) = (map_of ?s)(slot \<mapsto> v)"
    by (subst Storage_Copy_map) (simp_all only: AList.distinct_update[OF assms(5)] AList.update_conv')
  have top: "from_top (scStack scope) 0 = Some slot" "1 \<le> stack_len (scStack scope)"
    "op = OP_SSTORE \<longrightarrow> from_top (scStack scope) 1 = Some v \<and> 2 \<le> stack_len (scStack scope)"
    using assms(3) by (auto simp: from_top_def stack_len_def nth_append)
  have "\<exists>l'. capture_storage db w op scope l = Some (Some (Storage_Copy (AList.update slot v ?s)), l')"
    using assms(1-4) top
    by (cases "map_of (sl_storage l) addr") (auto simp: capture_storage_def Let_def AList.update_conv')
  then show ?thesis using copy by blast
qed

end
